(* ===== verification/Prelude.thy ===== *)
theory Prelude
  imports Main "HOL-Library.AList" "HOL-Library.Sublist"
begin

text \<open>
  Shared vocabulary of the development: the exceptions of the backend, actions that thread a
  state and may raise, the Python string operations the services use, and the lemma
  collections the component theories extend.

  Message texts of exceptions and log lines are not part of the model: an exception is the
  class that is raised. A Python \<open>str\<close> is a \<open>string\<close> over the 256 characters of HOL.
\<close>

section \<open>Exceptions\<close>

datatype exn =
    ValueError | TypeError | KeyError | IndexError | AttributeError | AssertionError
  | NotImplementedError
  | ValidationException | NotAuthorizedException | PermissionDeniedException
  | NotFoundException | HTTPException nat
  | FileNotFoundError | FileExistsError | IsADirectoryError | NotADirectoryError | OSError
  | DockerNotFound | ImageNotFound | DockerError
  | HTTPStatusError | KeycloakConnectionError | IntegrityError | InvalidRequestError | StaleDataError | OperationalError
  | BadZipFile | CommandError
  | Nontermination   \<comment> \<open>no exception: marks a loop that never ends\<close>

section \<open>Actions: state passing with exceptions\<close>

text \<open>
  An effectful Python function is an action: it maps a state to the raised exception or the
  returned value, and the state it leaves behind, which a raise does not undo.
\<close>

type_synonym ('s, 'a) action = "'s \<Rightarrow> (exn + 'a) \<times> 's"

definition ret :: "'a \<Rightarrow> ('s, 'a) action" where
  "ret x = (\<lambda>s. (Inr x, s))"

definition raise :: "exn \<Rightarrow> ('s, 'a) action" where
  "raise e = (\<lambda>s. (Inl e, s))"

definition bindA :: "('s, 'a) action \<Rightarrow> ('a \<Rightarrow> ('s, 'b) action) \<Rightarrow> ('s, 'b) action" where
  "bindA m f = (\<lambda>s. case m s of (Inl e, s') \<Rightarrow> (Inl e, s') | (Inr x, s') \<Rightarrow> f x s')"

definition thenA :: "('s, 'a) action \<Rightarrow> ('s, 'b) action \<Rightarrow> ('s, 'b) action" where
  "thenA m n = bindA m (\<lambda>_. n)"

definition getA :: "('s \<Rightarrow> 'a) \<Rightarrow> ('s, 'a) action" where
  "getA f = (\<lambda>s. (Inr (f s), s))"

definition modifyA :: "('s \<Rightarrow> 's) \<Rightarrow> ('s, unit) action" where
  "modifyA f = (\<lambda>s. (Inr (), f s))"

definition liftA :: "exn + 'a \<Rightarrow> ('s, 'a) action" where
  "liftA r = (\<lambda>s. (r, s))"

text \<open>The value of a loop, \<open>None\<close> when it does not end.\<close>

definition loopA :: "'a option \<Rightarrow> ('s, 'a) action" where
  "loopA r = (case r of None \<Rightarrow> raise Nontermination | Some x \<Rightarrow> ret x)"

text \<open>\<open>try: m except E: h\<close> for the exceptions that satisfy a predicate.\<close>

definition catchA :: "('s, 'a) action \<Rightarrow> (exn \<Rightarrow> bool) \<Rightarrow> ('s, 'a) action \<Rightarrow> ('s, 'a) action" where
  "catchA m p h = (\<lambda>s. case m s of (Inl e, s') \<Rightarrow> if p e then h s' else (Inl e, s')
                                  | (Inr x, s') \<Rightarrow> (Inr x, s'))"

primrec forA :: "('a \<Rightarrow> ('s, unit) action) \<Rightarrow> 'a list \<Rightarrow> ('s, unit) action" where
  "forA f [] = ret ()"
| "forA f (x # xs) = thenA (f x) (forA f xs)"

primrec mapA :: "('a \<Rightarrow> ('s, 'b) action) \<Rightarrow> 'a list \<Rightarrow> ('s, 'b list) action" where
  "mapA f [] = ret []"
| "mapA f (x # xs) = bindA (f x) (\<lambda>y. bindA (mapA f xs) (\<lambda>ys. ret (y # ys)))"

text \<open>Evaluation rules of actions; \<open>act_simps\<close> collects them for the component proofs.\<close>

named_theorems act_simps "evaluation of actions on a state"

lemma ret_apply [act_simps]: "ret x s = (Inr x, s)"
  by (simp add: ret_def)

lemma raise_apply [act_simps]: "raise e s = (Inl e, s)"
  by (simp add: raise_def)

lemma getA_apply [act_simps]: "getA f s = (Inr (f s), s)"
  by (simp add: getA_def)

lemma modifyA_apply [act_simps]: "modifyA f s = (Inr (), f s)"
  by (simp add: modifyA_def)

lemma liftA_apply [act_simps]: "liftA r s = (r, s)"
  by (simp add: liftA_def)

lemma loopA_apply [act_simps]:
  "loopA r s = (case r of None \<Rightarrow> (Inl Nontermination, s) | Some x \<Rightarrow> (Inr x, s))"
  by (simp add: loopA_def ret_def raise_def split: option.splits)

lemma bindA_apply [act_simps]:
  "bindA m f s = (case m s of (Inl e, s') \<Rightarrow> (Inl e, s') | (Inr x, s') \<Rightarrow> f x s')"
  by (simp add: bindA_def)

lemma thenA_apply [act_simps]:
  "thenA m n s = (case m s of (Inl e, s') \<Rightarrow> (Inl e, s') | (Inr x, s') \<Rightarrow> n s')"
  by (simp add: thenA_def bindA_def)

lemma catchA_apply [act_simps]:
  "catchA m p h s = (case m s of (Inl e, s') \<Rightarrow> if p e then h s' else (Inl e, s')
                                | (Inr x, s') \<Rightarrow> (Inr x, s'))"
  by (simp add: catchA_def)

lemma bindA_ret_left [simp]: "bindA (ret x) f = f x"
  by (simp add: bindA_def ret_def)

lemma bindA_raise_left [simp]: "bindA (raise e) f = raise e"
  by (simp add: bindA_def raise_def)

lemma thenA_ret_left [simp]: "thenA (ret x) n = n"
  by (simp add: thenA_def)

lemma thenA_raise_left [simp]: "thenA (raise e) n = raise e"
  by (simp add: thenA_def)

section \<open>Relations kept by an action\<close>

text \<open>
  \<open>moves R m\<close>: the state before and the state after running \<open>m\<close> are related by \<open>R\<close>, whether
  \<open>m\<close> returns or raises. With \<open>R s t = (I s \<longrightarrow> I t)\<close> it says that \<open>m\<close> preserves an invariant,
  with \<open>R s t = (f t = f s)\<close> that \<open>m\<close> leaves a part of the state alone.
\<close>

definition moves :: "('s \<Rightarrow> 's \<Rightarrow> bool) \<Rightarrow> ('s, 'a) action \<Rightarrow> bool" where
  "moves R m \<longleftrightarrow> (\<forall>s. R s (snd (m s)))"

named_theorems moves_intros "composition rules for moves"

lemma movesI: "(\<And>s. R s (snd (m s))) \<Longrightarrow> moves R m"
  by (simp add: moves_def)

lemma movesD: "moves R m \<Longrightarrow> R s (snd (m s))"
  by (simp add: moves_def)

lemma moves_ret [moves_intros]: "reflp R \<Longrightarrow> moves R (ret x)"
  by (simp add: moves_def ret_def reflpD)

lemma moves_raise [moves_intros]: "reflp R \<Longrightarrow> moves R (raise e)"
  by (simp add: moves_def raise_def reflpD)

lemma moves_getA [moves_intros]: "reflp R \<Longrightarrow> moves R (getA f)"
  by (simp add: moves_def getA_def reflpD)

lemma moves_liftA [moves_intros]: "reflp R \<Longrightarrow> moves R (liftA r)"
  by (simp add: moves_def liftA_def reflpD)

lemma moves_loopA [moves_intros]: "reflp R \<Longrightarrow> moves R (loopA r)"
  by (simp add: moves_def loopA_apply reflpD split: option.splits)

lemma moves_bindA [moves_intros]:
  assumes "transp R" "moves R m" "\<And>x. moves R (f x)"
  shows "moves R (bindA m f)"
proof (rule movesI)
  fix s
  obtain r t where ms: "m s = (r, t)" by (cases "m s")
  have st: "R s t" using movesD [OF assms(2), of s] ms by simp
  show "R s (snd (bindA m f s))"
  proof (cases r)
    case (Inl e)
    with ms st show ?thesis by (simp add: bindA_def)
  next
    case (Inr x)
    have "R t (snd (f x t))" by (rule movesD [OF assms(3)])
    with ms Inr st assms(1) show ?thesis by (auto simp: bindA_def dest: transpD)
  qed
qed

lemma moves_thenA [moves_intros]:
  "transp R \<Longrightarrow> moves R m \<Longrightarrow> moves R n \<Longrightarrow> moves R (thenA m n)"
  by (simp add: thenA_def moves_bindA)

lemma moves_catchA [moves_intros]:
  assumes "transp R" "moves R m" "moves R h"
  shows "moves R (catchA m p h)"
proof (rule movesI)
  fix s
  obtain r t where ms: "m s = (r, t)" by (cases "m s")
  have st: "R s t" using movesD [OF assms(2), of s] ms by simp
  have "R t (snd (h t))" by (rule movesD [OF assms(3)])
  with ms st assms(1) show "R s (snd (catchA m p h s))"
    by (cases r) (auto simp: catchA_def dest: transpD)
qed

lemma moves_forA [moves_intros]:
  "reflp R \<Longrightarrow> transp R \<Longrightarrow> (\<And>x. moves R (f x)) \<Longrightarrow> moves R (forA f xs)"
  by (induction xs) (auto intro: moves_ret moves_thenA)

lemma moves_mapA [moves_intros]:
  "reflp R \<Longrightarrow> transp R \<Longrightarrow> (\<And>x. moves R (f x)) \<Longrightarrow> moves R (mapA f xs)"
  by (induction xs) (auto intro: moves_ret moves_bindA)

lemma moves_if [moves_intros]:
  "(b \<Longrightarrow> moves R m) \<Longrightarrow> (\<not> b \<Longrightarrow> moves R n) \<Longrightarrow> moves R (if b then m else n)"
  by simp

lemma moves_case_option [moves_intros]:
  "moves R m \<Longrightarrow> (\<And>x. moves R (f x)) \<Longrightarrow> moves R (case opt of None \<Rightarrow> m | Some x \<Rightarrow> f x)"
  by (cases opt) auto

lemma moves_case_list [moves_intros]:
  "moves R m \<Longrightarrow> (\<And>x xs. moves R (f x xs)) \<Longrightarrow> moves R (case l of [] \<Rightarrow> m | x # xs \<Rightarrow> f x xs)"
  by (cases l) auto

lemma moves_case_prod [moves_intros]:
  "(\<And>x y. moves R (f x y)) \<Longrightarrow> moves R (case p of (x, y) \<Rightarrow> f x y)"
  by (cases p) auto

text \<open>The two standard instances of \<open>R\<close>.\<close>

definition same :: "('s \<Rightarrow> 'x) \<Rightarrow> 's \<Rightarrow> 's \<Rightarrow> bool" where
  "same f s t \<longleftrightarrow> f t = f s"

definition keeps :: "('s \<Rightarrow> bool) \<Rightarrow> 's \<Rightarrow> 's \<Rightarrow> bool" where
  "keeps I s t \<longleftrightarrow> (I s \<longrightarrow> I t)"

lemma reflp_same [simp, moves_intros]: "reflp (same f)"
  by (simp add: reflp_def same_def)

lemma transp_same [simp, moves_intros]: "transp (same f)"
  by (simp add: transp_def same_def)

lemma reflp_keeps [simp, moves_intros]: "reflp (keeps I)"
  by (simp add: reflp_def keeps_def)

lemma transp_keeps [simp, moves_intros]: "transp (keeps I)"
  by (simp add: transp_def keeps_def)

lemma moves_modifyA: "(\<And>s. R s (f s)) \<Longrightarrow> moves R (modifyA f)"
  by (simp add: moves_def modifyA_def)

section \<open>Actions on a part of the state\<close>

text \<open>
  A component's action runs inside a larger state through the part's selector and update
  function (for a record field \<open>f\<close>: \<open>f\<close> and \<open>f_update\<close>).
\<close>

definition zoomA :: "('w \<Rightarrow> 's) \<Rightarrow> (('s \<Rightarrow> 's) \<Rightarrow> 'w \<Rightarrow> 'w) \<Rightarrow> ('s, 'a) action \<Rightarrow> ('w, 'a) action" where
  "zoomA sel upd m = (\<lambda>w. case m (sel w) of (r, s') \<Rightarrow> (r, upd (\<lambda>_. s') w))"

lemma zoomA_apply [act_simps]:
  "zoomA sel upd m w = (case m (sel w) of (r, s') \<Rightarrow> (r, upd (\<lambda>_. s') w))"
  by (simp add: zoomA_def)

lemma moves_zoomA: "(\<And>w s'. R w (upd (\<lambda>_. s') w)) \<Longrightarrow> moves R (zoomA sel upd m)"
  by (simp add: moves_def zoomA_def split: prod.splits)

section \<open>Python values\<close>

text \<open>\<open>(a > b) - (a < b)\<close>, the three-way comparison idiom.\<close>

definition py_cmp :: "'a::linorder \<Rightarrow> 'a \<Rightarrow> int" where
  "py_cmp a b = of_bool (a > b) - of_bool (a < b)"

lemma py_cmp_range: "py_cmp a b \<in> {-1, 0, 1}"
  by (auto simp: py_cmp_def)

lemma py_cmp_eq_0 [simp]: "py_cmp a b = 0 \<longleftrightarrow> a = b"
  by (auto simp: py_cmp_def of_bool_def)

lemma py_cmp_neg: "py_cmp b a = - py_cmp a b"
  by (auto simp: py_cmp_def)

lemma py_cmp_less [simp]: "py_cmp a b < 0 \<longleftrightarrow> a < b"
  by (auto simp: py_cmp_def of_bool_def)

lemma py_cmp_greater [simp]: "0 < py_cmp a b \<longleftrightarrow> b < a"
  by (auto simp: py_cmp_def of_bool_def)

section \<open>Python strings\<close>

definition newline :: char where
  "newline = CHR 0x0A"

text \<open>\<open>s.split(sep)\<close> for a one-character separator: always at least one field.\<close>

fun split_on :: "char \<Rightarrow> string \<Rightarrow> string list" where
  "split_on sep [] = [[]]"
| "split_on sep (c # cs) =
     (if c = sep then [] # split_on sep cs
      else case split_on sep cs of [] \<Rightarrow> [[c]] | w # ws \<Rightarrow> (c # w) # ws)"

text \<open>\<open>sep.join(ws)\<close> for a one-character separator.\<close>

fun join_with :: "char \<Rightarrow> string list \<Rightarrow> string" where
  "join_with sep [] = []"
| "join_with sep [w] = w"
| "join_with sep (w # ws) = w @ sep # join_with sep ws"

text \<open>\<open>sep.join(ws)\<close>\<close>

fun str_join :: "string \<Rightarrow> string list \<Rightarrow> string" where
  "str_join sep [] = []"
| "str_join sep [w] = w"
| "str_join sep (w # ws) = w @ sep @ str_join sep ws"

text \<open>\<open>s.lstrip(chars)\<close> removes leading characters that occur in \<open>chars\<close>.\<close>

definition lstrip_chars :: "string \<Rightarrow> string \<Rightarrow> string" where
  "lstrip_chars cs s = dropWhile (\<lambda>c. c \<in> set cs) s"

definition starts_with :: "string \<Rightarrow> string \<Rightarrow> bool" where
  "starts_with p s \<longleftrightarrow> take (length p) s = p"

definition ends_with :: "string \<Rightarrow> string \<Rightarrow> bool" where
  "ends_with p s \<longleftrightarrow> starts_with (rev p) (rev s)"

text \<open>\<open>s.lower()\<close> and \<open>s.upper()\<close> on ASCII letters.\<close>

definition lower_char :: "char \<Rightarrow> char" where
  "lower_char c = (if 65 \<le> (of_char c :: nat) \<and> (of_char c :: nat) \<le> 90
                   then char_of ((of_char c :: nat) + 32) else c)"

definition upper_char :: "char \<Rightarrow> char" where
  "upper_char c = (if 97 \<le> (of_char c :: nat) \<and> (of_char c :: nat) \<le> 122
                   then char_of ((of_char c :: nat) - 32) else c)"

definition lower :: "string \<Rightarrow> string" where
  "lower s = map lower_char s"

definition upper :: "string \<Rightarrow> string" where
  "upper s = map upper_char s"

lemma split_on_not_Nil [simp]: "split_on sep s \<noteq> []"
  by (induction s) (auto split: list.splits)

lemma split_on_fields: "w \<in> set (split_on sep s) \<Longrightarrow> sep \<notin> set w"
  by (induction s arbitrary: w) (auto split: if_splits list.splits)

lemma split_on_no_sep [simp]: "sep \<notin> set s \<Longrightarrow> split_on sep s = [s]"
  by (induction s) auto

lemma split_on_append_sep:
  "sep \<notin> set w \<Longrightarrow> split_on sep (w @ sep # s) = w # split_on sep s"
  by (induction w) auto

text \<open>Splitting is the inverse of joining fields that do not hold the separator.\<close>

lemma split_on_join_with:
  "ws \<noteq> [] \<Longrightarrow> \<forall>w \<in> set ws. sep \<notin> set w \<Longrightarrow> split_on sep (join_with sep ws) = ws"
  by (induction sep ws rule: join_with.induct) (auto simp: split_on_append_sep)

lemma join_with_split_on [simp]: "join_with sep (split_on sep s) = s"
proof (induction s)
  case (Cons c s)
  obtain w ws where "split_on sep s = w # ws"
    by (cases "split_on sep s") auto
  with Cons show ?case by (cases ws) auto
qed simp

lemma starts_with_append [simp]: "starts_with p (p @ s)"
  by (simp add: starts_with_def)

lemma starts_with_iff: "starts_with p s \<longleftrightarrow> prefix p s"
  by (auto simp: starts_with_def prefix_def) (metis append_take_drop_id)

section \<open>Decimal numerals\<close>

definition is_digit :: "char \<Rightarrow> bool" where
  "is_digit c \<longleftrightarrow> 48 \<le> (of_char c :: nat) \<and> (of_char c :: nat) \<le> 57"

definition digit_val :: "char \<Rightarrow> nat" where
  "digit_val c = of_char c - 48"

definition digit_char :: "nat \<Rightarrow> char" where
  "digit_char d = char_of (48 + d)"

text \<open>\<open>int(s)\<close> on a string of decimal digits.\<close>

definition int_of_str :: "string \<Rightarrow> nat" where
  "int_of_str s = foldl (\<lambda>n c. 10 * n + digit_val c) 0 s"

text \<open>\<open>str(n)\<close>.\<close>

fun str_of_nat :: "nat \<Rightarrow> string" where
  "str_of_nat n = (if n < 10 then [digit_char n]
                   else str_of_nat (n div 10) @ [digit_char (n mod 10)])"

declare str_of_nat.simps [simp del]

lemma digit_char_inverse: "d < 10 \<Longrightarrow> digit_val (digit_char d) = d"
  by (simp add: digit_val_def digit_char_def)

lemma digit_char_is_digit: "d < 10 \<Longrightarrow> is_digit (digit_char d)"
  by (simp add: is_digit_def digit_char_def)

lemma is_digit_simps [simp]:
  "\<not> is_digit (CHR ''.'')" "\<not> is_digit (CHR ''-'')" "\<not> is_digit (CHR ''p'')"
  "\<not> is_digit (CHR ''r'')" "\<not> is_digit (CHR ''w'')" "\<not> is_digit newline"
  by (simp_all add: is_digit_def newline_def)

lemma str_of_nat_digits: "\<forall>c \<in> set (str_of_nat n). is_digit c"
proof (induction n rule: str_of_nat.induct)
  case (1 n)
  then show ?case
    by (subst str_of_nat.simps) (auto simp: digit_char_is_digit)
qed

lemma str_of_nat_not_Nil [simp]: "str_of_nat n \<noteq> []"
  by (subst str_of_nat.simps) simp

lemma int_of_str_snoc: "int_of_str (s @ [c]) = 10 * int_of_str s + digit_val c"
  by (simp add: int_of_str_def)

lemma int_of_str_of_nat [simp]: "int_of_str (str_of_nat n) = n"
proof (induction n rule: str_of_nat.induct)
  case (1 n)
  show ?case
  proof (cases "n < 10")
    case True
    then show ?thesis
      by (subst str_of_nat.simps) (simp add: int_of_str_def digit_char_inverse)
  next
    case False
    with 1 show ?thesis
      by (subst str_of_nat.simps) (simp add: int_of_str_snoc digit_char_inverse)
  qed
qed

lemma str_of_nat_inject [simp]: "str_of_nat m = str_of_nat n \<longleftrightarrow> m = n"
  by (metis int_of_str_of_nat)

lemma length_str_of_nat: "n < 10 ^ k \<Longrightarrow> 0 < k \<Longrightarrow> length (str_of_nat n) \<le> k"
proof (induction k arbitrary: n)
  case (Suc k)
  show ?case
  proof (cases "n < 10")
    case True
    then show ?thesis by (subst str_of_nat.simps) simp
  next
    case False
    with Suc.prems have "n div 10 < 10 ^ k" "0 < k"
      by (cases k; simp add: less_mult_imp_div_less mult.commute)+
    with Suc.IH have "length (str_of_nat (n div 10)) \<le> k" by blast
    with False show ?thesis by (subst str_of_nat.simps) simp
  qed
qed simp

section \<open>Hexadecimal numerals\<close>

text \<open>The last \<open>k\<close> hexadecimal digits of a number, in lower case.\<close>

definition hex_char :: "nat \<Rightarrow> char" where
  "hex_char n = ''0123456789abcdef'' ! n"

fun hex_digits :: "nat \<Rightarrow> nat \<Rightarrow> string" where
  "hex_digits 0 n = []"
| "hex_digits (Suc k) n = hex_digits k (n div 16) @ [hex_char (n mod 16)]"

text \<open>Reading a hexadecimal number back.\<close>

definition hex_val :: "char \<Rightarrow> nat" where
  "hex_val c = (if is_digit c then of_char c - 48 else of_char (lower_char c) - 87)"

definition hex_number :: "string \<Rightarrow> nat" where
  "hex_number s = foldl (\<lambda>n c. 16 * n + hex_val c) 0 s"

lemma hex_val_lower: "d < 16 \<Longrightarrow> hex_val (hex_char d) = d"
  by (rule allE [of "\<lambda>d. d \<in> set [0..<16] \<longrightarrow> hex_val (hex_char d) = d" d])
     (unfold Ball_def [symmetric], code_simp, auto)

lemma hex_number_digits: "n < 16 ^ k \<Longrightarrow> hex_number (hex_digits k n) = n"
proof (induction k arbitrary: n)
  case (Suc k)
  then have "hex_number (hex_digits k (n div 16)) = n div 16" by (simp add: less_mult_imp_div_less mult.commute)
  then show ?case by (simp add: hex_number_def hex_val_lower)
qed (simp add: hex_number_def)

lemma length_hex_digits [simp]: "length (hex_digits k n) = k"
  by (induction k arbitrary: n) auto

lemma hex_char_set: "d < 16 \<Longrightarrow> hex_char d \<in> set ''0123456789abcdef''"
  unfolding hex_char_def by (rule nth_mem) simp

lemma set_hex_digits: "set (hex_digits k n) \<subseteq> set ''0123456789abcdef''"
proof (induction k arbitrary: n)
  case (Suc k)
  then show ?case using hex_char_set [of "n mod 16"] by auto
qed simp

section \<open>UTF-8\<close>

text \<open>The bytes of a character of the modelled range, and \<open>s.encode("utf-8")\<close>.\<close>

definition utf8_char :: "char \<Rightarrow> string" where
  "utf8_char c = (let n = of_char c :: nat in
     if n < 128 then [c] else [char_of (192 + n div 64), char_of (128 + n mod 64)])"

definition utf8 :: "string \<Rightarrow> string" where
  "utf8 s = concat (map utf8_char s)"

section \<open>Sequences of operations\<close>

lemma mapA_pure:
  assumes "\<And>x. snd (f x s) = s"
  shows "snd (mapA f xs s) = s"
    and "fst (mapA f xs s) = Inr ys \<Longrightarrow> list_all2 (\<lambda>x y. fst (f x s) = Inr y) xs ys"
proof -
  have "snd (mapA f xs s) = s \<and>
    (\<forall>ys. fst (mapA f xs s) = Inr ys \<longrightarrow> list_all2 (\<lambda>x y. fst (f x s) = Inr y) xs ys)"
  proof (induction xs)
    case (Cons x xs)
    then show ?case using assms [of x]
      by (auto simp: act_simps split: sum.splits prod.splits)
  qed (simp add: act_simps)
  then show "snd (mapA f xs s) = s"
    and "fst (mapA f xs s) = Inr ys \<Longrightarrow> list_all2 (\<lambda>x y. fst (f x s) = Inr y) xs ys" by auto
qed

lemma forA_rel:
  assumes "reflp R" "transp R"
    and "\<And>s x. x \<in> set xs \<Longrightarrow> P x s \<Longrightarrow> R s (snd (f x s))"
    and "\<And>s s' x. P x s \<Longrightarrow> R s s' \<Longrightarrow> P x s'"
    and "\<forall>x \<in> set xs. P x s"
  shows "R s (snd (forA f xs s))"
  using assms(3,5)
proof (induction xs arbitrary: s)
  case Nil
  then show ?case using assms(1) by (simp add: act_simps reflpD)
next
  case (Cons x xs)
  obtain r s1 where f: "f x s = (r, s1)" by (cases "f x s")
  have R1: "R s s1" using Cons.prems(1) [of x s] Cons.prems(2) f by simp
  show ?case
  proof (cases r)
    case (Inl e)
    with f R1 show ?thesis by (simp add: act_simps)
  next
    case (Inr u)
    have "\<forall>x \<in> set xs. P x s1" using Cons.prems(2) assms(4) R1 by auto
    with Cons.IH Cons.prems(1) have "R s1 (snd (forA f xs s1))" by simp
    with f Inr R1 show ?thesis by (auto simp: act_simps dest: transpD [OF assms(2)])
  qed
qed

lemma forA_post:
  assumes "\<And>s s' x. x \<in> set xs \<Longrightarrow> P x s \<Longrightarrow> f x s = (Inr (), s') \<Longrightarrow> R s s' \<and> Q x s'"
    and "\<And>s s' x. P x s \<Longrightarrow> R s s' \<Longrightarrow> P x s'"
    and "\<And>s s' x. P x s \<Longrightarrow> Q x s \<Longrightarrow> R s s' \<Longrightarrow> Q x s'"
    and "\<forall>x \<in> set xs. P x s" "forA f xs s = (Inr (), s')" "reflp R" "transp R"
  shows "R s s' \<and> (\<forall>x \<in> set xs. Q x s')"
  using assms(1,4,5)
proof (induction xs arbitrary: s)
  case Nil
  then show ?case using assms(6) by (simp add: act_simps reflpD)
next
  case (Cons x xs)
  from Cons.prems(3) obtain s1 where f: "f x s = (Inr (), s1)" "forA f xs s1 = (Inr (), s')"
    by (auto simp: act_simps split: sum.splits prod.splits)
  have 1: "R s s1" "Q x s1" using Cons.prems(1) [of x s s1] Cons.prems(2) f by auto
  have "\<forall>x \<in> set xs. P x s1" using Cons.prems(2) assms(2) 1(1) by auto
  then have "R s1 s' \<and> (\<forall>x \<in> set xs. Q x s')"
    by (intro Cons.IH [OF Cons.prems(1)] f(2)) simp_all
  moreover have "P x s1" using Cons.prems(2) assms(2) 1(1) by auto
  ultimately show ?case using 1 assms(3) transpD [OF assms(7)] by (metis set_ConsD)
qed

lemma mapA_each:
  assumes "mapA f xs s = (Inr ys, s')" "\<And>x. moves R (f x)" "reflp R" "transp R"
  shows "list_all2 (\<lambda>x y. \<exists>s1 s2. R s s1 \<and> f x s1 = (Inr y, s2)) xs ys"
  using assms(1)
proof (induction xs arbitrary: s ys)
  case Nil
  then show ?case by (simp add: ret_apply)
next
  case (Cons x xs)
  then obtain y s1 zs where x: "f x s = (Inr y, s1)" and xs: "mapA f xs s1 = (Inr zs, s')" and ys: "ys = y # zs"
    by (auto simp: act_simps split: prod.splits sum.splits)
  have r: "R s s1" using movesD [OF assms(2) [of x], of s] x by simp
  have "list_all2 (\<lambda>x y. \<exists>s1 s2. R s s1 \<and> f x s1 = (Inr y, s2)) xs zs"
    by (rule list_all2_mono [OF Cons.IH [OF xs]]) (meson r transpD [OF assms(4)])
  with x ys reflpD [OF assms(3)] show ?case by auto
qed

end
