(* ===== verification/Regex.thy ===== *)
theory Regex
  imports Prelude
begin

text \<open>
  The part of Python's \<open>re\<close> that the backend uses: character classes with a greedy bounded
  repetition, literals, optional parts, alternatives, named groups and \<open>$\<close>. Patterns are data,
  written as they stand in the source; \<open>matches\<close> lists every way to match, in the order in which
  the backtracking engine tries them, and \<open>re.match\<close> takes the first.
\<close>

datatype regex =
    Lit string                                        \<comment> \<open>the literal text\<close>
  | Rep "char \<Rightarrow> bool" nat "nat option"               \<comment> \<open>\<open>[p]{m,n}\<close>, \<open>None\<close> for no upper bound\<close>
  | Seqn regex regex
  | Alt regex regex
  | Opt regex                                         \<comment> \<open>\<open>(?:r)?\<close>\<close>
  | Group string regex                                \<comment> \<open>\<open>(?P<name>r)\<close>\<close>
  | Eol                                               \<comment> \<open>\<open>$\<close>\<close>

type_synonym captures = "(string \<times> string) list"

text \<open>
  The splits of a greedy repetition, longest first: the length of the longest run of class
  characters (cut off at the upper bound) down to the lower bound.
\<close>

definition run_length :: "(char \<Rightarrow> bool) \<Rightarrow> nat option \<Rightarrow> string \<Rightarrow> nat" where
  "run_length p hi s =
     (let k = length (takeWhile p s) in case hi of None \<Rightarrow> k | Some n \<Rightarrow> min n k)"

definition greedy :: "(char \<Rightarrow> bool) \<Rightarrow> nat \<Rightarrow> nat option \<Rightarrow> string \<Rightarrow> string list" where
  "greedy p lo hi s = map (\<lambda>k. drop k s) (rev [lo ..< Suc (run_length p hi s)])"

text \<open>
  \<open>$\<close> without \<open>re.MULTILINE\<close> holds at the end of the string and just before a final newline.
\<close>

primrec matches :: "regex \<Rightarrow> string \<Rightarrow> captures \<Rightarrow> (string \<times> captures) list" where
  "matches (Lit w) s c = (if starts_with w s then [(drop (length w) s, c)] else [])"
| "matches (Rep p lo hi) s c = map (\<lambda>r. (r, c)) (greedy p lo hi s)"
| "matches (Seqn a b) s c = concat (map (\<lambda>(r, c'). matches b r c') (matches a s c))"
| "matches (Alt a b) s c = matches a s c @ matches b s c"
| "matches (Opt a) s c = matches a s c @ [(s, c)]"
| "matches (Group n a) s c =
     map (\<lambda>(r, c'). (r, (n, take (length s - length r) s) # c')) (matches a s c)"
| "matches Eol s c = (if s = [] \<or> s = [newline] then [(s, c)] else [])"

text \<open>\<open>re.match(pattern, s)\<close>: the matched text (\<open>group(0)\<close>) and the named groups.\<close>

definition re_match :: "regex \<Rightarrow> string \<Rightarrow> (string \<times> captures) option" where
  "re_match r s =
     (case matches r s [] of [] \<Rightarrow> None
      | (rest, c) # _ \<Rightarrow> Some (take (length s - length rest) s, c))"

definition group :: "captures \<Rightarrow> string \<Rightarrow> string option" where
  "group c n = map_of c n"

text \<open>A pattern is a sequence of parts.\<close>

fun seqs :: "regex list \<Rightarrow> regex" where
  "seqs [] = Lit []"
| "seqs [r] = r"
| "seqs (r # rs) = Seqn r (seqs rs)"

section \<open>Deterministic runs\<close>

text \<open>
  The patterns of the backend follow each repetition by something that cannot start with a
  character of the repeated class, so that only the longest run can be continued.
\<close>

definition stuck_on :: "(char \<Rightarrow> bool) \<Rightarrow> regex \<Rightarrow> bool" where
  "stuck_on p k \<longleftrightarrow> (\<forall>x r c. p x \<longrightarrow> matches k (x # r) c = [])"

lemma greedy_run:
  assumes "\<forall>x \<in> set w. p x" "rest = [] \<or> \<not> p (hd rest)"
    and "lo \<le> length w" "case hi of None \<Rightarrow> True | Some n \<Rightarrow> length w \<le> n"
  shows "\<exists>others. greedy p lo hi (w @ rest) = rest # others \<and>
           (\<forall>r \<in> set others. r \<noteq> [] \<and> p (hd r))"
proof -
  have tw: "takeWhile p (w @ rest) = w"
    using assms(1,2) by (cases rest) (auto simp: takeWhile_append)
  have rl: "run_length p hi (w @ rest) = length w"
    using assms(4) by (auto simp: run_length_def tw split: option.splits)
  have up: "rev [lo ..< Suc (length w)] = length w # rev [lo ..< length w]"
    using assms(3) by simp
  have "drop k (w @ rest) \<noteq> [] \<and> p (hd (drop k (w @ rest)))" if "k < length w" for k
    using that assms(1) by (simp add: hd_append hd_drop_conv_nth)
  then show ?thesis
    by (auto simp: greedy_def rl up simp del: upt_Suc)
qed

lemma concat_map_stuck:
  assumes "stuck_on p k" "\<forall>r \<in> set rs. r \<noteq> [] \<and> p (hd r)"
  shows "concat (map (\<lambda>r. matches k r (c r)) rs) = []"
  using assms(2)
proof (induction rs)
  case (Cons r rs)
  then obtain x t where "r = x # t" "p x" by (cases r) auto
  with Cons assms(1) show ?case by (simp add: stuck_on_def)
qed simp

text \<open>A named repetition captures the whole run and hands the rest to what follows.\<close>

lemma matches_group_run:
  assumes "stuck_on p k" "\<forall>x \<in> set w. p x" "rest = [] \<or> \<not> p (hd rest)"
    and "lo \<le> length w" "case hi of None \<Rightarrow> True | Some n \<Rightarrow> length w \<le> n"
  shows "matches (Seqn (Group n (Rep p lo hi)) k) (w @ rest) c = matches k rest ((n, w) # c)"
proof -
  from greedy_run [OF assms(2-5)] obtain others where
    g: "greedy p lo hi (w @ rest) = rest # others" "\<forall>r \<in> set others. r \<noteq> [] \<and> p (hd r)"
    by blast
  have "concat (map (\<lambda>r. matches k r
          ((n, take (length (w @ rest) - length r) (w @ rest)) # c)) others) = []"
    by (rule concat_map_stuck [OF assms(1) g(2)])
  with g(1) show ?thesis by (simp add: o_def)
qed

text \<open>The other shapes of a pattern, for a subject that is taken apart from the left.\<close>

lemma matches_Lit_Cons:
  "matches (Seqn (Lit [x]) k) (y # s) c = (if x = y then matches k s c else [])"
  by (simp add: starts_with_def)

lemma matches_Lit_empty: "w \<noteq> [] \<Longrightarrow> matches (Seqn (Lit w) k) [] c = []"
  by (simp add: starts_with_def)

lemma concat_map_nested:
  "concat (map f (concat (map g xs))) = concat (map (\<lambda>x. concat (map f (g x))) xs)"
  by (induction xs) auto

lemma matches_Seqn_assoc:
  "matches (Seqn (Seqn a b) k) s c = matches (Seqn a (Seqn b k)) s c"
  by (simp add: concat_map_nested split_def)

lemma matches_Opt:
  "matches (Seqn (Opt a) k) s c = matches (Seqn a k) s c @ matches k s c"
  by simp

lemma starts_with_captured:
  "starts_with a s \<Longrightarrow> take (length s - length (drop (length a) s)) s = a"
  by (auto simp: starts_with_iff prefix_def)

lemma matches_Group_Alt:
  "matches (Seqn (Group g (Alt (Lit a) (Lit b))) k) s c =
     (if starts_with a s then matches k (drop (length a) s) ((g, a) # c) else []) @
     (if starts_with b s then matches k (drop (length b) s) ((g, b) # c) else [])"
  using starts_with_captured [of a s] starts_with_captured [of b s]
  by (simp del: length_drop)

lemma re_match_Cons:
  "matches r s [] = (rest, c) # more \<Longrightarrow> re_match r s = Some (take (length s - length rest) s, c)"
  by (simp add: re_match_def)

lemma re_match_Nil: "matches r s [] = [] \<Longrightarrow> re_match r s = None"
  by (simp add: re_match_def)

lemma stuck_on_Eol: "(\<And>x. p x \<Longrightarrow> x \<noteq> newline) \<Longrightarrow> stuck_on p Eol"
  by (auto simp: stuck_on_def)

lemma stuck_on_Lit: "w \<noteq> [] \<Longrightarrow> \<not> p (hd w) \<Longrightarrow> stuck_on p (Lit w)"
  by (cases w) (auto simp: stuck_on_def starts_with_def)

lemma stuck_on_Seqn: "stuck_on p a \<Longrightarrow> stuck_on p (Seqn a b)"
  by (simp add: stuck_on_def)

lemma stuck_on_Opt:
  "stuck_on p a \<Longrightarrow> stuck_on p k \<Longrightarrow> stuck_on p (Seqn (Opt (Seqn a b)) k)"
  by (simp add: stuck_on_def)

text \<open>The equations for taking a subject apart, in place of the general one for \<open>Seqn\<close>.\<close>

lemmas match_steps =
  matches_Lit_Cons matches_Lit_empty matches_Seqn_assoc matches_Opt matches_Group_Alt

end
