(* ===== verification/Json.thy ===== *)
theory Json
  imports Prelude
begin

text \<open>
  JSON values as the backend sees them after \<open>response.json()\<close> or \<open>json.loads\<close>, with the
  dictionary accesses of Python. Here the text of a JSON document is abstract, as the value it
  encodes (\<open>JsonText\<close>): \<open>json.loads\<close> of what \<open>json.dumps\<close> wrote is the value again. The texts themselves are in
  \<open>JsonSyntax\<close>, which proves that round trip, and \<open>TextStore\<close> refines the store on values by the store on texts.
\<close>

datatype json =
    JNull
  | JBool bool
  | JInt int
  | JStr string
  | JList "json list"
  | JObj "(string \<times> json) list"

datatype jtext = JsonText json

definition json_dumps :: "json \<Rightarrow> jtext" where
  "json_dumps j = JsonText j"

fun json_loads :: "jtext \<Rightarrow> json" where
  "json_loads (JsonText j) = j"

lemma json_loads_dumps [simp]: "json_loads (json_dumps j) = j"
  by (simp add: json_dumps_def)

lemma json_dumps_inject [simp]: "json_dumps i = json_dumps j \<longleftrightarrow> i = j"
  by (simp add: json_dumps_def)

section \<open>Results\<close>

text \<open>Pure computations that may raise, and their sequencing.\<close>

definition bindE :: "exn + 'a \<Rightarrow> ('a \<Rightarrow> exn + 'b) \<Rightarrow> exn + 'b" where
  "bindE r f = (case r of Inl e \<Rightarrow> Inl e | Inr x \<Rightarrow> f x)"

primrec mapE :: "('a \<Rightarrow> exn + 'b) \<Rightarrow> 'a list \<Rightarrow> exn + 'b list" where
  "mapE f [] = Inr []"
| "mapE f (x # xs) = bindE (f x) (\<lambda>y. bindE (mapE f xs) (\<lambda>ys. Inr (y # ys)))"

lemma bindE_Inr [simp]: "bindE (Inr x) f = f x"
  by (simp add: bindE_def)

lemma bindE_Inl [simp]: "bindE (Inl e) f = Inl e"
  by (simp add: bindE_def)

lemma bindE_eq_Inr: "bindE r f = Inr y \<longleftrightarrow> (\<exists>x. r = Inr x \<and> f x = Inr y)"
  by (cases r) auto

lemma mapE_Inr_iff:
  "mapE f xs = Inr ys \<longleftrightarrow> list_all2 (\<lambda>x y. f x = Inr y) xs ys"
proof (induction xs arbitrary: ys)
  case (Cons x xs)
  then show ?case by (auto simp: bindE_eq_Inr list_all2_Cons1)
qed auto

lemma mapE_total: "(\<And>x. x \<in> set xs \<Longrightarrow> f x = Inr (g x)) \<Longrightarrow> mapE f xs = Inr (map g xs)"
  by (induction xs) auto

section \<open>Dictionary accesses\<close>

text \<open>\<open>d[key]\<close>: \<open>KeyError\<close> for a missing key, \<open>TypeError\<close> on a value that is no dictionary.\<close>

fun getitem :: "json \<Rightarrow> string \<Rightarrow> exn + json" where
  "getitem (JObj kvs) k = (case map_of kvs k of None \<Rightarrow> Inl KeyError | Some v \<Rightarrow> Inr v)"
| "getitem _ k = Inl TypeError"

text \<open>\<open>d.get(key)\<close> and \<open>d.get(key, default)\<close>.\<close>

fun dict_get :: "json \<Rightarrow> string \<Rightarrow> json \<Rightarrow> exn + json" where
  "dict_get (JObj kvs) k d = Inr (case map_of kvs k of None \<Rightarrow> d | Some v \<Rightarrow> v)"
| "dict_get _ k d = Inl AttributeError"

text \<open>Iterating over a value: the elements of a list, the keys of an object, the characters.\<close>

fun items :: "json \<Rightarrow> exn + json list" where
  "items (JList js) = Inr js"
| "items (JObj kvs) = Inr (map (\<lambda>(k, _). JStr k) kvs)"
| "items (JStr s) = Inr (map (\<lambda>c. JStr [c]) s)"
| "items _ = Inl TypeError"

text \<open>Truth value of a JSON value in a Python condition.\<close>

fun truthy :: "json \<Rightarrow> bool" where
  "truthy JNull = False"
| "truthy (JBool b) = b"
| "truthy (JInt i) = (i \<noteq> 0)"
| "truthy (JStr s) = (s \<noteq> [])"
| "truthy (JList js) = (js \<noteq> [])"
| "truthy (JObj kvs) = (kvs \<noteq> [])"

end
