(* ===== verification/Versions.thy ===== *)
theory Versions
  imports Regex Json "HOL-Library.Product_Lexorder"
begin

text \<open>
  \<open>app/services/minecraft_service.py\<close> with its schema \<open>app/schemas/minecraft.py\<close>: parsing of
  Minecraft version strings, their comparison, and the list of published versions with its
  cache. The HTTP answer of the version index is a parameter (\<open>fetch\<close>), as is the parser of
  ISO timestamps (\<open>from_iso\<close>, an instant as an \<open>int\<close>).
\<close>

section \<open>Parsing\<close>

text \<open>\<open>\<d>{1,2}\<close>, \<open>\<d>{2}\<close>, \<open>\<d>+\<close> as named groups, and \<open>(?:\.(?P<patch>...))?\<close>.\<close>

definition d12 :: "string \<Rightarrow> regex" where
  "d12 n = Group n (Rep is_digit 1 (Some 2))"

definition d2 :: "string \<Rightarrow> regex" where
  "d2 n = Group n (Rep is_digit 2 (Some 2))"

definition dplus :: "string \<Rightarrow> regex" where
  "dplus n = Group n (Rep is_digit 1 None)"

definition OLD_RELEASE_FORMAT :: regex where
  "OLD_RELEASE_FORMAT =
     seqs [d12 ''major'', Lit ''.'', d12 ''minor'',
           Opt (seqs [Lit ''.'', d12 ''patch'']), Eol]"

definition NEW_RELEASE_FORMAT :: regex where
  "NEW_RELEASE_FORMAT =
     seqs [d2 ''major'', Lit ''.'', dplus ''minor'',
           Opt (seqs [Lit ''.'', dplus ''patch'']), Eol]"

definition is_lower_letter :: "char \<Rightarrow> bool" where
  "is_lower_letter c \<longleftrightarrow> 97 \<le> (of_char c :: nat) \<and> (of_char c :: nat) \<le> 122"

definition OLD_SNAPSHOT_FORMAT :: regex where
  "OLD_SNAPSHOT_FORMAT =
     seqs [d2 ''year'', Lit ''w'', d2 ''week'',
           Group ''type_version'' (Rep is_lower_letter 1 (Some 1)), Eol]"

definition NEW_SNAPSHOT_FORMAT :: regex where
  "NEW_SNAPSHOT_FORMAT =
     seqs [d2 ''major'', Lit ''.'', dplus ''minor'',
           Opt (seqs [Lit ''.'', dplus ''patch'']), Lit ''-'',
           Group ''suffix'' (Lit ''snapshot''), Lit ''-'', dplus ''type_version'', Eol]"

definition OLD_PRERELEASE_FORMAT :: regex where
  "OLD_PRERELEASE_FORMAT =
     seqs [d12 ''major'', Lit ''.'', d12 ''minor'',
           Opt (seqs [Lit ''.'', d12 ''patch'']), Lit ''-'',
           Group ''suffix'' (Alt (Lit ''pre'') (Lit ''rc'')), dplus ''type_version'', Eol]"

definition NEW_PRERELEASE_FORMAT :: regex where
  "NEW_PRERELEASE_FORMAT =
     seqs [d2 ''major'', Lit ''.'', dplus ''minor'',
           Opt (seqs [Lit ''.'', dplus ''patch'']), Lit ''-'',
           Group ''suffix'' (Alt (Lit ''pre'') (Lit ''rc'')), Lit ''-'', dplus ''type_version'', Eol]"

text \<open>The field \<open>type_version\<close> is declared \<open>int\<close>; an old snapshot puts its letter there.\<close>

datatype type_version = TvInt nat | TvStr string

record parsed_version =
  pv_value :: string
  pv_type :: string
  pv_system :: string
  pv_major :: nat
  pv_minor :: nat
  pv_patch :: nat
  pv_type_version :: type_version
  pv_suffix :: "string option"

text \<open>\<open>int(match.group(n) or 0)\<close>\<close>

definition group_int :: "captures \<Rightarrow> string \<Rightarrow> nat" where
  "group_int c n = (case group c n of None \<Rightarrow> 0 | Some s \<Rightarrow> int_of_str s)"

definition group_str :: "captures \<Rightarrow> string \<Rightarrow> string" where
  "group_str c n = (case group c n of None \<Rightarrow> [] | Some s \<Rightarrow> s)"

definition parsed ::
  "string \<Rightarrow> string \<Rightarrow> string \<Rightarrow> captures \<Rightarrow> type_version \<Rightarrow> string option \<Rightarrow> parsed_version" where
  "parsed v ty sys c tv suf =
     \<lparr>pv_value = v, pv_type = ty, pv_system = sys, pv_major = group_int c ''major'',
      pv_minor = group_int c ''minor'', pv_patch = group_int c ''patch'',
      pv_type_version = tv, pv_suffix = suf\<rparr>"

definition parse_version :: "string \<Rightarrow> parsed_version option" where
  "parse_version version =
    (case re_match OLD_RELEASE_FORMAT version of
       Some (v, c) \<Rightarrow> Some (parsed v ''release'' ''old'' c (TvInt 0) None)
     | None \<Rightarrow>
    (case re_match NEW_RELEASE_FORMAT version of
       Some (v, c) \<Rightarrow> Some (parsed v ''release'' ''new'' c (TvInt 0) None)
     | None \<Rightarrow>
    (case re_match OLD_PRERELEASE_FORMAT version of
       Some (v, c) \<Rightarrow> Some (parsed v ''prerelease'' ''old'' c
                             (TvInt (group_int c ''type_version'')) (group c ''suffix''))
     | None \<Rightarrow>
    (case re_match NEW_PRERELEASE_FORMAT version of
       Some (v, c) \<Rightarrow> Some (parsed v ''prerelease'' ''new'' c
                             (TvInt (group_int c ''type_version'')) (group c ''suffix''))
     | None \<Rightarrow>
    (case re_match OLD_SNAPSHOT_FORMAT version of
       Some (v, c) \<Rightarrow> Some \<lparr>pv_value = v, pv_type = ''snapshot'', pv_system = ''old'',
                            pv_major = group_int c ''year'', pv_minor = group_int c ''week'',
                            pv_patch = 0, pv_type_version = TvStr (group_str c ''type_version''),
                            pv_suffix = None\<rparr>
     | None \<Rightarrow>
    (case re_match NEW_SNAPSHOT_FORMAT version of
       Some (v, c) \<Rightarrow> Some (parsed v ''snapshot'' ''new'' c
                             (TvInt (group_int c ''type_version'')) (group c ''suffix''))
     | None \<Rightarrow> None))))))"

section \<open>Comparing\<close>

definition compare_main_versions ::
  "nat \<Rightarrow> nat \<Rightarrow> nat \<Rightarrow> nat \<Rightarrow> nat \<Rightarrow> nat \<Rightarrow> nat \<Rightarrow> nat \<Rightarrow> int" where
  "compare_main_versions major1 minor1 patch1 major2 minor2 patch2 type_version1 type_version2 =
    (if major1 \<noteq> major2 then py_cmp major1 major2
     else if minor1 \<noteq> minor2 then py_cmp minor1 minor2
     else if patch1 \<noteq> patch2 then py_cmp patch1 patch2
     else if type_version1 \<noteq> type_version2 then py_cmp type_version1 type_version2
     else 0)"

definition PRERELEASE_ID :: regex where
  "PRERELEASE_ID = seqs [Group ''1'' (Alt (Lit ''pre'') (Lit ''rc'')), dplus ''2'', Eol]"

text \<open>
  \<open>re.match\<close> gives \<open>None\<close> where the identifier has no number, and \<open>None.group\<close> raises.
\<close>

definition compare_prerelease_identifiers :: "string \<Rightarrow> string \<Rightarrow> exn + int" where
  "compare_prerelease_identifiers id1 id2 =
    (if id1 = id2 then Inr 0
     else case (re_match PRERELEASE_ID id1, re_match PRERELEASE_ID id2) of
       (Some (_, c1), Some (_, c2)) \<Rightarrow>
         (let id1_rc = (group c1 ''1'' = Some ''rc''); id2_rc = (group c2 ''1'' = Some ''rc'')
          in if id1_rc \<noteq> id2_rc then Inr (py_cmp id1_rc id2_rc)
             else Inr (int (group_int c1 ''2'') - int (group_int c2 ''2'')))
     | _ \<Rightarrow> Inl AttributeError)"

section \<open>Published versions\<close>

datatype minecraft_version_type = MV_RELEASE | MV_SNAPSHOT | MV_ALPHA | MV_BETA

fun minecraft_version_type_of :: "string \<Rightarrow> exn + minecraft_version_type" where
  "minecraft_version_type_of s =
    (if s = ''release'' then Inr MV_RELEASE else if s = ''snapshot'' then Inr MV_SNAPSHOT
     else if s = ''alpha'' then Inr MV_ALPHA else if s = ''beta'' then Inr MV_BETA
     else Inl ValueError)"

record mc_version =
  mv_version :: json
  mv_type :: minecraft_version_type
  mv_date :: int
  mv_major :: json

text \<open>
  \<open>datetime.fromisoformat(s.replace("Z", "+00:00"))\<close>, as the instant the timestamp denotes; a
  value that is no string has no \<open>replace\<close>.
\<close>

fun parse_date :: "(string \<Rightarrow> int option) \<Rightarrow> json \<Rightarrow> exn + int" where
  "parse_date from_iso (JStr s) = (case from_iso s of None \<Rightarrow> Inl ValueError | Some d \<Rightarrow> Inr d)"
| "parse_date from_iso _ = Inl AttributeError"

fun enum_of :: "(string \<Rightarrow> exn + 'e) \<Rightarrow> json \<Rightarrow> exn + 'e" where
  "enum_of f (JStr s) = f s"
| "enum_of f _ = Inl ValueError"

definition minecraft_version_from_dict :: "(string \<Rightarrow> int option) \<Rightarrow> json \<Rightarrow> exn + mc_version" where
  "minecraft_version_from_dict from_iso data =
    bindE (getitem data ''version'') (\<lambda>v.
    bindE (bindE (getitem data ''version_type'') (enum_of minecraft_version_type_of)) (\<lambda>t.
    bindE (bindE (getitem data ''date'') (parse_date from_iso)) (\<lambda>d.
    bindE (getitem data ''major'') (\<lambda>m.
    Inr \<lparr>mv_version = v, mv_type = t, mv_date = d, mv_major = m\<rparr>))))"

text \<open>
  \<open>minecraft_cache_store\<close>: a namespace of the Redis store, from keys to JSON texts. Expiry (ten
  minutes) only removes entries and is left out.
\<close>

type_synonym cache = "string \<Rightarrow> jtext option"

text \<open>
  \<open>fetch\<close> is what \<open>GET /tag/game_version\<close> gives: the decoded body, or the exception of the
  request or of \<open>raise_for_status\<close>. A cached text is never the empty string, so it is truthy.
\<close>

definition get_minecraft_versions ::
  "(string \<Rightarrow> int option) \<Rightarrow> exn + json \<Rightarrow> (cache, mc_version list) action" where
  "get_minecraft_versions from_iso fetch =
    bindA (getA (\<lambda>st. st ''versions'')) (\<lambda>cached.
      case cached of
        Some t \<Rightarrow>
          bindA (liftA (items (json_loads t))) (\<lambda>vs.
          liftA (mapE (minecraft_version_from_dict from_iso) vs))
      | None \<Rightarrow>
          bindA (liftA fetch) (\<lambda>data.
          thenA (modifyA (\<lambda>st. st(''minecraft_versions'' \<mapsto> json_dumps data)))
          (bindA (liftA (items data)) (\<lambda>vs.
           liftA (mapE (minecraft_version_from_dict from_iso) vs)))))"

text \<open>\<open>next((v.date for v in all_versions if v.version == x), None)\<close>\<close>

definition date_of :: "mc_version list \<Rightarrow> string \<Rightarrow> int option" where
  "date_of vs x = map_option mv_date (find (\<lambda>v. mv_version v = JStr x) vs)"

definition compare_by_publish_date ::
  "(string \<Rightarrow> int option) \<Rightarrow> exn + json \<Rightarrow> string \<Rightarrow> string \<Rightarrow> (cache, int option) action" where
  "compare_by_publish_date from_iso fetch v1 v2 =
    bindA (get_minecraft_versions from_iso fetch) (\<lambda>all_versions.
      case (date_of all_versions v1, date_of all_versions v2) of
        (Some v1_date, Some v2_date) \<Rightarrow> ret (Some (py_cmp v1_date v2_date))
      | _ \<Rightarrow> ret None)"

definition compare_versions ::
  "(string \<Rightarrow> int option) \<Rightarrow> exn + json \<Rightarrow> string \<Rightarrow> string \<Rightarrow> (cache, int option) action" where
  "compare_versions from_iso fetch v1 v2 =
    (if v1 = v2 then ret (Some 0)
     else
       (let v1_parsed = parse_version v1; v2_parsed = parse_version v2 in
        if v2_parsed = None \<or> v2_parsed = None then ret None
        else case v1_parsed of
          None \<Rightarrow> raise AttributeError
        | Some p1 \<Rightarrow> (let p2 = the v2_parsed in
            if pv_type p1 = ''snapshot'' \<and> pv_system p1 = ''old''
               \<or> pv_type p2 = ''snapshot'' \<and> pv_system p2 = ''old''
            then compare_by_publish_date from_iso fetch v1 v2
            else
              (let basic_comparison =
                 compare_main_versions (pv_major p1) (pv_minor p1) (pv_patch p1)
                   (pv_major p2) (pv_minor p2) (pv_patch p2) 0 0
               in if basic_comparison \<noteq> 0 then ret (Some basic_comparison)
                  else if pv_type p1 = ''release'' \<and> pv_type p2 = ''prerelease'' then ret (Some 1)
                  else if pv_type p1 = ''prerelease'' \<and> pv_type p2 = ''release'' then ret (Some (-1))
                  else if pv_type p1 = ''prerelease'' \<and> pv_type p2 = ''prerelease''
                  then bindA (liftA (compare_prerelease_identifiers
                                (the (pv_suffix p1)) (the (pv_suffix p2)))) (\<lambda>r. ret (Some r))
                  else compare_by_publish_date from_iso fetch v1 v2))))"

section \<open>Parsing release and prerelease names\<close>

lemma stuck_digit [simp]:
  "stuck_on is_digit Eol"
  "stuck_on is_digit (Seqn (Lit ''.'') k)"
  "stuck_on is_digit (Seqn (Lit ''-'') k)"
  "stuck_on is_digit k \<Longrightarrow> stuck_on is_digit (Seqn (Opt (Seqn (Lit ''.'') j)) k)"
  by (auto intro: stuck_on_Eol simp: stuck_on_Opt stuck_on_Seqn stuck_on_Lit)

lemma digits_length_2: "n < 100 \<Longrightarrow> length (str_of_nat n) = (if n < 10 then 1 else 2)"
proof -
  assume "n < 100"
  then have "n div 10 < 10" by simp
  then show ?thesis by (simp add: str_of_nat.simps [of n] str_of_nat.simps [of "n div 10"])
qed

lemma d12_run:
  assumes "n < 100" "stuck_on is_digit k" "rest = [] \<or> \<not> is_digit (hd rest)"
  shows "matches (Seqn (d12 g) k) (str_of_nat n @ rest) c = matches k rest ((g, str_of_nat n) # c)"
  unfolding d12_def
  by (rule matches_group_run)
    (use assms str_of_nat_digits digits_length_2 in \<open>auto simp: Suc_le_eq\<close>)

lemma dplus_run:
  assumes "stuck_on is_digit k" "rest = [] \<or> \<not> is_digit (hd rest)"
  shows "matches (Seqn (dplus g) k) (str_of_nat n @ rest) c = matches k rest ((g, str_of_nat n) # c)"
  unfolding dplus_def
  by (rule matches_group_run) (use assms str_of_nat_digits in \<open>auto simp: Suc_le_eq\<close>)

lemma d2_run:
  assumes "n < 100" "stuck_on is_digit k" "rest = [] \<or> \<not> is_digit (hd rest)"
  shows "matches (Seqn (d2 g) k) (str_of_nat n @ rest) c =
           (if n < 10 then [] else matches k rest ((g, str_of_nat n) # c))"
proof (cases "n < 10")
  case True
  have "takeWhile is_digit (str_of_nat n @ rest) = str_of_nat n"
    using assms(3) str_of_nat_digits by (cases rest) (auto simp: takeWhile_append)
  with True show ?thesis
    by (simp add: d2_def greedy_def run_length_def digits_length_2)
next
  case False
  then show ?thesis unfolding d2_def
    by (subst matches_group_run)
      (use assms str_of_nat_digits digits_length_2 in \<open>auto simp: Suc_le_eq\<close>)
qed

lemmas digit_runs = d12_run d2_run dplus_run
  d12_run [where rest = "[]", simplified append_Nil2] d2_run [where rest = "[]", simplified append_Nil2]
  dplus_run [where rest = "[]", simplified append_Nil2]

text \<open>The text of a version: \<open>M.m\<close> or \<open>M.m.p\<close>, followed by \<open>tail\<close>.\<close>

definition version_text :: "nat \<Rightarrow> nat \<Rightarrow> nat option \<Rightarrow> string \<Rightarrow> string" where
  "version_text M m po tail =
     str_of_nat M @ ''.'' @ str_of_nat m @
     (case po of None \<Rightarrow> [] | Some p \<Rightarrow> ''.'' @ str_of_nat p) @ tail"

definition small_version :: "nat \<Rightarrow> nat \<Rightarrow> nat option \<Rightarrow> bool" where
  "small_version M m po \<longleftrightarrow> M < 100 \<and> m < 100 \<and> (case po of None \<Rightarrow> True | Some p \<Rightarrow> p < 100)"

definition patch_no :: "nat option \<Rightarrow> nat" where
  "patch_no po = (case po of None \<Rightarrow> 0 | Some p \<Rightarrow> p)"

definition version_captures :: "nat \<Rightarrow> nat \<Rightarrow> nat option \<Rightarrow> captures" where
  "version_captures M m po =
     (case po of None \<Rightarrow> [] | Some p \<Rightarrow> [(''patch'', str_of_nat p)]) @
     [(''minor'', str_of_nat m), (''major'', str_of_nat M)]"

lemma parse_version_release:
  assumes "small_version M m po"
  shows "parse_version (version_text M m po []) =
    Some \<lparr>pv_value = version_text M m po [], pv_type = ''release'', pv_system = ''old'',
          pv_major = M, pv_minor = m, pv_patch = patch_no po, pv_type_version = TvInt 0,
          pv_suffix = None\<rparr>"
proof -
  let ?s = "version_text M m po []"
  have "matches OLD_RELEASE_FORMAT ?s [] = [([], version_captures M m po)]"
    using assms
    by (cases po)
      (simp_all add: OLD_RELEASE_FORMAT_def version_text_def small_version_def version_captures_def
         match_steps digit_runs del: matches.simps(3))
  then have "re_match OLD_RELEASE_FORMAT ?s = Some (?s, version_captures M m po)"
    by (simp add: re_match_def)
  then show ?thesis
    by (simp add: parse_version_def parsed_def group_int_def group_def version_captures_def
        patch_no_def split: option.splits)
qed

lemma parse_version_prerelease:
  assumes "small_version M m po" "suf = ''pre'' \<or> suf = ''rc''"
  shows "parse_version (version_text M m po (''-'' @ suf @ str_of_nat n)) =
    Some \<lparr>pv_value = version_text M m po (''-'' @ suf @ str_of_nat n), pv_type = ''prerelease'',
          pv_system = ''old'', pv_major = M, pv_minor = m, pv_patch = patch_no po,
          pv_type_version = TvInt n, pv_suffix = Some suf\<rparr>"
proof -
  let ?s = "version_text M m po (''-'' @ suf @ str_of_nat n)"
  let ?c = "[(''type_version'', str_of_nat n), (''suffix'', suf)] @ version_captures M m po"
  note defs = version_text_def small_version_def version_captures_def match_steps digit_runs
    starts_with_def newline_def
  have "matches OLD_RELEASE_FORMAT ?s [] = []"
    using assms
    by (cases po) (auto simp: OLD_RELEASE_FORMAT_def defs simp del: matches.simps(3))
  moreover have "matches NEW_RELEASE_FORMAT ?s [] = []"
    using assms
    by (cases po) (auto simp: NEW_RELEASE_FORMAT_def defs simp del: matches.simps(3))
  moreover have "matches OLD_PRERELEASE_FORMAT ?s [] = [([], ?c)]"
    using assms
    by (cases po) (auto simp: OLD_PRERELEASE_FORMAT_def defs simp del: matches.simps(3))
  ultimately show ?thesis
    by (simp add: parse_version_def re_match_def parsed_def group_int_def group_def
        version_captures_def patch_no_def split: option.splits)
qed


section \<open>Three-way comparisons\<close>

text \<open>What a comparison function has to promise to order versions.\<close>

locale three_way =
  fixes cmp :: "'a \<Rightarrow> 'a \<Rightarrow> int"
  assumes cmp_neg: "cmp y x = - cmp x y"
    and cmp_eq: "cmp x y = 0 \<Longrightarrow> x = y"
    and cmp_trans: "cmp x y < 0 \<Longrightarrow> cmp y z < 0 \<Longrightarrow> cmp x z < 0"
begin

lemma refl [simp]: "cmp x x = 0"
  using cmp_neg [of x x] by simp

lemma eq_iff: "cmp x y = 0 \<longleftrightarrow> x = y"
  using cmp_eq refl by auto

lemma flip: "cmp y x < 0 \<longleftrightarrow> 0 < cmp x y"
  using cmp_neg [of x y] by simp

lemma le_trans: "cmp x y \<le> 0 \<Longrightarrow> cmp y z \<le> 0 \<Longrightarrow> cmp x z \<le> 0"
  using cmp_trans [of x y z] eq_iff by (metis less_le)

lemma cycle_free: "cmp x y \<le> 0 \<Longrightarrow> cmp y z \<le> 0 \<Longrightarrow> cmp z x \<le> 0 \<Longrightarrow> x = y \<and> y = z"
  using le_trans [of y z x] le_trans [of z x y] flip eq_iff by (metis le_less not_less)

end

text \<open>
  The comparison of main versions is lexicographic order on
  \<open>(major, minor, patch, type_version)\<close>.
\<close>

lemma compare_main_versions_lex:
  "compare_main_versions a b c a' b' c' d d' = py_cmp (a, b, c, d) (a', b', c', d')"
  by (simp add: compare_main_versions_def py_cmp_def less_prod_def)

type_synonym main_version = "nat \<times> nat \<times> nat \<times> nat"

definition cmp_main :: "main_version \<Rightarrow> main_version \<Rightarrow> int" where
  "cmp_main v w = (case v of (a, b, c, d) \<Rightarrow> case w of (a', b', c', d') \<Rightarrow>
     compare_main_versions a b c a' b' c' d d')"

interpretation main: three_way cmp_main
proof
  fix x y z :: main_version
  show "cmp_main y x = - cmp_main x y"
    by (cases x; cases y) (simp add: cmp_main_def compare_main_versions_lex, rule py_cmp_neg)
  show "cmp_main x y = 0 \<Longrightarrow> x = y"
    by (simp add: cmp_main_def compare_main_versions_lex split: prod.splits)
  show "cmp_main x y < 0 \<Longrightarrow> cmp_main y z < 0 \<Longrightarrow> cmp_main x z < 0"
    by (auto simp: cmp_main_def compare_main_versions_lex split: prod.splits)
qed

section \<open>Properties\<close>

text \<open>
  \<open>compare_main_versions\<close> is the three-way comparison of the
  lexicographic order on (major, minor, patch, type version), and swapping the sides negates it.
\<close>

theorem main_version_order:
  "compare_main_versions a b c a' b' c' d d' = py_cmp (a, b, c, d) (a', b', c', d')
   \<and> compare_main_versions a' b' c' a b c d' d = - compare_main_versions a b c a' b' c' d d'"
  using main.cmp_neg [of "(a, b, c, d)" "(a', b', c', d')"]
  by (simp add: cmp_main_def compare_main_versions_lex)

text \<open>A release name as a triple, its text and its main version.\<close>

definition release_text :: "nat \<times> nat \<times> nat option \<Rightarrow> string" where
  "release_text v = (case v of (M, m, po) \<Rightarrow> version_text M m po [])"

definition main_of :: "nat \<times> nat \<times> nat option \<Rightarrow> nat \<times> nat \<times> nat" where
  "main_of v = (case v of (M, m, po) \<Rightarrow> (M, m, patch_no po))"

definition small :: "nat \<times> nat \<times> nat option \<Rightarrow> bool" where
  "small v = (case v of (M, m, po) \<Rightarrow> small_version M m po)"



text \<open>
  Two prereleases of the same main version: with the same
  suffix they compare as equal whatever their numbers, and a \<open>pre\<close> against an \<open>rc\<close> raises
  \<open>AttributeError\<close>, because the suffix is passed on without its number.
\<close>

theorem compare_prereleases:
  assumes "small_version M m po" "suf1 \<in> {''pre'', ''rc''}" "suf2 \<in> {''pre'', ''rc''}"
  shows "compare_versions from_iso fetch (version_text M m po (''-'' @ suf1 @ str_of_nat n1))
           (version_text M m po (''-'' @ suf2 @ str_of_nat n2)) st
         = (if suf1 = suf2 then Inr (Some 0) else Inl AttributeError, st)"
proof -
  have id: "re_match PRERELEASE_ID ''pre'' = None" "re_match PRERELEASE_ID ''rc'' = None"
    by code_simp+
  note p1 = parse_version_prerelease [of M m po suf1 n1]
  note p2 = parse_version_prerelease [of M m po suf2 n2]
  show ?thesis
    using assms p1 p2 id
    by (auto simp: compare_versions_def compare_main_versions_lex act_simps Let_def
        compare_prerelease_identifiers_def)
qed

theorem compare_prereleases_witness:
  "compare_versions (\<lambda>_. None) (Inl HTTPStatusError)
     (version_text 1 21 None (''-'' @ ''pre'' @ str_of_nat 1))
     (version_text 1 21 None (''-'' @ ''pre'' @ str_of_nat 2)) Map.empty = (Inr (Some 0), Map.empty)
   \<and> compare_versions (\<lambda>_. None) (Inl HTTPStatusError)
     (version_text 1 21 None (''-'' @ ''pre'' @ str_of_nat 1))
     (version_text 1 21 None (''-'' @ ''rc'' @ str_of_nat 1)) Map.empty
     = (Inl AttributeError, Map.empty)"
  using compare_prereleases [of 1 21 None "''pre''" "''pre''" "\<lambda>_. None" "Inl HTTPStatusError" 1 2
      Map.empty]
    compare_prereleases [of 1 21 None "''pre''" "''rc''" "\<lambda>_. None" "Inl HTTPStatusError" 1 1
      Map.empty]
  by (simp add: small_version_def)

text \<open>
  When only the first version is invalid the comparison
  raises \<open>AttributeError\<close>: the guard that should return \<open>None\<close> tests the second version twice.
\<close>

theorem compare_unparsable_left:
  assumes "parse_version v1 = None" "v1 \<noteq> v2"
  shows "compare_versions from_iso fetch v1 v2 st =
    (if parse_version v2 = None then Inr None else Inl AttributeError, st)"
  using assms by (auto simp: compare_versions_def act_simps Let_def)

theorem compare_unparsable_left_witness:
  "compare_versions (\<lambda>_. None) (Inl HTTPStatusError) ''abc'' ''1.21'' Map.empty
     = (Inl AttributeError, Map.empty)"
proof -
  have p: "parse_version ''abc'' = None" by code_simp
  have q: "parse_version ''1.21'' \<noteq> None" by code_simp
  show ?thesis
    using compare_unparsable_left [OF p, of "''1.21''" "\<lambda>_. None" "Inl HTTPStatusError" Map.empty] q
    by simp
qed

text \<open>
  The version list is cached under \<open>minecraft_versions\<close> but looked
  up under \<open>versions\<close>: while no other code writes that key every call asks the index again and
  leaves the key unset, so the cached copy is never used.
\<close>

theorem cache_never_hit:
  assumes "st ''versions'' = None"
  shows "snd (get_minecraft_versions from_iso fetch st) ''versions'' = None
    \<and> fst (get_minecraft_versions from_iso fetch st) =
        bindE fetch (\<lambda>data. bindE (items data) (mapE (minecraft_version_from_dict from_iso)))"
  using assms
  by (cases fetch; cases "items (projr fetch)")
     (auto simp: get_minecraft_versions_def act_simps)


theorem cache_never_hit_witness:
  "snd (get_minecraft_versions (\<lambda>_. None) (Inr (JList [])) Map.empty) ''versions'' = None
   \<and> fst (get_minecraft_versions (\<lambda>_. None) (Inr (JList [])) Map.empty) = Inr []"
  using cache_never_hit [of Map.empty "\<lambda>_. None" "Inr (JList [])"] by simp

end
