(* ===== verification/Models.thy ===== *)
theory Models
  imports Prelude
begin

text \<open>
  The data model: \<open>app/enums\<close>, \<open>app/models\<close> and the tables of the database. A table is the list
  of its rows; the relationships of the ORM (\<open>users_roles\<close>, \<open>mods\<close>, \<open>miniverses_roles\<close>) are the
  rows with the matching foreign key. The constraints the models declare (primary keys, the
  unique user name, the foreign keys) are the invariant \<open>db_ok\<close>.
\<close>

section \<open>Enumerations\<close>

datatype role = NONE | USER | MODERATOR | ADMIN

fun role_value :: "role \<Rightarrow> nat" where
  "role_value NONE = 0"
| "role_value USER = 1"
| "role_value MODERATOR = 2"
| "role_value ADMIN = 3"

text \<open>The comparison methods; the other side may be \<open>None\<close>.\<close>

definition role_lt :: "role \<Rightarrow> role option \<Rightarrow> bool" where
  "role_lt r other = (case other of None \<Rightarrow> True | Some q \<Rightarrow> role_value r < role_value q)"

definition role_gt :: "role \<Rightarrow> role option \<Rightarrow> bool" where
  "role_gt r other = (case other of None \<Rightarrow> False | Some q \<Rightarrow> role_value r > role_value q)"

definition role_le :: "role \<Rightarrow> role option \<Rightarrow> bool" where
  "role_le r other = (case other of None \<Rightarrow> True | Some q \<Rightarrow> role_value r \<le> role_value q)"

definition role_ge :: "role \<Rightarrow> role option \<Rightarrow> bool" where
  "role_ge r other = (case other of None \<Rightarrow> False | Some q \<Rightarrow> role_value r \<ge> role_value q)"

lemma role_value_inject [simp]: "role_value r = role_value q \<longleftrightarrow> r = q"
  by (cases r; cases q) simp_all

instantiation role :: linorder
begin

definition less_eq_role :: "role \<Rightarrow> role \<Rightarrow> bool" where
  "less_eq_role r q \<longleftrightarrow> role_le r (Some q)"

definition less_role :: "role \<Rightarrow> role \<Rightarrow> bool" where
  "less_role r q \<longleftrightarrow> role_lt r (Some q)"

instance
  by standard (auto simp: less_eq_role_def less_role_def role_le_def role_lt_def)

end

lemma role_order_iff:
  "r \<le> q \<longleftrightarrow> role_value r \<le> role_value q" "r < q \<longleftrightarrow> role_value r < role_value q"
  by (simp_all add: less_eq_role_def less_role_def role_le_def role_lt_def)

lemma NONE_least [simp]: "NONE \<le> r" and ADMIN_greatest [simp]: "r \<le> ADMIN"
  by (cases r; simp add: role_order_iff)+

lemma role_chain [simp]:
  "NONE < USER" "USER < MODERATOR" "MODERATOR < ADMIN" "NONE < MODERATOR" "NONE < ADMIN"
  "USER < ADMIN"
  by (simp_all add: role_order_iff)

lemma ge_ADMIN_iff [simp]: "ADMIN \<le> r \<longleftrightarrow> r = ADMIN"
  by (cases r) (auto simp: role_order_iff)

lemma less_USER_iff [simp]: "r < USER \<longleftrightarrow> r = NONE"
  by (cases r) (auto simp: role_order_iff)

datatype miniverse_type = VANILLA | PAPER | FABRIC | FORGE | NEO_FORGE

fun miniverse_type_value :: "miniverse_type \<Rightarrow> string" where
  "miniverse_type_value VANILLA = ''Vanilla''"
| "miniverse_type_value PAPER = ''Paper''"
| "miniverse_type_value FABRIC = ''Fabric''"
| "miniverse_type_value FORGE = ''Forge''"
| "miniverse_type_value NEO_FORGE = ''NeoForge''"

datatype event_type = SYNC | PLAYERS | OPERATORS | PLAYER_BAN | CREATED | DELETED | UPDATED

fun event_type_value :: "event_type \<Rightarrow> string" where
  "event_type_value SYNC = ''sync''"
| "event_type_value PLAYERS = ''minecraft:players''"
| "event_type_value OPERATORS = ''minecraft:operators''"
| "event_type_value PLAYER_BAN = ''minecraft:bans''"
| "event_type_value CREATED = ''miniverse:created''"
| "event_type_value DELETED = ''miniverse:deleted''"
| "event_type_value UPDATED = ''miniverse:updated''"

text \<open>\<open>EventType(value)\<close>: \<open>ValueError\<close> for a string that is no member's value.\<close>

definition event_type_of :: "string \<Rightarrow> exn + event_type" where
  "event_type_of s =
     (case find (\<lambda>t. event_type_value t = s)
             [SYNC, PLAYERS, OPERATORS, PLAYER_BAN, CREATED, DELETED, UPDATED] of
        None \<Rightarrow> Inl ValueError | Some t \<Rightarrow> Inr t)"

lemma event_type_of_value [simp]: "event_type_of (event_type_value t) = Inr t"
  by (cases t) (simp_all add: event_type_of_def)

section \<open>Rows\<close>

record user =
  u_id :: string
  u_is_active :: bool
  u_username :: string
  u_role :: role

record miniverse_user_role =
  mur_user_id :: string
  mur_miniverse_id :: string
  mur_role :: role

record miniverse =
  m_id :: string
  m_name :: string
  m_type :: miniverse_type
  m_description :: "string option"
  m_container_id :: "string option"
  m_java_version :: "string option"
  m_mc_version :: string
  m_subdomain :: string
  m_online_mode :: bool
  m_is_on_lite_proxy :: bool
  m_allow_bedrock :: bool
  m_started :: bool
  m_secret :: "string option"

record mod_row =
  mod_id :: string
  mod_slug :: string
  mod_version_id :: "string option"
  mod_project_id :: "string option"
  mod_title :: string
  mod_icon_url :: "string option"
  mod_version_name :: "string option"
  mod_version_number :: "string option"
  mod_file_name :: string
  mod_miniverse_id :: string

record db =
  users :: "user list"
  user_roles :: "miniverse_user_role list"
  miniverses :: "miniverse list"
  mods :: "mod_row list"

section \<open>Tables\<close>

definition row_by :: "('r \<Rightarrow> 'k) \<Rightarrow> 'k \<Rightarrow> 'r list \<Rightarrow> 'r option" where
  "row_by key k rows = find (\<lambda>r. key r = k) rows"

definition update_by :: "('r \<Rightarrow> 'k) \<Rightarrow> 'k \<Rightarrow> ('r \<Rightarrow> 'r) \<Rightarrow> 'r list \<Rightarrow> 'r list" where
  "update_by key k f rows = map (\<lambda>r. if key r = k then f r else r) rows"

definition delete_by :: "('r \<Rightarrow> 'k) \<Rightarrow> 'k \<Rightarrow> 'r list \<Rightarrow> 'r list" where
  "delete_by key k rows = filter (\<lambda>r. key r \<noteq> k) rows"

named_theorems table_simps "operations on the rows of a table"

lemma row_by_Some_iff:
  "distinct (map key rows) \<Longrightarrow> row_by key k rows = Some r \<longleftrightarrow> r \<in> set rows \<and> key r = k"
  by (induction rows) (auto simp: row_by_def)

lemma row_by_SomeD: "row_by key k rows = Some r \<Longrightarrow> r \<in> set rows \<and> key r = k"
  by (auto simp: row_by_def find_Some_iff)

lemma row_by_None_iff: "row_by key k rows = None \<longleftrightarrow> k \<notin> key ` set rows"
  by (auto simp: row_by_def find_None_iff)

lemma set_delete_by [table_simps]: "set (delete_by key k rows) = {r \<in> set rows. key r \<noteq> k}"
  by (simp add: delete_by_def)

lemma set_update_by:
  "set (update_by key k f rows) = (\<lambda>r. if key r = k then f r else r) ` set rows"
  by (simp add: update_by_def)

lemma distinct_delete_by [table_simps]: "distinct (map g rows) \<Longrightarrow> distinct (map g (delete_by key k rows))"
  by (simp add: delete_by_def distinct_map_filter)

lemma map_update_by [table_simps]:
  "(\<And>r. g (f r) = g r) \<Longrightarrow> map g (update_by key k f rows) = map g rows"
  by (simp add: update_by_def)

lemma image_update_by [table_simps]:
  "(\<And>r. g (f r) = g r) \<Longrightarrow> g ` set (update_by key k f rows) = g ` set rows"
  by (metis list.set_map map_update_by)

lemma update_by_other: "k \<notin> key ` set rows \<Longrightarrow> update_by key k f rows = rows"
  by (induction rows) (auto simp: update_by_def)

lemma distinct_update_by:
  assumes "distinct (map key rows)" "distinct (map g rows)" "\<And>r. g (f r) = x"
    and "\<And>r. r \<in> set rows \<Longrightarrow> key r \<noteq> k \<Longrightarrow> g r \<noteq> x"
  shows "distinct (map g (update_by key k f rows))"
  using assms
proof (induction rows)
  case (Cons r rows)
  show ?case
  proof (cases "key r = k")
    case True
    with Cons.prems(1) have "k \<notin> key ` set rows" by auto
    then have same: "update_by key k f rows = rows" by (rule update_by_other)
    have "\<forall>r' \<in> set rows. g r' \<noteq> x"
      using Cons.prems(4) \<open>k \<notin> key ` set rows\<close> by (metis imageI list.set_intros(2))
    with True Cons.prems(1-3) same show ?thesis
      by (auto simp: update_by_def)
  next
    case False
    with Cons show ?thesis
      by (auto simp: update_by_def set_update_by [unfolded update_by_def] image_iff)
  qed
qed (simp add: update_by_def)

lemma update_by_row:
  assumes "distinct (map key rows)" "row_by key i rows = Some r"
  shows "f r = g r \<Longrightarrow> update_by key i f rows = update_by key i g rows"
    and "f r = r \<Longrightarrow> update_by key i f rows = rows"
proof -
  have "x = r" if "x \<in> set rows" "key x = i" for x
    using that assms row_by_SomeD [OF assms(2)] by (auto simp: distinct_map dest: inj_onD)
  then show "f r = g r \<Longrightarrow> update_by key i f rows = update_by key i g rows" "f r = r \<Longrightarrow> update_by key i f rows = rows"
    by (auto simp: update_by_def intro!: map_idI)
qed

lemma row_by_update_by [table_simps]:
  "(\<And>r. key (f r) = key r) \<Longrightarrow>
   row_by key j (update_by key k f rows) = (if j = k then map_option f (row_by key j rows) else row_by key j rows)"
  by (induction rows) (auto simp: row_by_def update_by_def)

lemma row_by_fresh: "k \<notin> key ` set rows \<Longrightarrow> key r = k \<Longrightarrow> row_by key k (rows @ [r]) = Some r"
  by (induction rows) (auto simp: row_by_def)

lemma row_by_delete_by [table_simps]:
  "row_by key j (delete_by key k rows) = (if j = k then None else row_by key j rows)"
  by (induction rows) (auto simp: row_by_def delete_by_def)

section \<open>Relationships\<close>

text \<open>
  An ORM \<open>User\<close> object: the row with the roles that were loaded with it (\<open>selectin\<close>).
\<close>

record user_obj = user +
  miniverses_roles :: "miniverse_user_role list"

definition roles_of_user :: "db \<Rightarrow> string \<Rightarrow> miniverse_user_role list" where
  "roles_of_user d uid = filter (\<lambda>r. mur_user_id r = uid) (user_roles d)"

definition load_user :: "db \<Rightarrow> user \<Rightarrow> user_obj" where
  "load_user d u = user.extend u \<lparr>miniverses_roles = roles_of_user d (u_id u)\<rparr>"

definition users_roles :: "db \<Rightarrow> string \<Rightarrow> miniverse_user_role list" where
  "users_roles d mid = filter (\<lambda>r. mur_miniverse_id r = mid) (user_roles d)"

definition mods_of :: "db \<Rightarrow> string \<Rightarrow> mod_row list" where
  "mods_of d mid = filter (\<lambda>r. mod_miniverse_id r = mid) (mods d)"

definition is_admin :: "'a user_scheme \<Rightarrow> bool" where
  "is_admin u \<longleftrightarrow> role_ge (u_role u) (Some ADMIN)"

definition is_moderator :: "'a user_scheme \<Rightarrow> bool" where
  "is_moderator u \<longleftrightarrow> role_ge (u_role u) (Some MODERATOR)"

fun role_in :: "miniverse_user_role list \<Rightarrow> string \<Rightarrow> role" where
  "role_in [] mid = NONE"
| "role_in (r # rs) mid = (if mur_miniverse_id r = mid then mur_role r else role_in rs mid)"

definition get_miniverse_role :: "user_obj \<Rightarrow> string \<Rightarrow> role" where
  "get_miniverse_role u mid = role_in (miniverses_roles u) mid"

lemma load_user_simps [simp]:
  "u_id (load_user d u) = u_id u" "u_role (load_user d u) = u_role u"
  "u_is_active (load_user d u) = u_is_active u" "u_username (load_user d u) = u_username u"
  "miniverses_roles (load_user d u) = roles_of_user d (u_id u)"
  by (simp_all add: load_user_def user.defs)

lemma is_admin_iff [simp]: "is_admin u \<longleftrightarrow> u_role u = ADMIN"
  using ge_ADMIN_iff [of "u_role u"]
  by (simp add: is_admin_def role_ge_def role_order_iff)

section \<open>The constraints of the database\<close>

definition mur_key :: "miniverse_user_role \<Rightarrow> string \<times> string" where
  "mur_key r = (mur_user_id r, mur_miniverse_id r)"

definition db_ok :: "db \<Rightarrow> bool" where
  "db_ok d \<longleftrightarrow>
     distinct (map u_id (users d)) \<and> distinct (map u_username (users d)) \<and>
     distinct (map mur_key (user_roles d)) \<and> distinct (map m_id (miniverses d)) \<and>
     distinct (map mod_id (mods d)) \<and>
     (\<forall>r \<in> set (user_roles d). mur_user_id r \<in> u_id ` set (users d) \<and>
                               mur_miniverse_id r \<in> m_id ` set (miniverses d)) \<and>
     (\<forall>r \<in> set (mods d). mod_miniverse_id r \<in> m_id ` set (miniverses d))"

lemma role_in_row:
  "distinct (map mur_miniverse_id rs) \<Longrightarrow> r \<in> set rs \<Longrightarrow> role_in rs (mur_miniverse_id r) = mur_role r"
  by (induction rs) auto

lemma role_in_none: "mid \<notin> mur_miniverse_id ` set rs \<Longrightarrow> role_in rs mid = NONE"
  by (induction rs) auto

lemma role_in_SomeD:
  "role_in rs mid \<noteq> NONE \<Longrightarrow> \<exists>r \<in> set rs. mur_miniverse_id r = mid \<and> mur_role r = role_in rs mid"
  by (induction rs) (auto split: if_splits)

lemma distinct_roles_of_user:
  "distinct (map mur_key rows) \<Longrightarrow>
   distinct (map mur_miniverse_id (filter (\<lambda>r. mur_user_id r = uid) rows))"
  by (induction rows) (auto simp: mur_key_def image_iff)

text \<open>
  With the primary key of the association table, the loop of \<open>get_miniverse_role\<close> finds the one
  row of the user and the miniverse, or \<open>NONE\<close> where there is none.
\<close>

lemma get_miniverse_role_row:
  assumes "distinct (map mur_key (user_roles d))" "r \<in> set (user_roles d)"
    and "mur_user_id r = u_id u" "mur_miniverse_id r = mid"
  shows "get_miniverse_role (load_user d u) mid = mur_role r"
proof -
  have "distinct (map mur_miniverse_id (roles_of_user d (u_id u)))"
    using assms(1) by (simp add: roles_of_user_def distinct_roles_of_user)
  then show ?thesis
    using role_in_row [of "roles_of_user d (u_id u)" r] assms(2-4)
    by (simp add: get_miniverse_role_def roles_of_user_def)
qed

lemma get_miniverse_role_none:
  assumes "(u_id u, mid) \<notin> mur_key ` set (user_roles d)"
  shows "get_miniverse_role (load_user d u) mid = NONE"
  unfolding get_miniverse_role_def load_user_simps
  by (rule role_in_none) (use assms in \<open>auto simp: roles_of_user_def mur_key_def image_iff\<close>)

end
