(* ===== verification/Users.thy ===== *)
theory Users
  imports Models
begin

text \<open>
  Accounts: \<open>app/services/user_service.py\<close>, \<open>app/services/auth_service.py\<close> and the controllers
  of \<open>app/api/v1/users.py\<close>. Actions run on the database; each request of a controller comes with
  the user that the token handler has loaded.
\<close>

section \<open>user_service\<close>

text \<open>
  \<open>db.add\<close> and \<open>db.commit\<close> of a new user: the primary key and the unique user name make the
  commit fail, and nothing is stored then.
\<close>

definition insert_user :: "user \<Rightarrow> (db, unit) action" where
  "insert_user u d =
    (if u_id u \<in> u_id ` set (users d) \<or> u_username u \<in> u_username ` set (users d)
     then (Inl IntegrityError, d)
     else (Inr (), d\<lparr>users := users d @ [u]\<rparr>))"

definition create_user :: "string \<Rightarrow> string \<Rightarrow> (db, user) action" where
  "create_user userid username =
    bindA (getA (\<lambda>d. users d = [])) (\<lambda>is_users_empty.
      let db_user = (if is_users_empty
                     then \<lparr>u_id = userid, u_is_active = True, u_username = username, u_role = ADMIN\<rparr>
                     else \<lparr>u_id = userid, u_is_active = False, u_username = username, u_role = USER\<rparr>)
      in thenA (insert_user db_user) (ret db_user))"

definition get_user :: "string \<Rightarrow> (db, user option) action" where
  "get_user user_id = getA (\<lambda>d. row_by u_id user_id (users d))"

definition get_users :: "(db, user list) action" where
  "get_users = getA (\<lambda>d. filter u_is_active (users d))"

definition admin_count :: "db \<Rightarrow> nat" where
  "admin_count d = length (filter (\<lambda>u. u_role u = ADMIN) (users d))"

definition count_admins :: "(db, nat) action" where
  "count_admins = getA admin_count"

definition get_user_by_username :: "string \<Rightarrow> (db, user option) action" where
  "get_user_by_username username = getA (\<lambda>d. row_by u_username username (users d))"

text \<open>\<open>DELETE FROM users\<close>; the foreign key of the roles cascades.\<close>

definition delete_user :: "string \<Rightarrow> (db, unit) action" where
  "delete_user user_id =
    modifyA (\<lambda>d. d\<lparr>users := delete_by u_id user_id (users d),
                    user_roles := delete_by mur_user_id user_id (user_roles d)\<rparr>)"

text \<open>Setting an attribute of a user that \<open>get_user\<close> did not find is \<open>AttributeError\<close>.\<close>

definition set_user_role :: "string \<Rightarrow> role \<Rightarrow> (db, unit) action" where
  "set_user_role user_id r =
    bindA (get_user user_id) (\<lambda>user. case user of
      None \<Rightarrow> raise AttributeError
    | Some _ \<Rightarrow> modifyA (\<lambda>d. d\<lparr>users := update_by u_id user_id (\<lambda>u. u\<lparr>u_role := r\<rparr>) (users d)\<rparr>))"

definition get_inactive_users :: "(db, user list) action" where
  "get_inactive_users = getA (\<lambda>d. filter (\<lambda>u. \<not> u_is_active u) (users d))"

definition accept_user_request :: "string \<Rightarrow> (db, unit) action" where
  "accept_user_request user_id =
    bindA (get_user user_id) (\<lambda>user. case user of
      None \<Rightarrow> raise AttributeError
    | Some _ \<Rightarrow>
        modifyA (\<lambda>d. d\<lparr>users := update_by u_id user_id (\<lambda>u. u\<lparr>u_is_active := True\<rparr>) (users d)\<rparr>))"

definition reject_user_request :: "string \<Rightarrow> (db, unit) action" where
  "reject_user_request user_id = delete_user user_id"

section \<open>auth_service\<close>

text \<open>The claims of a verified token: \<open>sub\<close> and the optional \<open>preferred_username\<close>.\<close>

record token =
  tok_sub :: string
  tok_username :: "string option"

definition preferred_username :: "token \<Rightarrow> exn + string" where
  "preferred_username tok = (case tok_username tok of None \<Rightarrow> Inl KeyError | Some n \<Rightarrow> Inr n)"

definition rename_user :: "string \<Rightarrow> string \<Rightarrow> (db, unit) action" where
  "rename_user user_id n d =
    (if n \<in> u_username ` {u \<in> set (users d). u_id u \<noteq> user_id} then (Inl IntegrityError, d)
     else (Inr (), d\<lparr>users := update_by u_id user_id (\<lambda>u. u\<lparr>u_username := n\<rparr>) (users d)\<rparr>))"

definition retrieve_user_handler :: "token \<Rightarrow> (db, user_obj) action" where
  "retrieve_user_handler tok =
    bindA (get_user (tok_sub tok)) (\<lambda>found.
    bindA (case found of
             Some u \<Rightarrow> ret u
           | None \<Rightarrow> bindA (liftA (preferred_username tok)) (create_user (tok_sub tok))) (\<lambda>user.
    if \<not> u_is_active user then raise PermissionDeniedException
    else
      bindA (liftA (preferred_username tok)) (\<lambda>n.
      thenA (if u_username user \<noteq> n then rename_user (u_id user) n else ret ())
            (getA (\<lambda>d. load_user d (user\<lparr>u_username := n\<rparr>))))))"

text \<open>
  \<open>get_keycloak_public_key\<close>: up to five attempts; \<open>attempt i\<close> is the answer of Keycloak to the
  \<open>i\<close>-th. Only connection errors are retried, the last one is raised.
\<close>

fun keycloak_loop :: "(nat \<Rightarrow> exn + string) \<Rightarrow> nat \<Rightarrow> nat \<Rightarrow> exn \<Rightarrow> exn + string" where
  "keycloak_loop attempt i 0 error = Inl error"
| "keycloak_loop attempt i (Suc left) error =
    (case attempt i of
       Inr key \<Rightarrow> Inr (''-----BEGIN PUBLIC KEY-----'' @ [newline] @ key @ [newline] @
                       ''-----END PUBLIC KEY-----'' @ [newline])
     | Inl e \<Rightarrow> if e = KeycloakConnectionError then keycloak_loop attempt (Suc i) left e else Inl e)"

text \<open>\<open>error\<close> starts as \<open>None\<close>, but the loop always runs, so the first value is never raised.\<close>

definition get_keycloak_public_key :: "(nat \<Rightarrow> exn + string) \<Rightarrow> exn + string" where
  "get_keycloak_public_key attempt = keycloak_loop attempt 0 5 TypeError"

definition admin_user_guard :: "user_obj \<Rightarrow> (db, unit) action" where
  "admin_user_guard u = (if \<not> is_admin u then raise NotAuthorizedException else ret ())"

definition moderator_user_guard :: "user_obj \<Rightarrow> (db, unit) action" where
  "moderator_user_guard u = (if \<not> is_moderator u then raise NotAuthorizedException else ret ())"

section \<open>The users controllers\<close>

definition delete_me_check :: "user_obj \<Rightarrow> (db, unit) action" where
  "delete_me_check current_user =
    (if u_role current_user = ADMIN
     then bindA count_admins (\<lambda>n. if n \<le> 1 then raise PermissionDeniedException else ret ())
     else ret ())"

definition delete_me :: "user_obj \<Rightarrow> (db, unit) action" where
  "delete_me current_user = thenA (delete_me_check current_user) (delete_user (u_id current_user))"

definition api_delete_user :: "user_obj \<Rightarrow> string \<Rightarrow> (db, unit) action" where
  "api_delete_user current_user user_id =
    (if u_id current_user = user_id then raise PermissionDeniedException else delete_user user_id)"

definition api_set_user_role :: "user_obj \<Rightarrow> string \<Rightarrow> role \<Rightarrow> (db, unit) action" where
  "api_set_user_role current_user user_id r =
    thenA (if u_id current_user = user_id
           then bindA count_admins (\<lambda>n. if n \<le> 1 then raise PermissionDeniedException else ret ())
           else ret ())
          (set_user_role user_id r)"

text \<open>The requests of the two controllers; the answers of the listing ones do not matter here.\<close>

datatype user_request =
    GetMe | DeleteMe | ListUsers | GetUser string | DeleteUser string | SetUserRole string role
  | ListInactiveUsers | AcceptUser string | RejectUser string

fun users_controller :: "user_obj \<Rightarrow> user_request \<Rightarrow> (db, unit) action" where
  "users_controller cu GetMe = ret ()"
| "users_controller cu DeleteMe = delete_me cu"
| "users_controller cu ListUsers = thenA (admin_user_guard cu) (bindA get_users (\<lambda>_. ret ()))"
| "users_controller cu (GetUser i) = thenA (admin_user_guard cu) (bindA (get_user i) (\<lambda>_. ret ()))"
| "users_controller cu (DeleteUser i) = thenA (admin_user_guard cu) (api_delete_user cu i)"
| "users_controller cu (SetUserRole i r) = thenA (admin_user_guard cu) (api_set_user_role cu i r)"
| "users_controller cu ListInactiveUsers =
     thenA (admin_user_guard cu) (bindA get_inactive_users (\<lambda>_. ret ()))"
| "users_controller cu (AcceptUser i) = thenA (admin_user_guard cu) (accept_user_request i)"
| "users_controller cu (RejectUser i) = thenA (admin_user_guard cu) (reject_user_request i)"

text \<open>A request is authenticated first; then the controller runs with the loaded user.\<close>

definition serve_user :: "token \<Rightarrow> user_request \<Rightarrow> (db, unit) action" where
  "serve_user tok req = bindA (retrieve_user_handler tok) (\<lambda>cu. users_controller cu req)"

fun run_users :: "db \<Rightarrow> (token \<times> user_request) list \<Rightarrow> db" where
  "run_users d [] = d"
| "run_users d ((tok, req) # rest) = run_users (snd (serve_user tok req d)) rest"

section \<open>Every request keeps the constraints of the database\<close>

lemma ok_insert_user: "moves (keeps db_ok) (insert_user u)"
  by (rule movesI) (auto simp: keeps_def insert_user_def db_ok_def)

lemma ok_delete_user: "moves (keeps db_ok) (delete_user i)"
  by (rule movesI)
    (auto simp: keeps_def delete_user_def act_simps db_ok_def table_simps)

lemma ok_update_user:
  "(\<And>u. u_id (f u) = u_id u) \<Longrightarrow> (\<And>u. u_username (f u) = u_username u) \<Longrightarrow>
   moves (keeps db_ok) (modifyA (\<lambda>d. d\<lparr>users := update_by u_id i f (users d)\<rparr>))"
  by (rule movesI) (auto simp: keeps_def act_simps db_ok_def table_simps image_image)

lemma ok_rename_user: "moves (keeps db_ok) (rename_user i n)"
proof (rule movesI)
  fix d
  show "keeps db_ok d (snd (rename_user i n d))"
  proof (cases "n \<in> u_username ` {u \<in> set (users d). u_id u \<noteq> i}")
    case False
    then show ?thesis
      by (auto simp: keeps_def rename_user_def db_ok_def table_simps
          intro!: distinct_update_by [where x = n])
  qed (simp add: keeps_def rename_user_def)
qed

lemmas user_moves = moves_intros ok_insert_user ok_delete_user ok_update_user ok_rename_user

lemma ok_retrieve: "moves (keeps db_ok) (retrieve_user_handler tok)"
  unfolding retrieve_user_handler_def create_user_def get_user_def Let_def
  by (intro user_moves)

lemma ok_controller: "moves (keeps db_ok) (users_controller cu req)"
  by (cases req)
    (auto intro!: user_moves simp: delete_me_def delete_me_check_def admin_user_guard_def get_users_def
       get_user_def api_delete_user_def api_set_user_role_def count_admins_def set_user_role_def
       get_inactive_users_def accept_user_request_def reject_user_request_def)

lemma ok_serve: "moves (keeps db_ok) (serve_user tok req)"
  unfolding serve_user_def by (intro user_moves ok_retrieve ok_controller)

text \<open>
  Every sequence of requests to the users controllers, with the login
  of each caller, keeps the constraints of the database: unique ids and user names, and no role
  row of a user or miniverse that does not exist.
\<close>

theorem users_keep_constraints: "db_ok d \<Longrightarrow> db_ok (run_users d reqs)"
proof (induction reqs arbitrary: d)
  case (Cons r reqs)
  obtain tok req where r: "r = (tok, req)" by (cases r)
  from Cons.prems have "db_ok (snd (serve_user tok req d))"
    using movesD [OF ok_serve, of d tok req] by (simp add: keeps_def)
  with Cons.IH r show ?case by simp
qed simp


section \<open>Administrators\<close>

definition has_admin :: "db \<Rightarrow> bool" where
  "has_admin d \<longleftrightarrow> ADMIN \<in> u_role ` set (users d)"

lemma has_admin_count: "has_admin d \<longleftrightarrow> 0 < admin_count d"
  by (auto simp: has_admin_def admin_count_def filter_empty_conv image_iff eq_commute [of ADMIN])

lemma has_admin_update [simp]:
  "(\<And>u. u_role (f u) = u_role u) \<Longrightarrow>
   has_admin (d\<lparr>users := update_by u_id i f (users d)\<rparr>) = has_admin d"
  by (simp add: has_admin_def table_simps)

text \<open>With two administrators, one remains when one row is removed or changed.\<close>

definition admin_besides :: "string \<Rightarrow> db \<Rightarrow> bool" where
  "admin_besides i d \<longleftrightarrow> (\<exists>u \<in> set (users d). u_role u = ADMIN \<and> u_id u \<noteq> i)"

lemma two_admins:
  assumes "1 < admin_count d" "distinct (map u_id (users d))"
  shows "admin_besides i d"
proof (rule ccontr)
  let ?as = "map u_id (filter (\<lambda>u. u_role u = ADMIN) (users d))"
  assume "\<not> ?thesis"
  then have all: "set ?as \<subseteq> {i}" by (auto simp: admin_besides_def)
  have "distinct ?as" using assms(2) by (rule distinct_map_filter)
  then have "card (set ?as) = admin_count d"
    by (metis distinct_card length_map admin_count_def)
  moreover have "card (set ?as) \<le> card {i}" by (rule card_mono [OF _ all]) simp
  ultimately show False using assms(1) by simp
qed

lemma admin_after_delete: "admin_besides i d \<Longrightarrow> has_admin (snd (delete_user i d))"
  by (force simp: has_admin_def admin_besides_def delete_user_def act_simps table_simps)

lemma admin_after_set_role: "admin_besides i d \<Longrightarrow> has_admin (snd (set_user_role i r d))"
  by (force simp: has_admin_def admin_besides_def set_user_role_def get_user_def act_simps
      set_update_by split: option.splits)

lemma admin_moves:
  "moves (keeps has_admin) (insert_user u)"
  "moves (keeps has_admin) (rename_user i n)"
  "(\<And>u. u_role (f u) = u_role u) \<Longrightarrow>
   moves (keeps has_admin) (modifyA (\<lambda>d. d\<lparr>users := update_by u_id i f (users d)\<rparr>))"
  by (auto intro!: movesI simp: keeps_def has_admin_def insert_user_def rename_user_def act_simps
      table_simps)

lemma admin_retrieve: "moves (keeps has_admin) (retrieve_user_handler tok)"
  unfolding retrieve_user_handler_def create_user_def get_user_def Let_def
  by (intro moves_intros admin_moves)

text \<open>The user that the token handler returns is in the table, active and with its role.\<close>

lemma create_user_result:
  "create_user i n d = (Inr u, d') \<Longrightarrow>
   u_id u = i \<and> u_username u = n \<and> d' = d\<lparr>users := users d @ [u]\<rparr> \<and>
   u_is_active u = (users d = []) \<and> u_role u = (if users d = [] then ADMIN else USER)"
  by (auto simp: create_user_def insert_user_def act_simps Let_def split: if_splits)

lemma rename_user_result:
  "rename_user i n d = (Inr x, d') \<Longrightarrow>
   d' = d\<lparr>users := update_by u_id i (\<lambda>u. u\<lparr>u_username := n\<rparr>) (users d)\<rparr>"
  by (auto simp: rename_user_def split: if_splits)

definition row_of :: "user_obj \<Rightarrow> db \<Rightarrow> bool" where
  "row_of cu d \<longleftrightarrow>
     (u_id cu, u_role cu, True) \<in> (\<lambda>u. (u_id u, u_role u, u_is_active u)) ` set (users d)"

lemma retrieve_user_loaded:
  assumes "retrieve_user_handler tok d = (Inr cu, d')"
  obtains d1 u n where
    "u \<in> set (users d1)" "u_id u = tok_sub tok" "u_is_active u" "tok_username tok = Some n"
    "d1 = d \<or> create_user (tok_sub tok) n d = (Inr u, d1)"
    "d' = (if u_username u = n then d1
           else d1\<lparr>users := update_by u_id (u_id u) (\<lambda>u. u\<lparr>u_username := n\<rparr>) (users d1)\<rparr>)"
    "cu = load_user d' (u\<lparr>u_username := n\<rparr>)"
proof -
  obtain u d1 where
    1: "(case row_by u_id (tok_sub tok) (users d) of
           Some u \<Rightarrow> ret u
         | None \<Rightarrow> bindA (liftA (preferred_username tok)) (create_user (tok_sub tok))) d = (Inr u, d1)"
    and 2: "(if \<not> u_is_active u then raise PermissionDeniedException
       else bindA (liftA (preferred_username tok)) (\<lambda>n.
      thenA (if u_username u \<noteq> n then rename_user (u_id u) n else ret ())
            (getA (\<lambda>d. load_user d (u\<lparr>u_username := n\<rparr>))))) d1 = (Inr cu, d')"
    using assms
    by (auto simp: retrieve_user_handler_def get_user_def act_simps split: sum.splits prod.splits)
  from 2 obtain n where n: "tok_username tok = Some n" and act: "u_is_active u"
    and 3: "(if u_username u \<noteq> n then rename_user (u_id u) n else ret ()) d1 = (Inr (), d')"
    and cu: "cu = load_user d' (u\<lparr>u_username := n\<rparr>)"
    by (auto simp: act_simps preferred_username_def split: if_splits option.splits sum.splits prod.splits)
  from 1 n have row: "u \<in> set (users d1) \<and> u_id u = tok_sub tok \<and>
      (d1 = d \<or> create_user (tok_sub tok) n d = (Inr u, d1))"
    by (auto simp: act_simps preferred_username_def dest: row_by_SomeD create_user_result
        split: option.splits)
  from 3 have "d' = (if u_username u = n then d1
           else d1\<lparr>users := update_by u_id (u_id u) (\<lambda>u. u\<lparr>u_username := n\<rparr>) (users d1)\<rparr>)"
    by (auto simp: act_simps dest: rename_user_result split: if_splits)
  with n act cu row that show ?thesis by blast
qed

lemma retrieve_row:
  assumes "retrieve_user_handler tok d = (Inr cu, d')"
  shows "u_id cu = tok_sub tok \<and> row_of cu d'"
  using assms
proof (rule retrieve_user_loaded)
  fix d1 u n
  assume u: "u \<in> set (users d1)" "u_id u = tok_sub tok" "u_is_active u"
    and d': "d' = (if u_username u = n then d1
           else d1\<lparr>users := update_by u_id (u_id u) (\<lambda>u. u\<lparr>u_username := n\<rparr>) (users d1)\<rparr>)"
    and cu: "cu = load_user d' (u\<lparr>u_username := n\<rparr>)"
  have "(u_id cu, u_role cu, True) \<in> (\<lambda>u. (u_id u, u_role u, u_is_active u)) ` set (users d1)"
    using u by (force simp: cu)
  with u d' cu show ?thesis
    by (simp add: row_of_def table_simps)
qed

section \<open>Requests and administrators\<close>

text \<open>The one request that can remove the last administrator: an administrator rejecting itself.\<close>

fun rejects_self :: "token \<times> user_request \<Rightarrow> bool" where
  "rejects_self (tok, RejectUser i) = (i = tok_sub tok)"
| "rejects_self _ = False"

lemma admin_controller:
  assumes "db_ok d" "has_admin d" "row_of cu d" "\<not> rejects_self (tok, req)" "u_id cu = tok_sub tok"
  shows "has_admin (snd (users_controller cu req d))"
proof -
  have dist: "distinct (map u_id (users d))" using assms(1) by (simp add: db_ok_def)
  have self: "admin_besides i d" if "u_role cu = ADMIN" "i \<noteq> u_id cu" for i
    using that assms(3) by (auto simp: row_of_def admin_besides_def) metis
  have other: "admin_besides (u_id cu) d" if "u_role cu \<noteq> ADMIN"
  proof -
    from assms(2) obtain u where "u \<in> set (users d)" "u_role u = ADMIN" by (auto simp: has_admin_def)
    moreover have "u_id u \<noteq> u_id cu"
      using assms(3) that calculation dist
      by (auto simp: row_of_def distinct_map inj_on_def)
    ultimately show ?thesis by (auto simp: admin_besides_def)
  qed
  note two = two_admins [OF _ dist]
  show ?thesis
    using assms self other two
    by (cases req)
      (auto simp: delete_me_def delete_me_check_def admin_user_guard_def count_admins_def act_simps
        api_delete_user_def api_set_user_role_def get_users_def get_user_def get_inactive_users_def
        reject_user_request_def accept_user_request_def admin_after_delete admin_after_set_role
        not_le
        split: option.splits)
qed

lemma admin_serve:
  assumes "db_ok d" "has_admin d" "\<not> rejects_self (tok, req)"
  shows "has_admin (snd (serve_user tok req d))"
proof -
  obtain r d1 where ret: "retrieve_user_handler tok d = (r, d1)"
    by (cases "retrieve_user_handler tok d")
  have d1: "has_admin d1" "db_ok d1"
    using assms movesD [OF admin_retrieve, of d tok] movesD [OF ok_retrieve, of d tok] ret
    by (simp_all add: keeps_def)
  show ?thesis
  proof (cases r)
    case (Inl e)
    with ret d1 show ?thesis by (simp add: serve_user_def act_simps)
  next
    case (Inr cu)
    with ret have "u_id cu = tok_sub tok" "row_of cu d1" using retrieve_row by blast+
    then have "has_admin (snd (users_controller cu req d1))"
      using admin_controller [OF d1(2,1)] assms(3) by blast
    with ret Inr show ?thesis by (simp add: serve_user_def act_simps)
  qed
qed

text \<open>
  Property C3 (administrators_remain). A database with an administrator still has one after every sequence of
  requests to the users controllers, whatever they ask for and whoever sends them, as long as no
  caller rejects its own account.
\<close>

theorem administrators_remain:
  assumes "db_ok d" "1 \<le> admin_count d" "\<forall>r \<in> set reqs. \<not> rejects_self r"
  shows "1 \<le> admin_count (run_users d reqs)"
proof -
  have "has_admin d" using assms(2) by (simp add: has_admin_count Suc_le_eq)
  then have "has_admin (run_users d reqs)"
    using assms(1,3)
  proof (induction reqs arbitrary: d)
    case (Cons r reqs)
    obtain tok req where r: "r = (tok, req)" by (cases r)
    from Cons.prems r have "has_admin (snd (serve_user tok req d))" "db_ok (snd (serve_user tok req d))"
      using admin_serve [of d tok req] movesD [OF ok_serve, of d tok req] by (simp_all add: keeps_def)
    with Cons r show ?case by simp
  qed simp
  then show ?thesis by (simp add: has_admin_count Suc_le_eq)
qed


text \<open>A small database for the examples: one administrator.\<close>

definition ann :: user where
  "ann = \<lparr>u_id = ''a'', u_is_active = True, u_username = ''ann'', u_role = ADMIN\<rparr>"

definition bob :: user where
  "bob = \<lparr>u_id = ''b'', u_is_active = True, u_username = ''bob'', u_role = ADMIN\<rparr>"

definition db_of_users :: "user list \<Rightarrow> db" where
  "db_of_users us = \<lparr>users = us, user_roles = [], miniverses = [], mods = []\<rparr>"

definition token_of :: "user \<Rightarrow> token" where
  "token_of u = \<lparr>tok_sub = u_id u, tok_username = Some (u_username u)\<rparr>"

theorem administrators_remain_witness:
  "1 \<le> admin_count (run_users (db_of_users [ann])
      [(token_of ann, DeleteMe), (token_of bob, GetMe), (token_of ann, SetUserRole ''b'' ADMIN)])"
  by (rule administrators_remain)
    (simp_all add: db_ok_def admin_count_def db_of_users_def ann_def bob_def token_of_def)

text \<open>
  The guards that protect the last administrator miss one
  operation: deleting oneself, deleting one's own id and changing one's own role are all refused
  to a sole administrator, but rejecting one's own account succeeds and empties the table.
\<close>

theorem sole_admin_can_reject_itself:
  assumes "users d = [u]" "u_role u = ADMIN" "u_is_active u"
    and "tok = \<lparr>tok_sub = u_id u, tok_username = Some (u_username u)\<rparr>"
  shows "serve_user tok DeleteMe d = (Inl PermissionDeniedException, d)
    \<and> serve_user tok (DeleteUser (u_id u)) d = (Inl PermissionDeniedException, d)
    \<and> serve_user tok (SetUserRole (u_id u) r) d = (Inl PermissionDeniedException, d)
    \<and> fst (serve_user tok (RejectUser (u_id u)) d) = Inr ()
    \<and> users (snd (serve_user tok (RejectUser (u_id u)) d)) = []"
  using assms
  by (simp add: serve_user_def retrieve_user_handler_def get_user_def act_simps row_by_def
      preferred_username_def delete_me_def delete_me_check_def count_admins_def admin_count_def
      admin_user_guard_def api_delete_user_def api_set_user_role_def reject_user_request_def
      delete_user_def delete_by_def)

theorem sole_admin_can_reject_itself_witness:
  "fst (serve_user (token_of ann) (RejectUser ''a'') (db_of_users [ann])) = Inr ()
   \<and> users (snd (serve_user (token_of ann) (RejectUser ''a'') (db_of_users [ann]))) = []"
  using sole_admin_can_reject_itself [of "db_of_users [ann]" ann "token_of ann" NONE]
  by (simp add: ann_def db_of_users_def token_of_def)

text \<open>
  Every operation of the users controllers other than \<open>me\<close> is refused to
  a caller whose role is not \<open>ADMIN\<close>, and nothing changes.
\<close>

theorem non_admins_are_refused:
  assumes "u_role cu \<noteq> ADMIN" "req \<noteq> GetMe" "req \<noteq> DeleteMe"
  shows "users_controller cu req d = (Inl NotAuthorizedException, d)"
  using assms by (cases req) (simp_all add: admin_user_guard_def act_simps)

theorem non_admins_are_refused_witness:
  "users_controller (load_user (db_of_users [ann]) (ann\<lparr>u_role := MODERATOR\<rparr>)) (DeleteUser ''b'')
     (db_of_users [ann]) = (Inl NotAuthorizedException, db_of_users [ann])"
  by (rule non_admins_are_refused) (simp_all add: ann_def)

text \<open>
  The first user ever to log in becomes an active administrator; the next
  one is stored as an inactive user, and is refused both then and when it logs in again.
\<close>

theorem first_login_is_admin:
  assumes "users d = []" "tok_username t1 = Some n1" "tok_username t2 = Some n2"
    and "tok_sub t1 \<noteq> tok_sub t2" "n1 \<noteq> n2"
  shows "let d1 = snd (retrieve_user_handler t1 d);
             r2 = retrieve_user_handler t2 d1
         in users d1 = [\<lparr>u_id = tok_sub t1, u_is_active = True, u_username = n1, u_role = ADMIN\<rparr>]
          \<and> fst (retrieve_user_handler t1 d) =
              Inr (load_user d1 \<lparr>u_id = tok_sub t1, u_is_active = True, u_username = n1, u_role = ADMIN\<rparr>)
          \<and> fst r2 = Inl PermissionDeniedException
          \<and> users (snd r2) = users d1 @
              [\<lparr>u_id = tok_sub t2, u_is_active = False, u_username = n2, u_role = USER\<rparr>]
          \<and> fst (retrieve_user_handler t2 (snd r2)) = Inl PermissionDeniedException"
  using assms
  by (simp add: Let_def retrieve_user_handler_def get_user_def act_simps row_by_def
      preferred_username_def create_user_def insert_user_def)

theorem first_login_is_admin_witness:
  "users (snd (retrieve_user_handler (token_of ann) (db_of_users []))) = [ann]"
  using first_login_is_admin [of "db_of_users []" "token_of ann" "''ann''" "token_of bob" "''bob''"]
  by (simp add: ann_def bob_def token_of_def db_of_users_def Let_def)

theorem users_keep_constraints_witness:
  "db_ok (run_users (db_of_users []) [(token_of ann, GetMe), (token_of bob, GetMe),
      (token_of ann, AcceptUser ''b''), (token_of bob, DeleteMe)])"
  by (rule users_keep_constraints) (simp add: db_of_users_def db_ok_def)

section \<open>The public key of Keycloak\<close>

definition pem :: "string \<Rightarrow> string" where
  "pem key = ''-----BEGIN PUBLIC KEY-----'' @ [newline] @ key @ [newline] @
             ''-----END PUBLIC KEY-----'' @ [newline]"


end
