(* ===== verification/Paths.thy ===== *)
theory Paths
  imports Prelude
begin

text \<open>
  \<open>pathlib\<close> as the file services use it (Python 3.13, POSIX): lexical paths, a root and the
  components after it. Parsing drops empty components and \<open>.\<close>, and keeps \<open>..\<close>.
\<close>

record ppath =
  p_root :: string        \<comment> \<open>\<open>''''\<close>, \<open>''/''\<close> or \<open>''//''\<close>\<close>
  p_tail :: "string list"

definition sep :: char where
  "sep = CHR ''/''"

definition splitroot :: "string \<Rightarrow> string \<times> string" where
  "splitroot s =
    (case s of
       [] \<Rightarrow> ([], s)
     | c # r \<Rightarrow>
       if c \<noteq> sep then ([], s)
       else (case r of
               [] \<Rightarrow> ([sep], r)
             | c1 # r1 \<Rightarrow>
               if c1 \<noteq> sep \<or> (r1 \<noteq> [] \<and> hd r1 = sep) then ([sep], r) else ([sep, sep], r1)))"

definition keep_part :: "string \<Rightarrow> bool" where
  "keep_part x \<longleftrightarrow> x \<noteq> [] \<and> x \<noteq> ''.''"

definition Path :: "string \<Rightarrow> ppath" where
  "Path s = (case splitroot s of (r, rel) \<Rightarrow>
     \<lparr>p_root = r, p_tail = filter keep_part (split_on sep rel)\<rparr>)"

definition path_str :: "ppath \<Rightarrow> string" where
  "path_str p = (if p_root p = [] \<and> p_tail p = [] then ''.''
                 else p_root p @ join_with sep (p_tail p))"

text \<open>\<open>p / q\<close>: an absolute right operand replaces the left one.\<close>

definition joinpath :: "ppath \<Rightarrow> ppath \<Rightarrow> ppath" where
  "joinpath p q = (if p_root q \<noteq> [] then q else p\<lparr>p_tail := p_tail p @ p_tail q\<rparr>)"

text \<open>\<open>p / name\<close> for a name that is one component.\<close>

definition path_child :: "ppath \<Rightarrow> string \<Rightarrow> ppath" where
  "path_child p n = joinpath p (Path n)"

definition path_parent :: "ppath \<Rightarrow> ppath" where
  "path_parent p = (if p_tail p = [] then p else p\<lparr>p_tail := butlast (p_tail p)\<rparr>)"

definition path_name :: "ppath \<Rightarrow> string" where
  "path_name p = (if p_tail p = [] then [] else last (p_tail p))"

definition path_parts :: "ppath \<Rightarrow> string list" where
  "path_parts p = (if p_root p = [] then p_tail p else p_root p # p_tail p)"

text \<open>
  \<open>stem\<close> and \<open>suffix\<close> split the name at its last dot, unless that is the first or the last
  character.
\<close>

definition split_suffix :: "string \<Rightarrow> string \<times> string" where
  "split_suffix n =
    (let e = rev (takeWhile (\<lambda>c. c \<noteq> CHR ''.'') (rev n));
         b = dropWhile (\<lambda>c. c \<noteq> CHR ''.'') (rev n)
     in if e \<noteq> [] \<and> b \<noteq> [] \<and> tl b \<noteq> [] then (rev (tl b), CHR ''.'' # e) else (n, []))"

definition path_stem :: "ppath \<Rightarrow> string" where
  "path_stem p = fst (split_suffix (path_name p))"

definition path_suffix :: "ppath \<Rightarrow> string" where
  "path_suffix p = snd (split_suffix (path_name p))"

definition with_name :: "ppath \<Rightarrow> string \<Rightarrow> exn + ppath" where
  "with_name p n =
    (if n = [] \<or> sep \<in> set n \<or> n = ''.'' \<or> p_tail p = [] then Inl ValueError
     else Inr (p\<lparr>p_tail := butlast (p_tail p) @ [n]\<rparr>))"

definition with_suffix :: "ppath \<Rightarrow> string \<Rightarrow> exn + ppath" where
  "with_suffix p s =
    (if path_stem p = [] \<or> (s \<noteq> [] \<and> \<not> (hd s = CHR ''.'' \<and> 1 < length s)) then Inl ValueError
     else with_name p (path_stem p @ s))"

definition is_relative_to :: "ppath \<Rightarrow> ppath \<Rightarrow> bool" where
  "is_relative_to p other \<longleftrightarrow> p_root p = p_root other \<and> prefix (p_tail other) (p_tail p)"

definition relative_to :: "ppath \<Rightarrow> ppath \<Rightarrow> exn + ppath" where
  "relative_to p other =
    (if is_relative_to p other
     then Inr \<lparr>p_root = [], p_tail = drop (length (p_tail other)) (p_tail p)\<rparr>
     else Inl ValueError)"

section \<open>Lemmas\<close>

text \<open>A path is clean when its components are what parsing can produce.\<close>

definition clean_part :: "string \<Rightarrow> bool" where
  "clean_part x \<longleftrightarrow> keep_part x \<and> sep \<notin> set x"

definition clean :: "ppath \<Rightarrow> bool" where
  "clean p \<longleftrightarrow> (\<forall>x \<in> set (p_tail p). clean_part x)"

lemma clean_Path [simp]: "clean (Path s)"
  by (auto simp: clean_def clean_part_def Path_def dest: split_on_fields split: prod.splits)

lemma clean_joinpath [simp]: "clean p \<Longrightarrow> clean q \<Longrightarrow> clean (joinpath p q)"
  by (auto simp: clean_def joinpath_def)

lemma clean_parent [simp]: "clean p \<Longrightarrow> clean (path_parent p)"
  by (auto simp: clean_def path_parent_def dest: in_set_butlastD)

lemma filter_keep_join:
  "\<forall>x \<in> set xs. clean_part x \<Longrightarrow> filter keep_part (split_on sep (join_with sep xs)) = xs"
proof (cases xs)
  case (Cons x ys)
  assume clean: "\<forall>x \<in> set xs. clean_part x"
  then have "split_on sep (join_with sep xs) = xs"
    using Cons by (intro split_on_join_with) (auto simp: clean_part_def)
  then show ?thesis using clean by (simp add: clean_part_def filter_id_conv)
qed (simp add: keep_part_def)

lemma splitroot_relative: "s = [] \<or> hd s \<noteq> sep \<Longrightarrow> splitroot s = ([], s)"
  by (cases s) (auto simp: splitroot_def)

text \<open>Printing and parsing a clean relative path gives it back.\<close>

lemma join_hd_not_sep:
  "\<forall>x \<in> set xs. clean_part x \<Longrightarrow> join_with sep xs = [] \<or> hd (join_with sep xs) \<noteq> sep"
proof (cases xs)
  case (Cons x ys)
  assume "\<forall>x \<in> set xs. clean_part x"
  then have "x \<noteq> []" "sep \<notin> set x" by (auto simp: Cons clean_part_def keep_part_def)
  then have "hd x \<noteq> sep" by (metis hd_in_set)
  with \<open>x \<noteq> []\<close> show ?thesis by (cases ys) (auto simp: Cons)
qed simp

lemma Path_path_str:
  assumes "clean p" "p_root p = []"
  shows "Path (path_str p) = p"
proof -
  have c: "\<forall>x \<in> set (p_tail p). clean_part x" using assms(1) by (simp add: clean_def)
  show ?thesis
  proof (cases "p_tail p = []")
    case True
    with assms(2) show ?thesis
      by (cases p) (simp add: path_str_def Path_def splitroot_def sep_def keep_part_def)
  next
    case False
    have "splitroot (join_with sep (p_tail p)) = ([], join_with sep (p_tail p))"
      by (rule splitroot_relative) (rule join_hd_not_sep [OF c])
    with False assms(2) c show ?thesis
      by (cases p) (simp add: path_str_def Path_def filter_keep_join)
  qed
qed

text \<open>
  \<open>Path("./" + str(p))\<close> keeps the components of \<open>p\<close> and forgets its root: the first step of
  \<open>safe_user_path\<close>.
\<close>

lemma split_on_slashes:
  "set r \<subseteq> {sep} \<Longrightarrow> filter keep_part (split_on sep (r @ s)) = filter keep_part (split_on sep s)"
  by (induction r) (auto simp: keep_part_def)

lemma Path_dot_slash:
  assumes "clean p" "set (p_root p) \<subseteq> {sep}"
  shows "Path (''./'' @ path_str p) = \<lparr>p_root = [], p_tail = p_tail p\<rparr>"
proof -
  have c: "\<forall>x \<in> set (p_tail p). clean_part x" using assms(1) by (simp add: clean_def)
  have "split_on sep (''./'' @ path_str p) = ''.'' # split_on sep (path_str p)"
    by (simp add: sep_def)
  moreover have "filter keep_part (split_on sep (path_str p)) = p_tail p"
  proof (cases "p_root p = [] \<and> p_tail p = []")
    case True
    then show ?thesis by (simp add: path_str_def keep_part_def sep_def)
  next
    case False
    then show ?thesis
      using c assms(2) by (auto simp: path_str_def split_on_slashes filter_keep_join)
  qed
  moreover have "splitroot (''./'' @ path_str p) = ([], ''./'' @ path_str p)"
    by (rule splitroot_relative) (simp add: sep_def)
  ultimately show ?thesis
    by (simp add: Path_def keep_part_def)
qed

lemma root_of_Path: "set (p_root (Path s)) \<subseteq> {sep}"
  by (auto simp: Path_def splitroot_def split: list.splits if_splits prod.splits)

lemma split_suffix_append: "fst (split_suffix n) @ snd (split_suffix n) = n"
proof -
  let ?e = "takeWhile (\<lambda>c. c \<noteq> CHR ''.'') (rev n)"
  let ?b = "dropWhile (\<lambda>c. c \<noteq> CHR ''.'') (rev n)"
  have n: "n = rev ?b @ rev ?e"
    by (metis rev_append rev_rev_ident takeWhile_dropWhile_id)
  show ?thesis
  proof (cases "?b")
    case Nil
    then show ?thesis by (simp add: split_suffix_def)
  next
    case (Cons c b)
    then have "c = CHR ''.''" using hd_dropWhile [of "\<lambda>c. c \<noteq> CHR ''.''" "rev n"] by auto
    with Cons n show ?thesis by (auto simp: split_suffix_def Let_def)
  qed
qed

lemma stem_suffix: "path_stem p @ path_suffix p = path_name p"
  by (simp add: path_stem_def path_suffix_def split_suffix_append)

lemma Path_single [simp]: "clean_part n \<Longrightarrow> Path n = \<lparr>p_root = [], p_tail = [n]\<rparr>"
  using Path_path_str [of "\<lparr>p_root = [], p_tail = [n]\<rparr>"]
  by (simp add: clean_def path_str_def)

lemma child_clean: "clean_part n \<Longrightarrow> path_child p n = p\<lparr>p_tail := p_tail p @ [n]\<rparr>"
  by (simp add: path_child_def joinpath_def)

end
