(* ===== verification/Config.thy ===== *)
theory Config
  imports Paths
begin

text \<open>
  \<open>app/core/config.py\<close>: the settings, with the working directory of the
  process, which resolves a relative path, and the paths built from them.
\<close>

record env =
  PROXY_SOCKS :: "string option"
  PROXY_SECRET :: string
  HOST_DATA_PATH :: ppath
  DATA_PATH :: ppath
  SQLALCHEMY_DATABASE_PATH :: string
  SQLALCHEMY_DATABASE_PASSWORD :: string
  DATABASE_DEFAULT_STRING_LENGTH :: nat
  DOCKER_NETWORK_NAME :: string
  REDIS_HOST_NAME :: string
  REDIS_CHANNEL_NAME :: string
  KEYCLOAK_ISSUER :: string
  KEYCLOAK_REALM :: string
  KEYCLOAK_CLIENT_ID :: string
  DOMAIN_NAME :: string
  work_dir :: "string list"

text \<open>The settings without a default, and the working directory, are given.\<close>

definition default_env :: "string \<Rightarrow> ppath \<Rightarrow> string \<Rightarrow> string list \<Rightarrow> env" where
  "default_env secret host_data password dir =
    \<lparr>PROXY_SOCKS = None, PROXY_SECRET = secret, HOST_DATA_PATH = host_data, DATA_PATH = Path ''/app/data'',
     SQLALCHEMY_DATABASE_PATH = ''mysql/miniverse_db'', SQLALCHEMY_DATABASE_PASSWORD = password,
     DATABASE_DEFAULT_STRING_LENGTH = 128, DOCKER_NETWORK_NAME = ''miniverse-net'',
     REDIS_HOST_NAME = ''miniverse-redis'', REDIS_CHANNEL_NAME = ''miniverse-updates'',
     KEYCLOAK_ISSUER = ''http://keycloak:8080/keycloak/'', KEYCLOAK_REALM = ''miniverse'',
     KEYCLOAK_CLIENT_ID = ''miniverse-client'', DOMAIN_NAME = ''miniverse.fr'', work_dir = dir\<rparr>"

text \<open>\<open>get_miniverse_path(id, *subpaths, from_host)\<close> of \<open>miniverse_service.py\<close>\<close>

definition join_all :: "string list \<Rightarrow> ppath" where
  "join_all subpaths = foldl path_child (Path '''') subpaths"

definition get_miniverse_path :: "env \<Rightarrow> string \<Rightarrow> string list \<Rightarrow> bool \<Rightarrow> ppath" where
  "get_miniverse_path e miniverse_id subpaths from_host =
    joinpath (path_child (path_child (if from_host then HOST_DATA_PATH e else DATA_PATH e)
                            ''miniverses'') miniverse_id)
             (join_all subpaths)"

lemma clean_child [simp]: "clean p \<Longrightarrow> clean (path_child p s)"
  by (simp add: path_child_def)

lemma clean_join_all [simp]: "clean (join_all xs)"
proof -
  have "clean p \<Longrightarrow> clean (foldl path_child p xs)" for p
    by (induction xs arbitrary: p) auto
  then show ?thesis by (simp add: join_all_def)
qed

lemma clean_miniverse_path [simp]:
  "clean (DATA_PATH e) \<Longrightarrow> clean (get_miniverse_path e i xs False)"
  by (simp add: get_miniverse_path_def)

end
