(* ===== verification/FileSystem.thy ===== *)
theory FileSystem
  imports Paths
begin

text \<open>
  The file system under the backend, with directories, regular files and symbolic links, and
  the operations of \<open>os\<close>, \<open>pathlib\<close> and \<open>shutil\<close> that the services use on it. The
  kernel follows the links of a path (\<open>namei\<close>); \<open>Path.resolve()\<close> is the algorithm of
  \<open>os.path.realpath\<close> with \<open>strict=False\<close>.
\<close>

section \<open>Trees\<close>

type_synonym path = "string list"

datatype node = Dir | File string | Symlink string

type_synonym fs = "(path \<times> node) list"

definition node_at :: "fs \<Rightarrow> path \<Rightarrow> node option" where
  "node_at fs p = (if p = [] then Some Dir else map_of fs p)"

definition put :: "fs \<Rightarrow> path \<Rightarrow> node \<Rightarrow> fs" where
  "put fs p nd = AList.update p nd fs"

definition del :: "fs \<Rightarrow> path \<Rightarrow> fs" where
  "del fs p = filter (\<lambda>(k, _). k \<noteq> p) fs"

definition del_tree :: "fs \<Rightarrow> path \<Rightarrow> fs" where
  "del_tree fs p = filter (\<lambda>(k, _). \<not> prefix p k) fs"

definition move_tree :: "fs \<Rightarrow> path \<Rightarrow> path \<Rightarrow> fs" where
  "move_tree fs src dst =
     map (\<lambda>(k, v). (dst @ drop (length src) k, v)) (filter (\<lambda>(k, _). prefix src k) fs) @
     filter (\<lambda>(k, _). \<not> prefix src k \<and> \<not> prefix dst k) fs"

definition is_link :: "fs \<Rightarrow> path \<Rightarrow> bool" where
  "is_link fs p = (case node_at fs p of Some (Symlink _) \<Rightarrow> True | _ \<Rightarrow> False)"

named_theorems fs_simps "looking up in a changed tree"

lemma node_at_root [simp]: "node_at fs [] = Some Dir"
  by (simp add: node_at_def)

lemma node_at_put [fs_simps]: "p \<noteq> [] \<Longrightarrow> node_at (put fs p nd) q = (if q = p then Some nd else node_at fs q)"
  by (simp add: node_at_def put_def update_conv')

lemma map_of_filter_fst: "map_of (filter (\<lambda>(k, _). P k) xs) k = (if P k then map_of xs k else None)"
  by (induction xs) auto

lemma node_at_del [fs_simps]: "p \<noteq> [] \<Longrightarrow> node_at (del fs p) q = (if q = p then None else node_at fs q)"
  by (simp add: node_at_def del_def map_of_filter_fst)

lemma node_at_del_tree [fs_simps]:
  "node_at (del_tree fs p) q = (if q \<noteq> [] \<and> prefix p q then None else node_at fs q)"
  by (simp add: node_at_def del_tree_def map_of_filter_fst)

lemma map_of_rebase:
  "map_of (map (\<lambda>(k, v). (dst @ drop (length src) k, v)) (filter (\<lambda>(k, _). prefix src k) fs)) q =
     (if prefix dst q then map_of fs (src @ drop (length dst) q) else None)"
  by (induction fs) (auto simp: prefix_def split: if_splits)

lemma node_at_move_tree [fs_simps]:
  assumes "src \<noteq> []" "dst \<noteq> []"
  shows "node_at (move_tree fs src dst) q =
    (if prefix dst q then (case map_of fs (src @ drop (length dst) q) of
                             None \<Rightarrow> None | Some v \<Rightarrow> Some v)
     else if prefix src q then None else node_at fs q)"
  using assms
  by (auto simp: node_at_def move_tree_def map_add_def map_of_rebase map_of_filter_fst
      split: option.splits)

section \<open>The kernel's path walk\<close>

text \<open>
  \<open>namei fs n cur cs\<close> walks the components \<open>cs\<close> from the directory \<open>cur\<close> and follows at most
  \<open>n\<close> links (the kernel allows 40). The last component may be missing, so that it can be created.
\<close>

definition is_abs :: "string \<Rightarrow> bool" where
  "is_abs s \<longleftrightarrow> s \<noteq> [] \<and> hd s = sep"

function namei :: "fs \<Rightarrow> nat \<Rightarrow> path \<Rightarrow> string list \<Rightarrow> exn + path" where
  "namei fs n cur [] = Inr cur"
| "namei fs n cur (c # cs) =
    (if c = [] \<or> c = ''.'' then namei fs n cur cs
     else if c = ''..'' then namei fs n (butlast cur) cs
     else (case node_at fs (cur @ [c]) of
        None \<Rightarrow> if cs = [] then Inr (cur @ [c]) else Inl FileNotFoundError
      | Some Dir \<Rightarrow> namei fs n (cur @ [c]) cs
      | Some (File _) \<Rightarrow> if cs = [] then Inr (cur @ [c]) else Inl NotADirectoryError
      | Some (Symlink t) \<Rightarrow>
          (case n of 0 \<Rightarrow> Inl OSError
           | Suc m \<Rightarrow> namei fs m (if is_abs t then [] else cur) (split_on sep t @ cs))))"
  by pat_completeness auto
termination
  by (relation "measures [\<lambda>(fs, n, cur, cs). n, \<lambda>(fs, n, cur, cs). length cs]") auto

definition start_dir :: "path \<Rightarrow> ppath \<Rightarrow> path" where
  "start_dir cwd p = (if p_root p = [] then cwd else [])"

definition kernel_path :: "fs \<Rightarrow> path \<Rightarrow> ppath \<Rightarrow> exn + path" where
  "kernel_path fs cwd p = namei fs 40 (start_dir cwd p) (p_tail p)"

text \<open>
  Calls that act on a directory entry (\<open>mkdir\<close>, \<open>unlink\<close>, \<open>rename\<close>) resolve the parent only.
\<close>

definition entry_path :: "fs \<Rightarrow> path \<Rightarrow> ppath \<Rightarrow> exn + path" where
  "entry_path fs cwd p =
    (if p_tail p = [] then Inl OSError
     else case namei fs 40 (start_dir cwd p) (butlast (p_tail p)) of
            Inl e \<Rightarrow> Inl e
          | Inr d \<Rightarrow> (case node_at fs d of
                       None \<Rightarrow> Inl FileNotFoundError
                     | Some Dir \<Rightarrow> Inr (d @ [last (p_tail p)])
                     | Some _ \<Rightarrow> Inl NotADirectoryError))"

section \<open>realpath\<close>

text \<open>
  The work list of \<open>realpath\<close>: components still to process, and markers that say where the
  resolution of a link is complete. \<open>seen\<close> maps a link to its resolved target, \<open>None\<close> while it is
  being resolved. The flag in the result says whether a link was met inside its own resolution
  (a loop); it does not influence the path.
\<close>

datatype work = Part string | Resolved path

function realpath_loop ::
  "fs \<Rightarrow> (path \<times> path option) list \<Rightarrow> bool \<Rightarrow> path \<Rightarrow> work list \<Rightarrow> path \<times> bool" where
  "realpath_loop fs seen looped p [] = (p, looped)"
| "realpath_loop fs seen looped p (Resolved k # rest) =
     realpath_loop fs ((k, Some p) # seen) looped p rest"
| "realpath_loop fs seen looped p (Part n # rest) =
    (if n = [] \<or> n = ''.'' then realpath_loop fs seen looped p rest
     else if n = ''..'' then realpath_loop fs seen looped (butlast p) rest
     else (case node_at fs (p @ [n]) of
        Some (Symlink t) \<Rightarrow>
          (case map_of seen (p @ [n]) of
             Some (Some q) \<Rightarrow> realpath_loop fs seen looped q rest
           | Some None \<Rightarrow> realpath_loop fs seen True (p @ [n]) rest
           | None \<Rightarrow> realpath_loop fs ((p @ [n], None) # seen) looped (if is_abs t then [] else p)
                       (map Part (split_on sep t) @ Resolved (p @ [n]) # rest))
      | _ \<Rightarrow> realpath_loop fs seen looped (p @ [n]) rest))"
  by pat_completeness auto
termination
proof (relation "measures [\<lambda>(fs, seen, l, p, w). card (fst ` set fs - fst ` set seen),
                           \<lambda>(fs, seen, l, p, w). length w]", goal_cases)
  case (2 fs seen looped p k rest)
  have "card (fst ` set fs - fst ` set ((k, Some p) # seen)) \<le> card (fst ` set fs - fst ` set seen)"
    by (rule card_mono) auto
  then show ?case by auto
next
  case (8 fs seen looped p n rest nd t)
  then have "p @ [n] \<in> fst ` set fs - fst ` set seen"
    by (auto simp: node_at_def map_of_eq_None_iff dest: map_of_SomeD intro: rev_image_eqI)
  then have "card (fst ` set fs - fst ` set ((p @ [n], None) # seen))
      < card (fst ` set fs - fst ` set seen)"
    by (intro psubset_card_mono) auto
  then show ?case by simp
qed auto

definition realpath :: "fs \<Rightarrow> path \<Rightarrow> ppath \<Rightarrow> path \<times> bool" where
  "realpath fs cwd p = realpath_loop fs [] False (start_dir cwd p) (map Part (p_tail p))"

definition abs_path :: "path \<Rightarrow> ppath" where
  "abs_path t = \<lparr>p_root = [sep], p_tail = t\<rparr>"

text \<open>\<open>Path.resolve(strict=False)\<close>\<close>

definition resolve :: "fs \<Rightarrow> path \<Rightarrow> ppath \<Rightarrow> ppath" where
  "resolve fs cwd p = abs_path (fst (realpath fs cwd p))"

definition link_loop :: "fs \<Rightarrow> path \<Rightarrow> ppath \<Rightarrow> bool" where
  "link_loop fs cwd p = snd (realpath fs cwd p)"

section \<open>Physical paths\<close>

text \<open>A path is physical when none of its prefixes is a link.\<close>

definition physical :: "fs \<Rightarrow> path \<Rightarrow> bool" where
  "physical fs p \<longleftrightarrow> (\<forall>q. prefix q p \<longrightarrow> \<not> is_link fs q)"

definition proper_part :: "string \<Rightarrow> bool" where
  "proper_part x \<longleftrightarrow> clean_part x \<and> x \<noteq> ''..''"

definition proper :: "path \<Rightarrow> bool" where
  "proper p \<longleftrightarrow> (\<forall>x \<in> set p. proper_part x)"

lemma physical_Nil [simp]: "physical fs []"
  by (simp add: physical_def is_link_def)

lemma physical_prefix: "physical fs p \<Longrightarrow> prefix q p \<Longrightarrow> physical fs q"
  by (auto simp: physical_def dest: prefix_order.trans)

lemma physical_snoc [simp]: "physical fs (p @ [n]) \<longleftrightarrow> physical fs p \<and> \<not> is_link fs (p @ [n])"
  by (auto simp: physical_def)

lemma physical_appendD: "physical fs (p @ q) \<Longrightarrow> physical fs p"
  by (rule physical_prefix) auto

lemma physical_butlast: "physical fs p \<Longrightarrow> physical fs (butlast p)"
  by (rule physical_prefix) (auto simp: prefixeq_butlast)

lemma proper_append [simp]: "proper (p @ q) \<longleftrightarrow> proper p \<and> proper q"
  by (auto simp: proper_def)

lemma proper_Cons [simp]: "proper (x # q) \<longleftrightarrow> proper_part x \<and> proper q"
  by (auto simp: proper_def)

lemma proper_Nil [simp]: "proper []"
  by (simp add: proper_def)

lemma proper_butlast: "proper p \<Longrightarrow> proper (butlast p)"
  by (auto simp: proper_def dest: in_set_butlastD)

lemma proper_partD:
  "proper_part x \<Longrightarrow> x \<noteq> []" "proper_part x \<Longrightarrow> x \<noteq> ''.''" "proper_part x \<Longrightarrow> x \<noteq> ''..''"
  "proper_part x \<Longrightarrow> sep \<notin> set x"
  by (auto simp: proper_part_def clean_part_def keep_part_def)

text \<open>The kernel walks a physical path to that path itself.\<close>

lemma namei_physical:
  "physical fs (cur @ cs) \<Longrightarrow> proper cs \<Longrightarrow> namei fs n cur cs = Inr q \<Longrightarrow> q = cur @ cs"
proof (induction cs arbitrary: cur)
  case (Cons c cs)
  have phys: "physical fs ((cur @ [c]) @ cs)" using Cons.prems(1) by simp
  then have "\<not> is_link fs (cur @ [c])" using physical_appendD physical_snoc by blast
  with Cons.prems show ?case
    using Cons.IH [OF phys]
    using proper_partD [of c]
    by (auto simp: is_link_def split: if_splits option.splits node.splits)
qed simp

section \<open>What realpath returns\<close>

lemma realpath_loop_flag: "looped \<Longrightarrow> snd (realpath_loop fs seen looped p w)"
  by (induction fs seen looped p w rule: realpath_loop.induct) (auto split: option.splits node.splits)

lemma realpath_loop_physical:
  assumes "\<not> snd (realpath_loop fs seen looped p w)" "physical fs p"
    and "\<forall>k r. map_of seen k = Some (Some r) \<longrightarrow> physical fs r"
  shows "physical fs (fst (realpath_loop fs seen looped p w))"
  using assms
proof (induction fs seen looped p w rule: realpath_loop.induct)
  case (3 fs seen looped p n rest)
  show ?case
  proof (cases "n = [] \<or> n = ''.'' \<or> n = ''..''")
    case True
    with 3 show ?thesis by (auto simp: physical_butlast)
  next
    case False
    then show ?thesis
      using 3 realpath_loop_flag [of True fs seen "p @ [n]" rest]
      by (auto simp: is_link_def split: option.splits node.splits if_splits)
  qed
qed (auto split: if_splits)

fun work_ok :: "work \<Rightarrow> bool" where
  "work_ok (Part n) = (sep \<notin> set n)"
| "work_ok (Resolved _) = True"

definition seen_proper :: "(path \<times> path option) list \<Rightarrow> bool" where
  "seen_proper seen \<longleftrightarrow> (\<forall>k r. map_of seen k = Some (Some r) \<longrightarrow> proper r)"

lemma seen_proper_Cons:
  "seen_proper seen \<Longrightarrow> (case o' of None \<Rightarrow> True | Some r \<Rightarrow> proper r) \<Longrightarrow> seen_proper ((k, o') # seen)"
  by (auto simp: seen_proper_def split: option.splits)

lemma seen_properD: "seen_proper seen \<Longrightarrow> map_of seen k = Some (Some r) \<Longrightarrow> proper r"
  by (auto simp: seen_proper_def)

lemma list_all_work_split: "list_all work_ok (map Part (split_on sep t))"
  by (auto simp: list_all_iff dest: split_on_fields)

lemma realpath_loop_proper:
  "proper p \<Longrightarrow> list_all work_ok w \<Longrightarrow> seen_proper seen \<Longrightarrow>
   proper (fst (realpath_loop fs seen looped p w))"
proof (induction fs seen looped p w rule: realpath_loop.induct)
  case (2 fs seen looped p k rest)
  then show ?case by (simp add: seen_proper_Cons)
next
  case (3 fs seen looped p n rest)
  consider "n = [] \<or> n = ''.''" | "n = ''..''" | (name) "n \<noteq> []" "n \<noteq> ''.''" "n \<noteq> ''..''" by blast
  then show ?case
  proof cases
    case name
    with "3.prems" have pn: "proper (p @ [n])"
      by (simp add: proper_part_def clean_part_def keep_part_def)
    show ?thesis
    proof (cases "is_link fs (p @ [n])")
      case False
      with name pn show ?thesis
        using "3.IH"(3,4,5) "3.prems"(2,3)
        by (cases "node_at fs (p @ [n])"; simp add: is_link_def split: node.splits)
    next
      case True
      then obtain t where t: "node_at fs (p @ [n]) = Some (Symlink t)"
        by (auto simp: is_link_def split: option.splits node.splits)
      have "list_all work_ok (map Part (split_on sep t) @ Resolved (p @ [n]) # rest)"
        using "3.prems"(2) list_all_work_split by simp
      with name t pn show ?thesis
        using "3.IH"(6-) "3.prems" seen_proper_Cons [of seen None "p @ [n]"]
          seen_properD [of seen "p @ [n]"]
        by (cases "map_of seen (p @ [n])"; simp split: option.splits)
    qed
  qed (use 3 in \<open>simp_all add: proper_butlast\<close>)
qed simp

text \<open>Without links, \<open>realpath\<close> is the lexical normalisation of the path.\<close>

fun normalize :: "path \<Rightarrow> string list \<Rightarrow> path" where
  "normalize p [] = p"
| "normalize p (n # ns) =
     normalize (if n = [] \<or> n = ''.'' then p else if n = ''..'' then butlast p else p @ [n]) ns"

lemma realpath_loop_no_links:
  "\<forall>q. \<not> is_link fs q \<Longrightarrow> realpath_loop fs seen looped p (map Part ns) = (normalize p ns, looped)"
proof (induction ns arbitrary: p)
  case (Cons n ns)
  then have "\<not> is_link fs (p @ [n])" by blast
  with Cons show ?case by (auto simp: is_link_def split: option.splits node.splits)
qed simp


lemma realpath_physical: "\<not> link_loop fs cwd p \<Longrightarrow> physical fs cwd \<Longrightarrow> physical fs (fst (realpath fs cwd p))"
  unfolding link_loop_def realpath_def start_dir_def
  by (rule realpath_loop_physical) auto

lemma realpath_proper: "clean p \<Longrightarrow> proper cwd \<Longrightarrow> proper (fst (realpath fs cwd p))"
  unfolding realpath_def start_dir_def
  by (rule realpath_loop_proper)
    (auto simp: clean_def clean_part_def list_all_iff seen_proper_def)

end
