(* ===== verification/OsOps.thy ===== *)
theory OsOps
  imports FileSystem
begin

text \<open>
  The file operations of \<open>pathlib\<close>, \<open>os\<close> and \<open>shutil\<close> that the services call, as actions on the
  file system, and what each can change.
\<close>

section \<open>Queries\<close>

text \<open>\<open>Path.stat()\<close>: the node behind a path, links followed.\<close>

definition stat_node :: "fs \<Rightarrow> path \<Rightarrow> ppath \<Rightarrow> node option" where
  "stat_node fs cwd p = (case kernel_path fs cwd p of Inl _ \<Rightarrow> None | Inr q \<Rightarrow> node_at fs q)"

definition exists :: "fs \<Rightarrow> path \<Rightarrow> ppath \<Rightarrow> bool" where
  "exists fs cwd p \<longleftrightarrow> stat_node fs cwd p \<noteq> None"

definition is_dir :: "fs \<Rightarrow> path \<Rightarrow> ppath \<Rightarrow> bool" where
  "is_dir fs cwd p \<longleftrightarrow> stat_node fs cwd p = Some Dir"

definition is_file :: "fs \<Rightarrow> path \<Rightarrow> ppath \<Rightarrow> bool" where
  "is_file fs cwd p \<longleftrightarrow> (case stat_node fs cwd p of Some (File _) \<Rightarrow> True | _ \<Rightarrow> False)"

text \<open>\<open>st_size\<close> of a regular file.\<close>

definition file_size :: "fs \<Rightarrow> path \<Rightarrow> ppath \<Rightarrow> nat" where
  "file_size fs cwd p = (case stat_node fs cwd p of Some (File c) \<Rightarrow> length c | _ \<Rightarrow> 0)"

text \<open>The names in a directory (\<open>glob("*")\<close>), and the paths below it (\<open>rglob("*")\<close>).\<close>

definition dir_names :: "fs \<Rightarrow> path \<Rightarrow> string list" where
  "dir_names fs d = map last (filter (\<lambda>k. k \<noteq> [] \<and> butlast k = d) (map fst fs))"

definition glob_all :: "fs \<Rightarrow> path \<Rightarrow> ppath \<Rightarrow> ppath list" where
  "glob_all fs cwd p = (case kernel_path fs cwd p of
     Inl _ \<Rightarrow> []
   | Inr d \<Rightarrow> map (\<lambda>n. p\<lparr>p_tail := p_tail p @ [n]\<rparr>) (dir_names fs d))"

definition rglob_all :: "fs \<Rightarrow> path \<Rightarrow> ppath \<Rightarrow> ppath list" where
  "rglob_all fs cwd p = (case kernel_path fs cwd p of
     Inl _ \<Rightarrow> []
   | Inr d \<Rightarrow> map (\<lambda>k. p\<lparr>p_tail := p_tail p @ drop (length d) k\<rparr>)
                (filter (\<lambda>k. strict_prefix d k) (map fst fs)))"

definition read_file :: "fs \<Rightarrow> path \<Rightarrow> ppath \<Rightarrow> exn + string" where
  "read_file fs cwd p = (case kernel_path fs cwd p of
     Inl e \<Rightarrow> Inl e
   | Inr q \<Rightarrow> (case node_at fs q of
        Some (File c) \<Rightarrow> Inr c
      | Some Dir \<Rightarrow> Inl IsADirectoryError
      | Some (Symlink _) \<Rightarrow> Inl OSError
      | None \<Rightarrow> Inl FileNotFoundError))"

section \<open>Changes\<close>

definition os_mkdir :: "path \<Rightarrow> ppath \<Rightarrow> (fs, unit) action" where
  "os_mkdir cwd p fs = (case entry_path fs cwd p of
     Inl e \<Rightarrow> (Inl e, fs)
   | Inr q \<Rightarrow> if node_at fs q \<noteq> None then (Inl FileExistsError, fs) else (Inr (), put fs q Dir))"

text \<open>\<open>mkdir(exist_ok=True)\<close> and \<open>mkdir(parents=True, exist_ok=True)\<close>\<close>

definition mkdir_ok :: "path \<Rightarrow> ppath \<Rightarrow> (fs, unit) action" where
  "mkdir_ok cwd p fs = (case os_mkdir cwd p fs of
     (Inr u, fs') \<Rightarrow> (Inr u, fs')
   | (Inl e, fs') \<Rightarrow>
       if e \<noteq> FileNotFoundError \<and> is_dir fs' cwd p then (Inr (), fs') else (Inl e, fs'))"

function mkdir_parents :: "path \<Rightarrow> ppath \<Rightarrow> (fs, unit) action" where
  "mkdir_parents cwd p fs = (case os_mkdir cwd p fs of
     (Inr u, fs') \<Rightarrow> (Inr u, fs')
   | (Inl e, fs') \<Rightarrow>
       if e = FileNotFoundError
       then if p_tail p = [] then (Inl e, fs')
            else (case mkdir_parents cwd (path_parent p) fs' of
                    (Inl e', fs2) \<Rightarrow> (Inl e', fs2)
                  | (Inr _, fs2) \<Rightarrow> mkdir_ok cwd p fs2)
       else if is_dir fs' cwd p then (Inr (), fs') else (Inl e, fs'))"
  by pat_completeness auto
termination
  by (relation "measure (\<lambda>(cwd, p, fs). length (p_tail p))") (auto simp: path_parent_def)

declare mkdir_parents.simps [simp del]

text \<open>\<open>open(p, "w")\<close> and writing the whole content.\<close>

definition write_file :: "path \<Rightarrow> ppath \<Rightarrow> string \<Rightarrow> (fs, unit) action" where
  "write_file cwd p content fs = (case kernel_path fs cwd p of
     Inl e \<Rightarrow> (Inl e, fs)
   | Inr q \<Rightarrow> (case node_at fs q of
        Some Dir \<Rightarrow> (Inl IsADirectoryError, fs)
      | Some (Symlink _) \<Rightarrow> (Inl OSError, fs)
      | _ \<Rightarrow> (Inr (), put fs q (File content))))"

definition unlink :: "path \<Rightarrow> ppath \<Rightarrow> (fs, unit) action" where
  "unlink cwd p fs = (case entry_path fs cwd p of
     Inl e \<Rightarrow> (Inl e, fs)
   | Inr q \<Rightarrow> (case node_at fs q of
        None \<Rightarrow> (Inl FileNotFoundError, fs)
      | Some Dir \<Rightarrow> (Inl IsADirectoryError, fs)
      | Some _ \<Rightarrow> (Inr (), del fs q)))"

definition rmtree :: "path \<Rightarrow> ppath \<Rightarrow> (fs, unit) action" where
  "rmtree cwd p fs = (case entry_path fs cwd p of
     Inl e \<Rightarrow> (Inl e, fs)
   | Inr q \<Rightarrow> (case node_at fs q of
        None \<Rightarrow> (Inl FileNotFoundError, fs)
      | Some Dir \<Rightarrow> (Inr (), del_tree fs q)
      | Some (File _) \<Rightarrow> (Inl NotADirectoryError, fs)
      | Some (Symlink _) \<Rightarrow> (Inl OSError, fs)))"

definition has_children :: "fs \<Rightarrow> path \<Rightarrow> bool" where
  "has_children fs d \<longleftrightarrow> list_ex (\<lambda>(k, _). strict_prefix d k) fs"

text \<open>\<open>rename(2)\<close> replaces a destination that is no directory, or an empty one by a directory.\<close>

definition os_rename :: "path \<Rightarrow> ppath \<Rightarrow> ppath \<Rightarrow> (fs, unit) action" where
  "os_rename cwd src dst fs = (case (entry_path fs cwd src, entry_path fs cwd dst) of
     (Inl e, _) \<Rightarrow> (Inl e, fs)
   | (Inr _, Inl e) \<Rightarrow> (Inl e, fs)
   | (Inr s, Inr d) \<Rightarrow> (case node_at fs s of
        None \<Rightarrow> (Inl FileNotFoundError, fs)
      | Some nd \<Rightarrow>
          if s = d then (Inr (), fs)
          else if nd = Dir \<and> prefix s d then (Inl OSError, fs)
          else (case node_at fs d of
             None \<Rightarrow> (Inr (), move_tree fs s d)
           | Some Dir \<Rightarrow>
               if nd \<noteq> Dir then (Inl IsADirectoryError, fs)
               else if has_children fs d then (Inl OSError, fs)
               else (Inr (), move_tree fs s d)
           | Some _ \<Rightarrow>
               if nd = Dir then (Inl NotADirectoryError, fs) else (Inr (), move_tree fs s d))))"

text \<open>\<open>Path.stat()\<close> with its errors, and \<open>os.listdir\<close>.\<close>

definition os_stat :: "fs \<Rightarrow> path \<Rightarrow> ppath \<Rightarrow> exn + node" where
  "os_stat fs cwd p = (case kernel_path fs cwd p of
     Inl e \<Rightarrow> Inl e
   | Inr q \<Rightarrow> (case node_at fs q of None \<Rightarrow> Inl FileNotFoundError | Some nd \<Rightarrow> Inr nd))"

definition os_listdir :: "fs \<Rightarrow> path \<Rightarrow> ppath \<Rightarrow> exn + string list" where
  "os_listdir fs cwd p = (case kernel_path fs cwd p of
     Inl e \<Rightarrow> Inl e
   | Inr q \<Rightarrow> (case node_at fs q of
        None \<Rightarrow> Inl FileNotFoundError
      | Some Dir \<Rightarrow> Inr (dir_names fs q)
      | Some _ \<Rightarrow> Inl NotADirectoryError))"

text \<open>\<open>os.makedirs(p, exist_ok=False)\<close>\<close>

definition makedirs :: "path \<Rightarrow> ppath \<Rightarrow> (fs, unit) action" where
  "makedirs cwd p =
     thenA (\<lambda>fs. if p_tail p \<noteq> [] \<and> \<not> exists fs cwd (path_parent p)
                 then mkdir_parents cwd (path_parent p) fs else (Inr (), fs))
           (os_mkdir cwd p)"

text \<open>\<open>shutil.copy2\<close>: into a directory it copies under the same name.\<close>

definition copy2 :: "path \<Rightarrow> ppath \<Rightarrow> ppath \<Rightarrow> (fs, unit) action" where
  "copy2 cwd src dst =
     bindA (getA (\<lambda>fs. if is_dir fs cwd dst then path_child dst (path_name src) else dst)) (\<lambda>dst'.
     bindA (\<lambda>fs. (read_file fs cwd src, fs)) (write_file cwd dst'))"

text \<open>
  \<open>shutil.copytree\<close> lists the source before it creates the destination, follows links, goes on
  after an entry that fails and raises at the end. The nesting is bounded by \<open>n\<close>: a link to an
  ancestor nests until the operating system refuses the path.
\<close>

primrec each_entry :: "('a \<Rightarrow> (fs, unit) action) \<Rightarrow> 'a list \<Rightarrow> (fs, unit) action" where
  "each_entry f [] = ret ()"
| "each_entry f (x # xs) = (\<lambda>fs. case f x fs of
     (Inr _, fs') \<Rightarrow> each_entry f xs fs'
   | (Inl e, fs') \<Rightarrow> (Inl OSError, snd (each_entry f xs fs')))"

primrec copytree :: "path \<Rightarrow> nat \<Rightarrow> ppath \<Rightarrow> ppath \<Rightarrow> (fs, unit) action" where
  "copytree cwd 0 = (\<lambda>src dst. raise OSError)"
| "copytree cwd (Suc n) = (\<lambda>src dst.
     bindA (\<lambda>fs. (os_listdir fs cwd src, fs)) (\<lambda>names.
     thenA (makedirs cwd dst)
       (each_entry (\<lambda>name.
          bindA (getA (\<lambda>fs. is_dir fs cwd (path_child src name))) (\<lambda>dir.
          if dir then copytree cwd n (path_child src name) (path_child dst name)
          else copy2 cwd (path_child src name) (path_child dst name))) names)))"

section \<open>Where a path leads\<close>

lemma namei_butlast_physical:
  assumes "physical fs (cur @ cs)" "proper cs" "cs \<noteq> []" "namei fs n cur (butlast cs) = Inr d"
  shows "d @ [last cs] = cur @ cs"
proof -
  have "physical fs (cur @ butlast cs)"
    by (rule physical_prefix [OF assms(1)]) (simp add: prefixeq_butlast)
  then have "d = cur @ butlast cs"
    using assms(2,4) namei_physical proper_butlast by blast
  with assms(3) show ?thesis by simp
qed

lemma kernel_path_physical:
  "physical fs t \<Longrightarrow> proper t \<Longrightarrow> kernel_path fs cwd (abs_path t) = Inr q \<Longrightarrow> q = t"
  using namei_physical [of fs "[]" t 40 q]
  by (simp add: kernel_path_def abs_path_def start_dir_def)

lemma entry_path_physical:
  "physical fs t \<Longrightarrow> proper t \<Longrightarrow> entry_path fs cwd (abs_path t) = Inr q \<Longrightarrow> q = t \<and> t \<noteq> []"
  using namei_butlast_physical [of fs "[]" t 40]
  by (auto simp: entry_path_def abs_path_def start_dir_def
      split: if_splits sum.splits option.splits node.splits)

lemma entry_path_nonempty: "entry_path fs cwd p = Inr q \<Longrightarrow> q \<noteq> []"
  by (auto simp: entry_path_def split: if_splits sum.splits option.splits node.splits)

section \<open>What an operation can change\<close>

text \<open>\<open>within b fs fs'\<close>: every entry outside the tree under \<open>b\<close> is as it was.\<close>

definition within :: "path \<Rightarrow> fs \<Rightarrow> fs \<Rightarrow> bool" where
  "within b fs fs' \<longleftrightarrow> (\<forall>q. \<not> prefix b q \<longrightarrow> node_at fs' q = node_at fs q)"

lemma within_refl [simp]: "within b fs fs"
  by (simp add: within_def)

lemma within_trans: "within b fs fs' \<Longrightarrow> within b fs' fs'' \<Longrightarrow> within b fs fs''"
  by (simp add: within_def)

lemma reflp_within [simp]: "reflp (within b)"
  by (simp add: reflp_def)

lemma transp_within [simp]: "transp (within b)"
  by (rule transpI) (rule within_trans)

lemma within_mono: "within b fs fs' \<Longrightarrow> prefix a b \<Longrightarrow> within a fs fs'"
  by (auto simp: within_def dest: prefix_order.trans)

lemma within_put: "prefix b p \<Longrightarrow> p \<noteq> [] \<Longrightarrow> within b fs (put fs p nd)"
  by (auto simp: within_def fs_simps)

lemma within_del: "prefix b p \<Longrightarrow> p \<noteq> [] \<Longrightarrow> within b fs (del fs p)"
  by (auto simp: within_def fs_simps)

lemma within_del_tree: "prefix b p \<Longrightarrow> within b fs (del_tree fs p)"
  by (auto simp: within_def fs_simps dest: prefix_order.trans)

lemma within_move_tree:
  "prefix b s \<Longrightarrow> prefix b d \<Longrightarrow> s \<noteq> [] \<Longrightarrow> d \<noteq> [] \<Longrightarrow> within b fs (move_tree fs s d)"
  by (auto simp: within_def fs_simps dest: prefix_order.trans split: option.splits)

text \<open>The target of an operation: a physical path below \<open>b\<close>.\<close>

definition target_in :: "path \<Rightarrow> fs \<Rightarrow> path \<Rightarrow> bool" where
  "target_in b fs t \<longleftrightarrow> prefix b t \<and> physical fs t \<and> proper t"

lemma within_unlink: "target_in b fs t \<Longrightarrow> within b fs (snd (unlink cwd (abs_path t) fs))"
  using entry_path_physical [of fs t cwd]
  by (auto simp: unlink_def target_in_def split: sum.splits option.splits node.splits
      intro: within_del)

lemma within_rmtree: "target_in b fs t \<Longrightarrow> within b fs (snd (rmtree cwd (abs_path t) fs))"
  using entry_path_physical [of fs t cwd]
  by (auto simp: rmtree_def target_in_def split: sum.splits option.splits node.splits
      intro: within_del_tree)

lemma within_mkdir: "target_in b fs t \<Longrightarrow> within b fs (snd (os_mkdir cwd (abs_path t) fs))"
  using entry_path_physical [of fs t cwd]
  by (auto simp: os_mkdir_def target_in_def split: sum.splits intro: within_put)

lemma within_write: "target_in b fs t \<Longrightarrow> within b fs (snd (write_file cwd (abs_path t) c fs))"
  using kernel_path_physical [of fs t cwd]
  by (auto simp: write_file_def target_in_def split: sum.splits option.splits node.splits
      intro!: within_put dest: sym)

lemma within_rename:
  "target_in b fs s \<Longrightarrow> target_in b fs d \<Longrightarrow>
   within b fs (snd (os_rename cwd (abs_path s) (abs_path d) fs))"
  using entry_path_physical [of fs s cwd] entry_path_physical [of fs d cwd]
  by (auto simp: os_rename_def target_in_def split: sum.splits option.splits node.splits
      intro!: within_move_tree)

section \<open>Physical paths and the kernel\<close>

text \<open>On a physical path the kernel succeeds exactly when every proper prefix is a directory.\<close>

definition dir_chain :: "fs \<Rightarrow> path \<Rightarrow> bool" where
  "dir_chain fs p \<longleftrightarrow> (\<forall>q. prefix q p \<longrightarrow> node_at fs q = Some Dir)"

lemma dir_chain_code [code]: "dir_chain fs p = list_all (\<lambda>q. node_at fs q = Some Dir) (prefixes p)"
  by (auto simp: dir_chain_def list_all_iff)

lemma dir_chain_Nil [simp]: "dir_chain fs []"
  by (simp add: dir_chain_def)

lemma dir_chain_snoc [simp]: "dir_chain fs (p @ [n]) \<longleftrightarrow> dir_chain fs p \<and> node_at fs (p @ [n]) = Some Dir"
  by (auto simp: dir_chain_def)

lemma dir_chain_prefix: "dir_chain fs p \<Longrightarrow> prefix q p \<Longrightarrow> dir_chain fs q"
  by (auto simp: dir_chain_def dest: prefix_order.trans)

lemma dir_chain_node: "dir_chain fs p \<Longrightarrow> node_at fs p = Some Dir"
  by (auto simp: dir_chain_def)

lemma dir_chain_physical: "dir_chain fs p \<Longrightarrow> physical fs p"
  by (auto simp: dir_chain_def physical_def is_link_def)

lemma namei_dirs:
  "dir_chain fs cur \<Longrightarrow> dir_chain fs (cur @ cs) \<Longrightarrow> proper cs \<Longrightarrow> namei fs n cur (cs @ ds) = namei fs n (cur @ cs) ds"
proof (induction cs arbitrary: cur)
  case (Cons c cs)
  have "node_at fs (cur @ [c]) = Some Dir" "dir_chain fs (cur @ [c])"
    using Cons.prems(2) by (auto simp: dir_chain_def)
  with Cons.IH [of "cur @ [c]"] Cons.prems show ?case
    using proper_partD [of c] by simp
qed simp

lemma namei_reaches:
  "physical fs (cur @ cs) \<Longrightarrow> proper cs \<Longrightarrow> dir_chain fs cur \<Longrightarrow> cs \<noteq> [] \<Longrightarrow>
   namei fs n cur cs = Inr q \<Longrightarrow> dir_chain fs (cur @ butlast cs)"
proof (induction cs arbitrary: cur)
  case (Cons c cs)
  have phys: "physical fs ((cur @ [c]) @ cs)" using Cons.prems(1) by simp
  then have nl: "\<not> is_link fs (cur @ [c])" using physical_appendD physical_snoc by blast
  show ?case
  proof (cases "cs = []")
    case False
    with Cons.prems nl have d: "node_at fs (cur @ [c]) = Some Dir" and nm: "namei fs n (cur @ [c]) cs = Inr q"
      using proper_partD [of c]
      by (auto simp: is_link_def split: if_splits option.splits node.splits)
    from d Cons.prems(3) have "dir_chain fs (cur @ [c])" by simp
    with Cons.IH [OF phys _ _ False nm] Cons.prems(2) False show ?thesis by simp
  qed (simp add: Cons.prems(3))
qed simp

lemma stat_physical:
  assumes "physical fs t" "proper t"
  shows "stat_node fs wd (abs_path t) =
    (if t = [] \<or> dir_chain fs (butlast t) then node_at fs t else None)"
proof (cases "t = []")
  case True
  then show ?thesis
    by (simp add: stat_node_def kernel_path_def abs_path_def start_dir_def)
next
  case ne: False
  show ?thesis
  proof (cases "dir_chain fs (butlast t)")
    case True
    have "namei fs 40 [] (butlast t @ [last t]) = namei fs 40 (butlast t) [last t]"
      using namei_dirs [of fs "[]" "butlast t" 40 "[last t]"] True assms(2) by (simp add: proper_butlast)
    moreover have "proper_part (last t)" using assms(2) ne by (simp add: proper_def)
    moreover have "\<not> is_link fs t" using assms(1) by (simp add: physical_def)
    ultimately have "namei fs 40 [] t = (case node_at fs t of
       None \<Rightarrow> Inr t | Some _ \<Rightarrow> Inr t)"
      using ne proper_partD [of "last t"] by (auto simp: is_link_def split: option.splits node.splits)
    with True ne show ?thesis
      by (simp add: stat_node_def kernel_path_def abs_path_def start_dir_def split: option.splits)
  next
    case False
    then have "namei fs 40 [] t \<noteq> Inr q" for q
      using namei_reaches [of fs "[]" t 40 q] assms ne by auto
    with False ne show ?thesis
      by (cases "namei fs 40 [] t") (auto simp: stat_node_def kernel_path_def abs_path_def start_dir_def)
  qed
qed

lemma exists_physical:
  "physical fs t \<Longrightarrow> proper t \<Longrightarrow> exists fs wd (abs_path t) \<longleftrightarrow>
     (t = [] \<or> dir_chain fs (butlast t)) \<and> node_at fs t \<noteq> None"
  by (simp add: exists_def stat_physical)

lemma is_dir_physical:
  "physical fs t \<Longrightarrow> proper t \<Longrightarrow> is_dir fs wd (abs_path t) \<longleftrightarrow> dir_chain fs t"
proof (cases t rule: rev_cases)
  case (snoc p n)
  assume "physical fs t" "proper t"
  with snoc show ?thesis by (simp add: is_dir_def stat_physical)
qed (simp add: is_dir_def stat_physical)

lemma is_file_physical:
  "physical fs t \<Longrightarrow> proper t \<Longrightarrow> is_file fs wd (abs_path t) \<longleftrightarrow>
     t \<noteq> [] \<and> dir_chain fs (butlast t) \<and> (\<exists>c. node_at fs t = Some (File c))"
  by (auto simp: is_file_def stat_physical split: option.splits node.splits)

text \<open>The directory entry of a physical path whose parent exists.\<close>

lemma kernel_path_chain:
  assumes "physical fs t" "proper t" "t = [] \<or> dir_chain fs (butlast t)"
  shows "kernel_path fs wd (abs_path t) = Inr t"
proof (cases "t = []")
  case False
  have "namei fs 40 [] (butlast t @ [last t]) = namei fs 40 (butlast t) [last t]"
    using namei_dirs [of fs "[]" "butlast t" 40 "[last t]"] assms False by (simp add: proper_butlast)
  moreover have "proper_part (last t)" using assms(2) False by (simp add: proper_def)
  moreover have "\<not> is_link fs t" using assms(1) by (simp add: physical_def)
  ultimately show ?thesis
    using False proper_partD [of "last t"]
    by (auto simp: is_link_def kernel_path_def abs_path_def start_dir_def split: option.splits node.splits)
qed (simp add: kernel_path_def abs_path_def start_dir_def)

lemma entry_path_chain:
  assumes "proper t" "t \<noteq> []" "dir_chain fs (butlast t)"
  shows "entry_path fs wd (abs_path t) = Inr t"
proof -
  have "namei fs 40 [] (butlast t) = Inr (butlast t)"
    using namei_dirs [of fs "[]" "butlast t" 40 "[]"] assms by (simp add: proper_butlast)
  with assms show ?thesis
    by (simp add: entry_path_def abs_path_def start_dir_def dir_chain_node)
qed

end
