(* ===== verification/Files.thy ===== *)
theory Files
  imports Config OsOps Models
begin

text \<open>
  \<open>app/services/files_service.py\<close>: the file manager of a miniverse. Every operation maps a path
  of the user below the data directory of the miniverse with \<open>safe_user_path\<close> and then works on
  the file system. Parameters of the model: the zip reader and writer (\<open>zipfile\<close>,
  \<open>zipstream\<close>) and the times of \<open>stat\<close>.
\<close>

section \<open>Paths of the user\<close>

definition under_dot :: "ppath \<Rightarrow> ppath" where
  "under_dot p = Path (''./'' @ path_str p)"

definition safe_user_path :: "fs \<Rightarrow> path \<Rightarrow> ppath \<Rightarrow> ppath \<Rightarrow> exn + ppath" where
  "safe_user_path fs cwd root user_relative_path =
    (let base = resolve fs cwd root;
         target = resolve fs cwd (joinpath base (under_dot user_relative_path))
     in if \<not> is_relative_to target base then Inl ValueError else Inr target)"

text \<open>The new names of \<open>change_path_name_if_exists\<close>: for a directory and for a file.\<close>

definition numbered :: "string \<Rightarrow> nat \<Rightarrow> string" where
  "numbered name i = name @ '' ('' @ str_of_nat i @ '')''"

definition numbered_file :: "string \<Rightarrow> nat \<Rightarrow> string" where
  "numbered_file name i = numbered (fst (split_suffix name)) i @ snd (split_suffix name)"

definition renamed :: "fs \<Rightarrow> path \<Rightarrow> ppath \<Rightarrow> nat \<Rightarrow> ppath" where
  "renamed fs cwd p i =
    path_child (path_parent p)
      ((if is_dir fs cwd p then numbered else numbered_file) (path_name p) i)"

partial_function (option) change_loop ::
  "fs \<Rightarrow> path \<Rightarrow> ppath \<Rightarrow> nat \<Rightarrow> ppath \<Rightarrow> ppath option" where
  "change_loop fs cwd p i new_path =
    (if exists fs cwd new_path then change_loop fs cwd p (i + 1) (renamed fs cwd p (i + 1))
     else Some new_path)"

declare change_loop.simps [code]

definition change_path_name_if_exists :: "fs \<Rightarrow> path \<Rightarrow> ppath \<Rightarrow> ppath option" where
  "change_path_name_if_exists fs cwd p = change_loop fs cwd p 1 p"

text \<open>The data directory of a miniverse, and the mapping of one path into it, on the current tree.\<close>

definition data_dir :: "env \<Rightarrow> miniverse \<Rightarrow> ppath" where
  "data_dir e mv = path_child (get_miniverse_path e (m_id mv) [] False) ''data''"

definition safeA :: "env \<Rightarrow> ppath \<Rightarrow> ppath \<Rightarrow> (fs, ppath) action" where
  "safeA e root p = (\<lambda>fs. (safe_user_path fs (work_dir e) root p, fs))"

definition freshA :: "env \<Rightarrow> ppath \<Rightarrow> (fs, ppath) action" where
  "freshA e p = (\<lambda>fs. loopA (change_path_name_if_exists fs (work_dir e) p) fs)"

section \<open>Archives\<close>

text \<open>
  A member of an archive as \<open>zipfile\<close> delivers it: the name, the error of opening it, if any, the
  bytes that can be read, and the error that ends the reading, if any.
\<close>

record zip_member =
  zm_filename :: string
  zm_open_error :: "exn option"
  zm_data :: string
  zm_error :: "exn option"

definition zm_is_dir :: "zip_member \<Rightarrow> bool" where
  "zm_is_dir z \<longleftrightarrow> ends_with ''/'' (zm_filename z)"

definition get_zip_roots :: "zip_member list \<Rightarrow> string list" where
  "get_zip_roots z = remdups (concat (map (\<lambda>info.
     if zm_filename info = [] then []
     else take 1 (path_parts (Path (zm_filename info)))) z))"

definition extract_member :: "env \<Rightarrow> ppath \<Rightarrow> bool \<Rightarrow> zip_member \<Rightarrow> (fs, unit) action" where
  "extract_member e container_dir single_root m =
    (if zm_is_dir m then ret ()
     else
       let path = Path (zm_filename m);
           member_path = (if single_root then \<lparr>p_root = [], p_tail = tl (path_parts path)\<rparr> else path)
       in bindA (safeA e container_dir member_path) (\<lambda>target.
          thenA (mkdir_parents (work_dir e) (path_parent target))
         (case zm_open_error m of
            Some err \<Rightarrow> raise err
          | None \<Rightarrow>
              thenA (write_file (work_dir e) target (zm_data m))
                    (case zm_error m of None \<Rightarrow> ret () | Some err \<Rightarrow> raise err))))"

definition extract_zip ::
  "(string \<Rightarrow> exn + zip_member list) \<Rightarrow> env \<Rightarrow> ppath \<Rightarrow> ppath \<Rightarrow> (fs, unit) action" where
  "extract_zip unzip e archive_path extract_dir =
    bindA (\<lambda>fs. (read_file fs (work_dir e) archive_path, fs)) (\<lambda>bytes.
    bindA (liftA (unzip bytes)) (\<lambda>z.
      let roots = get_zip_roots z;
          single = (length roots = 1);
          container_name = (if single then hd roots else path_stem archive_path)
      in bindA (safeA e extract_dir (Path container_name)) (\<lambda>container.
         bindA (freshA e container) (\<lambda>container_dir.
         thenA (mkdir_parents (work_dir e) container_dir)
               (forA (extract_member e container_dir single) z)))))"

section \<open>Listing, deleting, copying\<close>

record file_info =
  fi_is_folder :: bool
  fi_path :: string
  fi_name :: string
  fi_created :: int
  fi_updated :: int
  fi_size :: "nat option"

definition file_info_of ::
  "(ppath \<Rightarrow> int \<times> int) \<Rightarrow> env \<Rightarrow> ppath \<Rightarrow> ppath \<Rightarrow> (fs, file_info) action" where
  "file_info_of stamps e root path =
    bindA (\<lambda>fs. (os_stat fs (work_dir e) path, fs)) (\<lambda>_.
    bindA (getA (\<lambda>fs. is_dir fs (work_dir e) path)) (\<lambda>dir.
    bindA (getA (\<lambda>fs. file_size fs (work_dir e) path)) (\<lambda>size.
    bindA (liftA (relative_to path root)) (\<lambda>rel.
    ret \<lparr>fi_is_folder = dir, fi_path = path_str rel, fi_name = path_name path,
         fi_created = fst (stamps path), fi_updated = snd (stamps path),
         fi_size = (if dir then None else Some size)\<rparr>))))"

definition list_miniverse_files ::
  "(ppath \<Rightarrow> int \<times> int) \<Rightarrow> env \<Rightarrow> miniverse \<Rightarrow> ppath \<Rightarrow> (fs, file_info list option) action" where
  "list_miniverse_files stamps e mv user_path =
    bindA (safeA e (data_dir e mv) user_path) (\<lambda>safe_path.
    bindA (getA (\<lambda>fs. (exists fs (work_dir e) safe_path, is_file fs (work_dir e) safe_path))) (\<lambda>(ex, file).
    if \<not> ex then raise ValueError
    else if file then ret None
    else bindA (getA (\<lambda>fs. glob_all fs (work_dir e) safe_path)) (\<lambda>paths.
         bindA (mapA (file_info_of stamps e (data_dir e mv)) paths) (\<lambda>files.
         ret (Some files)))))"

definition delete_one :: "env \<Rightarrow> ppath \<Rightarrow> (fs, unit) action" where
  "delete_one e safe_path =
    (\<lambda>fs. if exists fs (work_dir e) safe_path
          then (if is_dir fs (work_dir e) safe_path then rmtree (work_dir e) safe_path
                else unlink (work_dir e) safe_path) fs
          else (Inr (), fs))"

definition delete_miniverse_files :: "env \<Rightarrow> miniverse \<Rightarrow> ppath list \<Rightarrow> (fs, unit) action" where
  "delete_miniverse_files e mv paths =
    bindA (mapA (safeA e (data_dir e mv)) paths) (\<lambda>safe_paths.
    forA (delete_one e) safe_paths)"

definition copy_one :: "nat \<Rightarrow> env \<Rightarrow> ppath \<Rightarrow> ppath \<Rightarrow> (fs, unit) action" where
  "copy_one depth e safe_destination src =
    (\<lambda>fs. if \<not> exists fs (work_dir e) src then (Inr (), fs)
          else bindA (freshA e (path_child safe_destination (path_name src))) (\<lambda>dst.
               bindA (getA (\<lambda>fs. is_dir fs (work_dir e) src)) (\<lambda>dir.
               if dir then copytree (work_dir e) depth src dst else copy2 (work_dir e) src dst)) fs)"

definition copy_miniverse_files ::
  "nat \<Rightarrow> env \<Rightarrow> miniverse \<Rightarrow> ppath list \<Rightarrow> ppath \<Rightarrow> (fs, unit) action" where
  "copy_miniverse_files depth e mv paths destination_path =
    bindA (mapA (safeA e (data_dir e mv)) paths) (\<lambda>safe_paths.
    bindA (safeA e (data_dir e mv) destination_path) (\<lambda>safe_destination.
    forA (copy_one depth e safe_destination) safe_paths))"

definition transform_safe_miniverse_files ::
  "env \<Rightarrow> miniverse \<Rightarrow> ppath list \<Rightarrow> (fs, ppath list) action" where
  "transform_safe_miniverse_files e mv paths = mapA (safeA e (data_dir e mv)) paths"

section \<open>Downloads\<close>

text \<open>\<open>urllib.parse.quote(s, safe="/")\<close>\<close>

definition hex_digit :: "nat \<Rightarrow> char" where
  "hex_digit n = ''0123456789ABCDEF'' ! n"

definition percent :: "char \<Rightarrow> string" where
  "percent c = (let n = of_char c :: nat in [CHR ''%'', hex_digit (n div 16), hex_digit (n mod 16)])"

definition unreserved :: "char \<Rightarrow> bool" where
  "unreserved c \<longleftrightarrow> is_digit c \<or> c \<in> set ''_.-~/'' \<or>
     (let n = of_char (upper_char c) :: nat in 65 \<le> n \<and> n \<le> 90)"

definition quote :: "string \<Rightarrow> string" where
  "quote s = concat (map (\<lambda>c. if unreserved c then [c] else percent c) (utf8 s))"

definition manifest_line :: "nat \<Rightarrow> ppath \<Rightarrow> ppath \<Rightarrow> string" where
  "manifest_line sz nginx_path zip_path =
     ''- '' @ str_of_nat sz @ '' /internal/'' @ quote (path_str nginx_path) @ '' '' @ path_str zip_path"

definition add_to_manifest :: "env \<Rightarrow> ppath \<Rightarrow> ppath \<Rightarrow> (fs, string) action" where
  "add_to_manifest e parent path =
    bindA (\<lambda>fs. (os_stat fs (work_dir e) path, fs)) (\<lambda>_.
    bindA (getA (\<lambda>fs. file_size fs (work_dir e) path)) (\<lambda>size.
    bindA (liftA (relative_to path (DATA_PATH e))) (\<lambda>nginx_path.
    bindA (liftA (relative_to path parent)) (\<lambda>zip_path.
    ret (manifest_line size nginx_path zip_path)))))"

record response =
  resp_content :: string
  resp_headers :: "(string \<times> string) list"

text \<open>The files of an archive: a file itself, and the files below a directory.\<close>

definition archive_files :: "fs \<Rightarrow> path \<Rightarrow> ppath \<Rightarrow> ppath list" where
  "archive_files fs cwd path =
    (if is_file fs cwd path then [path]
     else if is_dir fs cwd path then filter (is_file fs cwd) (rglob_all fs cwd path)
     else [])"

definition download_files :: "env \<Rightarrow> ppath list \<Rightarrow> (fs, response) action" where
  "download_files e paths =
    bindA (getA (\<lambda>fs. length paths = 1 \<and> is_file fs (work_dir e) (hd paths))) (\<lambda>single.
    if single then
      bindA (liftA (relative_to (hd paths) (DATA_PATH e))) (\<lambda>rel.
      ret \<lparr>resp_content = [],
           resp_headers =
             [(''X-Accel-Redirect'', ''/internal/'' @ path_str rel),
              (''Content-Type'', ''application/octet-stream''),
              (''Content-Disposition'',
               ''attachment; filename='' @ [CHR 0x22] @ path_name (hd paths) @ [CHR 0x22])]\<rparr>)
    else
      bindA (getA (\<lambda>fs. concat (map (\<lambda>path. map (\<lambda>f. (path_parent path, f))
                                       (archive_files fs (work_dir e) path)) paths))) (\<lambda>files.
      bindA (mapA (\<lambda>(parent, f). add_to_manifest e parent f) files) (\<lambda>manifest.
      ret \<lparr>resp_content = join_with newline manifest @ [newline],
           resp_headers =
             [(''X-Archive-Files'', ''zip''),
              (''Content-Type'', ''application/zip''),
              (''Content-Disposition'',
               ''attachment; filename='' @ [CHR 0x22] @ ''archive.zip'' @ [CHR 0x22])]\<rparr>)))"

section \<open>Uploading, extracting, compressing\<close>

definition upload_miniverse_file ::
  "env \<Rightarrow> miniverse \<Rightarrow> string \<Rightarrow> string \<Rightarrow> ppath \<Rightarrow> (fs, unit) action" where
  "upload_miniverse_file e mv file_id filename destination =
    bindA (safeA e (data_dir e mv) destination) (\<lambda>dest_path.
    bindA (getA (\<lambda>fs. is_file fs (work_dir e) dest_path)) (\<lambda>file.
    if file then raise ValueError
    else
      thenA (mkdir_parents (work_dir e) dest_path)
     (bindA (safeA e dest_path (Path filename)) (\<lambda>target0.
      thenA (mkdir_parents (work_dir e) (path_parent target0))
     (bindA (freshA e target0) (\<lambda>target.
      let tmp_path = path_child (path_child (DATA_PATH e) ''uploads'') file_id
      in bindA (liftA (with_suffix tmp_path ''.info'')) (\<lambda>info.
         thenA (unlink (work_dir e) info)
               (os_rename (work_dir e) tmp_path target))))))))"

definition extract_miniverse_archive ::
  "(string \<Rightarrow> exn + zip_member list) \<Rightarrow> env \<Rightarrow> miniverse \<Rightarrow> ppath \<Rightarrow> (fs, unit) action" where
  "extract_miniverse_archive unzip e mv path =
    bindA (safeA e (data_dir e mv) path) (\<lambda>file_to_extract.
    bindA (getA (\<lambda>fs. is_file fs (work_dir e) file_to_extract)) (\<lambda>file.
    if \<not> file then raise ValueError
    else if lower (path_suffix file_to_extract) = ''.zip''
         then extract_zip unzip e file_to_extract (path_parent file_to_extract)
    else raise ValueError))"

text \<open>
  The archive holds the files below the paths as the user wrote them (\<open>paths\<close>, not the mapped
  ones). They are listed before the destination is opened and read while it is written; the part of
  an archive that is on disk when reading fails is not modelled.
\<close>

definition compress_entries :: "fs \<Rightarrow> path \<Rightarrow> ppath list \<Rightarrow> (ppath \<times> ppath) list" where
  "compress_entries fs wd paths =
    concat (map (\<lambda>path. map (\<lambda>f. (f, path_parent path)) (archive_files fs wd path)) paths)"

definition compress_miniverse_files ::
  "((string \<times> string) list \<Rightarrow> string) \<Rightarrow> env \<Rightarrow> miniverse \<Rightarrow> ppath list \<Rightarrow> (fs, unit) action" where
  "compress_miniverse_files pack e mv paths =
    bindA (mapA (safeA e (data_dir e mv)) paths) (\<lambda>files_to_compress.
    if length (remdups (map path_parent files_to_compress)) \<noteq> 1 then raise ValueError
    else
      let destination_name =
        (if length files_to_compress = 1 then path_name (hd files_to_compress) @ ''.zip''
         else ''Archive.zip'')
      in bindA (freshA e (path_child (path_parent (hd files_to_compress)) destination_name)) (\<lambda>destination.
         bindA (getA (\<lambda>fs. compress_entries fs (work_dir e) paths)) (\<lambda>entries.
         bindA (mapA (\<lambda>(f, parent). bindA (liftA (relative_to f parent)) (\<lambda>arcname.
                                   ret (f, path_str arcname))) entries) (\<lambda>named.
         thenA (write_file (work_dir e) destination [])
        (bindA (mapA (\<lambda>(f, arcname). bindA (\<lambda>fs. (read_file fs (work_dir e) f, fs)) (\<lambda>bytes.
                                   ret (arcname, bytes))) named) (\<lambda>z.
         write_file (work_dir e) destination (pack z)))))))"

section \<open>Single files\<close>

definition rename_file :: "env \<Rightarrow> miniverse \<Rightarrow> ppath \<Rightarrow> string \<Rightarrow> (fs, unit) action" where
  "rename_file e mv path new_name =
    bindA (safeA e (data_dir e mv) path) (\<lambda>file_to_rename.
    bindA (liftA (with_name path new_name)) (\<lambda>new_path.
    bindA (safeA e (data_dir e mv) new_path) (\<lambda>new_path_safe.
    bindA (getA (\<lambda>fs. exists fs (work_dir e) new_path_safe)) (\<lambda>ex.
    if ex then raise ValueError else os_rename (work_dir e) file_to_rename new_path_safe))))"

definition get_file_content :: "env \<Rightarrow> miniverse \<Rightarrow> ppath \<Rightarrow> (fs, ppath) action" where
  "get_file_content e mv path =
    bindA (safeA e (data_dir e mv) path) (\<lambda>file_to_read.
    bindA (getA (\<lambda>fs. (is_dir fs (work_dir e) file_to_read, is_file fs (work_dir e) file_to_read,
                       file_size fs (work_dir e) file_to_read))) (\<lambda>(dir, file, size).
    if dir then raise ValueError
    else if file then (if size \<ge> 15000000 then raise (HTTPException 480) else ret file_to_read)
    else raise ValueError))"

definition set_file_content :: "env \<Rightarrow> miniverse \<Rightarrow> ppath \<Rightarrow> string \<Rightarrow> (fs, unit) action" where
  "set_file_content e mv path content =
    bindA (safeA e (data_dir e mv) path) (\<lambda>file_to_write.
    bindA (getA (\<lambda>fs. (is_dir fs (work_dir e) file_to_write, is_file fs (work_dir e) file_to_write)))
      (\<lambda>(dir, file).
    if dir then raise ValueError
    else if file then write_file (work_dir e) file_to_write (utf8 content)
    else raise ValueError))"

end
