(* ===== verification/SafePaths.thy ===== *)
theory SafePaths
  imports Files
begin

text \<open>
  The two path functions of \<open>files_service.py\<close>: where \<open>safe_user_path\<close> leads, with links and
  without, and that \<open>change_path_name_if_exists\<close> ends with a free name. What the renaming needs
  of its candidate names is the locale \<open>name_supply\<close>, interpreted on both name formats.
\<close>

section \<open>Where a path of the user leads\<close>

definition base_of :: "fs \<Rightarrow> path \<Rightarrow> ppath \<Rightarrow> path" where
  "base_of fs wd root = fst (realpath fs wd root)"

definition mapped :: "fs \<Rightarrow> path \<Rightarrow> ppath \<Rightarrow> ppath \<Rightarrow> ppath" where
  "mapped fs wd root p = joinpath (resolve fs wd root) (under_dot p)"

definition loop_free :: "fs \<Rightarrow> path \<Rightarrow> ppath \<Rightarrow> ppath \<Rightarrow> bool" where
  "loop_free fs wd root p \<longleftrightarrow> \<not> link_loop fs wd (mapped fs wd root p)"

lemma under_dot_root [simp]: "p_root (under_dot p) = []"
  by (simp add: under_dot_def Path_def splitroot_def sep_def)

lemma clean_under_dot [simp]: "clean (under_dot p)"
  unfolding under_dot_def by (rule clean_Path)

lemma under_dot_tail: "clean p \<Longrightarrow> set (p_root p) \<subseteq> {sep} \<Longrightarrow> p_tail (under_dot p) = p_tail p"
  unfolding under_dot_def by (subst Path_dot_slash) simp_all

lemma mapped_abs:
  "mapped fs wd root p = abs_path (base_of fs wd root @ p_tail (under_dot p))"
  by (simp add: mapped_def joinpath_def resolve_def abs_path_def base_of_def)

lemma base_proper: "clean root \<Longrightarrow> proper wd \<Longrightarrow> proper (base_of fs wd root)"
  by (simp add: base_of_def realpath_proper)

lemma clean_abs_path: "proper t \<Longrightarrow> clean (abs_path t)"
  by (simp add: clean_def abs_path_def proper_def proper_part_def)

lemma clean_mapped: "clean root \<Longrightarrow> proper wd \<Longrightarrow> clean (mapped fs wd root p)"
  unfolding mapped_def resolve_def
  by (simp add: clean_abs_path realpath_proper)

lemma realpath_abs: "realpath fs wd (abs_path t) = realpath_loop fs [] False [] (map Part t)"
  by (simp add: realpath_def abs_path_def start_dir_def)

lemma seen_proper_Nil: "seen_proper []"
  by (simp add: seen_proper_def)

lemma safe_user_pathD:
  assumes "safe_user_path fs wd root p = Inr t" "clean root" "proper wd"
  obtains q where "t = abs_path q" "prefix (base_of fs wd root) q" "proper q"
    "q = fst (realpath fs wd (mapped fs wd root p))"
proof
  let ?q = "fst (realpath fs wd (mapped fs wd root p))"
  show "t = abs_path ?q" "prefix (base_of fs wd root) ?q"
    using assms(1)
    by (simp_all add: safe_user_path_def Let_def mapped_def resolve_def is_relative_to_def
        abs_path_def base_of_def split: if_split_asm)
  have clean_work: "list_all work_ok (map Part (base_of fs wd root @ p_tail (under_dot p)))"
    using clean_mapped [OF assms(2,3), of fs p]
    by (auto simp: mapped_abs clean_def abs_path_def clean_part_def list_all_iff)
  show "proper ?q"
    unfolding mapped_abs realpath_abs
    by (rule realpath_loop_proper [OF _ clean_work seen_proper_Nil]) simp
qed simp

lemma safe_target:
  assumes "safe_user_path fs wd root p = Inr t" "clean root" "proper wd" "loop_free fs wd root p"
  obtains q where "t = abs_path q" "target_in (base_of fs wd root) fs q"
proof -
  from assms(1-3) obtain q where q: "t = abs_path q" "prefix (base_of fs wd root) q" "proper q"
    "q = fst (realpath fs wd (mapped fs wd root p))"
    by (rule safe_user_pathD)
  have "physical fs q"
    using assms(4) q(4) realpath_loop_physical [of fs "[]" False "[]"]
    by (simp add: loop_free_def link_loop_def mapped_abs realpath_abs)
  with q that show ?thesis by (auto simp: target_in_def)
qed

text \<open>
  Property C4 (user_paths_are_confined). Whatever a user path contains (\<open>..\<close>, an absolute path, links), an accepted
  path is below the resolved data directory, and the kernel reaches exactly that path: neither
  opening it nor acting on its entry leaves the directory. The hypothesis excludes link loops.
\<close>

theorem user_paths_are_confined:
  assumes "safe_user_path fs wd root p = Inr t" "clean root" "proper wd" "loop_free fs wd root p"
  shows "\<exists>q. t = abs_path q \<and> prefix (base_of fs wd root) q \<and>
    (\<forall>k. kernel_path fs wd t = Inr k \<longrightarrow> k = q) \<and> (\<forall>k. entry_path fs wd t = Inr k \<longrightarrow> k = q)"
proof -
  from assms obtain q where q: "t = abs_path q" "target_in (base_of fs wd root) fs q"
    by (rule safe_target)
  with kernel_path_physical entry_path_physical show ?thesis
    by (fastforce simp: target_in_def)
qed

section \<open>Without links the mapping is lexical\<close>

definition no_links :: "fs \<Rightarrow> bool" where
  "no_links fs \<longleftrightarrow> list_all (\<lambda>(k, v). case v of Symlink _ \<Rightarrow> False | _ \<Rightarrow> True) fs"

lemma no_linksD: "no_links fs \<Longrightarrow> \<not> is_link fs q"
  by (auto simp: no_links_def is_link_def node_at_def list_all_iff dest!: map_of_SomeD
      split: option.splits node.splits)

lemma normalize_proper: "proper q \<Longrightarrow> normalize p (q @ ns) = normalize (p @ q) ns"
proof (induction q arbitrary: p)
  case (Cons x q)
  then show ?case using proper_partD [of x] by simp
qed simp

lemma no_links_loop_free: "no_links fs \<Longrightarrow> loop_free fs wd root p"
  by (simp add: loop_free_def link_loop_def realpath_def realpath_loop_no_links no_linksD)

lemma base_no_links: "no_links fs \<Longrightarrow> base_of fs wd root = normalize (start_dir wd root) (p_tail root)"
  by (simp add: base_of_def realpath_def realpath_loop_no_links no_linksD)

lemma mapped_no_links:
  assumes "no_links fs" "clean root" "proper wd" "clean p" "set (p_root p) \<subseteq> {sep}"
  shows "fst (realpath fs wd (mapped fs wd root p)) = normalize (base_of fs wd root) (p_tail p)"
  using assms no_linksD [OF assms(1)] base_proper [OF assms(2,3), of fs]
  by (simp add: mapped_abs realpath_abs under_dot_tail realpath_loop_no_links normalize_proper
      flip: map_append)

lemma safe_user_path_eq:
  "safe_user_path fs wd root p =
    (let q = fst (realpath fs wd (mapped fs wd root p))
     in if prefix (base_of fs wd root) q then Inr (abs_path q) else Inl ValueError)"
  by (simp add: safe_user_path_def Let_def resolve_def mapped_def is_relative_to_def base_of_def
      abs_path_def)

lemma safe_inside:
  assumes "no_links fs" "clean root" "proper wd" "proper (p_tail p)" "set (p_root p) \<subseteq> {sep}"
  shows "safe_user_path fs wd root p = Inr (abs_path (base_of fs wd root @ p_tail p))"
proof -
  have "clean p" using assms(4) by (simp add: clean_def proper_def proper_part_def)
  then show ?thesis
    using mapped_no_links [OF assms(1-3) _ assms(5)]
      normalize_proper [OF assms(4), of "base_of fs wd root" "[]"]
    by (simp add: safe_user_path_eq)
qed

text \<open>
  Property C29 (user_paths_are_lexical). In a tree without links, \<open>safe_user_path\<close> is the lexical normalisation of the
  path below the data directory: it accepts a path exactly when the normal form stays inside, even
  when an intermediate step leaves it.
\<close>

theorem user_paths_are_lexical:
  assumes "no_links fs" "clean root" "proper wd" "clean p" "set (p_root p) \<subseteq> {sep}"
  shows "safe_user_path fs wd root p =
    (let b = normalize (start_dir wd root) (p_tail root); q = normalize b (p_tail p)
     in if prefix b q then Inr (abs_path q) else Inl ValueError)"
  using mapped_no_links [OF assms] base_no_links [OF assms(1)]
  by (simp add: safe_user_path_eq Let_def)

section \<open>Fresh names\<close>

text \<open>
  What \<open>change_path_name_if_exists\<close> needs of its candidate names: each counter value gives
  another name, and each name is an ordinary component.
\<close>

locale name_supply =
  fixes cand :: "string \<Rightarrow> nat \<Rightarrow> string"
  assumes distinct_names: "cand s i = cand s j \<Longrightarrow> i = j"
    and ordinary: "sep \<notin> set s \<Longrightarrow> proper_part (cand s i)"
begin

lemma infinitely_many: "finite S \<Longrightarrow> \<exists>i \<ge> m. cand s i \<notin> S"
proof (rule ccontr)
  assume fin: "finite S" and "\<not> ?thesis"
  then have "cand s ` {m..} \<subseteq> S" by auto
  then have "finite (cand s ` {m..})" using fin by (rule finite_subset)
  moreover have "inj_on (cand s) {m..}" by (rule inj_onI) (rule distinct_names)
  ultimately have "finite {m..}" by (rule finite_imageD)
  then show False using infinite_Ici by blast
qed

lemma some_free:
  assumes "sep \<notin> set s" "finite S" "\<And>x. proper_part x \<Longrightarrow> taken x \<Longrightarrow> x \<in> S"
  shows "\<exists>i \<ge> m. \<not> taken (cand s i)"
  using infinitely_many [OF assms(2)] assms(3) [OF ordinary [OF assms(1)]] by blast

end

lemma proper_part_long: "2 < length x \<Longrightarrow> sep \<notin> set x \<Longrightarrow> proper_part x"
  by (auto simp: proper_part_def clean_part_def keep_part_def)

lemma sep_not_digit: "\<not> is_digit sep"
  by (simp add: sep_def is_digit_def)

lemma numbered_sep: "sep \<notin> set s \<Longrightarrow> sep \<notin> set (numbered s i)"
  using str_of_nat_digits [of i] sep_not_digit by (auto simp: numbered_def sep_def)

interpretation numbered_dirs: name_supply numbered
proof
  fix s i j
  show "numbered s i = numbered s j \<Longrightarrow> i = j"
    by (simp add: numbered_def)
next
  fix s i
  assume s: "sep \<notin> set s"
  show "proper_part (numbered s i)"
    by (rule proper_part_long) (simp add: numbered_def, rule numbered_sep [OF s])
qed

lemma split_suffix_sep: "sep \<notin> set s \<Longrightarrow> sep \<notin> set (fst (split_suffix s)) \<and> sep \<notin> set (snd (split_suffix s))"
  using split_suffix_append [of s] by (metis Un_iff set_append)

interpretation numbered_files: name_supply numbered_file
proof
  fix s i j
  show "numbered_file s i = numbered_file s j \<Longrightarrow> i = j"
    by (simp add: numbered_file_def numbered_def)
next
  fix s i
  assume s: "sep \<notin> set s"
  show "proper_part (numbered_file s i)"
    by (rule proper_part_long)
      (simp add: numbered_file_def numbered_def, simp add: numbered_file_def numbered_sep split_suffix_sep [OF s])
qed

text \<open>A name that exists is the last component of some entry of the tree.\<close>

lemma namei_last_entry:
  "namei fs n cur cs = Inr q \<Longrightarrow> node_at fs q \<noteq> None \<Longrightarrow> cs \<noteq> [] \<Longrightarrow> proper_part (last cs) \<Longrightarrow>
   \<exists>d. node_at fs (d @ [last cs]) \<noteq> None"
proof (induction fs n cur cs rule: namei.induct)
  case (2 fs n cur c cs)
  show ?case
  proof (cases "cs = []")
    case True
    with 2 show ?thesis
      using proper_partD [of c]
      by (auto split: if_splits option.splits node.splits nat.splits)
  next
    case False
    with 2 show ?thesis
      by (auto split: if_splits option.splits node.splits nat.splits)
  qed
qed simp

lemma existing_names_finite:
  "exists fs wd (p\<lparr>p_tail := xs @ [x]\<rparr>) \<Longrightarrow> proper_part x \<Longrightarrow> x \<in> last ` fst ` set fs"
  using namei_last_entry [of fs 40 "start_dir wd p" "xs @ [x]"]
  by (force simp: exists_def stat_node_def kernel_path_def start_dir_def node_at_def
      split: sum.splits if_splits dest!: map_of_SomeD)

lemma renamed_eq:
  assumes "clean p"
  shows "\<exists>x. renamed fs wd p i = (path_parent p)\<lparr>p_tail := p_tail (path_parent p) @ [x]\<rparr> \<and>
    x = (if is_dir fs wd p then numbered else numbered_file) (path_name p) i \<and> proper_part x"
proof -
  have "sep \<notin> set (path_name p)"
    using assms by (auto simp: path_name_def clean_def clean_part_def)
  then have "proper_part ((if is_dir fs wd p then numbered else numbered_file) (path_name p) i)"
    by (simp add: numbered_dirs.ordinary numbered_files.ordinary)
  then show ?thesis by (simp add: renamed_def child_clean proper_part_def)
qed

lemma renamed_free: "clean p \<Longrightarrow> \<exists>i \<ge> m. \<not> exists fs wd (renamed fs wd p i)"
proof -
  assume c: "clean p"
  let ?taken = "\<lambda>x. exists fs wd ((path_parent p)\<lparr>p_tail := p_tail (path_parent p) @ [x]\<rparr>)"
  have s: "sep \<notin> set (path_name p)"
    using c by (auto simp: path_name_def clean_def clean_part_def)
  have fin: "finite (last ` fst ` set fs)" by simp
  have "\<exists>i \<ge> m. \<not> ?taken ((if is_dir fs wd p then numbered else numbered_file) (path_name p) i)"
    using numbered_dirs.some_free [OF s fin, of ?taken m]
      numbered_files.some_free [OF s fin, of ?taken m] existing_names_finite
    by auto
  with renamed_eq [OF c] show ?thesis by metis
qed

lemma change_loop_finds:
  "\<not> exists fs wd (renamed fs wd p (i + k)) \<Longrightarrow> 
   \<exists>q. change_loop fs wd p i (renamed fs wd p i) = Some q \<and> \<not> exists fs wd q \<and>
     (\<exists>j. q = renamed fs wd p j)"
proof (induction k arbitrary: i)
  case (Suc k)
  show ?case
  proof (cases "exists fs wd (renamed fs wd p i)")
    case True
    have "\<not> exists fs wd (renamed fs wd p (i + 1 + k))" using Suc.prems by simp
    from Suc.IH [OF this] True show ?thesis by (subst change_loop.simps) simp
  next
    case False
    then show ?thesis by (subst change_loop.simps) auto
  qed
qed (subst change_loop.simps, auto)

lemma change_path_cases:
  assumes "clean p"
  obtains (free) "\<not> exists fs wd p" "change_path_name_if_exists fs wd p = Some p"
  | (taken) x q where "exists fs wd p" "change_path_name_if_exists fs wd p = Some q" "proper_part x"
      "\<not> exists fs wd q" "q = (path_parent p)\<lparr>p_tail := p_tail (path_parent p) @ [x]\<rparr>"
proof (cases "exists fs wd p")
  case True
  obtain k where "\<not> exists fs wd (renamed fs wd p (2 + k))"
    using renamed_free [OF assms, of 2] le_Suc_ex by blast
  from change_loop_finds [OF this] obtain q j where
    q: "change_loop fs wd p 2 (renamed fs wd p 2) = Some q" "\<not> exists fs wd q" "q = renamed fs wd p j"
    by blast
  have "change_path_name_if_exists fs wd p = Some q"
    unfolding change_path_name_if_exists_def using True q(1)
    by (subst change_loop.simps) (simp add: numeral_2_eq_2)
  with q(2,3) True taken renamed_eq [OF assms] show ?thesis by metis
next
  case False
  then have "change_path_name_if_exists fs wd p = Some p"
    unfolding change_path_name_if_exists_def by (subst change_loop.simps) simp
  with False show ?thesis by (rule free)
qed

text \<open>
  Property C26 (fresh_name_found). \<open>change_path_name_if_exists\<close> always ends: it returns a path that does not exist,
  in the same parent directory, and the path itself when that is free.
\<close>

theorem fresh_name_found:
  assumes "clean p"
  shows "\<exists>q. change_path_name_if_exists fs wd p = Some q \<and> \<not> exists fs wd q \<and>
    path_parent q = path_parent p \<and> (\<not> exists fs wd p \<longrightarrow> q = p)"
  using assms
proof (cases rule: change_path_cases [where fs = fs and wd = wd])
  case (taken x q)
  then show ?thesis by (cases "p_tail p = []") (auto simp: path_parent_def)
qed auto

end
