(* ===== verification/FileSafety.thy ===== *)
theory FileSafety
  imports SafePaths
begin

text \<open>
  What the operations of the file manager can change: deleting, writing, renaming, extracting and
  compressing, on every tree, and a concrete tree on which the properties are evaluated.
\<close>

section \<open>Deleting\<close>

definition shrinks :: "path \<Rightarrow> fs \<Rightarrow> fs \<Rightarrow> bool" where
  "shrinks b fs fs' \<longleftrightarrow> within b fs fs' \<and> (\<forall>q n. node_at fs' q = Some n \<longrightarrow> node_at fs q = Some n)"

lemma reflp_shrinks [simp]: "reflp (shrinks b)"
  by (auto simp: reflp_def shrinks_def)

lemma transp_shrinks [simp]: "transp (shrinks b)"
  by (rule transpI) (auto simp: shrinks_def intro: within_trans)

lemma shrinks_link: "shrinks b fs fs' \<Longrightarrow> is_link fs' q \<Longrightarrow> is_link fs q"
  by (auto simp: shrinks_def is_link_def split: option.splits node.splits)

lemma shrinks_target: "target_in c fs t \<Longrightarrow> shrinks b fs fs' \<Longrightarrow> target_in c fs' t"
  by (auto simp: target_in_def physical_def dest: shrinks_link)

lemma shrinks_chain: "shrinks b fs fs' \<Longrightarrow> dir_chain fs' p \<Longrightarrow> dir_chain fs p"
  by (auto simp: shrinks_def dir_chain_def)

lemma shrinks_not_exists:
  assumes "target_in c fs t" "\<not> exists fs wd (abs_path t)" "shrinks b fs fs'"
  shows "\<not> exists fs' wd (abs_path t)"
proof -
  have "target_in c fs' t" using assms(1,3) by (rule shrinks_target)
  moreover have "node_at fs t = None \<longrightarrow> node_at fs' t = None"
    using assms(3) by (cases "node_at fs' t") (auto simp: shrinks_def)
  ultimately show ?thesis
    using assms shrinks_chain [OF assms(3)]
    by (auto simp: target_in_def exists_physical)
qed

lemma shrinks_del: "prefix b p \<Longrightarrow> p \<noteq> [] \<Longrightarrow> shrinks b fs (del fs p)"
  by (auto simp: shrinks_def within_del fs_simps)

lemma shrinks_del_tree: "prefix b p \<Longrightarrow> shrinks b fs (del_tree fs p)"
  by (auto simp: shrinks_def within_del_tree fs_simps)

lemma delete_one_target:
  assumes "target_in b fs t"
  shows "shrinks b fs (snd (delete_one e (abs_path t) fs))"
    and "delete_one e (abs_path t) fs = (Inr (), fs') \<Longrightarrow> \<not> exists fs' (work_dir e) (abs_path t)"
proof -
  note t = assms [unfolded target_in_def]
  have entry: "entry_path fs (work_dir e) (abs_path t) = Inr q \<Longrightarrow> q = t \<and> t \<noteq> []" for q
    using t entry_path_physical by blast
  have "shrinks b fs (snd (delete_one e (abs_path t) fs)) \<and>
     (delete_one e (abs_path t) fs = (Inr (), fs') \<longrightarrow> exists fs (work_dir e) (abs_path t) \<longrightarrow>
      target_in b fs' t \<and> node_at fs' t = None)"
    using entry t shrinks_target [OF assms shrinks_del [of b t fs]]
      shrinks_target [OF assms shrinks_del_tree [of b t fs]] reflpD [OF reflp_shrinks, of b fs]
    by (auto simp: delete_one_def rmtree_def unlink_def shrinks_del shrinks_del_tree fs_simps
        split: sum.splits option.splits node.splits if_splits)
  moreover have "\<not> exists fs (work_dir e) (abs_path t) \<Longrightarrow> delete_one e (abs_path t) fs = (Inr (), fs)"
    by (simp add: delete_one_def)
  ultimately show "shrinks b fs (snd (delete_one e (abs_path t) fs))"
    and "delete_one e (abs_path t) fs = (Inr (), fs') \<Longrightarrow> \<not> exists fs' (work_dir e) (abs_path t)"
    by (auto simp: exists_physical target_in_def)
qed

lemma safeA_pure: "safeA e root p fs = (safe_user_path fs (work_dir e) root p, fs)"
  by (simp add: safeA_def)

definition env_ok :: "env \<Rightarrow> bool" where
  "env_ok e \<longleftrightarrow> clean (DATA_PATH e) \<and> proper (work_dir e)"

abbreviation data_root :: "env \<Rightarrow> miniverse \<Rightarrow> fs \<Rightarrow> path" where
  "data_root e mv fs \<equiv> base_of fs (work_dir e) (data_dir e mv)"

lemma clean_data_dir: "env_ok e \<Longrightarrow> clean (data_dir e mv)"
  by (simp add: env_ok_def data_dir_def)

lemma safe_data_target:
  assumes "safe_user_path fs (work_dir e) (data_dir e mv) p = Inr t" "env_ok e"
    "loop_free fs (work_dir e) (data_dir e mv) p"
  obtains q where "t = abs_path q" "target_in (data_root e mv fs) fs q"
  using safe_target [OF assms(1) clean_data_dir [OF assms(2)] _ assms(3)] assms(2)
  by (auto simp: env_ok_def)

lemma all2_set: "list_all2 P xs ys \<Longrightarrow> \<forall>x \<in> set xs. \<exists>y \<in> set ys. P x y"
  by (induction xs ys rule: list_all2_induct) auto

lemma all2_set': "list_all2 P xs ys \<Longrightarrow> \<forall>y \<in> set ys. \<exists>x \<in> set xs. P x y"
  by (induction xs ys rule: list_all2_induct) auto

definition is_target :: "path \<Rightarrow> ppath \<Rightarrow> fs \<Rightarrow> bool" where
  "is_target b t fs \<longleftrightarrow> (\<exists>q. t = abs_path q \<and> target_in b fs q)"

lemma delete_targets:
  assumes "\<forall>t \<in> set ts. is_target b t fs"
  shows "shrinks b fs (snd (forA (delete_one e) ts fs)) \<and>
    (fst (forA (delete_one e) ts fs) = Inr () \<longrightarrow>
       (\<forall>t \<in> set ts. \<not> exists (snd (forA (delete_one e) ts fs)) (work_dir e) t))"
proof -
  have stable: "is_target b t s \<Longrightarrow> shrinks b s s' \<Longrightarrow> is_target b t s'" for t s s'
    by (auto simp: is_target_def dest: shrinks_target)
  have step: "is_target b t s \<Longrightarrow> shrinks b s (snd (delete_one e t s))" for t s
    by (auto simp: is_target_def delete_one_target)
  have "\<forall>t \<in> set ts. \<not> exists fs' (work_dir e) t"
    if "forA (delete_one e) ts fs = (Inr (), fs')" for fs'
  proof -
    have "shrinks b fs fs' \<and> (\<forall>t \<in> set ts. \<not> exists fs' (work_dir e) t)"
    proof (rule forA_post [where P = "is_target b" and f = "delete_one e" and R = "shrinks b"
          and Q = "\<lambda>t s. \<not> exists s (work_dir e) t"])
      fix s s' t
      assume "is_target b t s" "delete_one e t s = (Inr (), s')"
      then show "shrinks b s s' \<and> \<not> exists s' (work_dir e) t"
        using step [of t s] delete_one_target(2) by (auto simp: is_target_def)
    next
      fix s s' t
      assume "is_target b t s" "\<not> exists s (work_dir e) t" "shrinks b s s'"
      then show "\<not> exists s' (work_dir e) t"
        using shrinks_not_exists by (auto simp: is_target_def)
    qed (use assms stable that in auto)
    then show ?thesis by blast
  qed
  moreover have "shrinks b fs (snd (forA (delete_one e) ts fs))"
    by (rule forA_rel [where P = "is_target b"]) (use assms stable step in auto)
  ultimately show ?thesis by (cases "forA (delete_one e) ts fs") auto
qed

text \<open>Mapping a list of user paths leaves the tree alone and yields targets.\<close>

lemma safe_targets:
  assumes "env_ok e" "\<forall>p \<in> set paths. loop_free fs (work_dir e) (data_dir e mv) p"
  obtains (bad) x where "mapA (safeA e (data_dir e mv)) paths fs = (Inl x, fs)"
  | (good) ts where "mapA (safeA e (data_dir e mv)) paths fs = (Inr ts, fs)"
      "\<forall>t \<in> set ts. is_target (data_root e mv fs) t fs"
      "list_all2 (\<lambda>p t. safe_user_path fs (work_dir e) (data_dir e mv) p = Inr t) paths ts"
proof (cases "mapA (safeA e (data_dir e mv)) paths fs")
  case (Pair r fs')
  have pure: "fs' = fs"
    using mapA_pure(1) [of "safeA e (data_dir e mv)" fs paths] Pair by (simp add: safeA_pure)
  show ?thesis
  proof (cases r)
    case (Inl x)
    with bad pure Pair show ?thesis by simp
  next
    case (Inr ts)
    have ts: "list_all2 (\<lambda>p t. safe_user_path fs (work_dir e) (data_dir e mv) p = Inr t) paths ts"
      using mapA_pure(2) [of "safeA e (data_dir e mv)" fs paths ts] Pair Inr
      by (simp add: safeA_pure)
    have "is_target (data_root e mv fs) t fs" if tin: "t \<in> set ts" for t
    proof -
      obtain p where "p \<in> set paths" "safe_user_path fs (work_dir e) (data_dir e mv) p = Inr t"
        using bspec [OF all2_set' [OF ts] tin] by auto
      note p = this
      from p(1) assms(2) have lf: "loop_free fs (work_dir e) (data_dir e mv) p" by (rule bspec [rotated])
      from p(2) assms(1) lf obtain q where "t = abs_path q" "target_in (data_root e mv fs) fs q"
        by (rule safe_data_target)
      then show ?thesis unfolding is_target_def by blast
    qed
    with pure Pair Inr show ?thesis by (intro good [OF _ _ ts]) simp_all
  qed
qed

text \<open>
  Property C10 (deletion_is_confined). Deleting changes nothing outside the data directory, also when it fails midway,
  and after a successful call none of the paths exists.
\<close>

theorem deletion_is_confined:
  assumes "env_ok e" "\<forall>p \<in> set paths. loop_free fs (work_dir e) (data_dir e mv) p"
  shows "within (data_root e mv fs) fs (snd (delete_miniverse_files e mv paths fs)) \<and>
    (fst (delete_miniverse_files e mv paths fs) = Inr () \<longrightarrow>
       (\<forall>p \<in> set paths. \<exists>t. safe_user_path fs (work_dir e) (data_dir e mv) p = Inr t \<and>
          \<not> exists (snd (delete_miniverse_files e mv paths fs)) (work_dir e) t))"
  using assms
proof (cases rule: safe_targets)
  case (bad x)
  then show ?thesis by (simp add: delete_miniverse_files_def act_simps)
next
  case (good ts)
  have "delete_miniverse_files e mv paths fs = forA (delete_one e) ts fs"
    by (simp add: delete_miniverse_files_def act_simps good(1))
  with delete_targets [OF good(2), of e] all2_set [OF good(3)] show ?thesis
    by (auto simp: shrinks_def)
qed

section \<open>Single files\<close>

text \<open>The entry of a physical path exists only below existing directories.\<close>

lemma namei_chain:
  "physical fs (cur @ cs) \<Longrightarrow> proper cs \<Longrightarrow> dir_chain fs cur \<Longrightarrow>
   namei fs n cur cs = Inr q \<Longrightarrow> node_at fs q = Some Dir \<Longrightarrow> dir_chain fs (cur @ cs)"
proof (cases cs rule: rev_cases)
  case (snoc ds d)
  assume a: "physical fs (cur @ cs)" "proper cs" "dir_chain fs cur" "namei fs n cur cs = Inr q"
    "node_at fs q = Some Dir"
  then have "q = cur @ cs" using namei_physical by blast
  moreover have "dir_chain fs (cur @ ds)" using namei_reaches [OF a(1,2,3) _ a(4)] snoc by simp
  ultimately show ?thesis using snoc a(5) dir_chain_snoc [of fs "cur @ ds" d] by simp
qed simp

lemma entry_path_parent:
  assumes "physical fs t" "proper t" "entry_path fs wd (abs_path t) = Inr q"
  shows "dir_chain fs (butlast t)"
proof -
  have "physical fs (butlast t)" "proper (butlast t)"
    using assms(1,2) by (auto simp: physical_butlast proper_butlast)
  moreover from assms(3) obtain d where "namei fs 40 [] (butlast t) = Inr d" "node_at fs d = Some Dir"
    by (auto simp: entry_path_def abs_path_def start_dir_def split: if_splits sum.splits option.splits node.splits)
  ultimately show ?thesis using namei_chain [of fs "[]" "butlast t" 40 d] by simp
qed

text \<open>
  Writing a file either fails and changes nothing, or replaces the content of one
  existing file below the data directory and leaves every other entry as it was.
\<close>

theorem file_content_is_replaced:
  assumes "env_ok e" "loop_free fs (work_dir e) (data_dir e mv) p"
  shows "case set_file_content e mv p content fs of
      (Inl _, fs') \<Rightarrow> fs' = fs
    | (Inr _, fs') \<Rightarrow> \<exists>t c. safe_user_path fs (work_dir e) (data_dir e mv) p = Inr (abs_path t) \<and>
        prefix (data_root e mv fs) t \<and> node_at fs t = Some (File c) \<and>
        (\<forall>q. node_at fs' q = (if q = t then Some (File (utf8 content)) else node_at fs q))"
proof (cases "safe_user_path fs (work_dir e) (data_dir e mv) p")
  case (Inl x)
  then show ?thesis by (simp add: set_file_content_def act_simps safeA_pure)
next
  case (Inr t)
  from safe_data_target [OF this assms] obtain q where
    q: "t = abs_path q" "target_in (data_root e mv fs) fs q" .
  note tgt = q(2) [unfolded target_in_def]
  show ?thesis
  proof (cases "is_file fs (work_dir e) t \<and> \<not> is_dir fs (work_dir e) t")
    case True
    then obtain c where c: "q \<noteq> []" "dir_chain fs (butlast q)" "node_at fs q = Some (File c)"
      using tgt q(1) is_file_physical by blast
    then have "kernel_path fs (work_dir e) t = Inr q"
      using kernel_path_chain [of fs q] tgt q(1) by simp
    with True c Inr q(1) have "set_file_content e mv p content fs = (Inr (), put fs q (File (utf8 content)))"
      by (simp add: set_file_content_def act_simps safeA_pure write_file_def)
    moreover have "\<forall>r. node_at (put fs q (File (utf8 content))) r =
        (if r = q then Some (File (utf8 content)) else node_at fs r)"
      using c(1) by (simp add: fs_simps)
    ultimately show ?thesis using Inr q(1) tgt c(3) by auto
  next
    case False
    with Inr show ?thesis by (auto simp: set_file_content_def act_simps safeA_pure)
  qed
qed

text \<open>
  Property C30 (rename_never_overwrites). Renaming either fails and changes nothing, or moves an existing entry to a free
  name below the data directory; entries outside the two trees stay.
\<close>

theorem rename_never_overwrites:
  assumes "env_ok e" "loop_free fs (work_dir e) (data_dir e mv) p"
    "\<forall>p'. with_name p n = Inr p' \<longrightarrow> loop_free fs (work_dir e) (data_dir e mv) p'"
  shows "case rename_file e mv p n fs of
      (Inl _, fs') \<Rightarrow> fs' = fs
    | (Inr _, fs') \<Rightarrow> \<exists>s d. prefix (data_root e mv fs) s \<and> prefix (data_root e mv fs) d \<and>
        safe_user_path fs (work_dir e) (data_dir e mv) p = Inr (abs_path s) \<and>
        node_at fs s \<noteq> None \<and> node_at fs d = None \<and> node_at fs' d = node_at fs s \<and>
        (\<forall>q. \<not> prefix s q \<and> \<not> prefix d q \<longrightarrow> node_at fs' q = node_at fs q)"
proof (cases "rename_file e mv p n fs")
  case (Pair r fs')
  show ?thesis
  proof (cases r)
    case (Inl x)
    with Pair show ?thesis
      by (auto simp: rename_file_def act_simps safeA_pure os_rename_def
          split: sum.splits if_splits option.splits node.splits)
  next
    case (Inr u)
    with Pair obtain p' ts td where
      p': "with_name p n = Inr p'" and
      safe: "safe_user_path fs (work_dir e) (data_dir e mv) p = Inr ts"
        "safe_user_path fs (work_dir e) (data_dir e mv) p' = Inr td" and
      ex: "\<not> exists fs (work_dir e) td" and
      run: "os_rename (work_dir e) ts td fs = (Inr u, fs')"
      by (auto simp: rename_file_def act_simps safeA_pure split: sum.splits if_splits)
    from safe_data_target [OF safe(1) assms(1,2)] obtain s where
      s: "ts = abs_path s" "target_in (data_root e mv fs) fs s" .
    from safe_data_target [OF safe(2) assms(1)] assms(3) p' obtain d where
      d: "td = abs_path d" "target_in (data_root e mv fs) fs d" by blast
    note s' = s(2) [unfolded target_in_def] and d' = d(2) [unfolded target_in_def]
    from run s(1) d(1) obtain s0 d0 where
      entry: "entry_path fs (work_dir e) (abs_path s) = Inr s0" "entry_path fs (work_dir e) (abs_path d) = Inr d0"
      by (auto simp: os_rename_def split: sum.splits)
    then have sd: "s0 = s" "d0 = d" "s \<noteq> []" "d \<noteq> []"
      using s' d' entry_path_physical by blast+
    have "dir_chain fs (butlast d)" "dir_chain fs (butlast s)"
      using entry_path_parent entry s' d' by blast+
    with ex d(1) d' have none: "node_at fs d = None" by (auto simp: exists_physical)
    with run s(1) d(1) entry sd have "fs' = move_tree fs s d" "node_at fs s \<noteq> None"
      by (auto simp: os_rename_def split: option.splits if_splits)
    moreover have "node_at (move_tree fs s d) d = node_at fs s"
      using node_at_move_tree [OF sd(3,4), of fs d] sd
      by (simp add: node_at_def split: option.splits)
    moreover have "\<forall>q. \<not> prefix s q \<and> \<not> prefix d q \<longrightarrow> node_at (move_tree fs s d) q = node_at fs q"
      using sd by (simp add: fs_simps)
    ultimately have "\<exists>s d. prefix (data_root e mv fs) s \<and> prefix (data_root e mv fs) d \<and>
        safe_user_path fs (work_dir e) (data_dir e mv) p = Inr (abs_path s) \<and>
        node_at fs s \<noteq> None \<and> node_at fs d = None \<and> node_at fs' d = node_at fs s \<and>
        (\<forall>q. \<not> prefix s q \<and> \<not> prefix d q \<longrightarrow> node_at fs' q = node_at fs q)"
      using safe(1) s s' d' none by (intro exI [of _ s] exI [of _ d]) simp
    then show ?thesis using Pair Inr by simp
  qed
qed

text \<open>
  A file is served only below the limit of 15,000,000 bytes, and serving changes nothing.
\<close>

theorem content_read_is_small:
  assumes "get_file_content e mv p fs = (Inr t, fs')"
  shows "fs' = fs \<and> (\<exists>c. stat_node fs (work_dir e) t = Some (File c) \<and> length c < 15000000)"
  using assms
  by (auto simp: get_file_content_def act_simps safeA_pure is_file_def file_size_def
      split: sum.splits if_splits option.splits node.splits)

section \<open>Extracting an archive\<close>

definition tree_ok :: "fs \<Rightarrow> bool" where
  "tree_ok fs \<longleftrightarrow> list_all (\<lambda>(k, _). k \<noteq> [] \<and> node_at fs (butlast k) = Some Dir) fs"

lemma tree_ok_parent: "tree_ok fs \<Longrightarrow> node_at fs (p @ [n]) = Some v \<Longrightarrow> node_at fs p = Some Dir"
  by (auto simp: tree_ok_def node_at_def list_all_iff dest!: map_of_SomeD)

lemma tree_ok_chain: "tree_ok fs \<Longrightarrow> node_at fs (p @ r) = Some v \<Longrightarrow> r \<noteq> [] \<Longrightarrow> dir_chain fs p"
proof (induction r arbitrary: v rule: rev_induct)
  case (snoc n r)
  then have d: "node_at fs (p @ r) = Some Dir"
    using tree_ok_parent [of fs "p @ r" n v] by simp
  show ?case
  proof (cases "r = []")
    case True
    have "node_at fs p = Some Dir \<Longrightarrow> dir_chain fs p"
    proof (induction p rule: rev_induct)
      case (snoc m p)
      then show ?case using tree_ok_parent [OF \<open>tree_ok fs\<close>, of p m] by simp
    qed simp
    with True d show ?thesis by simp
  next
    case False
    with snoc d show ?thesis by blast
  qed
qed simp

lemma no_links_physical: "no_links fs \<Longrightarrow> physical fs p"
  by (simp add: physical_def no_linksD)

text \<open>Nothing lies below a path that does not exist.\<close>

lemma below_missing:
  assumes "tree_ok fs" "no_links fs" "proper c" "\<not> exists fs wd (abs_path c)" "prefix c q"
  shows "node_at fs q = None"
proof (rule ccontr)
  assume "node_at fs q \<noteq> None"
  then obtain r v where q: "q = c @ r" "node_at fs (c @ r) = Some v"
    using assms(5) by (auto simp: prefix_def)
  have "c \<noteq> []" using assms(4) by (auto simp: exists_physical)
  have "dir_chain fs (butlast c) \<and> node_at fs c \<noteq> None"
  proof (cases "r = []")
    case True
    with q have "node_at fs (butlast c @ [last c]) = Some v" using \<open>c \<noteq> []\<close> by simp
    then have "dir_chain fs (butlast c)" by (rule tree_ok_chain [OF assms(1)]) simp
    with True q show ?thesis by simp
  next
    case False
    then have "dir_chain fs c" using tree_ok_chain [OF assms(1) q(2)] by blast
    then show ?thesis using dir_chain_prefix [of fs c "butlast c"] by (simp add: prefixeq_butlast dir_chain_node)
  qed
  with assms(2,3,4) show False by (simp add: exists_physical no_links_physical)
qed

text \<open>\<open>spares P\<close>: the entries that satisfy \<open>P\<close> stay, and no link appears.\<close>

definition spares :: "(path \<Rightarrow> bool) \<Rightarrow> fs \<Rightarrow> fs \<Rightarrow> bool" where
  "spares P fs fs' \<longleftrightarrow> (\<forall>q n. P q \<longrightarrow> node_at fs q = Some n \<longrightarrow> node_at fs' q = Some n) \<and>
     (no_links fs \<longrightarrow> no_links fs')"

lemma reflp_spares [simp]: "reflp (spares P)"
  by (simp add: reflp_def spares_def)

lemma transp_spares [simp]: "transp (spares P)"
  by (rule transpI) (auto simp: spares_def)

lemma spares_mono: "spares P fs fs' \<Longrightarrow> (\<And>q. Q q \<Longrightarrow> P q) \<Longrightarrow> spares Q fs fs'"
  by (simp add: spares_def)

lemma spares_no_links: "no_links fs \<Longrightarrow> spares P fs fs' \<Longrightarrow> no_links fs'"
  by (simp add: spares_def)

lemma set_AList_update: "set (AList.update k v xs) \<subseteq> insert (k, v) (set xs)"
  by (induction xs) auto

lemma no_links_put: "no_links fs \<Longrightarrow> (\<And>t. nd \<noteq> Symlink t) \<Longrightarrow> no_links (put fs p nd)"
  using set_AList_update [of p nd fs]
  by (fastforce simp: no_links_def put_def list_all_iff split: node.splits)

lemma spares_put_new: "p \<noteq> [] \<Longrightarrow> node_at fs p = None \<Longrightarrow> spares P fs (put fs p Dir)"
  by (auto simp: spares_def fs_simps no_links_put)

lemma spares_mkdir: "moves (spares P) (os_mkdir wd p)"
  by (rule movesI) (auto simp: os_mkdir_def intro!: spares_put_new entry_path_nonempty
      reflpD [OF reflp_spares] split: sum.splits)

lemma spares_mkdir_ok: "spares P fs (snd (mkdir_ok wd p fs))"
  using movesD [OF spares_mkdir, of P fs wd p]
  by (auto simp: mkdir_ok_def split: prod.splits sum.splits)

lemma spares_mkdir_parents: "spares P fs (snd (mkdir_parents wd p fs))"
proof (induction wd p fs rule: mkdir_parents.induct)
  case (1 wd p fs)
  obtain r fs1 where m: "os_mkdir wd p fs = (r, fs1)" by (cases "os_mkdir wd p fs")
  have s1: "spares P fs fs1" using movesD [OF spares_mkdir, of P fs wd p] m by simp
  show ?case
  proof (cases "r = Inl FileNotFoundError \<and> p_tail p \<noteq> []")
    case True
    obtain r2 fs2 where m2: "mkdir_parents wd (path_parent p) fs1 = (r2, fs2)"
      by (cases "mkdir_parents wd (path_parent p) fs1")
    have "spares P fs1 fs2" using 1 [of _ fs1 FileNotFoundError] m m2 True by simp
    moreover have "spares P fs2 (snd (mkdir_ok wd p fs2))" by (rule spares_mkdir_ok)
    ultimately have "spares P fs fs2" "spares P fs (snd (mkdir_ok wd p fs2))"
      using s1 transpD [OF transp_spares] by metis+
    with m m2 True show ?thesis
      by (subst mkdir_parents.simps) (simp split: sum.splits)
  next
    case False
    with m s1 show ?thesis
      by (subst mkdir_parents.simps) (auto split: sum.splits)
  qed
qed

lemma spares_write:
  assumes "no_links fs" "proper t" "prefix c t" "c \<noteq> []"
  shows "spares (\<lambda>q. \<not> prefix c q) fs (snd (write_file wd (abs_path t) b fs))"
proof -
  have "kernel_path fs wd (abs_path t) = Inr q \<Longrightarrow> q = t" for q
    using kernel_path_physical no_links_physical assms(1,2) by blast
  moreover have "t \<noteq> []" using assms(3,4) by auto
  ultimately show ?thesis
    using assms(3) reflpD [OF reflp_spares]
    by (auto simp: write_file_def spares_def fs_simps no_links_put split: sum.splits option.splits node.splits)
qed

lemma base_of_abs: "no_links fs \<Longrightarrow> proper c \<Longrightarrow> base_of fs wd (abs_path c) = c"
  using normalize_proper [of c "[]" "[]"]
  by (simp add: base_no_links abs_path_def start_dir_def)

lemma spares_extract_member:
  assumes "no_links fs" "proper c" "c \<noteq> []" "proper (work_dir e)"
  shows "spares (\<lambda>q. \<not> prefix c q) fs (snd (extract_member e (abs_path c) single m fs))"
proof (cases "zm_is_dir m")
  case True
  then show ?thesis using reflpD [OF reflp_spares] by (simp add: extract_member_def act_simps)
next
  case False
  let ?mp = "if single then \<lparr>p_root = [], p_tail = tl (path_parts (Path (zm_filename m)))\<rparr>
             else Path (zm_filename m)"
  show ?thesis
  proof (cases "safe_user_path fs (work_dir e) (abs_path c) ?mp")
    case (Inl x)
    with False show ?thesis
      using reflpD [OF reflp_spares] by (simp add: extract_member_def act_simps safeA_pure Let_def)
  next
    case (Inr t)
    from safe_user_pathD [OF this clean_abs_path [OF assms(2)] assms(4)] obtain q where
      q: "t = abs_path q" "prefix c q" "proper q"
      using base_of_abs [OF assms(1,2)] by metis
    obtain r fs1 where mk: "mkdir_parents (work_dir e) (path_parent t) fs = (r, fs1)"
      by (cases "mkdir_parents (work_dir e) (path_parent t) fs")
    have s1: "spares (\<lambda>q. \<not> prefix c q) fs fs1"
      using spares_mkdir_parents [of _ fs "work_dir e" "path_parent t"] mk by (metis snd_conv)
    then have "no_links fs1" using assms(1) by (simp add: spares_def)
    then have s2: "spares (\<lambda>q. \<not> prefix c q) fs1 (snd (write_file (work_dir e) t (zm_data m) fs1))"
      using spares_write q assms(3) by simp
    have s3: "spares (\<lambda>q. \<not> prefix c q) fs (snd (write_file (work_dir e) t (zm_data m) fs1))"
      using transpD [OF transp_spares s1 s2] .
    with s1 mk Inr False show ?thesis
      by (cases "write_file (work_dir e) t (zm_data m) fs1")
        (auto simp: extract_member_def act_simps safeA_pure Let_def split: sum.splits option.splits)
  qed
qed

lemma spares_extract_zip:
  assumes "no_links fs" "tree_ok fs" "proper (work_dir e)" "proper d"
  shows "spares (\<lambda>q. True) fs (snd (extract_zip unzip e archive (abs_path d) fs))"
proof (cases "\<exists>bytes z. read_file fs (work_dir e) archive = Inr bytes \<and> unzip bytes = Inr z")
  case False
  then show ?thesis
    using reflpD [OF reflp_spares]
    by (auto simp: extract_zip_def act_simps split: sum.splits)
next
  case True
  then obtain bytes z where z: "read_file fs (work_dir e) archive = Inr bytes" "unzip bytes = Inr z"
    by blast
  let ?n = "if length (get_zip_roots z) = 1 then hd (get_zip_roots z) else path_stem archive"
  show ?thesis
  proof (cases "safe_user_path fs (work_dir e) (abs_path d) (Path ?n)")
    case (Inl x)
    with z show ?thesis
      using reflpD [OF reflp_spares] by (simp add: extract_zip_def act_simps safeA_pure Let_def)
  next
    case (Inr t)
    from safe_user_pathD [OF this clean_abs_path [OF assms(4)] assms(3)] obtain q where
      q: "t = abs_path q" "proper q" by metis
    have "clean t" using q by (simp add: clean_abs_path)
    then obtain c where c: "change_path_name_if_exists fs (work_dir e) t = Some (abs_path c)" "proper c"
      "\<not> exists fs (work_dir e) (abs_path c)"
    proof (cases rule: change_path_cases [where fs = fs and wd = "work_dir e"])
      case free
      with q that show ?thesis by blast
    next
      case (taken x r)
      have r: "r = abs_path (butlast q @ [x])"
        using taken(5) q(1) by (cases "q = []") (simp_all add: abs_path_def path_parent_def)
      show ?thesis
        by (rule that [of "butlast q @ [x]"]) (use taken r q in \<open>simp_all add: proper_butlast\<close>)
    qed
    have cne: "c \<noteq> []" using c(3) assms(1) by (auto simp: exists_physical no_links_physical)
    let ?P = "\<lambda>q. \<not> prefix c q"
    obtain r fs1 where mk: "mkdir_parents (work_dir e) (abs_path c) fs = (r, fs1)"
      by (cases "mkdir_parents (work_dir e) (abs_path c) fs")
    have s1: "spares (\<lambda>q. True) fs fs1"
      using spares_mkdir_parents [of _ fs "work_dir e" "abs_path c"] mk by (metis snd_conv)
    then have nl: "no_links fs1" using assms(1) by (simp add: spares_def)
    have s2: "spares ?P fs1 (snd (forA (extract_member e (abs_path c) (length (get_zip_roots z) = 1)) z fs1))"
      by (rule forA_rel [where P = "\<lambda>_. no_links", OF reflp_spares transp_spares])
        (use nl spares_extract_member c(2) cne assms(3) spares_no_links in auto)
    have "spares (\<lambda>q. True) fs g" if g: "spares ?P fs1 g" for g
    proof -
      have "node_at g q = Some n" if "node_at fs q = Some n" for q n
      proof -
        have "\<not> prefix c q" using below_missing [OF assms(2,1) c(2,3)] that by force
        with that s1 g show ?thesis by (simp add: spares_def)
      qed
      with g nl show ?thesis by (simp add: spares_def)
    qed
    with s2 have "spares (\<lambda>q. True) fs (snd (forA (extract_member e (abs_path c) (length (get_zip_roots z) = 1)) z fs1))"
      by blast
    with s1 mk z Inr c(1) show ?thesis
      by (auto simp: extract_zip_def act_simps safeA_pure Let_def freshA_def split: sum.splits)
  qed
qed

text \<open>
  Property C24 (extraction_keeps_existing). Extracting an archive, whatever its member names are and whether it succeeds or
  fails, leaves every entry that existed before with its content.
\<close>

theorem extraction_keeps_existing:
  assumes "env_ok e" "no_links fs" "tree_ok fs" "node_at fs q = Some v"
  shows "node_at (snd (extract_miniverse_archive unzip e mv path fs)) q = Some v"
proof (cases "safe_user_path fs (work_dir e) (data_dir e mv) path")
  case (Inl x)
  with assms(4) show ?thesis by (simp add: extract_miniverse_archive_def act_simps safeA_pure)
next
  case (Inr t)
  from safe_user_pathD [OF this clean_data_dir [OF assms(1)]] assms(1) obtain p where
    p: "t = abs_path p" "proper p" by (metis env_ok_def)
  then have "path_parent t = abs_path (butlast p)" by (simp add: path_parent_def abs_path_def)
  moreover have "proper (butlast p)" using p by (simp add: proper_butlast)
  ultimately have "node_at (snd (extract_zip unzip e t (path_parent t) fs)) q = Some v"
    using spares_extract_zip [OF assms(2,3)] assms(1,4) by (auto simp: spares_def env_ok_def)
  with Inr assms(4) show ?thesis
    by (simp add: extract_miniverse_archive_def act_simps safeA_pure)
qed

section \<open>Compressing\<close>

lemma archive_single_file: "is_file fs wd p \<Longrightarrow> archive_files fs wd p = [p]"
  by (simp add: archive_files_def)

lemma fresh_if_missing: "\<not> exists fs wd p \<Longrightarrow> change_path_name_if_exists fs wd p = Some p"
  unfolding change_path_name_if_exists_def by (subst change_loop.simps) simp

lemma dir_chain_put: "dir_chain fs p \<Longrightarrow> q \<noteq> [] \<Longrightarrow> node_at fs q = None \<Longrightarrow> dir_chain (put fs q nd) p"
  by (auto simp: dir_chain_def fs_simps)

lemma kernel_path_snoc:
  "no_links fs \<Longrightarrow> proper (xs @ [n]) \<Longrightarrow> dir_chain fs xs \<Longrightarrow>
   kernel_path fs wd (abs_path (xs @ [n])) = Inr (xs @ [n])"
  by (rule kernel_path_chain) (simp_all add: no_links_physical no_linksD)

lemma read_file_chain:
  "no_links fs \<Longrightarrow> proper (xs @ [n]) \<Longrightarrow> dir_chain fs xs \<Longrightarrow> node_at fs (xs @ [n]) = Some (File c) \<Longrightarrow>
   read_file fs wd (abs_path (xs @ [n])) = Inr c"
  by (simp add: read_file_def kernel_path_snoc)

lemma write_file_chain:
  "no_links fs \<Longrightarrow> proper (xs @ [n]) \<Longrightarrow> dir_chain fs xs \<Longrightarrow>
   node_at fs (xs @ [n]) = None \<or> (\<exists>c. node_at fs (xs @ [n]) = Some (File c)) \<Longrightarrow>
   write_file wd (abs_path (xs @ [n])) b fs = (Inr (), put fs (xs @ [n]) (File b))"
  by (auto simp: write_file_def kernel_path_snoc)

text \<open>
  Property C40 (compress_reads_unmapped_paths). Compressing reads the paths as the user wrote them: for an absolute path of a file
  outside the data directory, the archive that appears in the data directory holds that file.
\<close>

theorem compress_reads_unmapped_paths:
  assumes "env_ok e" "no_links fs" "p_root p = [sep]" "p_tail p = xs @ [n]" "proper (xs @ [n])"
    and secret: "dir_chain fs xs" "node_at fs (xs @ [n]) = Some (File c)"
    and dest: "dir_chain fs (data_root e mv fs @ xs)"
      "node_at fs (data_root e mv fs @ xs @ [n @ ''.zip'']) = None"
  shows "\<exists>fs'. compress_miniverse_files pack e mv [p] fs = (Inr (), fs') \<and>
    node_at fs' (data_root e mv fs @ xs @ [n @ ''.zip'']) = Some (File (pack [(n, c)]))"
proof -
  let ?b = "data_root e mv fs @ xs" and ?wd = "work_dir e"
  let ?d = "?b @ [n @ ''.zip'']" and ?fs1 = "put fs (?b @ [n @ ''.zip'']) (File [])"
  have p: "p = abs_path (xs @ [n])" using assms(3,4) by (cases p) (simp add: abs_path_def)
  have safe: "safe_user_path fs ?wd (data_dir e mv) p = Inr (abs_path (?b @ [n]))"
    using safe_inside [of fs "data_dir e mv" ?wd p] assms clean_data_dir [OF assms(1)]
    by (simp add: env_ok_def)
  have pb: "proper ?b"
    using base_proper [OF clean_data_dir [OF assms(1)], of ?wd fs mv] assms(1,5) by (simp add: env_ok_def)
  have pn: "proper_part (n @ ''.zip'')" using assms(5)
    by (intro proper_part_long) (auto simp: proper_part_def clean_part_def sep_def)
  then have child: "path_child (abs_path ?b) (n @ ''.zip'') = abs_path ?d"
    by (simp add: child_clean proper_part_def abs_path_def)
  have missing: "\<not> exists fs ?wd (abs_path ?d)"
    using dest pb pn by (simp add: exists_physical no_links_physical [OF assms(2)])
  have isf: "is_file fs ?wd p"
    using secret is_file_physical [OF no_links_physical [OF assms(2)] assms(5)]
    by (simp add: p)
  have nl1: "no_links ?fs1" using assms(2) by (simp add: no_links_put)
  have w1: "write_file ?wd (abs_path ?d) [] fs = (Inr (), ?fs1)"
    using write_file_chain [of fs ?b] assms(2) pb pn dest by simp
  have r1: "read_file ?fs1 ?wd p = Inr c"
    unfolding p
    by (rule read_file_chain [OF nl1 assms(5)])
      (use secret dest in \<open>auto simp: fs_simps intro: dir_chain_put\<close>)
  have w2: "write_file ?wd (abs_path ?d) (pack [(n, c)]) ?fs1
      = (Inr (), put ?fs1 ?d (File (pack [(n, c)])))"
    by (rule write_file_chain [OF nl1])
      (use pb pn dest in \<open>auto simp: fs_simps intro: dir_chain_put\<close>)
  have rel: "relative_to p (path_parent p) = Inr \<lparr>p_root = [], p_tail = [n]\<rparr>"
    by (simp add: p abs_path_def path_parent_def relative_to_def is_relative_to_def)
  have parts: "path_parent (abs_path (r @ [m])) = abs_path r" "path_name (abs_path (r @ [m])) = m"
    for r m by (simp_all add: path_parent_def path_name_def abs_path_def)
  have arc: "path_str \<lparr>p_root = [], p_tail = [n]\<rparr> = n" by (simp add: path_str_def)
  have "compress_miniverse_files pack e mv [p] fs = (Inr (), put ?fs1 ?d (File (pack [(n, c)])))"
    using missing isf w1 r1 w2
    by (simp add: compress_miniverse_files_def act_simps safeA_pure safe parts child freshA_def
        fresh_if_missing compress_entries_def archive_single_file rel arc Let_def del: append_assoc)
  then show ?thesis by (auto simp: fs_simps)
qed

section \<open>Concrete trees\<close>

definition demo_env :: env where
  "demo_env = default_env ''secret'' (Path ''/host'') ''password'' []"

definition demo_mv :: miniverse where
  "demo_mv = \<lparr>m_id = ''m1'', m_name = ''demo'', m_type = VANILLA, m_description = None,
     m_container_id = None, m_java_version = None, m_mc_version = ''1.21'', m_subdomain = ''demo'',
     m_online_mode = True, m_is_on_lite_proxy = True, m_allow_bedrock = False, m_started = False,
     m_secret = None\<rparr>"

definition demo_root :: path where
  "demo_root = [''app'', ''data'', ''miniverses'', ''m1'', ''data'']"

definition demo_fs :: fs where
  "demo_fs =
    [([''app''], Dir), ([''app'', ''data''], Dir), ([''app'', ''data'', ''miniverses''], Dir),
     ([''app'', ''data'', ''miniverses'', ''m1''], Dir), (demo_root, Dir),
     (demo_root @ [''world''], Dir), (demo_root @ [''world'', ''level.dat''], File ''level''),
     (demo_root @ [''mods.zip''], File ''PK''), ([''key''], File ''hidden'')]"

definition linked_fs :: fs where
  "linked_fs = demo_fs @ [(demo_root @ [''link''], Symlink ''world/.''),
                          (demo_root @ [''out''], Symlink ''/'')]"

lemma demo_facts:
  "env_ok demo_env" "no_links demo_fs" "tree_ok demo_fs"
  "data_root demo_env demo_mv demo_fs = demo_root"
  "clean (data_dir demo_env demo_mv)" "proper (work_dir demo_env)"
  by code_simp+

theorem user_paths_are_confined_witness:
  "safe_user_path linked_fs [] (data_dir demo_env demo_mv) (Path ''/link/level.dat'')
     = Inr (abs_path (demo_root @ [''world'', ''level.dat''])) \<and>
   safe_user_path linked_fs [] (data_dir demo_env demo_mv) (Path ''out/key'') = Inl ValueError \<and>
   (\<exists>q. abs_path (demo_root @ [''world'', ''level.dat'']) = abs_path q \<and>
      prefix (base_of linked_fs [] (data_dir demo_env demo_mv)) q \<and>
      (\<forall>k. kernel_path linked_fs [] (abs_path (demo_root @ [''world'', ''level.dat''])) = Inr k \<longrightarrow> k = q) \<and>
      (\<forall>k. entry_path linked_fs [] (abs_path (demo_root @ [''world'', ''level.dat''])) = Inr k \<longrightarrow> k = q))"
proof (intro conjI)
  have s: "safe_user_path linked_fs [] (data_dir demo_env demo_mv) (Path ''/link/level.dat'')
     = Inr (abs_path (demo_root @ [''world'', ''level.dat'']))" by code_simp
  have l: "loop_free linked_fs [] (data_dir demo_env demo_mv) (Path ''/link/level.dat'')" by code_simp
  show "safe_user_path linked_fs [] (data_dir demo_env demo_mv) (Path ''/link/level.dat'')
     = Inr (abs_path (demo_root @ [''world'', ''level.dat'']))" by (rule s)
  show "safe_user_path linked_fs [] (data_dir demo_env demo_mv) (Path ''out/key'') = Inl ValueError"
    by code_simp
  show "\<exists>q. abs_path (demo_root @ [''world'', ''level.dat'']) = abs_path q \<and>
      prefix (base_of linked_fs [] (data_dir demo_env demo_mv)) q \<and>
      (\<forall>k. kernel_path linked_fs [] (abs_path (demo_root @ [''world'', ''level.dat''])) = Inr k \<longrightarrow> k = q) \<and>
      (\<forall>k. entry_path linked_fs [] (abs_path (demo_root @ [''world'', ''level.dat''])) = Inr k \<longrightarrow> k = q)"
    by (rule user_paths_are_confined [OF s demo_facts(5) _ l]) simp
qed

theorem user_paths_are_lexical_witness:
  "safe_user_path demo_fs [] (data_dir demo_env demo_mv) (Path ''world/../../data/x'')
     = (let b = normalize (start_dir [] (data_dir demo_env demo_mv)) (p_tail (data_dir demo_env demo_mv));
            q = normalize b (p_tail (Path ''world/../../data/x''))
        in if prefix b q then Inr (abs_path q) else Inl ValueError)"
  by (rule user_paths_are_lexical [OF demo_facts(2,5)]) (simp, simp, rule root_of_Path)

theorem fresh_name_found_witness:
  "\<exists>q. change_path_name_if_exists demo_fs [] (abs_path (demo_root @ [''world''])) = Some q \<and>
     \<not> exists demo_fs [] q \<and> path_parent q = path_parent (abs_path (demo_root @ [''world''])) \<and>
     (\<not> exists demo_fs [] (abs_path (demo_root @ [''world''])) \<longrightarrow> q = abs_path (demo_root @ [''world'']))"
  by (rule fresh_name_found) code_simp

theorem deletion_is_confined_witness:
  "fst (delete_miniverse_files demo_env demo_mv [Path ''world'', Path ''mods.zip''] demo_fs) = Inr () \<and>
   within demo_root demo_fs
     (snd (delete_miniverse_files demo_env demo_mv [Path ''world'', Path ''mods.zip''] demo_fs))"
proof
  show "fst (delete_miniverse_files demo_env demo_mv [Path ''world'', Path ''mods.zip''] demo_fs) = Inr ()"
    by code_simp
  show "within demo_root demo_fs
     (snd (delete_miniverse_files demo_env demo_mv [Path ''world'', Path ''mods.zip''] demo_fs))"
    using deletion_is_confined [OF demo_facts(1), of "[Path ''world'', Path ''mods.zip'']" demo_fs demo_mv]
    by (simp only: demo_facts(4)) (simp add: no_links_loop_free [OF demo_facts(2)])
qed

theorem file_content_is_replaced_witness:
  "case set_file_content demo_env demo_mv (Path ''mods.zip'') ''new'' demo_fs of
      (Inl _, fs') \<Rightarrow> fs' = demo_fs
    | (Inr _, fs') \<Rightarrow> \<exists>t c. safe_user_path demo_fs (work_dir demo_env) (data_dir demo_env demo_mv) (Path ''mods.zip'') = Inr (abs_path t) \<and>
        prefix (data_root demo_env demo_mv demo_fs) t \<and> node_at demo_fs t = Some (File c) \<and>
        (\<forall>q. node_at fs' q = (if q = t then Some (File (utf8 ''new'')) else node_at demo_fs q))"
  by (rule file_content_is_replaced [OF demo_facts(1) no_links_loop_free [OF demo_facts(2)]])

theorem rename_never_overwrites_witness:
  "case rename_file demo_env demo_mv (Path ''world'') ''old'' demo_fs of
      (Inl _, fs') \<Rightarrow> fs' = demo_fs
    | (Inr _, fs') \<Rightarrow> \<exists>s d. prefix (data_root demo_env demo_mv demo_fs) s \<and> prefix (data_root demo_env demo_mv demo_fs) d \<and>
        safe_user_path demo_fs (work_dir demo_env) (data_dir demo_env demo_mv) (Path ''world'') = Inr (abs_path s) \<and>
        node_at demo_fs s \<noteq> None \<and> node_at demo_fs d = None \<and> node_at fs' d = node_at demo_fs s \<and>
        (\<forall>q. \<not> prefix s q \<and> \<not> prefix d q \<longrightarrow> node_at fs' q = node_at demo_fs q)"
  by (rule rename_never_overwrites [OF demo_facts(1)]) (simp_all add: no_links_loop_free [OF demo_facts(2)])

theorem content_read_is_small_witness:
  "\<exists>c. stat_node demo_fs [] (abs_path (demo_root @ [''mods.zip''])) = Some (File c) \<and> length c < 15000000"
proof -
  have "get_file_content demo_env demo_mv (Path ''mods.zip'') demo_fs
      = (Inr (abs_path (demo_root @ [''mods.zip''])), demo_fs)"
  proof -
    have "safe_user_path demo_fs (work_dir demo_env) (data_dir demo_env demo_mv) (Path ''mods.zip'')
        = Inr (abs_path (demo_root @ [''mods.zip'']))"
      and "stat_node demo_fs (work_dir demo_env) (abs_path (demo_root @ [''mods.zip''])) = Some (File ''PK'')"
      by code_simp+
    then show ?thesis
      by (simp add: get_file_content_def act_simps safeA_pure is_dir_def is_file_def file_size_def)
  qed
  from content_read_is_small [OF this] show ?thesis by (simp add: demo_env_def default_env_def)
qed

definition demo_zip :: "zip_member list" where
  "demo_zip = [\<lparr>zm_filename = ''world/level.dat'', zm_open_error = None, zm_data = ''other'', zm_error = None\<rparr>,
               \<lparr>zm_filename = ''world/../../../../../../key'', zm_open_error = None, zm_data = ''evil'', zm_error = None\<rparr>]"

theorem extraction_keeps_existing_witness:
  "node_at (snd (extract_miniverse_archive (\<lambda>_. Inr demo_zip) demo_env demo_mv (Path ''mods.zip'') demo_fs)) [''key'']
     = Some (File ''hidden'') \<and>
   node_at (snd (extract_miniverse_archive (\<lambda>_. Inr demo_zip) demo_env demo_mv (Path ''mods.zip'') demo_fs))
     (demo_root @ [''world (2)'', ''level.dat'']) = Some (File ''other'')"
proof
  show "node_at (snd (extract_miniverse_archive (\<lambda>_. Inr demo_zip) demo_env demo_mv (Path ''mods.zip'') demo_fs)) [''key'']
     = Some (File ''hidden'')"
    by (rule extraction_keeps_existing [OF demo_facts(1-3)]) code_simp
  show "node_at (snd (extract_miniverse_archive (\<lambda>_. Inr demo_zip) demo_env demo_mv (Path ''mods.zip'') demo_fs))
     (demo_root @ [''world (2)'', ''level.dat'']) = Some (File ''other'')" by code_simp
qed

theorem compress_reads_unmapped_paths_witness:
  "\<exists>fs'. compress_miniverse_files (\<lambda>z. concat (map snd z)) demo_env demo_mv [Path ''/key''] demo_fs = (Inr (), fs') \<and>
    node_at fs' (demo_root @ [] @ [''key'' @ ''.zip'']) = Some (File (concat (map snd [(''key'', ''hidden'')])))"
proof -
  have "p_root (Path ''/key'') = [sep]" "p_tail (Path ''/key'') = [] @ [''key'']" "proper ([] @ [''key''])"
    "dir_chain demo_fs []" "node_at demo_fs ([] @ [''key'']) = Some (File ''hidden'')"
    "dir_chain demo_fs (demo_root @ [])" "node_at demo_fs (demo_root @ [] @ [''key'' @ ''.zip'']) = None"
    by code_simp+
  from compress_reads_unmapped_paths [OF demo_facts(1,2) this(1-5), of demo_mv "\<lambda>z. concat (map snd z)",
    unfolded demo_facts(4), OF this(6,7)]
  show ?thesis .
qed

end
