(* ===== verification/ModSchemas.thy ===== *)
theory ModSchemas
  imports Versions
begin

text \<open>
  \<open>app/schemas/mods.py\<close>: the objects of the Modrinth API. A dataclass does not check its fields, so
  a field keeps the JSON value it was given; enumerations and dates are converted. The fields are
  read in the order of \<open>from_dict\<close>, and the first one that fails raises.
\<close>

section \<open>Enumerations\<close>

datatype project_type = PT_MOD | PT_MODPACK | PT_RESOURCEPACK | PT_SHADER | PT_WORLD

fun project_type_value :: "project_type \<Rightarrow> string" where
  "project_type_value PT_MOD = ''mod''"
| "project_type_value PT_MODPACK = ''modpack''"
| "project_type_value PT_RESOURCEPACK = ''resourcepack''"
| "project_type_value PT_SHADER = ''shader''"
| "project_type_value PT_WORLD = ''world''"

definition project_type_of :: "string \<Rightarrow> exn + project_type" where
  "project_type_of s = (case find (\<lambda>t. project_type_value t = s) [PT_MOD, PT_MODPACK, PT_RESOURCEPACK, PT_SHADER, PT_WORLD] of
     None \<Rightarrow> Inl ValueError | Some t \<Rightarrow> Inr t)"

datatype side_support = SS_REQUIRED | SS_OPTIONAL | SS_UNSUPPORTED | SS_UNKNOWN

fun side_support_value :: "side_support \<Rightarrow> string" where
  "side_support_value SS_REQUIRED = ''required''"
| "side_support_value SS_OPTIONAL = ''optional''"
| "side_support_value SS_UNSUPPORTED = ''unsupported''"
| "side_support_value SS_UNKNOWN = ''unknown''"

definition side_support_of :: "string \<Rightarrow> exn + side_support" where
  "side_support_of s = (case find (\<lambda>t. side_support_value t = s) [SS_REQUIRED, SS_OPTIONAL, SS_UNSUPPORTED, SS_UNKNOWN] of
     None \<Rightarrow> Inl ValueError | Some t \<Rightarrow> Inr t)"

datatype mod_version_type = MVT_RELEASE | MVT_BETA | MVT_ALPHA

fun mod_version_type_value :: "mod_version_type \<Rightarrow> string" where
  "mod_version_type_value MVT_RELEASE = ''release''"
| "mod_version_type_value MVT_BETA = ''beta''"
| "mod_version_type_value MVT_ALPHA = ''alpha''"

definition mod_version_type_of :: "string \<Rightarrow> exn + mod_version_type" where
  "mod_version_type_of s = (case find (\<lambda>t. mod_version_type_value t = s) [MVT_RELEASE, MVT_BETA, MVT_ALPHA] of
     None \<Rightarrow> Inl ValueError | Some t \<Rightarrow> Inr t)"

datatype mod_update_status = ALREADY_UP_TO_DATE | UPDATE_AVAILABLE | NO_COMPATIBLE_VERSIONS | UPDATE_ERROR

record mod_update_info =
  update_status :: mod_update_status
  new_versions_ids :: "json list"
  game_versions :: "json list"

record search_facets =
  sf_project_type :: "project_type option"
  sf_categories :: "string list option"
  sf_versions :: "string list option"
  sf_client_side :: "side_support option"
  sf_server_side :: "side_support option"

section \<open>Search results\<close>

record search_result =
  sr_project_id :: "json"
  sr_project_type :: "project_type"
  sr_slug :: "json"
  sr_author :: "json"
  sr_title :: "json"
  sr_description :: "json"
  sr_categories :: "json"
  sr_display_categories :: "json"
  sr_versions :: "json"
  sr_downloads :: "json"
  sr_follows :: "json"
  sr_icon_url :: "json"
  sr_date_created :: "int"
  sr_date_modified :: "int"
  sr_latest_version :: "json"
  sr_license :: "json"
  sr_client_side :: "side_support"
  sr_server_side :: "side_support"
  sr_gallery :: "json"
  sr_color :: "json"
  sr_featured_gallery :: "json"

definition search_result_from_dict :: "(string \<Rightarrow> int option) \<Rightarrow> json \<Rightarrow> exn + search_result" where
  "search_result_from_dict from_iso data =
    bindE (getitem data ''project_id'') (\<lambda>x0.
    bindE (bindE (getitem data ''project_type'') (enum_of project_type_of)) (\<lambda>x1.
    bindE (getitem data ''slug'') (\<lambda>x2.
    bindE (getitem data ''author'') (\<lambda>x3.
    bindE (getitem data ''title'') (\<lambda>x4.
    bindE (getitem data ''description'') (\<lambda>x5.
    bindE (getitem data ''categories'') (\<lambda>x6.
    bindE (getitem data ''display_categories'') (\<lambda>x7.
    bindE (getitem data ''versions'') (\<lambda>x8.
    bindE (getitem data ''downloads'') (\<lambda>x9.
    bindE (getitem data ''follows'') (\<lambda>x10.
    bindE (getitem data ''icon_url'') (\<lambda>x11.
    bindE (bindE (getitem data ''date_created'') (parse_date from_iso)) (\<lambda>x12.
    bindE (bindE (getitem data ''date_modified'') (parse_date from_iso)) (\<lambda>x13.
    bindE (getitem data ''latest_version'') (\<lambda>x14.
    bindE (getitem data ''license'') (\<lambda>x15.
    bindE (bindE (getitem data ''client_side'') (enum_of side_support_of)) (\<lambda>x16.
    bindE (bindE (getitem data ''server_side'') (enum_of side_support_of)) (\<lambda>x17.
    bindE (getitem data ''gallery'') (\<lambda>x18.
    bindE (getitem data ''color'') (\<lambda>x19.
    bindE (dict_get data ''featured_gallery'' JNull) (\<lambda>x20.
    Inr \<lparr>sr_project_id = x0, sr_project_type = x1, sr_slug = x2, sr_author = x3,
         sr_title = x4, sr_description = x5, sr_categories = x6, sr_display_categories = x7,
         sr_versions = x8, sr_downloads = x9, sr_follows = x10, sr_icon_url = x11,
         sr_date_created = x12, sr_date_modified = x13, sr_latest_version = x14, sr_license = x15,
         sr_client_side = x16, sr_server_side = x17, sr_gallery = x18, sr_color = x19,
         sr_featured_gallery = x20\<rparr>)))))))))))))))))))))"

record search_results =
  srs_hits :: "search_result list"
  srs_offset :: "json"
  srs_limit :: "json"
  srs_total_hits :: "json"

definition search_results_from_dict :: "(string \<Rightarrow> int option) \<Rightarrow> json \<Rightarrow> exn + search_results" where
  "search_results_from_dict from_iso data =
    bindE (bindE (bindE (getitem data ''hits'') items) (mapE (search_result_from_dict from_iso))) (\<lambda>x0.
    bindE (getitem data ''offset'') (\<lambda>x1.
    bindE (getitem data ''limit'') (\<lambda>x2.
    bindE (getitem data ''total_hits'') (\<lambda>x3.
    Inr \<lparr>srs_hits = x0, srs_offset = x1, srs_limit = x2, srs_total_hits = x3\<rparr>))))"

section \<open>Projects\<close>

record gallery_item =
  gi_url :: "json"
  gi_raw_url :: "json"
  gi_featured :: "json"
  gi_title :: "json"
  gi_description :: "json"
  gi_created :: "int"

definition gallery_item_from_dict :: "(string \<Rightarrow> int option) \<Rightarrow> json \<Rightarrow> exn + gallery_item" where
  "gallery_item_from_dict from_iso data =
    bindE (getitem data ''url'') (\<lambda>x0.
    bindE (getitem data ''raw_url'') (\<lambda>x1.
    bindE (getitem data ''featured'') (\<lambda>x2.
    bindE (getitem data ''title'') (\<lambda>x3.
    bindE (getitem data ''description'') (\<lambda>x4.
    bindE (bindE (getitem data ''created'') (parse_date from_iso)) (\<lambda>x5.
    Inr \<lparr>gi_url = x0, gi_raw_url = x1, gi_featured = x2, gi_title = x3,
         gi_description = x4, gi_created = x5\<rparr>))))))"

record project =
  pr_id :: "json"
  pr_slug :: "json"
  pr_title :: "json"
  pr_description :: "json"
  pr_body :: "json"
  pr_categories :: "json"
  pr_client_side :: "side_support"
  pr_server_side :: "side_support"
  pr_issues_url :: "json"
  pr_source_url :: "json"
  pr_wiki_url :: "json"
  pr_discord_url :: "json"
  pr_color :: "json"
  pr_team :: "json"
  pr_published :: "int"
  pr_updated :: "int"
  pr_followers :: "json"
  pr_project_type :: "project_type"
  pr_downloads :: "json"
  pr_icon_url :: "json"
  pr_versions :: "json"
  pr_game_versions :: "json"
  pr_loaders :: "json"
  pr_gallery :: "gallery_item list"

definition project_from_dict :: "(string \<Rightarrow> int option) \<Rightarrow> json \<Rightarrow> exn + project" where
  "project_from_dict from_iso data =
    bindE (getitem data ''id'') (\<lambda>x0.
    bindE (getitem data ''slug'') (\<lambda>x1.
    bindE (getitem data ''title'') (\<lambda>x2.
    bindE (getitem data ''description'') (\<lambda>x3.
    bindE (getitem data ''body'') (\<lambda>x4.
    bindE (getitem data ''categories'') (\<lambda>x5.
    bindE (bindE (getitem data ''client_side'') (enum_of side_support_of)) (\<lambda>x6.
    bindE (bindE (getitem data ''server_side'') (enum_of side_support_of)) (\<lambda>x7.
    bindE (dict_get data ''issues_url'' JNull) (\<lambda>x8.
    bindE (dict_get data ''source_url'' JNull) (\<lambda>x9.
    bindE (dict_get data ''wiki_url'' JNull) (\<lambda>x10.
    bindE (dict_get data ''discord_url'' JNull) (\<lambda>x11.
    bindE (dict_get data ''color'' JNull) (\<lambda>x12.
    bindE (getitem data ''team'') (\<lambda>x13.
    bindE (bindE (getitem data ''published'') (parse_date from_iso)) (\<lambda>x14.
    bindE (bindE (getitem data ''updated'') (parse_date from_iso)) (\<lambda>x15.
    bindE (getitem data ''followers'') (\<lambda>x16.
    bindE (bindE (getitem data ''project_type'') (enum_of project_type_of)) (\<lambda>x17.
    bindE (getitem data ''downloads'') (\<lambda>x18.
    bindE (getitem data ''icon_url'') (\<lambda>x19.
    bindE (getitem data ''versions'') (\<lambda>x20.
    bindE (getitem data ''game_versions'') (\<lambda>x21.
    bindE (getitem data ''loaders'') (\<lambda>x22.
    bindE (bindE (bindE (dict_get data ''gallery'' (JList [])) items) (mapE (gallery_item_from_dict from_iso))) (\<lambda>x23.
    Inr \<lparr>pr_id = x0, pr_slug = x1, pr_title = x2, pr_description = x3,
         pr_body = x4, pr_categories = x5, pr_client_side = x6, pr_server_side = x7,
         pr_issues_url = x8, pr_source_url = x9, pr_wiki_url = x10, pr_discord_url = x11,
         pr_color = x12, pr_team = x13, pr_published = x14, pr_updated = x15,
         pr_followers = x16, pr_project_type = x17, pr_downloads = x18, pr_icon_url = x19,
         pr_versions = x20, pr_game_versions = x21, pr_loaders = x22, pr_gallery = x23\<rparr>))))))))))))))))))))))))"

section \<open>Versions of a project\<close>

record file_hashes =
  fh_sha1 :: json
  fh_sha512 :: json

text \<open>\<open>ModrinthFileHashes(**data)\<close>: exactly the two keys.\<close>

fun file_hashes_from_dict :: "json \<Rightarrow> exn + file_hashes" where
  "file_hashes_from_dict (JObj kvs) =
     (case (map_of kvs ''sha1'', map_of kvs ''sha512'') of
        (Some a, Some b) \<Rightarrow>
          if list_all (\<lambda>(k, _). k = ''sha1'' \<or> k = ''sha512'') kvs
          then Inr \<lparr>fh_sha1 = a, fh_sha512 = b\<rparr> else Inl TypeError
      | _ \<Rightarrow> Inl TypeError)"
| "file_hashes_from_dict _ = Inl TypeError"

record project_file =
  pf_hashes :: "file_hashes"
  pf_url :: "json"
  pf_filename :: "json"
  pf_primary :: "json"
  pf_size :: "json"
  pf_file_type :: "json"

definition project_file_from_dict :: "json \<Rightarrow> exn + project_file" where
  "project_file_from_dict data =
    bindE (bindE (getitem data ''hashes'') file_hashes_from_dict) (\<lambda>x0.
    bindE (getitem data ''url'') (\<lambda>x1.
    bindE (getitem data ''filename'') (\<lambda>x2.
    bindE (getitem data ''primary'') (\<lambda>x3.
    bindE (getitem data ''size'') (\<lambda>x4.
    bindE (dict_get data ''file_type'' JNull) (\<lambda>x5.
    Inr \<lparr>pf_hashes = x0, pf_url = x1, pf_filename = x2, pf_primary = x3,
         pf_size = x4, pf_file_type = x5\<rparr>))))))"

record project_version =
  ver_id :: "json"
  ver_project_id :: "json"
  ver_author_id :: "json"
  ver_date_published :: "int"
  ver_downloads :: "json"
  ver_name :: "json"
  ver_version_number :: "json"
  ver_changelog :: "json"
  ver_game_versions :: "json"
  ver_version_type :: "mod_version_type"
  ver_loaders :: "json"
  ver_featured :: "json"
  ver_status :: "json"
  ver_requested_status :: "json"
  ver_files :: "project_file list"
  ver_dependencies :: "json"

definition project_version_from_dict :: "(string \<Rightarrow> int option) \<Rightarrow> json \<Rightarrow> exn + project_version" where
  "project_version_from_dict from_iso data =
    bindE (getitem data ''id'') (\<lambda>x0.
    bindE (getitem data ''project_id'') (\<lambda>x1.
    bindE (getitem data ''author_id'') (\<lambda>x2.
    bindE (bindE (getitem data ''date_published'') (parse_date from_iso)) (\<lambda>x3.
    bindE (getitem data ''downloads'') (\<lambda>x4.
    bindE (getitem data ''name'') (\<lambda>x5.
    bindE (getitem data ''version_number'') (\<lambda>x6.
    bindE (getitem data ''changelog'') (\<lambda>x7.
    bindE (getitem data ''game_versions'') (\<lambda>x8.
    bindE (bindE (getitem data ''version_type'') (enum_of mod_version_type_of)) (\<lambda>x9.
    bindE (getitem data ''loaders'') (\<lambda>x10.
    bindE (getitem data ''featured'') (\<lambda>x11.
    bindE (getitem data ''status'') (\<lambda>x12.
    bindE (getitem data ''requested_status'') (\<lambda>x13.
    bindE (bindE (bindE (getitem data ''files'') items) (mapE project_file_from_dict)) (\<lambda>x14.
    bindE (dict_get data ''dependencies'' JNull) (\<lambda>x15.
    Inr \<lparr>ver_id = x0, ver_project_id = x1, ver_author_id = x2, ver_date_published = x3,
         ver_downloads = x4, ver_name = x5, ver_version_number = x6, ver_changelog = x7,
         ver_game_versions = x8, ver_version_type = x9, ver_loaders = x10, ver_featured = x11,
         ver_status = x12, ver_requested_status = x13, ver_files = x14, ver_dependencies = x15\<rparr>))))))))))))))))"

end
