(* ===== verification/Docker.thy ===== *)
theory Docker
  imports Models
begin

text \<open>
  \<open>app/services/docker_service.py\<close>. The Docker client is a library: the record \<open>docker_client\<close> holds
  its calls as actions on a daemon state that the model does not look into. Of the attributes of a
  container the backend only reads \<open>Id\<close>, so a container is its id.
\<close>

record volume_config =
  vol_bind :: string
  vol_mode :: string

definition rw_volume :: "string \<Rightarrow> volume_config" where
  "rw_volume b = \<lparr>vol_bind = b, vol_mode = ''rw''\<rparr>"

record container_spec =
  cs_image :: string
  cs_name :: string
  cs_command :: "string list option"
  cs_network :: string
  cs_volumes :: "(string \<times> volume_config) list"
  cs_ports :: "(string \<times> nat) list"
  cs_tty :: bool
  cs_stdin_open :: bool
  cs_environment :: "(string \<times> string option) list"
  cs_auto_remove :: bool

record 'd docker_client =
  images_get :: "string \<Rightarrow> ('d, unit) action"
  images_pull :: "string \<Rightarrow> ('d, unit) action"
  containers_create :: "container_spec \<Rightarrow> ('d, string) action"
  containers_get :: "string \<Rightarrow> ('d, string) action"
  containers_list :: "('d, string list) action"
  containers_named :: "string \<Rightarrow> ('d, string list) action"   \<comment> \<open>\<open>list(all=True, filters={"name": name})\<close>\<close>
  cont_start :: "string \<Rightarrow> ('d, unit) action"
  cont_stop :: "string \<Rightarrow> ('d, unit) action"
  cont_restart :: "string \<Rightarrow> ('d, unit) action"
  cont_remove_force :: "string \<Rightarrow> ('d, unit) action"
  cont_kill :: "string \<Rightarrow> string \<Rightarrow> ('d, unit) action"
  cont_exec :: "string \<Rightarrow> string list \<Rightarrow> ('d, string) action"
  cont_stats :: "string \<Rightarrow> ('d, string) action"
  aio_get :: "string \<Rightarrow> ('d, string) action"   \<comment> \<open>the asynchronous client\<close>
  aio_log :: "string \<Rightarrow> ('d, string list) action"
  aio_write_in :: "string \<Rightarrow> string \<Rightarrow> ('d, unit) action"
  client_close :: "('d, unit) action"
  aio_close :: "('d, unit) action"   \<comment> \<open>nothing before the first use of the asynchronous client\<close>

definition not_found :: "exn \<Rightarrow> bool" where
  "not_found e \<longleftrightarrow> e = DockerNotFound \<or> e = ImageNotFound"

text \<open>\<open>close\<close> ignores every exception.\<close>

definition close_clients :: "'d docker_client \<Rightarrow> ('d, unit) action" where
  "close_clients dk =
    thenA (catchA (client_close dk) (\<lambda>_. True) (ret ())) (catchA (aio_close dk) (\<lambda>_. True) (ret ()))"

text \<open>\<open>ImageNotFound\<close> is a subclass of \<open>NotFound\<close>; creation only pulls on the former.\<close>

definition create_container :: "'d docker_client \<Rightarrow> container_spec \<Rightarrow> ('d, string) action" where
  "create_container dk spec =
    thenA (catchA (images_get dk (cs_image spec)) (\<lambda>e. e = ImageNotFound) (images_pull dk (cs_image spec)))
          (containers_create dk spec)"

definition list_containers :: "'d docker_client \<Rightarrow> ('d, string list) action" where
  "list_containers dk = containers_list dk"

definition get_stats :: "'d docker_client \<Rightarrow> string list \<Rightarrow> ('d, (string \<times> string) list) action" where
  "get_stats dk container_ids = mapA (\<lambda>cid.
    bindA (containers_get dk cid) (\<lambda>c. bindA (cont_stats dk c) (\<lambda>s. ret (cid, s)))) container_ids"

definition start_container :: "'d docker_client \<Rightarrow> string \<Rightarrow> ('d, unit) action" where
  "start_container dk cid = bindA (containers_get dk cid) (cont_start dk)"

definition exec_container :: "'d docker_client \<Rightarrow> string \<Rightarrow> string list \<Rightarrow> ('d, string) action" where
  "exec_container dk cid command = bindA (containers_get dk cid) (\<lambda>c. cont_exec dk c command)"

definition stop_container :: "'d docker_client \<Rightarrow> string \<Rightarrow> ('d, unit) action" where
  "stop_container dk cid = bindA (containers_get dk cid) (cont_stop dk)"

definition restart_container :: "'d docker_client \<Rightarrow> string \<Rightarrow> ('d, unit) action" where
  "restart_container dk cid = bindA (containers_get dk cid) (cont_restart dk)"

definition remove_container :: "'d docker_client \<Rightarrow> string \<Rightarrow> ('d, unit) action" where
  "remove_container dk cid =
    catchA (bindA (containers_get dk cid) (cont_remove_force dk)) not_found (ret ())"

definition kill_container :: "'d docker_client \<Rightarrow> string \<Rightarrow> string \<Rightarrow> ('d, unit) action" where
  "kill_container dk cid signal =
    catchA (bindA (containers_get dk cid) (\<lambda>c. cont_kill dk c signal)) not_found (ret ())"

definition get_container :: "'d docker_client \<Rightarrow> string \<Rightarrow> ('d, string option) action" where
  "get_container dk cid =
    catchA (bindA (containers_get dk cid) (\<lambda>c. ret (Some c))) not_found (ret None)"

text \<open>The first match; any exception counts as no container.\<close>

definition get_container_by_name :: "'d docker_client \<Rightarrow> string \<Rightarrow> ('d, string option) action" where
  "get_container_by_name dk name =
    catchA (bindA (containers_named dk name) (\<lambda>cs. case cs of [] \<Rightarrow> ret None | c # _ \<Rightarrow> ret (Some c)))
           (\<lambda>_. True) (ret None)"

text \<open>The chunks of the log stream, and a line for the standard input.\<close>

definition get_container_logs_generator :: "'d docker_client \<Rightarrow> string \<Rightarrow> ('d, string list) action" where
  "get_container_logs_generator dk cid = bindA (aio_get dk cid) (aio_log dk)"

definition send_command_to_container :: "'d docker_client \<Rightarrow> string \<Rightarrow> string \<Rightarrow> ('d, unit) action" where
  "send_command_to_container dk cid command =
    bindA (aio_get dk cid) (\<lambda>c. aio_write_in dk c (command @ [newline]))"

lemma by_name_returns: "\<exists>r d'. get_container_by_name dk name d = (Inr r, d')"
  by (auto simp: get_container_by_name_def act_simps split: prod.splits sum.splits list.splits)

lemma kill_only_raises_others: "kill_container dk cid sig d = (Inl e, d') \<Longrightarrow> \<not> not_found e"
  by (auto simp: kill_container_def act_simps split: prod.splits sum.splits if_splits)

end
