(* ===== verification/Events.thy ===== *)
theory Events
  imports Models Json
begin

text \<open>
  Events and the cached server status: \<open>app/events/miniverse_event.py\<close> and
  \<open>app/services/connexion/server_status_store.py\<close>. The state is the hub that Redis provides: the
  key-value entries and the messages published on the channel, in order.
\<close>

section \<open>Events\<close>

record miniverse_event =
  ev_type :: event_type
  ev_data :: json
  ev_miniverse_id :: "string option"
  ev_updated_user_ids :: "string list option"

fun opt_str :: "json \<Rightarrow> string option" where
  "opt_str (JStr s) = Some s"
| "opt_str _ = None"

fun str_list :: "json \<Rightarrow> string list option" where
  "str_list (JList js) = Some (List.map_filter opt_str js)"
| "str_list _ = None"

text \<open>
  \<open>MiniverseEvent.from_bytes\<close>. \<open>miniverse_id\<close> is a string or null and \<open>updated_user_ids\<close> a list of
  strings or null in every message the backend publishes; other values are read as null.
\<close>

definition event_of_json :: "json \<Rightarrow> exn + miniverse_event" where
  "event_of_json event_dict =
    bindE (getitem event_dict ''type'') (\<lambda>t.
    bindE (case t of JStr s \<Rightarrow> event_type_of s | _ \<Rightarrow> Inl ValueError) (\<lambda>ty.
    bindE (getitem event_dict ''miniverse_id'') (\<lambda>m.
    bindE (dict_get event_dict ''data'' JNull) (\<lambda>d.
    bindE (dict_get event_dict ''updated_user_ids'' JNull) (\<lambda>u.
    Inr \<lparr>ev_type = ty, ev_data = d, ev_miniverse_id = opt_str m, ev_updated_user_ids = str_list u\<rparr>)))))"

definition event_from_bytes :: "jtext \<Rightarrow> exn + miniverse_event" where
  "event_from_bytes data = event_of_json (json_loads data)"

text \<open>The channel plugin serialises a dataclass field by field.\<close>

definition event_to_json :: "miniverse_event \<Rightarrow> json" where
  "event_to_json ev =
    JObj [(''type'', JStr (event_type_value (ev_type ev))),
          (''data'', ev_data ev),
          (''miniverse_id'', case ev_miniverse_id ev of None \<Rightarrow> JNull | Some i \<Rightarrow> JStr i),
          (''updated_user_ids'',
           case ev_updated_user_ids ev of None \<Rightarrow> JNull | Some us \<Rightarrow> JList (map JStr us))]"

definition user_list_from_user_role_list :: "miniverse_user_role list \<Rightarrow> string list" where
  "user_list_from_user_role_list rows = map mur_user_id rows"

record hub =
  kv :: "(string \<times> jtext) list"
  channel :: "miniverse_event list"

definition publish :: "miniverse_event \<Rightarrow> (hub, unit) action" where
  "publish ev = modifyA (\<lambda>h. h\<lparr>channel := channel h @ [ev]\<rparr>)"

definition publish_miniverse_control_event ::
  "string \<Rightarrow> event_type \<Rightarrow> json \<Rightarrow> (hub, unit) action" where
  "publish_miniverse_control_event miniverse_id t data =
    publish \<lparr>ev_type = t, ev_data = data, ev_miniverse_id = Some miniverse_id,
             ev_updated_user_ids = None\<rparr>"

definition publish_miniverse_created_event :: "string \<Rightarrow> string list \<Rightarrow> (hub, unit) action" where
  "publish_miniverse_created_event miniverse_id updated_user_ids =
    publish \<lparr>ev_type = CREATED, ev_data = JObj [], ev_miniverse_id = Some miniverse_id,
             ev_updated_user_ids = Some updated_user_ids\<rparr>"

definition publish_miniverse_deleted_event :: "string \<Rightarrow> string list \<Rightarrow> (hub, unit) action" where
  "publish_miniverse_deleted_event miniverse_id updated_user_ids =
    publish \<lparr>ev_type = DELETED, ev_data = JObj [], ev_miniverse_id = Some miniverse_id,
             ev_updated_user_ids = Some updated_user_ids\<rparr>"

definition publish_miniverse_updated_event :: "string \<Rightarrow> string list option \<Rightarrow> (hub, unit) action" where
  "publish_miniverse_updated_event miniverse_id updated_user_ids =
    publish \<lparr>ev_type = UPDATED, ev_data = JObj [], ev_miniverse_id = Some miniverse_id,
             ev_updated_user_ids = updated_user_ids\<rparr>"

lemma map_filter_opt_str [simp]: "List.map_filter opt_str (map JStr us) = us"
  by (induction us) (simp_all add: List.map_filter_simps)

lemma event_of_to_json [simp]: "event_of_json (event_to_json ev) = Inr ev"
  by (cases ev) (simp add: event_of_json_def event_to_json_def split: option.splits)

lemma event_round_trip: "event_from_bytes (json_dumps (event_to_json ev)) = Inr ev"
  by (simp add: event_from_bytes_def)

section \<open>The status store\<close>

text \<open>
  \<open>ServerStatusStore\<close> on a Redis store whose keys carry the namespace \<open>ns\<close>. Redis returns bytes,
  and \<open>json.dumps\<close> gives a string: the two never compare equal in Python, so an existing entry
  always counts as changed.
\<close>

definition store_key :: "string \<Rightarrow> string \<Rightarrow> string \<Rightarrow> string" where
  "store_key ns miniverse_id method_name = ns @ miniverse_id @ ''.'' @ method_name"

definition bytes_neq_str :: "'a option \<Rightarrow> 'a option \<Rightarrow> bool" where
  "bytes_neq_str old new \<longleftrightarrow> old \<noteq> None \<or> new \<noteq> None"

definition kv_get :: "string \<Rightarrow> hub \<Rightarrow> jtext option" where
  "kv_get k h = map_of (kv h) k"

definition kv_set :: "string \<Rightarrow> jtext \<Rightarrow> hub \<Rightarrow> hub" where
  "kv_set k v h = h\<lparr>kv := AList.update k v (kv h)\<rparr>"

definition kv_delete :: "string \<Rightarrow> hub \<Rightarrow> hub" where
  "kv_delete k h = h\<lparr>kv := AList.delete k (kv h)\<rparr>"

text \<open>\<open>None\<close> is \<open>JNull\<close>; setting it deletes the entry.\<close>

definition status_set :: "string \<Rightarrow> string \<Rightarrow> string \<Rightarrow> json \<Rightarrow> bool \<Rightarrow> (hub, unit) action" where
  "status_set ns miniverse_id method_name v pub =
    (let key = store_key ns miniverse_id method_name;
         json_value = (if v \<noteq> JNull then Some (json_dumps v) else None)
     in bindA (getA (kv_get key)) (\<lambda>old_json_value.
        if bytes_neq_str old_json_value json_value then
          thenA (case json_value of
                   Some t \<Rightarrow> modifyA (kv_set key t)
                 | None \<Rightarrow> modifyA (kv_delete key))
                (if pub then bindA (liftA (event_type_of method_name)) (\<lambda>t.
                               publish_miniverse_control_event miniverse_id t v)
                 else ret ())
        else ret ()))"

definition status_value :: "string \<Rightarrow> hub \<Rightarrow> string \<Rightarrow> string \<Rightarrow> json" where
  "status_value ns h miniverse_id method_id =
    (case kv_get (store_key ns miniverse_id method_id) h of None \<Rightarrow> JNull | Some t \<Rightarrow> json_loads t)"

definition status_get :: "string \<Rightarrow> string \<Rightarrow> string \<Rightarrow> (hub, json) action" where
  "status_get ns miniverse_id method_id = getA (\<lambda>h. status_value ns h miniverse_id method_id)"

text \<open>
  \<open>delete_miniverse_cache\<close> scans the raw keys, which carry the namespace, for the ones that start
  with the miniverse, and would delete each through the namespaced store, which cannot build a key
  from bytes. (Ids hold no wildcard character.)
\<close>

definition delete_miniverse_cache :: "string \<Rightarrow> (hub, unit) action" where
  "delete_miniverse_cache miniverse_id =
    bindA (getA (\<lambda>h. filter (\<lambda>k. starts_with (miniverse_id @ ''.'') k) (map fst (kv h)))) (\<lambda>rs.
    if rs = [] then ret () else raise TypeError)"

section \<open>What a status store promises\<close>

text \<open>
  The contract the services use: \<open>value\<close> reads an entry, \<open>put\<close> writes one. Ids without a dot
  keep the entries of two miniverses apart.
\<close>

locale status_store =
  fixes val :: "'h \<Rightarrow> string \<Rightarrow> string \<Rightarrow> json"
    and put :: "string \<Rightarrow> string \<Rightarrow> json \<Rightarrow> bool \<Rightarrow> 'h \<Rightarrow> 'h"
    and good_id :: "string \<Rightarrow> bool"
  assumes val_put_same: "val (put i m v p h) i m = v"
    and val_put_other:
      "good_id i \<Longrightarrow> good_id j \<Longrightarrow> (i, m) \<noteq> (j, n) \<Longrightarrow> val (put i m v p h) j n = val h j n"
begin

lemma put_put_same: "val (put i m v p (put i m w q h)) i m = v"
  by (rule val_put_same)

lemma put_commutes_on_reads:
  assumes "good_id i" "good_id j" "(i, m) \<noteq> (j, n)"
  shows "val (put i m v p (put j n w q h)) j n = val (put j n w q (put i m v p h)) j n"
  using val_put_other [OF assms] by (simp add: val_put_same)

end

definition no_dot :: "string \<Rightarrow> bool" where
  "no_dot s \<longleftrightarrow> CHR ''.'' \<notin> set s"

lemma store_key_inject:
  assumes "no_dot i" "no_dot j" "store_key ns i m = store_key ns j n"
  shows "i = j \<and> m = n"
proof -
  have "split_on (CHR ''.'') (i @ CHR ''.'' # m) = split_on (CHR ''.'') (j @ CHR ''.'' # n)"
    using assms(3) by (simp add: store_key_def)
  then have "i = j" using assms(1,2) by (simp add: split_on_append_sep no_dot_def)
  with assms(3) show ?thesis by (simp add: store_key_def)
qed

definition put_status :: "string \<Rightarrow> string \<Rightarrow> string \<Rightarrow> json \<Rightarrow> bool \<Rightarrow> hub \<Rightarrow> hub" where
  "put_status ns i m v p h = snd (status_set ns i m v p h)"

lemma kv_put_status:
  "kv_get k (put_status ns i m v p h) =
    (if k = store_key ns i m then (if v = JNull then None else Some (json_dumps v)) else kv_get k h)"
  by (cases "v = JNull"; cases "kv_get (store_key ns i m) h")
    (auto simp: put_status_def status_set_def act_simps Let_def bytes_neq_str_def kv_get_def
      kv_set_def kv_delete_def update_conv' delete_conv' publish_miniverse_control_event_def
      publish_def split: sum.splits)

interpretation status: status_store "status_value ns" "put_status ns" no_dot for ns
proof
  fix i m v p h
  show "status_value ns (put_status ns i m v p h) i m = v"
    by (auto simp: status_value_def kv_put_status)
next
  fix i j m n :: string and v p h
  assume "no_dot i" "no_dot j" "(i, m) \<noteq> (j, n)"
  then have "store_key ns j n \<noteq> store_key ns i m" using store_key_inject by blast
  then show "status_value ns (put_status ns i m v p h) j n = status_value ns h j n"
    by (simp add: status_value_def kv_put_status)
qed

text \<open>
  Reading an entry of the status store gives the value
  written last, and writing one leaves every entry of another miniverse or method alone.
\<close>

theorem status_read_after_write:
  "status_value ns (snd (status_set ns i m v p h)) i m = v \<and>
   (no_dot i \<and> no_dot j \<and> (i, m) \<noteq> (j, n) \<longrightarrow>
    status_value ns (snd (status_set ns i m v p h)) j n = status_value ns h j n)"
  using status.val_put_same status.val_put_other unfolding put_status_def by blast

theorem status_read_after_write_witness:
  "status_value ''r:'' (snd (status_set ''r:'' ''m1'' ''minecraft:players'' (JList []) True
     \<lparr>kv = [(''r:m2.minecraft:players'', JsonText (JInt 1))], channel = []\<rparr>)) ''m2'' ''minecraft:players'' = JInt 1"
proof -
  have "status_value ''r:'' (snd (status_set ''r:'' ''m1'' ''minecraft:players'' (JList []) True
      \<lparr>kv = [(''r:m2.minecraft:players'', JsonText (JInt 1))], channel = []\<rparr>)) ''m2'' ''minecraft:players''
    = status_value ''r:'' \<lparr>kv = [(''r:m2.minecraft:players'', JsonText (JInt 1))], channel = []\<rparr>
        ''m2'' ''minecraft:players''"
    using status_read_after_write [of "''r:''" "''m1''" "''minecraft:players''" "JList []" True
        "\<lparr>kv = [(''r:m2.minecraft:players'', JsonText (JInt 1))], channel = []\<rparr>" "''m2''" "''minecraft:players''"]
    by (simp add: no_dot_def)
  also have "\<dots> = JInt 1" by (simp add: status_value_def kv_get_def store_key_def)
  finally show ?thesis .
qed

text \<open>
  Writing the value that is already stored publishes
  an event again: the comparison that should suppress it never finds two equal values.
\<close>

theorem unchanged_status_is_published:
  assumes "status_value ns h i m = v" "v \<noteq> JNull" "event_type_of m = Inr t"
  shows "channel (snd (status_set ns i m v True h)) =
    channel h @ [\<lparr>ev_type = t, ev_data = v, ev_miniverse_id = Some i, ev_updated_user_ids = None\<rparr>]"
  using assms
  by (simp add: status_set_def act_simps Let_def bytes_neq_str_def kv_set_def
      publish_miniverse_control_event_def publish_def)

theorem unchanged_status_is_published_witness:
  "channel (snd (status_set ''r:'' ''m1'' ''minecraft:players'' (JList []) True
     \<lparr>kv = [(''r:m1.minecraft:players'', JsonText (JList []))], channel = []\<rparr>)) \<noteq> []"
proof -
  let ?h = "\<lparr>kv = [(''r:m1.minecraft:players'', JsonText (JList []))], channel = []\<rparr>"
  have v: "status_value ''r:'' ?h ''m1'' ''minecraft:players'' = JList []"
    by code_simp
  have t: "event_type_of ''minecraft:players'' = Inr PLAYERS"
    by (rule event_type_of_value [of PLAYERS, unfolded event_type_value.simps])
  show ?thesis
    using unchanged_status_is_published [OF v _ t] by simp
qed

text \<open>
  Deleting the cache of a miniverse deletes nothing: every
  stored key begins with the namespace, so the scan for keys that begin with the id is empty.
\<close>

theorem cache_survives_deletion:
  assumes "\<forall>k \<in> set (map fst (kv h)). \<exists>r. k = ns @ r" "ns \<noteq> []" "i \<noteq> []" "hd i \<noteq> hd ns"
  shows "delete_miniverse_cache i h = (Inr (), h)"
proof -
  have "\<not> starts_with (i @ ''.'') k" if k: "k \<in> set (map fst (kv h))" for k
  proof -
    obtain r where "k = ns @ r" using assms(1) k by blast
    moreover obtain a as b bs where "ns = a # as" "i = b # bs" "a \<noteq> b"
      using assms(2-4) by (cases ns; cases i) auto
    ultimately show ?thesis by (simp add: starts_with_def)
  qed
  then have "filter (\<lambda>k. starts_with (i @ ''.'') k) (map fst (kv h)) = []"
    by (simp add: filter_empty_conv)
  then show ?thesis by (simp add: delete_miniverse_cache_def act_simps)
qed

theorem cache_survives_deletion_witness:
  "delete_miniverse_cache ''m1''
     \<lparr>kv = [(''LITESTAR_server-status:m1.minecraft:players'', JsonText (JList []))], channel = []\<rparr> =
   (Inr (), \<lparr>kv = [(''LITESTAR_server-status:m1.minecraft:players'', JsonText (JList []))], channel = []\<rparr>)"
  by (rule cache_survives_deletion [where ns = "''LITESTAR_server-status:''"]) auto

end
