(* ===== verification/Connexion.thy ===== *)
theory Connexion
  imports Events Versions
begin

text \<open>
  The live connection to the game servers: \<open>app/services/connexion\<close>, \<open>app/schemas/player.py\<close> and
  \<open>app/managers/ServerStatusManager.py\<close>. Parameters: the answers of a game server over JSON-RPC
  (\<open>rpc\<close>), the coercions of pydantic for numbers and truth values, Python's \<open>str\<close> of a value
  that is no string, and what the version comparison reads from the network.
\<close>

section \<open>Players\<close>

record pydantic =
  coerce_int :: "json \<Rightarrow> int option"
  coerce_bool :: "json \<Rightarrow> bool option"

record player =
  pl_id :: string
  pl_name :: string

record player_ban =
  ban_reason :: string
  ban_expires :: "string option"
  ban_source :: string
  ban_player :: player

record operator =
  op_level :: int
  op_bypass :: bool
  op_player :: player

text \<open>\<open>Model(**d)\<close>: a value of the wrong type is a validation error, a subclass of \<open>ValueError\<close>.\<close>

definition str_field :: "(string \<times> json) list \<Rightarrow> string \<Rightarrow> exn + string" where
  "str_field kvs k = (case map_of kvs k of Some (JStr s) \<Rightarrow> Inr s | _ \<Rightarrow> Inl ValueError)"

definition opt_str_field :: "(string \<times> json) list \<Rightarrow> string \<Rightarrow> exn + string option" where
  "opt_str_field kvs k = (case map_of kvs k of
     None \<Rightarrow> Inr None | Some JNull \<Rightarrow> Inr None | Some (JStr s) \<Rightarrow> Inr (Some s) | _ \<Rightarrow> Inl ValueError)"

fun player_of_json :: "json \<Rightarrow> exn + player" where
  "player_of_json (JObj kvs) =
     bindE (str_field kvs ''id'') (\<lambda>i. bindE (str_field kvs ''name'') (\<lambda>n.
     Inr \<lparr>pl_id = i, pl_name = n\<rparr>))"
| "player_of_json _ = Inl TypeError"

definition player_field :: "(string \<times> json) list \<Rightarrow> exn + player" where
  "player_field kvs = (case map_of kvs ''player'' of
     Some (JObj p) \<Rightarrow> player_of_json (JObj p) | _ \<Rightarrow> Inl ValueError)"

fun ban_of_json :: "json \<Rightarrow> exn + player_ban" where
  "ban_of_json (JObj kvs) =
     bindE (str_field kvs ''reason'') (\<lambda>r.
     bindE (opt_str_field kvs ''expires'') (\<lambda>e.
     bindE (str_field kvs ''source'') (\<lambda>s.
     bindE (player_field kvs) (\<lambda>p.
     Inr \<lparr>ban_reason = r, ban_expires = e, ban_source = s, ban_player = p\<rparr>))))"
| "ban_of_json _ = Inl TypeError"

definition coerced :: "('j \<Rightarrow> 'a option) \<Rightarrow> 'j option \<Rightarrow> exn + 'a" where
  "coerced f j = (case j of None \<Rightarrow> Inl ValueError | Some v \<Rightarrow>
     (case f v of None \<Rightarrow> Inl ValueError | Some x \<Rightarrow> Inr x))"

fun operator_of_json :: "pydantic \<Rightarrow> json \<Rightarrow> exn + operator" where
  "operator_of_json pyd (JObj kvs) =
     bindE (coerced (coerce_int pyd) (map_of kvs ''permissionLevel'')) (\<lambda>l.
     bindE (coerced (coerce_bool pyd) (map_of kvs ''bypassesPlayerLimit'')) (\<lambda>b.
     bindE (player_field kvs) (\<lambda>p.
     Inr \<lparr>op_level = l, op_bypass = b, op_player = p\<rparr>)))"
| "operator_of_json pyd _ = Inl TypeError"

definition player_dump :: "player \<Rightarrow> json" where
  "player_dump p = JObj [(''id'', JStr (pl_id p)), (''name'', JStr (pl_name p))]"

definition operator_dump :: "operator \<Rightarrow> json" where
  "operator_dump op = JObj [(''permissionLevel'', JInt (op_level op)),
     (''bypassesPlayerLimit'', JBool (op_bypass op)), (''player'', player_dump (op_player op))]"

lemma player_of_dump [simp]: "player_of_json (player_dump p) = Inr p"
  by (simp add: player_dump_def str_field_def)

section \<open>BaseMiniverseService\<close>

definition get_data_cached ::
  "string \<Rightarrow> string \<Rightarrow> (string \<Rightarrow> exn + json) \<Rightarrow> string \<Rightarrow> bool \<Rightarrow> (hub, json \<times> bool) action" where
  "get_data_cached ns miniverse_id source method_name refresh_cache =
    bindA (if \<not> refresh_cache then status_get ns miniverse_id method_name else ret JNull) (\<lambda>raw_data.
    if raw_data = JNull then
      bindA (liftA (source method_name)) (\<lambda>raw.
      thenA (status_set ns miniverse_id method_name raw True) (ret (raw, True)))
    else ret (raw_data, False))"

text \<open>\<open>{p["id"]: p for p in raw}\<close> merged into the seen players; the ids are strings.\<close>

definition player_key :: "json \<Rightarrow> exn + string" where
  "player_key p = bindE (getitem p ''id'') (\<lambda>i. case i of JStr s \<Rightarrow> Inr s | _ \<Rightarrow> Inl TypeError)"

fun as_dict :: "json \<Rightarrow> exn + (string \<times> json) list" where
  "as_dict (JObj kvs) = Inr kvs"
| "as_dict _ = Inl TypeError"

definition dict_update :: "(string \<times> json) list \<Rightarrow> (string \<times> json) list \<Rightarrow> (string \<times> json) list" where
  "dict_update kvs new = fold (\<lambda>(k, v) acc. AList.update k v acc) new kvs"

definition or_empty :: "json \<Rightarrow> json" where
  "or_empty j = (if truthy j then j else JObj [])"

definition merge_seen :: "json \<Rightarrow> json \<Rightarrow> exn + json" where
  "merge_seen seen raw =
    bindE (items raw) (\<lambda>ps.
    bindE (mapE player_key ps) (\<lambda>keys.
    bindE (as_dict (or_empty seen)) (\<lambda>kvs.
    Inr (JObj (dict_update kvs (zip keys ps))))))"

definition get_msmp_player_list ::
  "string \<Rightarrow> string \<Rightarrow> (string \<Rightarrow> exn + json) \<Rightarrow> bool \<Rightarrow> (hub, player list) action" where
  "get_msmp_player_list ns miniverse_id source refresh_cache =
    bindA (get_data_cached ns miniverse_id source ''minecraft:players'' refresh_cache)
      (\<lambda>(raw_player_list, has_refreshed).
    if raw_player_list = JNull then ret []
    else
      thenA (if has_refreshed then
               bindA (status_get ns miniverse_id ''miniverse:seen_players'') (\<lambda>seen.
               bindA (liftA (merge_seen seen raw_player_list)) (\<lambda>seen'.
               status_set ns miniverse_id ''miniverse:seen_players'' seen' False))
             else ret ())
        (bindA (liftA (items raw_player_list)) (\<lambda>ps. liftA (mapE player_of_json ps))))"

definition get_msmp_seen_player_list :: "string \<Rightarrow> string \<Rightarrow> (hub, player list) action" where
  "get_msmp_seen_player_list ns miniverse_id =
    bindA (status_get ns miniverse_id ''miniverse:seen_players'') (\<lambda>seen.
    bindA (liftA (as_dict (or_empty seen))) (\<lambda>kvs.
    liftA (mapE player_of_json (map snd kvs))))"

section \<open>The two services\<close>

text \<open>
  A router service holds the online players it heard of; a WebSocket service knows whether its
  connection task runs and whether the server is connected. Cancelling the task closes the
  connection at its next step; here both happen together.
\<close>

datatype controller =
    MCRouter "(string \<times> player) list"
  | WebSocket bool bool   \<comment> \<open>task running, server connected\<close>

type_synonym rpc = "string \<Rightarrow> string \<Rightarrow> json list \<Rightarrow> exn + json"

text \<open>\<open>async_call_rpc\<close>: \<open>None\<close> without a connection.\<close>

definition async_call_rpc :: "rpc \<Rightarrow> string \<Rightarrow> bool \<Rightarrow> string \<Rightarrow> json list \<Rightarrow> exn + json" where
  "async_call_rpc rpc miniverse_id connected method_name args =
    (if \<not> connected then Inr JNull else rpc miniverse_id method_name args)"

fun get_data_from_source :: "rpc \<Rightarrow> string \<Rightarrow> controller \<Rightarrow> string \<Rightarrow> exn + json" where
  "get_data_from_source rpc i (MCRouter online) method_name =
     (if method_name = ''minecraft:players'' then Inr (JList (map (\<lambda>(_, p). player_dump p) online))
      else Inr JNull)"
| "get_data_from_source rpc i (WebSocket running connected) method_name =
     async_call_rpc rpc i connected method_name []"

fun controller_start :: "controller \<Rightarrow> controller" where
  "controller_start (MCRouter online) = MCRouter online"
| "controller_start (WebSocket running connected) = WebSocket True connected"

text \<open>Stopping a WebSocket service refreshes the players first; a router forgets its players.\<close>

fun controller_stop :: "string \<Rightarrow> rpc \<Rightarrow> string \<Rightarrow> controller \<Rightarrow> (hub, controller) action" where
  "controller_stop ns rpc i (MCRouter online) = ret (MCRouter [])"
| "controller_stop ns rpc i (WebSocket running connected) =
     thenA (get_msmp_player_list ns i (get_data_from_source rpc i (WebSocket running connected)) True)
           (ret (WebSocket False (if running then False else connected)))"

definition get_msmp_operator_list ::
  "string \<Rightarrow> pydantic \<Rightarrow> string \<Rightarrow> (string \<Rightarrow> exn + json) \<Rightarrow> bool \<Rightarrow> (hub, operator list) action" where
  "get_msmp_operator_list ns pyd i source refresh_cache =
    bindA (get_data_cached ns i source ''minecraft:operators'' refresh_cache) (\<lambda>(operators, _).
    if operators = JNull then ret []
    else bindA (liftA (items operators)) (\<lambda>ops. liftA (mapE (operator_of_json pyd) ops)))"

definition get_msmp_banned_player_list ::
  "string \<Rightarrow> string \<Rightarrow> (string \<Rightarrow> exn + json) \<Rightarrow> bool \<Rightarrow> (hub, player_ban list) action" where
  "get_msmp_banned_player_list ns i source refresh_cache =
    bindA (get_data_cached ns i source ''minecraft:bans'' refresh_cache) (\<lambda>(bans, _).
    if bans = JNull then ret []
    else bindA (liftA (items bans)) (\<lambda>bs. liftA (mapE ban_of_json bs)))"

text \<open>\<open>on_connect\<close>: the three refreshes, in the order in which they are gathered.\<close>

definition on_connect :: "string \<Rightarrow> pydantic \<Rightarrow> string \<Rightarrow> (string \<Rightarrow> exn + json) \<Rightarrow> (hub, unit) action" where
  "on_connect ns pyd i source =
    thenA (get_msmp_player_list ns i source True)
   (thenA (get_msmp_operator_list ns pyd i source True)
   (thenA (get_msmp_banned_player_list ns i source True) (ret ())))"

text \<open>Notifications of the server: the handler of each method refreshes one list or logs.\<close>

datatype notification =
    PlayersJoined | PlayersLeft | OperatorsAdded | OperatorsRemoved | BansAdded | BansRemoved
  | ServerSaving | ServerSaved | ServerStarted | ServerStopping

fun handle_notification ::
  "string \<Rightarrow> pydantic \<Rightarrow> string \<Rightarrow> (string \<Rightarrow> exn + json) \<Rightarrow> notification \<Rightarrow> (hub, unit) action" where
  "handle_notification ns pyd i source n =
    (case n of
       PlayersJoined \<Rightarrow> thenA (get_msmp_player_list ns i source True) (ret ())
     | PlayersLeft \<Rightarrow> thenA (get_msmp_player_list ns i source True) (ret ())
     | OperatorsAdded \<Rightarrow> thenA (get_msmp_operator_list ns pyd i source True) (ret ())
     | OperatorsRemoved \<Rightarrow> thenA (get_msmp_operator_list ns pyd i source True) (ret ())
     | BansAdded \<Rightarrow> thenA (get_msmp_banned_player_list ns i source True) (ret ())
     | BansRemoved \<Rightarrow> thenA (get_msmp_banned_player_list ns i source True) (ret ())
     | _ \<Rightarrow> ret ())"

text \<open>
  The commands of a WebSocket service answer whether the server answered. A router service has no
  such methods: calling one is \<open>AttributeError\<close>.
\<close>

definition called :: "exn + json \<Rightarrow> exn + bool" where
  "called r = bindE r (\<lambda>j. Inr (j \<noteq> JNull))"

fun set_player_operator :: "rpc \<Rightarrow> string \<Rightarrow> controller \<Rightarrow> string \<Rightarrow> bool \<Rightarrow> exn + bool" where
  "set_player_operator rpc i (MCRouter _) player_id set_operator = Inl AttributeError"
| "set_player_operator rpc i (WebSocket _ connected) player_id set_operator =
     (let player = \<lparr>pl_id = player_id, pl_name = []\<rparr> in
      called (if set_operator
        then async_call_rpc rpc i connected ''minecraft:operators/add''
               [JList [operator_dump \<lparr>op_level = 4, op_bypass = True, op_player = player\<rparr>]]
        else async_call_rpc rpc i connected ''minecraft:operators/remove''
               [JList [player_dump player]]))"

fun kick_player :: "rpc \<Rightarrow> string \<Rightarrow> controller \<Rightarrow> string \<Rightarrow> string \<Rightarrow> exn + bool" where
  "kick_player rpc i (MCRouter _) player_id reason = Inl AttributeError"
| "kick_player rpc i (WebSocket _ connected) player_id reason =
     called (async_call_rpc rpc i connected ''minecraft:players/kick''
       [JList [JObj [(''player'', JObj [(''id'', JStr player_id)]),
                     (''message'', JObj [(''literal'', JStr reason)])]]])"

fun ban_player_cmd :: "rpc \<Rightarrow> string \<Rightarrow> controller \<Rightarrow> string \<Rightarrow> string \<Rightarrow> exn + bool" where
  "ban_player_cmd rpc i (MCRouter _) player_id reason = Inl AttributeError"
| "ban_player_cmd rpc i (WebSocket _ connected) player_id reason =
     called (async_call_rpc rpc i connected ''minecraft:bans/add''
       [JList [JObj [(''player'', JObj [(''id'', JStr player_id)]), (''reason'', JStr reason)]]])"

fun unban_player :: "rpc \<Rightarrow> string \<Rightarrow> controller \<Rightarrow> string \<Rightarrow> exn + bool" where
  "unban_player rpc i (MCRouter _) player_id = Inl AttributeError"
| "unban_player rpc i (WebSocket _ connected) player_id =
     called (async_call_rpc rpc i connected ''minecraft:bans/remove''
       [JList [JObj [(''id'', JStr player_id)]]])"

section \<open>Webhooks of the router\<close>

text \<open>\<open>MCRouterMiniverseService.process_webhook\<close>, with the players it keeps.\<close>

fun str_value :: "json \<Rightarrow> exn + string" where
  "str_value (JStr s) = Inr s"
| "str_value _ = Inl ValueError"

text \<open>A list or an object cannot be the key of a dictionary; other values are no id of a player.\<close>

fun pop_player :: "json \<Rightarrow> (string \<times> player) list \<Rightarrow> exn + (string \<times> player) list" where
  "pop_player (JStr i) online = Inr (AList.delete i online)"
| "pop_player (JList _) online = Inl TypeError"
| "pop_player (JObj _) online = Inl TypeError"
| "pop_player _ online = Inr online"

definition webhook_players :: "json \<Rightarrow> (string \<times> player) list \<Rightarrow> exn + (string \<times> player) list option" where
  "webhook_players payload online =
    bindE (dict_get payload ''event'' JNull) (\<lambda>event_type.
    bindE (dict_get payload ''player'' JNull) (\<lambda>player_data.
    if \<not> truthy player_data then Inr None
    else
      bindE (getitem player_data ''uuid'') (\<lambda>p_id.
      bindE (getitem player_data ''name'') (\<lambda>p_name.
      bindE (dict_get payload ''status'' JNull) (\<lambda>status.
      if event_type = JStr ''connect'' \<and> status = JStr ''success'' then
        bindE (str_value p_id) (\<lambda>i. bindE (str_value p_name) (\<lambda>n.
        Inr (Some (AList.update i \<lparr>pl_id = i, pl_name = n\<rparr> online))))
      else if event_type = JStr ''disconnect'' then
        bindE (pop_player p_id online) (\<lambda>online'. Inr (Some online'))
      else Inr (Some online))))))"

section \<open>The manager\<close>

record live =
  l_hub :: hub
  l_cache :: cache
  l_controllers :: "(string \<times> controller) list"

abbreviation on_hub :: "(hub, 'a) action \<Rightarrow> (live, 'a) action" where
  "on_hub m \<equiv> zoomA l_hub l_hub_update m"

abbreviation on_cache :: "(cache, 'a) action \<Rightarrow> (live, 'a) action" where
  "on_cache m \<equiv> zoomA l_cache l_cache_update m"

definition get_miniverse_controller :: "string \<Rightarrow> live \<Rightarrow> controller option" where
  "get_miniverse_controller i l = map_of (l_controllers l) i"

definition set_controller :: "string \<Rightarrow> controller \<Rightarrow> (live, unit) action" where
  "set_controller i c = modifyA (\<lambda>l. l\<lparr>l_controllers := AList.update i c (l_controllers l)\<rparr>)"

definition add_miniverse ::
  "(string \<Rightarrow> int option) \<Rightarrow> exn + json \<Rightarrow> miniverse \<Rightarrow> (live, controller) action" where
  "add_miniverse from_iso fetch mv =
    bindA (getA (get_miniverse_controller (m_id mv))) (\<lambda>existing. case existing of
      Some c \<Rightarrow> thenA (set_controller (m_id mv) (controller_start c)) (ret (controller_start c))
    | None \<Rightarrow>
        bindA (on_cache (compare_versions from_iso fetch (m_mc_version mv) ''1.21.9'')) (\<lambda>r.
        let control = (if r = Some 1 then WebSocket False False else MCRouter [])
        in thenA (set_controller (m_id mv) control) (ret control)))"

definition remove_miniverse :: "string \<Rightarrow> rpc \<Rightarrow> string \<Rightarrow> (live, unit) action" where
  "remove_miniverse ns rpc i =
    bindA (getA (get_miniverse_controller i)) (\<lambda>control.
    thenA (modifyA (\<lambda>l. l\<lparr>l_controllers := AList.delete i (l_controllers l)\<rparr>))
          (case control of None \<Rightarrow> ret ()
           | Some c \<Rightarrow> thenA (on_hub (controller_stop ns rpc i c)) (ret ())))"

text \<open>\<open>str(payload.get("backend")).lstrip('miniverse-').split(':')[0]\<close>\<close>

definition webhook_target :: "(json \<Rightarrow> string) \<Rightarrow> json \<Rightarrow> exn + string" where
  "webhook_target py_str payload =
    bindE (dict_get payload ''backend'' JNull) (\<lambda>b.
    Inr (hd (split_on (CHR '':'') (lstrip_chars ''miniverse-''
           (case b of JStr s \<Rightarrow> s | _ \<Rightarrow> py_str b)))))"

definition handle_mc_router_webhook ::
  "string \<Rightarrow> rpc \<Rightarrow> (json \<Rightarrow> string) \<Rightarrow> json \<Rightarrow> (live, unit) action" where
  "handle_mc_router_webhook ns rpc py_str payload =
    bindA (liftA (webhook_target py_str payload)) (\<lambda>target_id.
    bindA (getA (get_miniverse_controller target_id)) (\<lambda>service. case service of
      Some (MCRouter online) \<Rightarrow>
        bindA (liftA (webhook_players payload online)) (\<lambda>r. case r of
          None \<Rightarrow> ret ()
        | Some online' \<Rightarrow>
            thenA (set_controller target_id (MCRouter online'))
           (thenA (on_hub (get_msmp_player_list ns target_id
                     (get_data_from_source rpc target_id (MCRouter online')) True))
                  (ret ())))
    | _ \<Rightarrow> ret ()))"

section \<open>Routing a webhook to its service\<close>

definition backend_of :: "string \<Rightarrow> string" where
  "backend_of i = ''miniverse-'' @ i @ '':25565''"

definition webhook_for :: "string \<Rightarrow> (string \<times> json) list \<Rightarrow> json" where
  "webhook_for i kvs = JObj ((''backend'', JStr (backend_of i)) # kvs)"

lemma webhook_target_for:
  assumes "CHR '':'' \<notin> set i"
  shows "webhook_target py_str (webhook_for i kvs) = Inr (lstrip_chars ''miniverse-'' i)"
proof -
  have "lstrip_chars ''miniverse-'' (backend_of i) = lstrip_chars ''miniverse-'' i @ '':25565''"
    by (induction i) (auto simp: backend_of_def lstrip_chars_def)
  moreover have "CHR '':'' \<notin> set (lstrip_chars ''miniverse-'' i)"
    using assms set_dropWhileD by (fastforce simp: lstrip_chars_def)
  ultimately show ?thesis
    using split_on_append_sep [of "CHR '':''" "lstrip_chars ''miniverse-'' i" "''25565''"]
    by (simp add: webhook_target_def webhook_for_def)
qed

lemma lstrip_same: "lstrip_chars cs i = i \<longleftrightarrow> i = [] \<or> hd i \<notin> set cs"
proof (cases i)
  case (Cons c r)
  have "length (dropWhile (\<lambda>c. c \<in> set cs) r) \<le> length r" by (rule length_dropWhile_le)
  then have "dropWhile (\<lambda>c. c \<in> set cs) r \<noteq> c # r" by auto
  with Cons show ?thesis by (simp add: lstrip_chars_def)
qed (simp add: lstrip_chars_def)

text \<open>
  A webhook of the router for the backend \<open>miniverse-<id>:25565\<close> is routed to the id
  exactly when the id does not begin with one of the characters of \<open>miniverse-\<close>: \<open>lstrip\<close>
  removes characters, not the prefix (of the hexadecimal digits, \<open>e\<close> is lost).
\<close>

theorem webhook_reaches_service:
  assumes "CHR '':'' \<notin> set i" "i \<noteq> []"
  shows "webhook_target py_str (webhook_for i kvs) = Inr i \<longleftrightarrow> hd i \<notin> set ''miniverse-''"
  using webhook_target_for [OF assms(1)] lstrip_same [of "''miniverse-''" i] assms(2) by simp

theorem webhook_reaches_service_witness:
  "webhook_target (\<lambda>_. []) (webhook_for ''4f1c'' []) = Inr ''4f1c'' \<and>
   webhook_target (\<lambda>_. []) (webhook_for ''e4f1'' []) \<noteq> Inr ''e4f1''"
  using webhook_reaches_service [of "''4f1c''" "\<lambda>_. []" "[]"]
    webhook_reaches_service [of "''e4f1''" "\<lambda>_. []" "[]"] by simp

section \<open>Online players\<close>

datatype router_event = Joined string string | Left string string

fun event_fields :: "router_event \<Rightarrow> (string \<times> json) list" where
  "event_fields (Joined i n) =
     [(''event'', JStr ''connect''), (''status'', JStr ''success''),
      (''player'', JObj [(''uuid'', JStr i), (''name'', JStr n)])]"
| "event_fields (Left i n) =
     [(''event'', JStr ''disconnect''),
      (''player'', JObj [(''uuid'', JStr i), (''name'', JStr n)])]"

definition router_step :: "string \<Rightarrow> rpc \<Rightarrow> string \<Rightarrow> router_event \<Rightarrow> live \<Rightarrow> live" where
  "router_step ns rpc i ev l =
    snd (handle_mc_router_webhook ns rpc (\<lambda>_. []) (webhook_for i (event_fields ev)) l)"

text \<open>The specification: the name under which a player is online after a history.\<close>

fun online_after :: "(string \<Rightarrow> player option) \<Rightarrow> router_event \<Rightarrow> string \<Rightarrow> player option" where
  "online_after m (Joined i n) = m(i \<mapsto> \<lparr>pl_id = i, pl_name = n\<rparr>)"
| "online_after m (Left i n) = m(i := None)"

lemma webhook_players_event:
  "\<exists>online'. webhook_players (webhook_for i (event_fields ev)) online = Inr (Some online') \<and>
     map_of online' = online_after (map_of online) ev"
  by (cases ev) (auto simp: webhook_players_def webhook_for_def update_conv' delete_conv' fun_upd_def)

lemma status_set_returns:
  assumes "event_type_of m = Inr t"
  shows "\<exists>h1. status_set ns i m v True h = (Inr (), h1)"
  by (cases "v = JNull"; cases "kv_get (store_key ns i m) h")
    (simp_all add: status_set_def act_simps Let_def assms publish_miniverse_control_event_def
      publish_def bytes_neq_str_def)

lemma player_list_stores_source:
  assumes "source ''minecraft:players'' = Inr v"
  shows "status_value ns (snd (get_msmp_player_list ns i source True h)) i ''minecraft:players'' = v"
proof -
  have t: "event_type_of ''minecraft:players'' = Inr PLAYERS"
    by (rule event_type_of_value [of PLAYERS, unfolded event_type_value.simps])
  obtain h1 where s1: "status_set ns i ''minecraft:players'' v True h = (Inr (), h1)"
    using status_set_returns [OF t] by blast
  have v1: "status_value ns h1 i ''minecraft:players'' = v"
    using status.val_put_same [of ns i "''minecraft:players''" v True h] s1 by (simp add: put_status_def)
  have v2: "status_value ns (put_status ns i ''miniverse:seen_players'' w False h1) i ''minecraft:players'' = v" for w
    using v1 by (simp add: status_value_def kv_put_status store_key_def)
  have v3: "status_value ns h2 i ''minecraft:players'' = v"
    if "status_set ns i ''miniverse:seen_players'' w False h1 = (r, h2)" for w r h2
    using v2 [of w] that by (simp add: put_status_def)
  show ?thesis
    using s1 v1 assms
    by (auto simp: get_msmp_player_list_def get_data_cached_def act_simps status_get_def
        split: sum.splits prod.splits dest: v3)
qed

lemma router_step_tracks:
  assumes "CHR '':'' \<notin> set i" "hd i \<notin> set ''miniverse-''" "i \<noteq> []"
    and "get_miniverse_controller i l = Some (MCRouter online)"
  obtains online' where "get_miniverse_controller i (router_step ns rpc i ev l) = Some (MCRouter online')"
    "map_of online' = online_after (map_of online) ev"
    "status_value ns (l_hub (router_step ns rpc i ev l)) i ''minecraft:players''
       = JList (map (\<lambda>(_, p). player_dump p) online')"
proof -
  obtain online' where o: "webhook_players (webhook_for i (event_fields ev)) online = Inr (Some online')"
    "map_of online' = online_after (map_of online) ev" using webhook_players_event by blast
  have tgt: "webhook_target (\<lambda>_. []) (webhook_for i (event_fields ev)) = Inr i"
    using webhook_target_for [OF assms(1)] lstrip_same [of "''miniverse-''" i] assms(2,3) by simp
  let ?src = "get_data_from_source rpc i (MCRouter online')"
  have v: "status_value ns (snd (get_msmp_player_list ns i ?src True h)) i ''minecraft:players''
      = JList (map (\<lambda>(_, p). player_dump p) online')" for h
    by (rule player_list_stores_source) simp
  have "get_miniverse_controller i (router_step ns rpc i ev l) = Some (MCRouter online') \<and>
    status_value ns (l_hub (router_step ns rpc i ev l)) i ''minecraft:players''
       = JList (map (\<lambda>(_, p). player_dump p) online')"
    using o(1) tgt assms(4) v [of "l_hub l"]
    by (cases "get_msmp_player_list ns i ?src True (l_hub l)")
      (auto simp: router_step_def handle_mc_router_webhook_def act_simps set_controller_def
        get_miniverse_controller_def update_conv' split: sum.splits)
  with o(2) that show ?thesis by blast
qed



section \<open>Seen players\<close>

lemma dict_update_keys: "fst ` set (dict_update kvs new) = fst ` set kvs \<union> fst ` set new"
proof (induction new arbitrary: kvs)
  case (Cons p new)
  then show ?case by (cases p) (auto simp: dict_update_def dom_update)
qed (simp add: dict_update_def)

definition seen_holds :: "string \<Rightarrow> string \<Rightarrow> string set \<Rightarrow> hub \<Rightarrow> bool" where
  "seen_holds ns i ids h \<longleftrightarrow>
    (\<exists>kvs. status_value ns h i ''miniverse:seen_players'' = JObj kvs \<and> ids \<subseteq> fst ` set kvs)"

lemma seen_after_players:
  "seen_holds ns i ids h \<Longrightarrow> seen_holds ns i ids (snd (status_set ns i ''minecraft:players'' v True h))"
  using kv_put_status [of "store_key ns i ''miniverse:seen_players''" ns i "''minecraft:players''" v True h]
  by (simp add: seen_holds_def status_value_def put_status_def store_key_def)

lemma seen_after_merge:
  assumes "seen_holds ns i ids h"
    "merge_seen (status_value ns h i ''miniverse:seen_players'') raw = Inr seen'"
  shows "seen_holds ns i ids (snd (status_set ns i ''miniverse:seen_players'' seen' False h'))"
proof -
  from assms obtain kvs where "merge_seen (JObj kvs) raw = Inr seen'" "ids \<subseteq> fst ` set kvs"
    by (auto simp: seen_holds_def)
  then have "\<exists>kvs'. seen' = JObj kvs' \<and> ids \<subseteq> fst ` set kvs'"
    by (cases "kvs = []") (auto simp: merge_seen_def bindE_eq_Inr or_empty_def dict_update_keys)
  then show ?thesis
    using status.val_put_same [of ns i "''miniverse:seen_players''" seen' False h']
    by (auto simp: put_status_def seen_holds_def)
qed

lemma seen_after_cached:
  assumes "seen_holds ns i ids h"
  shows "seen_holds ns i ids (snd (get_data_cached ns i source ''minecraft:players'' refresh h))"
proof -
  have "seen_holds ns i ids h2" if "status_set ns i ''minecraft:players'' v True h = (x, h2)" for v x h2
    using seen_after_players [OF assms, of v] that by simp
  with assms show ?thesis
    by (auto simp: get_data_cached_def act_simps status_get_def split: sum.splits prod.splits)
qed

text \<open>
  Reading or refreshing the player list never forgets a player that was seen, whatever
  the server answers and also when the call fails.
\<close>

theorem seen_players_accumulate:
  assumes "seen_holds ns i ids h"
  shows "seen_holds ns i ids (snd (get_msmp_player_list ns i source refresh h))"
proof -
  obtain r h1 where g: "get_data_cached ns i source ''minecraft:players'' refresh h = (r, h1)"
    by (cases "get_data_cached ns i source ''minecraft:players'' refresh h")
  then have s1: "seen_holds ns i ids h1" using seen_after_cached [OF assms, of source refresh] by simp
  have s2: "seen_holds ns i ids h2"
    if "status_set ns i ''miniverse:seen_players'' seen' False h1 = (x, h2)"
      "merge_seen (status_value ns h1 i ''miniverse:seen_players'') raw = Inr seen'" for raw seen' x h2
    using seen_after_merge [OF s1 that(2), of h1] that(1) by simp
  show ?thesis
    using g s1
    by (auto simp: get_msmp_player_list_def act_simps status_get_def split: sum.splits prod.splits
        dest: s2)
qed

theorem seen_players_accumulate_witness:
  "seen_holds ''r:'' ''m1'' {''a''} (snd (get_msmp_player_list ''r:'' ''m1''
     (\<lambda>_. Inr (JList [player_dump \<lparr>pl_id = ''b'', pl_name = ''Bob''\<rparr>])) True
     \<lparr>kv = [(''r:m1.miniverse:seen_players'', JsonText (JObj [(''a'', JNull)]))], channel = []\<rparr>))"
proof (rule seen_players_accumulate)
  have "status_value ''r:'' \<lparr>kv = [(''r:m1.miniverse:seen_players'', JsonText (JObj [(''a'', JNull)]))], channel = []\<rparr>
      ''m1'' ''miniverse:seen_players'' = JObj [(''a'', JNull)]" by code_simp
  then show "seen_holds ''r:'' ''m1'' {''a''}
     \<lparr>kv = [(''r:m1.miniverse:seen_players'', JsonText (JObj [(''a'', JNull)]))], channel = []\<rparr>"
    by (simp add: seen_holds_def)
qed

section \<open>Which service a miniverse gets\<close>

text \<open>
  1.21.9 itself, the first version with a management server, is compared as equal, not newer.
\<close>

text \<open>
  A miniverse of version 1.21.9 gets the router service, since only a strictly newer
  version counts as supporting the management server.
\<close>

theorem first_supported_version_uses_router:
  assumes "m_mc_version mv = ''1.21.9''" "get_miniverse_controller (m_id mv) l = None"
  shows "fst (add_miniverse from_iso fetch mv l) = Inr (MCRouter [])"
  using assms by (simp add: add_miniverse_def act_simps compare_versions_def set_controller_def Let_def)

theorem first_supported_version_uses_router_witness:
  "fst (add_miniverse (\<lambda>_. None) (Inl HTTPStatusError)
     \<lparr>m_id = ''m1'', m_name = [], m_type = VANILLA, m_description = None, m_container_id = None,
      m_java_version = None, m_mc_version = ''1.21.9'', m_subdomain = [], m_online_mode = True,
      m_is_on_lite_proxy = True, m_allow_bedrock = False, m_started = True, m_secret = None\<rparr>
     \<lparr>l_hub = \<lparr>kv = [], channel = []\<rparr>, l_cache = Map.empty, l_controllers = []\<rparr>) = Inr (MCRouter [])"
  by (rule first_supported_version_uses_router) (simp_all add: get_miniverse_controller_def)

end
