(* ===== verification/JsonSyntax.thy ===== *)
theory JsonSyntax
  imports Json
begin

text \<open>
  The text of JSON documents: what \<open>json.dumps\<close> and \<open>json.dump\<close> write and what \<open>json.loads\<close> reads. A
  number with a fraction or an exponent is a float and a character above 255 is none of the model; a text
  with one is read as \<open>ValueError\<close>. The limits of the interpreter on nesting and on the length of numbers
  are not modelled.
\<close>

section \<open>Writing\<close>

definition str_of_int :: "int \<Rightarrow> string" where
  "str_of_int i = (if i < 0 then CHR ''-'' # str_of_nat (nat (- i)) else str_of_nat (nat i))"

definition dquote :: char where "dquote = CHR 0x22"

definition backslash :: char where "backslash = CHR 0x5C"

definition short_escapes :: "(char \<times> char) list" where
  "short_escapes = [(dquote, dquote), (backslash, backslash), (CHR 0x0A, CHR ''n''), (CHR 0x0D, CHR ''r''),
     (CHR 0x09, CHR ''t''), (CHR 0x0C, CHR ''f''), (CHR 0x08, CHR ''b'')]"

text \<open>
  A format: \<open>ensure_ascii\<close>, the space after a comma and after a colon, and the line break of a nesting
  level. Every format of the backend is one of the three below.
\<close>

record json_format =
  ensure_ascii :: bool
  after_comma :: string
  after_colon :: string
  line_break :: "nat \<Rightarrow> string"

text \<open>\<open>json.dumps(x)\<close>, \<open>json.dump(x, f, indent=n)\<close> and the compact form of the channel plugin.\<close>

definition dumps_format :: json_format where
  "dumps_format = \<lparr>ensure_ascii = True, after_comma = '' '', after_colon = '' '', line_break = (\<lambda>_. [])\<rparr>"

definition indent_format :: "nat \<Rightarrow> json_format" where
  "indent_format n = \<lparr>ensure_ascii = True, after_comma = [], after_colon = '' '',
     line_break = (\<lambda>l. newline # replicate (n * l) CHR '' '')\<rparr>"

definition compact_format :: json_format where
  "compact_format = \<lparr>ensure_ascii = False, after_comma = [], after_colon = [], line_break = (\<lambda>_. [])\<rparr>"

definition escape_char :: "bool \<Rightarrow> char \<Rightarrow> string" where
  "escape_char ascii c = (case map_of short_escapes c of
     Some e \<Rightarrow> [backslash, e]
   | None \<Rightarrow> if (of_char c :: nat) < 32 \<or> ascii \<and> 126 < (of_char c :: nat)
             then [backslash, CHR ''u''] @ hex_digits 4 (of_char c) else [c])"

definition json_string :: "bool \<Rightarrow> string \<Rightarrow> string" where
  "json_string ascii s = dquote # concat (map (escape_char ascii) s) @ [dquote]"

definition bracketed :: "json_format \<Rightarrow> nat \<Rightarrow> char \<Rightarrow> string list \<Rightarrow> char \<Rightarrow> string" where
  "bracketed f l left parts right =
    (if parts = [] then [left, right]
     else left # line_break f (Suc l) @
          str_join (CHR '','' # after_comma f @ line_break f (Suc l)) parts @ line_break f l @ [right])"

fun json_text :: "json_format \<Rightarrow> nat \<Rightarrow> json \<Rightarrow> string" where
  "json_text f l JNull = ''null''"
| "json_text f l (JBool b) = (if b then ''true'' else ''false'')"
| "json_text f l (JInt i) = str_of_int i"
| "json_text f l (JStr s) = json_string (ensure_ascii f) s"
| "json_text f l (JList js) = bracketed f l CHR ''['' (map (json_text f (Suc l)) js) CHR '']''"
| "json_text f l (JObj kvs) = bracketed f l CHR ''{''
     (map (\<lambda>(k, v). json_string (ensure_ascii f) k @ CHR '':'' # after_colon f @ json_text f (Suc l) v) kvs) CHR ''}''"

definition dumps_text :: "json \<Rightarrow> string" where
  "dumps_text j = json_text dumps_format 0 j"

section \<open>Reading\<close>

definition json_space :: "char \<Rightarrow> bool" where
  "json_space c \<longleftrightarrow> c \<in> {CHR '' '', CHR 0x09, CHR 0x0A, CHR 0x0D}"

definition skip_space :: "string \<Rightarrow> string" where
  "skip_space s = dropWhile json_space s"

definition is_hex :: "char \<Rightarrow> bool" where
  "is_hex c \<longleftrightarrow> is_digit c \<or> lower_char c \<in> set ''abcdef''"

definition unescape :: "char \<Rightarrow> char option" where
  "unescape e = map_of ((CHR ''/'', CHR ''/'') # map prod.swap short_escapes) e"

text \<open>The rest of a string literal after its opening quote: its characters and what follows it.\<close>

fun p_string :: "string \<Rightarrow> exn + (string \<times> string)" where
  "p_string [] = Inl ValueError"
| "p_string (c # s) =
     (if c = dquote then Inr ([], s)
      else if c = backslash then
        (case s of
           [] \<Rightarrow> Inl ValueError
         | e # r \<Rightarrow>
             if e = CHR ''u'' then
               (if 4 \<le> length r \<and> list_all is_hex (take 4 r) \<and> hex_number (take 4 r) < 256
                then bindE (p_string (drop 4 r)) (\<lambda>(t, r'). Inr (char_of (hex_number (take 4 r)) # t, r'))
                else Inl ValueError)
             else (case unescape e of
                 None \<Rightarrow> Inl ValueError
               | Some x \<Rightarrow> bindE (p_string r) (\<lambda>(t, r'). Inr (x # t, r'))))
      else if (of_char c :: nat) < 32 then Inl ValueError
      else bindE (p_string s) (\<lambda>(t, r'). Inr (c # t, r')))"

text \<open>\<open>-?(0|[1-9][0-9]*)\<close>\<close>

definition p_digits :: "string \<Rightarrow> exn + (nat \<times> string)" where
  "p_digits s =
    (let ds = takeWhile is_digit s; ds' = (if starts_with ''0'' ds then ''0'' else ds)
     in if ds = [] then Inl ValueError else Inr (int_of_str ds', drop (length ds') s))"

definition p_number :: "string \<Rightarrow> exn + (json \<times> string)" where
  "p_number s =
    (if starts_with ''-'' s then bindE (p_digits (tl s)) (\<lambda>(n, r). Inr (JInt (- int n), r))
     else bindE (p_digits s) (\<lambda>(n, r). Inr (JInt (int n), r)))"

definition dict_of :: "(string \<times> json) list \<Rightarrow> (string \<times> json) list" where
  "dict_of kvs = fold (\<lambda>(k, v). AList.update k v) kvs []"

text \<open>The next character that is not a space, and what follows it.\<close>

definition p_next :: "string \<Rightarrow> exn + (char \<times> string)" where
  "p_next s = (case skip_space s of [] \<Rightarrow> Inl ValueError | c # r \<Rightarrow> Inr (c, r))"

text \<open>
  A value, the elements of a list and the members of an object; the number bounds the calls. Every call
  but the first of a list or an object consumes a character, so twice the length of the text is enough.
\<close>

fun p_value :: "nat \<Rightarrow> string \<Rightarrow> exn + (json \<times> string)"
and p_elems :: "nat \<Rightarrow> json list \<Rightarrow> string \<Rightarrow> exn + (json \<times> string)"
and p_members :: "nat \<Rightarrow> (string \<times> json) list \<Rightarrow> string \<Rightarrow> exn + (json \<times> string)" where
  "p_value 0 s = Inl ValueError"
| "p_value (Suc n) s =
    (if s = [] then Inl ValueError
     else if hd s = dquote then bindE (p_string (tl s)) (\<lambda>(t, r). Inr (JStr t, r))
     else if hd s = CHR ''{'' then
       bindE (p_next (tl s)) (\<lambda>(c, r). if c = CHR ''}'' then Inr (JObj [], r) else p_members n [] (c # r))
     else if hd s = CHR ''['' then
       bindE (p_next (tl s)) (\<lambda>(c, r). if c = CHR '']'' then Inr (JList [], r) else p_elems n [] (c # r))
     else if starts_with ''null'' s then Inr (JNull, drop 4 s)
     else if starts_with ''true'' s then Inr (JBool True, drop 4 s)
     else if starts_with ''false'' s then Inr (JBool False, drop 5 s)
     else p_number s)"
| "p_elems 0 acc s = Inl ValueError"
| "p_elems (Suc n) acc s =
    bindE (p_value n s) (\<lambda>(v, r1).
    bindE (p_next r1) (\<lambda>(c, r).
      if c = CHR '']'' then Inr (JList (acc @ [v]), r)
      else if c = CHR '','' then p_elems n (acc @ [v]) (skip_space r)
      else Inl ValueError))"
| "p_members 0 acc s = Inl ValueError"
| "p_members (Suc n) acc s =
    (if \<not> starts_with [dquote] s then Inl ValueError
     else bindE (p_string (tl s)) (\<lambda>(k, r1).
     bindE (p_next r1) (\<lambda>(c, r2).
       if c \<noteq> CHR '':'' then Inl ValueError
       else bindE (p_value n (skip_space r2)) (\<lambda>(v, r3).
       bindE (p_next r3) (\<lambda>(d, r).
         if d = CHR ''}'' then Inr (JObj (dict_of (acc @ [(k, v)])), r)
         else if d = CHR '','' then p_members n (acc @ [(k, v)]) (skip_space r)
         else Inl ValueError)))))"

text \<open>\<open>json.loads(text)\<close>\<close>

definition loads_text :: "string \<Rightarrow> exn + json" where
  "loads_text s =
    bindE (p_value (2 * length s) (skip_space s)) (\<lambda>(v, r). if skip_space r = [] then Inr v else Inl ValueError)"

section \<open>Reading back what was written\<close>

text \<open>The keys of a Python dictionary are distinct.\<close>

fun json_wf :: "json \<Rightarrow> bool" where
  "json_wf (JList js) = list_all json_wf js"
| "json_wf (JObj kvs) = (distinct (map fst kvs) \<and> list_all (\<lambda>kv. json_wf (snd kv)) kvs)"
| "json_wf _ = True"

definition format_ok :: "json_format \<Rightarrow> bool" where
  "format_ok f \<longleftrightarrow> list_all json_space (after_comma f) \<and> list_all json_space (after_colon f) \<and>
     (\<forall>l. list_all json_space (line_break f l))"

lemma formats_ok [simp]: "format_ok dumps_format" "format_ok (indent_format n)" "format_ok compact_format"
  by (auto simp: format_ok_def dumps_format_def indent_format_def compact_format_def json_space_def
      newline_def list_all_iff)

lemma skip_space_append: "list_all json_space w \<Longrightarrow> skip_space (w @ s) = skip_space s"
  by (induction w) (auto simp: skip_space_def)

lemma skip_space_Cons [simp]: "\<not> json_space c \<Longrightarrow> skip_space (c # s) = c # s"
  by (simp add: skip_space_def)

lemma p_next_Cons [simp]: "\<not> json_space c \<Longrightarrow> p_next (c # s) = Inr (c, s)"
  by (simp add: p_next_def)

lemma marks_no_space [simp]:
  "\<not> json_space dquote" "\<not> json_space CHR '':''" "\<not> json_space CHR '',''" "\<not> json_space CHR '']''" "\<not> json_space CHR ''}''"
  by (simp_all add: json_space_def dquote_def)

lemma hex_char_hex: "d < 16 \<Longrightarrow> is_hex (hex_char d)"
  by (rule allE [of "\<lambda>d. d \<in> set [0..<16] \<longrightarrow> is_hex (hex_char d)" d])
     (unfold Ball_def [symmetric], code_simp, auto)

lemma hex_digits_hex: "list_all is_hex (hex_digits k n)"
  by (induction k arbitrary: n) (auto simp: hex_char_hex)

lemma p_string_escape:
  "p_string (escape_char a c @ s) = bindE (p_string s) (\<lambda>(t, r). Inr (c # t, r))"
proof (cases "map_of short_escapes c")
  case (Some e)
  then have "(c, e) \<in> set short_escapes" by (rule map_of_SomeD)
  with Some show ?thesis
    by (auto simp: escape_char_def short_escapes_def dquote_def backslash_def unescape_def)
next
  case None
  then have c: "c \<noteq> dquote" "c \<noteq> backslash" by (auto simp: short_escapes_def dquote_def backslash_def)
  have n: "of_char c < (256 :: nat)" by simp
  show ?thesis
  proof (cases "(of_char c :: nat) < 32 \<or> a \<and> 126 < (of_char c :: nat)")
    case True
    have "hex_number (hex_digits 4 (of_char c)) = of_char c" 
      by (rule hex_number_digits, rule less_le_trans [OF n]) simp
    with True None n show ?thesis
      by (simp add: escape_char_def dquote_def backslash_def hex_digits_hex)
  next
    case False
    with None c show ?thesis by (auto simp: escape_char_def)
  qed
qed

lemma p_string_json: "p_string (tl (json_string a s) @ r) = Inr (s, r)"
proof -
  have "p_string (concat (map (escape_char a) s) @ dquote # r) = Inr (s, r)"
    by (induction s) (simp_all add: p_string_escape)
  then show ?thesis by (simp add: json_string_def)
qed

definition no_digit :: "string \<Rightarrow> bool" where
  "no_digit s \<longleftrightarrow> takeWhile is_digit s = []"

lemma no_digit_simps [simp]: "no_digit []" "no_digit (c # s) \<longleftrightarrow> \<not> is_digit c"
  by (simp_all add: no_digit_def)

lemma digit_char_0: "digit_char 0 = CHR ''0''"
  by code_simp

lemma str_of_0 [simp]: "str_of_nat 0 = ''0''"
  by (subst str_of_nat.simps) (simp add: digit_char_0)

lemma digits_head:
  obtains c cs where "str_of_nat n = c # cs" "is_digit c" "c = CHR ''0'' \<longleftrightarrow> n = 0"
proof -
  have "\<exists>c cs. str_of_nat n = c # cs \<and> is_digit c \<and> (c = CHR ''0'' \<longleftrightarrow> n = 0)"
  proof (induction n rule: str_of_nat.induct)
    case (1 n)
    show ?case
    proof (cases "n < 10")
      case True
      then have "digit_char n = CHR ''0'' \<longleftrightarrow> n = 0"
        by (metis digit_char_0 digit_char_inverse zero_less_numeral)
      with True show ?thesis by (subst str_of_nat.simps) (simp add: digit_char_is_digit)
    next
      case False
      with 1 show ?thesis by (subst str_of_nat.simps) auto
    qed
  qed
  with that show ?thesis by blast
qed

lemma p_digits_nat: "no_digit r \<Longrightarrow> p_digits (str_of_nat n @ r) = Inr (n, r)"
proof -
  assume r: "no_digit r"
  obtain c cs where c: "str_of_nat n = c # cs" "is_digit c" "c = CHR ''0'' \<longleftrightarrow> n = 0" by (rule digits_head)
  have "takeWhile is_digit (str_of_nat n @ r) = str_of_nat n"
    using r str_of_nat_digits [of n] by (simp add: takeWhile_append2 no_digit_def)
  moreover have "(if starts_with ''0'' (str_of_nat n) then ''0'' else str_of_nat n) = str_of_nat n"
    using c by (auto simp: starts_with_def)
  ultimately show ?thesis by (simp add: p_digits_def Let_def)
qed

lemma p_number_int: "no_digit r \<Longrightarrow> p_number (str_of_int i @ r) = Inr (JInt i, r)"
proof -
  assume r: "no_digit r"
  show ?thesis
  proof (cases "i < 0")
    case False
    obtain c cs where c: "str_of_nat (nat i) = c # cs" "is_digit c" by (rule digits_head)
    then have "\<not> starts_with ''-'' (str_of_nat (nat i) @ r)" by (auto simp: starts_with_def)
    with False p_digits_nat [OF r] show ?thesis by (simp add: p_number_def str_of_int_def)
  qed (use p_digits_nat [OF r] in \<open>simp add: str_of_int_def p_number_def starts_with_def\<close>)
qed

lemma str_of_int_head:
  obtains c cs where "str_of_int i = c # cs" "is_digit c \<or> c = CHR ''-''"
proof (cases "i < 0")
  case True
  then show ?thesis by (intro that) (auto simp: str_of_int_def)
next
  case False
  obtain c cs where "str_of_nat (nat i) = c # cs" "is_digit c" by (rule digits_head)
  with False show ?thesis by (intro that) (auto simp: str_of_int_def)
qed

text \<open>The first character of a document tells what it is.\<close>

fun first_char :: "json \<Rightarrow> char \<Rightarrow> bool" where
  "first_char JNull c = (c = CHR ''n'')"
| "first_char (JBool b) c = (c = (if b then CHR ''t'' else CHR ''f''))"
| "first_char (JInt i) c = (is_digit c \<or> c = CHR ''-'')"
| "first_char (JStr s) c = (c = dquote)"
| "first_char (JList js) c = (c = CHR ''['')"
| "first_char (JObj kvs) c = (c = CHR ''{'')"

lemma json_text_head:
  obtains c cs where "json_text f l v = c # cs" "first_char v c"
proof -
  have "\<exists>c cs. json_text f l v = c # cs \<and> first_char v c"
  proof (cases v)
    case (JInt i)
    obtain c cs where "str_of_int i = c # cs" "is_digit c \<or> c = CHR ''-''" by (rule str_of_int_head)
    with JInt show ?thesis by simp
  qed (auto simp: json_string_def bracketed_def)
  with that show ?thesis by blast
qed

lemma first_char_mark: "first_char v c \<Longrightarrow> \<not> json_space c \<and> c \<noteq> CHR '']''"
  by (cases v) (auto simp: json_space_def is_digit_def dquote_def)

lemma skip_space_text: "skip_space (json_text f l v @ r) = json_text f l v @ r"
proof -
  obtain c cs where "json_text f l v = c # cs" "first_char v c" by (rule json_text_head)
  with first_char_mark show ?thesis by auto
qed

lemma breaks:
  assumes "format_ok f"
  shows "p_next (line_break f l @ s) = p_next s" "skip_space (after_comma f @ s) = skip_space s" "skip_space (after_colon f @ s) = skip_space s"
    "skip_space (line_break f l @ s) = skip_space s" "no_digit (line_break f l @ c # s) \<longleftrightarrow> \<not> is_digit c \<or> line_break f l \<noteq> []"
proof -
  show "p_next (line_break f l @ s) = p_next s"
    using assms by (simp add: p_next_def format_ok_def skip_space_append)
  show "skip_space (after_comma f @ s) = skip_space s" "skip_space (after_colon f @ s) = skip_space s"
    "skip_space (line_break f l @ s) = skip_space s"
    using assms by (auto simp: format_ok_def intro!: skip_space_append)
  have "list_all json_space (line_break f l)" using assms by (simp add: format_ok_def)
  then show "no_digit (line_break f l @ c # s) \<longleftrightarrow> \<not> is_digit c \<or> line_break f l \<noteq> []"
    by (cases "line_break f l") (auto simp: json_space_def is_digit_def)
qed

text \<open>
  What the readers must do with the printed elements of a list, from the last to the first.
\<close>

lemma read_elems:
  assumes "format_ok f" "js \<noteq> []"
    and "\<And>v n r. v \<in> set js \<Longrightarrow> 2 * length (json_text f l v) \<le> n \<Longrightarrow> no_digit r \<Longrightarrow>
      p_value n (json_text f l v @ r) = Inr (v, r)"
    and "2 * length (str_join (CHR '','' # after_comma f @ line_break f l) (map (json_text f l) js)) < n"
  shows "p_elems n acc (str_join (CHR '','' # after_comma f @ line_break f l) (map (json_text f l) js) @
      line_break f l' @ CHR '']'' # r) = Inr (JList (acc @ js), r)"
  using assms(2-)
proof (induction js arbitrary: acc n)
  case (Cons v js)
  from Cons.prems(3) obtain m where m: "n = Suc m" by (cases n) auto
  show ?case
  proof (cases js)
    case Nil
    with Cons.prems m show ?thesis
      by (simp add: breaks [OF assms(1)] is_digit_def)
  next
    case (Cons w ws)
    let ?sep = "CHR '','' # after_comma f @ line_break f l"
    have "p_elems m (acc @ [v]) (str_join ?sep (map (json_text f l) js) @ line_break f l' @ CHR '']'' # r)
        = Inr (JList ((acc @ [v]) @ js), r)"
      using Cons.prems Cons m by (intro Cons.IH) auto
    moreover have "skip_space (str_join ?sep (map (json_text f l) js) @ s) = str_join ?sep (map (json_text f l) js) @ s" for s
      using Cons by (cases ws) (simp_all add: skip_space_text)
    moreover have "p_value m (json_text f l v @ s) = Inr (v, s)" if "no_digit s" for s
      using Cons.prems m that Cons by (intro Cons.prems(2)) auto
    ultimately show ?thesis
      using m Cons by (simp add: breaks [OF assms(1)] is_digit_def)
  qed
qed simp

definition member_text :: "json_format \<Rightarrow> nat \<Rightarrow> string \<times> json \<Rightarrow> string" where
  "member_text f l = (\<lambda>(k, v). json_string (ensure_ascii f) k @ CHR '':'' # after_colon f @ json_text f l v)"

lemma json_string_cut: "starts_with [dquote] (json_string a k @ r)" "skip_space (json_string a k @ r) = json_string a k @ r"
  "p_string (tl (json_string a k @ r)) = Inr (k, r)"
  using p_string_json [of a k r] by (simp_all add: json_string_def starts_with_def)

lemma read_members:
  assumes "format_ok f" "kvs \<noteq> []"
    and "\<And>k v n r. (k, v) \<in> set kvs \<Longrightarrow> 2 * length (json_text f l v) \<le> n \<Longrightarrow> no_digit r \<Longrightarrow>
      p_value n (json_text f l v @ r) = Inr (v, r)"
    and "2 * length (str_join (CHR '','' # after_comma f @ line_break f l) (map (member_text f l) kvs)) < n"
  shows "p_members n acc (str_join (CHR '','' # after_comma f @ line_break f l) (map (member_text f l) kvs) @
      line_break f l' @ CHR ''}'' # r) = Inr (JObj (dict_of (acc @ kvs)), r)"
  using assms(2-)
proof (induction kvs arbitrary: acc n)
  case (Cons kv kvs)
  obtain k v where kv: "kv = (k, v)" by (cases kv)
  from Cons.prems(3) obtain m where m: "n = Suc m" by (cases n) auto
  note simps = m kv member_text_def json_string_cut breaks [OF assms(1)] skip_space_text is_digit_def
  show ?case
  proof (cases kvs)
    case Nil
    with Cons.prems have "p_value m (json_text f l v @ s) = Inr (v, s)" if "no_digit s" for s
      using that m kv by (intro Cons.prems(2)) (auto simp: member_text_def)
    with Nil show ?thesis by (simp add: simps)
  next
    case (Cons w ws)
    let ?sep = "CHR '','' # after_comma f @ line_break f l"
    have "p_members m (acc @ [kv]) (str_join ?sep (map (member_text f l) kvs) @ line_break f l' @ CHR ''}'' # r)
        = Inr (JObj (dict_of ((acc @ [kv]) @ kvs)), r)"
      using Cons.prems Cons m by (intro Cons.IH) auto
    moreover have "skip_space (str_join ?sep (map (member_text f l) kvs) @ s) = str_join ?sep (map (member_text f l) kvs) @ s" for s
      using Cons by (cases ws) (auto simp: member_text_def json_string_cut split: prod.splits)
    moreover have "p_value m (json_text f l v @ s) = Inr (v, s)" if "no_digit s" for s
      using Cons.prems m that Cons kv by (intro Cons.prems(2)) (auto simp: member_text_def)
    ultimately show ?thesis
      using Cons by (simp add: simps)
  qed
qed simp

lemma update_fresh: "k \<notin> fst ` set kvs \<Longrightarrow> AList.update k v kvs = kvs @ [(k, v)]"
  by (induction kvs) auto

lemma dict_of_distinct: "distinct (map fst kvs) \<Longrightarrow> dict_of kvs = kvs"
  unfolding dict_of_def
proof (induction kvs rule: rev_induct)
  case (snoc kv kvs)
  then show ?case by (cases kv) (auto intro: update_fresh)
qed simp

theorem read_written:
  assumes "format_ok f" "json_wf v" "no_digit r" "2 * length (json_text f l v) \<le> n"
  shows "p_value n (json_text f l v @ r) = Inr (v, r)"
  using assms(2-)
proof (induction v arbitrary: l n r)
  case JNull
  then obtain m where "n = Suc m" by (cases n) auto
  then show ?case by (simp add: starts_with_def dquote_def)
next
  case (JBool b)
  then obtain m where "n = Suc m" by (cases n) (auto split: if_splits)
  then show ?case by (simp add: starts_with_def dquote_def)
next
  case (JInt i)
  obtain c cs where c: "str_of_int i = c # cs" "is_digit c \<or> c = CHR ''-''" by (rule str_of_int_head)
  with JInt obtain m where "n = Suc m" by (cases n) auto
  moreover have "c \<notin> {dquote, CHR ''{'', CHR ''['', CHR ''n'', CHR ''t'', CHR ''f''}"
    using c(2) by (auto simp: is_digit_def dquote_def)
  ultimately show ?case
    using p_number_int [OF JInt.prems(2), of i] c(1) by (simp add: starts_with_def)
next
  case (JStr s)
  then obtain m where "n = Suc m" by (cases n) (auto simp: json_string_def)
  with p_string_json [of "ensure_ascii f" s r] show ?case by (simp add: json_string_def)
next
  case (JList js)
  then obtain m where m: "n = Suc m" by (cases n) (auto simp: bracketed_def split: if_splits)
  show ?case
  proof (cases "js = []")
    case False
    let ?sep = "CHR '','' # after_comma f @ line_break f (Suc l)"
    let ?t = "str_join ?sep (map (json_text f (Suc l)) js) @ line_break f l @ CHR '']'' # r"
    have "p_elems m [] ?t = Inr (JList ([] @ js), r)"
      by (rule read_elems [OF assms(1) False])
        (use JList m False in \<open>auto simp: bracketed_def list_all_iff\<close>)
    moreover obtain c cs where "?t = c # cs" "\<not> json_space c \<and> c \<noteq> CHR '']''"
    proof -
      obtain v vs where js: "js = v # vs" using False by (cases js) auto
      obtain c cs where "json_text f (Suc l) v = c # cs" "first_char v c" by (rule json_text_head)
      with js that show ?thesis by (cases vs) (auto dest: first_char_mark)
    qed
    ultimately show ?thesis
      using m False by (simp add: bracketed_def breaks [OF assms(1)] dquote_def)
  qed (use m in \<open>simp add: bracketed_def dquote_def\<close>)
next
  case (JObj kvs)
  then obtain m where m: "n = Suc m" by (cases n) (auto simp: bracketed_def split: if_splits)
  show ?case
  proof (cases "kvs = []")
    case False
    let ?sep = "CHR '','' # after_comma f @ line_break f (Suc l)"
    let ?t = "str_join ?sep (map (member_text f (Suc l)) kvs) @ line_break f l @ CHR ''}'' # r"
    have shape: "json_text f l (JObj kvs) @ r = CHR ''{'' # line_break f (Suc l) @ ?t"
      using False by (simp add: bracketed_def member_text_def)
    have "p_members m [] ?t = Inr (JObj (dict_of ([] @ kvs)), r)"
      by (rule read_members [OF assms(1) False])
        (use JObj m False in \<open>auto simp: bracketed_def list_all_iff member_text_def snds.simps\<close>)
    moreover have "dict_of kvs = kvs" using JObj.prems(1) by (simp add: dict_of_distinct)
    moreover obtain cs where "?t = dquote # cs"
      using False by (cases kvs rule: remdups_adj.cases) (auto simp: member_text_def json_string_def)
    moreover have "\<not> json_space dquote" "dquote \<noteq> CHR ''}''" by (simp_all add: json_space_def dquote_def)
    ultimately show ?thesis
      unfolding shape using m by (simp add: breaks [OF assms(1)] dquote_def)
  qed (use m in \<open>simp add: bracketed_def dquote_def\<close>)
qed

theorem loads_text_written: "format_ok f \<Longrightarrow> json_wf v \<Longrightarrow> loads_text (json_text f l v) = Inr v"
  using read_written [of f v "[]" l "2 * length (json_text f l v)"] skip_space_text [of f l v "[]"]
  by (simp add: loads_text_def skip_space_def)

section \<open>The bound on the calls is enough\<close>

lemma length_skip_space: "length (skip_space s) \<le> length s"
  by (simp add: skip_space_def length_dropWhile_le)

lemma p_string_consumes: "p_string s = Inr (t, r) \<Longrightarrow> length r < length s"
proof (induction s arbitrary: t r rule: p_string.induct)
  case (2 c s)
  then show ?case
    by (fastforce simp: bindE_eq_Inr split: if_splits list.splits option.splits prod.splits)
qed simp

lemma p_number_consumes: "p_number s = Inr (v, r) \<Longrightarrow> length r < length s"
proof -
  have d: "length r < length s" if "p_digits s = Inr (n, r)" for n r s
    using that by (cases s) (auto simp: p_digits_def Let_def split: if_splits)
  show "p_number s = Inr (v, r) \<Longrightarrow> length r < length s"
    by (fastforce simp: p_number_def bindE_eq_Inr dest!: d split: if_splits)
qed

lemma p_next_consumes: "p_next s = Inr (c, r) \<Longrightarrow> length r < length s"
  using length_skip_space [of s] by (auto simp: p_next_def split: list.splits)

lemmas consumed = p_string_consumes p_number_consumes p_next_consumes

lemma consumes:
  shows value_consumes: "p_value n s = Inr (v, r) \<Longrightarrow> length r < length s"
    and "p_elems n vs s = Inr (v, r) \<Longrightarrow> length r < length s"
    and "p_members n kvs s = Inr (v, r) \<Longrightarrow> length r < length s"
proof (induction n arbitrary: s vs kvs v r)
  case (Suc n)
  {
    case 1
    show ?case
    proof (cases s)
      case (Cons c s')
      have "length r < length s" if "p_next s' = Inr (d, r')" "p_elems n [] (d # r') = Inr (v, r) \<or> p_members n [] (d # r') = Inr (v, r)" for d r'
        using that p_next_consumes [OF that(1)] Suc(2) [of "[]" "d # r'" v r] Suc(3) [of "[]" "d # r'" v r] Cons by auto
      with 1 Cons show ?thesis by (force simp: bindE_eq_Inr dest: consumed split: if_splits)
    qed (use 1 in simp)
  next
    case 2
    then obtain v' r1 c r2 where v: "p_value n s = Inr (v', r1)" "p_next r1 = Inr (c, r2)"
      by (auto simp: bindE_eq_Inr)
    then have "length r1 < length s" "length r2 < length r1" using Suc(1) p_next_consumes by auto
    moreover have "length r < length r2" if "p_elems n (vs @ [v']) (skip_space r2) = Inr (v, r)"
      using Suc(2) [OF that] length_skip_space [of r2] by simp
    ultimately show ?case using 2 v by (auto simp: bindE_eq_Inr split: if_splits)
  next
    case 3
    then obtain k r1 c r2 v' r3 d r4 where m: "p_string (tl s) = Inr (k, r1)" "p_next r1 = Inr (c, r2)"
        "p_value n (skip_space r2) = Inr (v', r3)" "p_next r3 = Inr (d, r4)"
      by (auto simp: bindE_eq_Inr split: if_splits)
    have "length r1 < length s" using p_string_consumes [OF m(1)] by simp
    moreover have "length r2 < length r1" "length r3 < length r2" "length r4 < length r3"
      using p_next_consumes [OF m(2)] Suc(1) [OF m(3)] p_next_consumes [OF m(4)] length_skip_space [of r2] by simp_all
    moreover have "length r < length r4" if "p_members n (kvs @ [(k, v')]) (skip_space r4) = Inr (v, r)"
      using Suc(3) [OF that] length_skip_space [of r4] by simp
    ultimately show ?case using 3 m by (auto simp: bindE_eq_Inr split: if_splits)
  }
qed simp_all

text \<open>More calls than twice the length of the text never change the result.\<close>

lemma bindE_cong: "r = r' \<Longrightarrow> (\<And>x. r' = Inr x \<Longrightarrow> f x = g x) \<Longrightarrow> bindE r f = bindE r' g"
  by (cases r') auto

lemma enough_calls:
  shows "2 * length s \<le> n \<Longrightarrow> n \<le> m \<Longrightarrow> p_value n s = p_value m s"
    and "2 * length s < n \<Longrightarrow> n \<le> m \<Longrightarrow> p_elems n vs s = p_elems m vs s"
    and "2 * length s < n \<Longrightarrow> n \<le> m \<Longrightarrow> p_members n kvs s = p_members m kvs s"
proof (induction n arbitrary: s vs kvs m)
  case 0
  {
    case 1
    then show ?case by (cases m) auto
  }
next
  case (Suc n)
  {
    case 1
    then obtain k where k: "m = Suc k" "n \<le> k" by (cases m) auto
    have len: "2 * length (d # r) < n" if "p_next (tl s) = Inr (d, r)" for d r
      using p_next_consumes [OF that] 1 by (cases s) auto
    have "p_elems n [] (d # r) = p_elems k [] (d # r)" "p_members n [] (d # r) = p_members k [] (d # r)"
      if "p_next (tl s) = Inr (d, r)" for d r
      using Suc(2,3) [OF len [OF that] k(2)] by blast+
    then show ?case unfolding k(1) p_value.simps
      by (intro if_cong refl bindE_cong) auto
  next
    case 2
    then obtain k where k: "m = Suc k" "n \<le> k" by (cases m) auto
    show ?case unfolding k(1) p_elems.simps
    proof (intro bindE_cong)
      show v: "p_value n s = p_value k s" using 2 k by (intro Suc) auto
      fix x assume x: "p_value k s = Inr x"
      have "2 * length (skip_space r2) < n" if "p_next (snd x) = Inr (c, r2)" for c r2
        using value_consumes [of n s "fst x" "snd x"] x v p_next_consumes [OF that] length_skip_space [of r2] 2 by simp
      then show "(case x of (v, r1) \<Rightarrow> bindE (p_next r1) (\<lambda>(c, r).
          if c = CHR '']'' then Inr (JList (vs @ [v]), r)
          else if c = CHR '','' then p_elems n (vs @ [v]) (skip_space r) else Inl ValueError)) =
        (case x of (v, r1) \<Rightarrow> bindE (p_next r1) (\<lambda>(c, r).
          if c = CHR '']'' then Inr (JList (vs @ [v]), r)
          else if c = CHR '','' then p_elems k (vs @ [v]) (skip_space r) else Inl ValueError))"
        by (auto split: prod.splits intro!: bindE_cong Suc(2) k(2))
    qed
  next
    case 3
    then obtain k where k: "m = Suc k" "n \<le> k" by (cases m) auto
    have v: "p_value n (skip_space r2) = p_value k (skip_space r2)"
      if "p_string (tl s) = Inr (x, r1)" "p_next r1 = Inr (c, r2)" for x r1 c r2
      using p_string_consumes [OF that(1)] p_next_consumes [OF that(2)] length_skip_space [of r2] 3 k
      by (intro Suc(1)) auto
    have len: "2 * length (skip_space r4) < n"
      if "p_string (tl s) = Inr (x, r1)" "p_next r1 = Inr (c, r2)" "p_value k (skip_space r2) = Inr (y, r3)"
        "p_next r3 = Inr (d, r4)" for x r1 c r2 y r3 d r4
      using p_string_consumes [OF that(1)] p_next_consumes [OF that(2)] length_skip_space [of r2]
        value_consumes [OF that(3)] p_next_consumes [OF that(4)] length_skip_space [of r4] 3 by simp
    show ?case unfolding k(1) p_members.simps
      by (auto split: prod.splits intro!: if_cong bindE_cong v Suc(3) k(2) intro: len)
  }
qed simp_all

section \<open>What is read is a value of Python\<close>

lemma dict_of_distinct_keys: "distinct (map fst (dict_of kvs))"
  unfolding dict_of_def by (induction kvs rule: rev_induct) (auto intro: distinct_update)

lemma dict_of_values: "(k, v) \<in> set (dict_of kvs) \<Longrightarrow> v \<in> snd ` set kvs"
proof -
  have "map_of (dict_of kvs) k = Some v \<Longrightarrow> v \<in> snd ` set kvs" for v
    unfolding dict_of_def
    by (induction kvs arbitrary: v rule: rev_induct) (auto simp: update_conv' split: if_splits)
  then show "(k, v) \<in> set (dict_of kvs) \<Longrightarrow> v \<in> snd ` set kvs"
    using dict_of_distinct_keys by (metis map_of_eq_Some_iff)
qed

lemma wf_dict_of: "list_all (\<lambda>kv. json_wf (snd kv)) kvs \<Longrightarrow> json_wf (JObj (dict_of kvs))"
  using dict_of_values by (fastforce simp: list_all_iff dict_of_distinct_keys)

lemma read_wf:
  shows "p_value n s = Inr (v, r) \<Longrightarrow> json_wf v"
    and "p_elems n vs s = Inr (v, r) \<Longrightarrow> list_all json_wf vs \<Longrightarrow> json_wf v"
    and "p_members n kvs s = Inr (v, r) \<Longrightarrow> list_all (\<lambda>kv. json_wf (snd kv)) kvs \<Longrightarrow> json_wf v"
proof (induction n arbitrary: s vs kvs v r)
  case (Suc n)
  {
    case 1
    then show ?case
      by (auto simp: bindE_eq_Inr p_number_def dest: Suc(2) [of "[]"] Suc(3) [of "[]"] split: if_splits)
  next
    case 2
    then show ?case by (auto simp: bindE_eq_Inr dest!: Suc(1) dest: Suc(2) split: if_splits)
  next
    case 3
    then show ?case
      by (auto simp: bindE_eq_Inr simp del: json_wf.simps(2) dest!: Suc(1) dest: Suc(3) intro!: wf_dict_of split: if_splits)
  }
qed simp_all

theorem loads_text_wf: "loads_text s = Inr v \<Longrightarrow> json_wf v"
  by (auto simp: loads_text_def bindE_eq_Inr dest: read_wf(1) split: if_splits)

end
