(* ===== verification/Proxy.thy ===== *)
theory Proxy
  imports Docker Connexion OsOps Config JsonSyntax
begin

text \<open>
  The state of the whole backend, and \<open>app/services/proxy_service.py\<close>: the routes file of the
  router and its container. The routes file is written as JSON text; the TOML text of a server
  configuration is printed by a parameter (\<open>s_print_toml\<close>).
\<close>

section \<open>The backend\<close>

text \<open>
  The database, the data directory and what else the file system holds, the Docker daemon, and the
  live state (status store, event channel, version cache, control services).
\<close>

record 'd world =
  w_db :: db
  w_fs :: fs
  w_docker :: 'd
  w_live :: live

abbreviation on_db :: "(db, 'a) action \<Rightarrow> ('d world, 'a) action" where
  "on_db m \<equiv> zoomA w_db w_db_update m"

abbreviation on_fs :: "(fs, 'a) action \<Rightarrow> ('d world, 'a) action" where
  "on_fs m \<equiv> zoomA w_fs w_fs_update m"

abbreviation on_docker :: "('d, 'a) action \<Rightarrow> ('d world, 'a) action" where
  "on_docker m \<equiv> zoomA w_docker w_docker_update m"

abbreviation on_live :: "(live, 'a) action \<Rightarrow> ('d world, 'a) action" where
  "on_live m \<equiv> zoomA w_live w_live_update m"

text \<open>
  What the backend is given: its settings, the Docker client, the game servers, the network and
  the libraries that print and parse. \<open>web\<close> answers a request with its decoded body or the
  exception of the request or of \<open>raise_for_status\<close>; \<open>download\<close> with the bytes.
\<close>

record 'd services =
  s_env :: env
  s_docker :: "'d docker_client"
  s_ns :: string
  s_rpc :: rpc
  s_pydantic :: pydantic
  s_py_str :: "json \<Rightarrow> string"
  s_from_iso :: "string \<Rightarrow> int option"
  s_web :: "string \<Rightarrow> (string \<times> string option) list \<Rightarrow> exn + json"
  s_new_id :: "db \<Rightarrow> string"
  s_download :: "string \<Rightarrow> exn + string"
  s_print_toml :: "json \<Rightarrow> string"
  s_icon :: string
  s_secret :: string

section \<open>Routes\<close>

definition route_host :: "env \<Rightarrow> miniverse \<Rightarrow> string" where
  "route_host e m = m_subdomain m @ ''.'' @ DOMAIN_NAME e"

definition route_target :: "miniverse \<Rightarrow> string" where
  "route_target m = ''miniverse-'' @ m_id m @ '':25565''"

text \<open>A dict comprehension: a host that comes again gets the later target, at the first place.\<close>

definition route_map :: "env \<Rightarrow> miniverse list \<Rightarrow> (string \<times> string) list" where
  "route_map e miniverse_list =
    fold (\<lambda>m acc. AList.update (route_host e m) (route_target m) acc) miniverse_list []"

definition generate_router_routes :: "env \<Rightarrow> miniverse list \<Rightarrow> json" where
  "generate_router_routes e miniverse_list =
    JObj [(''mappings'', JObj (map (\<lambda>(h, t). (h, JStr t)) (route_map e miniverse_list)))]"

definition routes_path :: "env \<Rightarrow> ppath" where
  "routes_path e = path_child (path_child (DATA_PATH e) ''proxy'') ''routes.json''"

definition update_proxy_config :: "'d services \<Rightarrow> ('d world, unit) action" where
  "update_proxy_config s =
    (let e = s_env s in
     bindA (getA (\<lambda>w. miniverses (w_db w))) (\<lambda>miniverse_list.
     thenA (on_fs (mkdir_parents (work_dir e) (path_parent (routes_path e))))
    (thenA (on_fs (write_file (work_dir e) (routes_path e)
                     (json_text (indent_format 4) 0 (generate_router_routes e miniverse_list))))
    (bindA (on_docker (get_container_by_name (s_docker s) ''miniverse-router'')) (\<lambda>router_container.
     case router_container of
       None \<Rightarrow> ret ()
     | Some c \<Rightarrow> on_docker (kill_container (s_docker s) c ''SIGHUP'')))))) "

definition router_spec :: "env \<Rightarrow> container_spec" where
  "router_spec e =
    \<lparr>cs_image = ''itzg/mc-router:latest'', cs_name = ''miniverse-router'',
     cs_command = Some [''--routes-config'', ''/config/routes.json'', ''--routes-config-watch'',
       ''--connection-rate-limit'', ''10'', ''--webhook-url'',
       (if PROXY_SOCKS e = None then ''http://miniverse-api:8000/api-internal/mc-router''
        else ''http://host.docker.internal:8000/api-internal/mc-router''),
       ''--webhook-require-user''],
     cs_network = DOCKER_NETWORK_NAME e,
     cs_volumes = [(path_str (path_child (HOST_DATA_PATH e) ''proxy''),
                    \<lparr>vol_bind = ''/config'', vol_mode = ''ro''\<rparr>)],
     cs_ports = [(''25565/tcp'', 25565)], cs_tty = False, cs_stdin_open = False,
     cs_environment = [], cs_auto_remove = True\<rparr>"

definition start_proxy_containers :: "'d services \<Rightarrow> ('d world, unit) action" where
  "start_proxy_containers s =
    bindA (on_docker (get_container_by_name (s_docker s) ''miniverse-router'')) (\<lambda>router_container.
      case router_container of
        Some _ \<Rightarrow> ret ()
      | None \<Rightarrow>
          bindA (on_docker (create_container (s_docker s) (router_spec (s_env s)))) (\<lambda>_.
          on_docker (start_container (s_docker s) ''miniverse-router'')))"

definition stop_proxy_containers :: "'d services \<Rightarrow> ('d world, unit) action" where
  "stop_proxy_containers s =
    bindA (on_docker (get_container_by_name (s_docker s) ''miniverse-router'')) (\<lambda>proxy_container.
      case proxy_container of
        None \<Rightarrow> ret ()
      | Some c \<Rightarrow> on_docker (stop_container (s_docker s) c))"

section \<open>Every host reaches its miniverse\<close>

lemma route_fold_other:
  "h \<notin> route_host e ` set ms \<Longrightarrow>
   map_of (fold (\<lambda>m acc. AList.update (route_host e m) (route_target m) acc) ms acc) h = map_of acc h"
  by (induction ms arbitrary: acc) (auto simp: update_conv')

lemma route_host_inject [simp]:
  "route_host e a = route_host e b \<longleftrightarrow> m_subdomain a = m_subdomain b"
  by (simp add: route_host_def)

lemma route_map_last:
  assumes "m_subdomain m \<notin> m_subdomain ` set ms'"
  shows "map_of (route_map e (ms @ [m] @ ms')) (route_host e m) = Some (route_target m)"
proof -
  have "route_host e m \<notin> route_host e ` set ms'"
    using assms by (auto simp: image_iff)
  then show ?thesis by (simp add: route_map_def route_fold_other update_conv')
qed

lemma route_map_dom: "dom (map_of (route_map e ms)) = route_host e ` set ms"
proof -
  have "dom (map_of (fold (\<lambda>m acc. AList.update (route_host e m) (route_target m) acc) ms acc))
      = route_host e ` set ms \<union> dom (map_of acc)" for acc
    by (induction ms arbitrary: acc) (auto simp: update_conv')
  from this [of "[]"] show ?thesis by (simp add: route_map_def)
qed

text \<open>
  When the subdomains differ, the routes file maps the host of
  every miniverse to its container, and maps nothing else.
\<close>

theorem routes_are_exact:
  assumes "distinct (map m_subdomain ms)"
  shows "map_of (route_map e ms) h = Some t \<longleftrightarrow> (\<exists>m \<in> set ms. h = route_host e m \<and> t = route_target m)"
proof
  assume some: "map_of (route_map e ms) h = Some t"
  then have "h \<in> route_host e ` set ms" using route_map_dom [of e ms] by blast
  then obtain m where m: "m \<in> set ms" "h = route_host e m" by blast
  then obtain as bs where ms: "ms = as @ [m] @ bs" using split_list [of m ms] by auto
  then have "m_subdomain m \<notin> m_subdomain ` set bs" using assms by auto
  then have "map_of (route_map e ms) h = Some (route_target m)"
    using route_map_last [of m bs e as] ms m(2) by auto
  with some m show "\<exists>m \<in> set ms. h = route_host e m \<and> t = route_target m" by auto
next
  assume "\<exists>m \<in> set ms. h = route_host e m \<and> t = route_target m"
  then obtain m where m: "m \<in> set ms" "h = route_host e m" "t = route_target m" by blast
  then obtain as bs where ms: "ms = as @ [m] @ bs" using split_list [of m ms] by auto
  then have "m_subdomain m \<notin> m_subdomain ` set bs" using assms by auto
  then show "map_of (route_map e ms) h = Some t"
    using route_map_last [of m bs e as] ms m by auto
qed

end
