(* ===== verification/Mods.thy ===== *)
theory Mods
  imports ModSchemas Proxy
begin

text \<open>
  \<open>app/services/mods_service.py\<close>: requests to Modrinth, installing, updating and removing mods, and
  the search for updates. Actions run on the backend state of the theory \<open>Proxy\<close>.
\<close>

definition publish_updated :: "string \<Rightarrow> string list option \<Rightarrow> ('d world, unit) action" where
  "publish_updated i us = on_live (on_hub (publish_miniverse_updated_event i us))"

section \<open>Queries\<close>

text \<open>\<open>str(values)\<close> of nested lists of strings: Python's \<open>repr\<close> of a string and of a list.\<close>

definition quote_char :: "string \<Rightarrow> char" where
  "quote_char s = (if CHR 0x27 \<in> set s \<and> CHR 0x22 \<notin> set s then CHR 0x22 else CHR 0x27)"

definition repr_char :: "char \<Rightarrow> char \<Rightarrow> string" where
  "repr_char q c =
    (let n = of_char c :: nat in
     if c = q \<or> c = CHR 0x5C then [CHR 0x5C, c]
     else if n = 10 then [CHR 0x5C, CHR ''n''] else if n = 13 then [CHR 0x5C, CHR ''r'']
     else if n = 9 then [CHR 0x5C, CHR ''t'']
     else if n < 32 \<or> (127 \<le> n \<and> n \<le> 160) \<or> n = 173
     then [CHR 0x5C, CHR ''x'', hex_char (n div 16), hex_char (n mod 16)]
     else [c])"

definition repr_str :: "string \<Rightarrow> string" where
  "repr_str s = (let q = quote_char s in q # concat (map (repr_char q) s) @ [q])"

definition repr_list :: "string list \<Rightarrow> string" where
  "repr_list xs = ''['' @ str_join '', '' xs @ '']''"

text \<open>\<open>.replace("'", '"').replace("\", "")\<close> on the representation.\<close>

definition as_json_text :: "string \<Rightarrow> string" where
  "as_json_text s = filter (\<lambda>c. c \<noteq> CHR 0x5C) (map (\<lambda>c. if c = CHR 0x27 then CHR 0x22 else c) s)"

definition dumps_values :: "string list \<Rightarrow> string" where
  "dumps_values xs = as_json_text (repr_list (map repr_str xs))"

definition dumps_nested :: "string list list \<Rightarrow> string" where
  "dumps_nested xss = as_json_text (repr_list (map (\<lambda>xs. repr_list (map repr_str xs)) xss))"

definition build_or_facets :: "string \<Rightarrow> string list \<Rightarrow> string list" where
  "build_or_facets key values = map (\<lambda>v. key @ '':'' @ v) values"

definition opt_facet :: "string \<Rightarrow> string list option \<Rightarrow> string list list" where
  "opt_facet key v = (case v of None \<Rightarrow> [] | Some xs \<Rightarrow> [build_or_facets key xs])"

definition facet_groups :: "search_facets \<Rightarrow> string list list" where
  "facet_groups f =
     opt_facet ''project_type'' (map_option (\<lambda>t. [project_type_value t]) (sf_project_type f)) @
     opt_facet ''categories'' (sf_categories f) @
     opt_facet ''versions'' (sf_versions f) @
     opt_facet ''client_side'' (map_option (\<lambda>t. [side_support_value t]) (sf_client_side f)) @
     opt_facet ''server_side'' (map_option (\<lambda>t. [side_support_value t]) (sf_server_side f))"

definition build_facets :: "search_facets \<Rightarrow> string" where
  "build_facets f = dumps_nested (facet_groups f)"

definition MODRINTH_BASE_URL :: string where
  "MODRINTH_BASE_URL = ''https://api.modrinth.com/v2''"

definition search_modrinth_projects ::
  "'d services \<Rightarrow> string \<Rightarrow> search_facets \<Rightarrow> nat \<Rightarrow> nat \<Rightarrow> exn + search_results" where
  "search_modrinth_projects s q facets limit offset =
    bindE (s_web s (MODRINTH_BASE_URL @ ''/search'')
      [(''query'', Some q), (''facets'', Some (build_facets facets)),
       (''limit'', Some (str_of_nat limit)), (''offset'', Some (str_of_nat offset))])
    (search_results_from_dict (s_from_iso s))"

definition list_project_versions ::
  "'d services \<Rightarrow> string \<Rightarrow> miniverse_type option \<Rightarrow> string option \<Rightarrow> exn + project_version list" where
  "list_project_versions s project_id loader mc_version =
    bindE (s_web s (MODRINTH_BASE_URL @ ''/project/'' @ project_id @ ''/version'')
      [(''loaders'', map_option (\<lambda>l. dumps_values [lower (miniverse_type_value l)]) loader),
       (''game_versions'',
        case mc_version of Some v \<Rightarrow> if v = [] then None else Some (dumps_values [v]) | None \<Rightarrow> None)])
    (\<lambda>data. bindE (items data) (mapE (project_version_from_dict (s_from_iso s))))"

text \<open>A value in an f-string: a string itself, anything else by Python's \<open>str\<close>.\<close>

definition fmt :: "'d services \<Rightarrow> json \<Rightarrow> string" where
  "fmt s j = (case j of JStr x \<Rightarrow> x | _ \<Rightarrow> s_py_str s j)"

definition get_project_details :: "'d services \<Rightarrow> string \<Rightarrow> exn + project" where
  "get_project_details s project_id =
    bindE (s_web s (MODRINTH_BASE_URL @ ''/project/'' @ project_id) []) (project_from_dict (s_from_iso s))"

definition get_version_details :: "'d services \<Rightarrow> string \<Rightarrow> exn + project_version" where
  "get_version_details s version_id =
    bindE (s_web s (MODRINTH_BASE_URL @ ''/version/'' @ version_id) [])
      (project_version_from_dict (s_from_iso s))"

definition get_mod :: "string \<Rightarrow> db \<Rightarrow> mod_row option" where
  "get_mod i d = row_by mod_id i (mods d)"

section \<open>Files\<close>

text \<open>
  A value that must be a string: for \<open>Path(...)\<close>, a URL or a column of the database anything else
  is refused.
\<close>

fun need_str :: "json \<Rightarrow> exn + string" where
  "need_str (JStr s) = Inr s"
| "need_str _ = Inl TypeError"

fun need_opt_str :: "json \<Rightarrow> exn + string option" where
  "need_opt_str (JStr s) = Inr (Some s)"
| "need_opt_str JNull = Inr None"
| "need_opt_str _ = Inl TypeError"

definition mods_path :: "env \<Rightarrow> string \<Rightarrow> ppath" where
  "mods_path e miniverse_id = get_miniverse_path e miniverse_id [''data'', ''mods''] False"

definition new_file_name :: "'d services \<Rightarrow> project \<Rightarrow> project_version \<Rightarrow> string \<Rightarrow> string" where
  "new_file_name s p v extension =
    fmt s (pr_slug p) @ ''-'' @ fmt s (ver_version_number v) @ ''-'' @ fmt s (ver_id v) @ extension"

definition download_mod_file ::
  "'d services \<Rightarrow> project \<Rightarrow> project_version \<Rightarrow> string \<Rightarrow> ('d world, string) action" where
  "download_mod_file s p v miniverse_id =
    (case find (\<lambda>f. truthy (pf_primary f)) (ver_files v) of
       None \<Rightarrow> raise ValidationException
     | Some primary_file \<Rightarrow>
         bindA (liftA (need_str (pf_filename primary_file))) (\<lambda>fname.
         let extension = path_suffix (Path fname) in
         if extension \<noteq> ''.jar'' then raise ValidationException
         else
           let file_name = new_file_name s p v extension; dir = mods_path (s_env s) miniverse_id in
           thenA (on_fs (mkdir_parents (work_dir (s_env s)) dir))
          (bindA (liftA (bindE (need_str (pf_url primary_file)) (s_download s))) (\<lambda>content.
           thenA (on_fs (write_file (work_dir (s_env s)) (path_child dir file_name) content))
                 (ret file_name)))))"

definition delete_mod_file :: "'d services \<Rightarrow> mod_row \<Rightarrow> ('d world, unit) action" where
  "delete_mod_file s md =
    (let e = s_env s; p = path_child (mods_path e (mod_miniverse_id md)) (mod_file_name md) in
     bindA (getA (\<lambda>w. exists (w_fs w) (work_dir e) p \<and> is_file (w_fs w) (work_dir e) p)) (\<lambda>b.
     if b then on_fs (unlink (work_dir e) p) else ret ()))"

section \<open>Installing and updating\<close>

text \<open>The columns of a mod row that come from Modrinth.\<close>

record mod_columns =
  mc_version_id :: "string option"
  mc_project_id :: "string option"
  mc_title :: string
  mc_icon_url :: "string option"
  mc_version_name :: "string option"
  mc_version_number :: "string option"

definition mod_columns_of :: "project \<Rightarrow> project_version \<Rightarrow> exn + mod_columns" where
  "mod_columns_of p v =
    bindE (need_opt_str (ver_id v)) (\<lambda>i.
    bindE (need_opt_str (ver_project_id v)) (\<lambda>pid.
    bindE (need_str (pr_title p)) (\<lambda>t.
    bindE (need_opt_str (pr_icon_url p)) (\<lambda>u.
    bindE (need_opt_str (ver_name v)) (\<lambda>n.
    bindE (need_opt_str (ver_version_number v)) (\<lambda>vn.
    Inr \<lparr>mc_version_id = i, mc_project_id = pid, mc_title = t, mc_icon_url = u,
         mc_version_name = n, mc_version_number = vn\<rparr>))))))"

definition set_columns :: "mod_columns \<Rightarrow> string \<Rightarrow> mod_row \<Rightarrow> mod_row" where
  "set_columns c fname md = md\<lparr>mod_version_id := mc_version_id c, mod_project_id := mc_project_id c,
     mod_title := mc_title c, mod_icon_url := mc_icon_url c, mod_version_name := mc_version_name c,
     mod_version_number := mc_version_number c, mod_file_name := fname\<rparr>"

definition insert_mod :: "mod_row \<Rightarrow> (db, unit) action" where
  "insert_mod md d =
    (if mod_id md \<in> mod_id ` set (mods d) \<or> mod_miniverse_id md \<notin> m_id ` set (miniverses d)
     then (Inl IntegrityError, d) else (Inr (), d\<lparr>mods := mods d @ [md]\<rparr>))"

definition update_mod :: "'d services \<Rightarrow> mod_row \<Rightarrow> string \<Rightarrow> ('d world, mod_row) action" where
  "update_mod s md new_version_id =
    bindA (liftA (get_version_details s new_version_id)) (\<lambda>version.
    bindA (liftA (get_project_details s (fmt s (ver_project_id version)))) (\<lambda>p.
    thenA (delete_mod_file s md)
   (bindA (download_mod_file s p version (mod_miniverse_id md)) (\<lambda>file_name.
    bindA (liftA (mod_columns_of p version)) (\<lambda>c.
    thenA (on_db (modifyA (\<lambda>d. d\<lparr>mods := update_by mod_id (mod_id md) (set_columns c file_name) (mods d)\<rparr>)))
   (thenA (publish_updated (mod_miniverse_id md) None)
    (ret (set_columns c file_name md))))))))"

definition existing_mod :: "string \<Rightarrow> json \<Rightarrow> db \<Rightarrow> mod_row option" where
  "existing_mod miniverse_id pid d = find (\<lambda>md. mod_miniverse_id md = miniverse_id \<and>
     (case mod_project_id md of Some x \<Rightarrow> pid = JStr x | None \<Rightarrow> False)) (mods d)"

definition install_mod :: "'d services \<Rightarrow> string \<Rightarrow> string \<Rightarrow> ('d world, mod_row) action" where
  "install_mod s vid miniverse_id =
    bindA (liftA (get_version_details s vid)) (\<lambda>version.
    bindA (liftA (get_project_details s (fmt s (ver_project_id version)))) (\<lambda>p.
    bindA (getA (\<lambda>w. existing_mod miniverse_id (pr_id p) (w_db w))) (\<lambda>existing. case existing of
      Some md \<Rightarrow> update_mod s md vid
    | None \<Rightarrow>
        bindA (download_mod_file s p version miniverse_id) (\<lambda>file_name.
        bindA (liftA (mod_columns_of p version)) (\<lambda>c.
        bindA (liftA (need_str (pr_slug p))) (\<lambda>slug.
        bindA (getA (\<lambda>w. s_new_id s (w_db w))) (\<lambda>new_id.
        let md = set_columns c file_name
          \<lparr>mod_id = new_id, mod_slug = slug, mod_version_id = None, mod_project_id = None,
           mod_title = [], mod_icon_url = None, mod_version_name = None, mod_version_number = None,
           mod_file_name = [], mod_miniverse_id = miniverse_id\<rparr>
        in thenA (on_db (insert_mod md))
          (thenA (publish_updated miniverse_id None) (ret md)))))))))"

text \<open>\<open>sorted(versions, key=lambda v: v.date_published, reverse=True)\<close> keeps equal dates in order.\<close>

definition newest_first :: "project_version list \<Rightarrow> project_version list" where
  "newest_first vs = sort_key (\<lambda>v. - ver_date_published v) vs"

text \<open>
  \<open>[v for v in versions if v.version_type == RELEASE] or versions\<close>, when releases are preferred.
\<close>

definition prefer_releases :: "bool \<Rightarrow> project_version list \<Rightarrow> project_version list" where
  "prefer_releases prioritize_release vs =
    (if prioritize_release then
       let rs = filter (\<lambda>v. ver_version_type v = MVT_RELEASE) vs in if rs \<noteq> [] then rs else vs
     else vs)"

definition candidate_versions ::
  "'d services \<Rightarrow> string \<Rightarrow> miniverse \<Rightarrow> string option \<Rightarrow> bool \<Rightarrow> exn + project_version list" where
  "candidate_versions s project_id mv game_version retry_with_latest =
    bindE (list_project_versions s project_id (Some (m_type mv)) game_version) (\<lambda>versions.
    if versions \<noteq> [] then Inr versions
    else
      bindE (if retry_with_latest then list_project_versions s project_id (Some (m_type mv)) None
             else Inr versions) (\<lambda>versions.
      if versions = [] then Inl ValidationException else Inr versions))"

definition automatic_mod_install ::
  "'d services \<Rightarrow> string \<Rightarrow> miniverse \<Rightarrow> string option \<Rightarrow> bool \<Rightarrow> bool \<Rightarrow> ('d world, mod_row) action" where
  "automatic_mod_install s project_id mv game_version prioritize_release retry_with_latest =
    (let game_version = (case game_version of None \<Rightarrow> m_mc_version mv | Some g \<Rightarrow> g) in
     bindA (liftA (candidate_versions s project_id mv (Some game_version) retry_with_latest)) (\<lambda>versions.
     let latest_version = hd (newest_first (prefer_releases prioritize_release versions))
     in install_mod s (fmt s (ver_id latest_version)) (m_id mv)))"

definition uninstall_mod :: "'d services \<Rightarrow> mod_row \<Rightarrow> ('d world, unit) action" where
  "uninstall_mod s md =
    thenA (delete_mod_file s md)
   (thenA (on_db (modifyA (\<lambda>d. d\<lparr>mods := delete_by mod_id (mod_id md) (mods d)\<rparr>)))
          (publish_updated (mod_miniverse_id md) None))"

section \<open>Looking for updates\<close>

text \<open>\<open>x in values\<close> for a string \<open>x\<close>: an element of a list, a key, a substring.\<close>

fun py_in :: "string \<Rightarrow> json \<Rightarrow> exn + bool" where
  "py_in x (JList js) = Inr (JStr x \<in> set js)"
| "py_in x (JObj kvs) = Inr (x \<in> fst ` set kvs)"
| "py_in x (JStr t) = Inr (sublist x t)"
| "py_in x _ = Inl TypeError"

definition opt_json :: "string option \<Rightarrow> json" where
  "opt_json v = (case v of None \<Rightarrow> JNull | Some x \<Rightarrow> JStr x)"

fun first_update :: "string \<Rightarrow> mod_row \<Rightarrow> project_version list \<Rightarrow> exn + mod_update_info option" where
  "first_update game_version md [] = Inr None"
| "first_update game_version md (v # vs) =
     bindE (py_in game_version (ver_game_versions v)) (\<lambda>b.
     if b \<or> ver_id v = opt_json (mod_version_id md) then
       Inr (Some \<lparr>update_status = (if ver_id v = opt_json (mod_version_id md)
                                    then ALREADY_UP_TO_DATE else UPDATE_AVAILABLE),
                  new_versions_ids = [ver_id v], game_versions = [ver_game_versions v]\<rparr>)
     else first_update game_version md vs)"

definition no_update_info :: mod_update_info where
  "no_update_info = \<lparr>update_status = UPDATE_ERROR, new_versions_ids = [], game_versions = []\<rparr>"

definition mod_update_of :: "'d services \<Rightarrow> miniverse \<Rightarrow> string \<Rightarrow> mod_row \<Rightarrow> mod_update_info" where
  "mod_update_of s mv game_version md =
    (let pid = (case mod_project_id md of None \<Rightarrow> ''None'' | Some x \<Rightarrow> x) in
     case bindE (list_project_versions s pid (Some (m_type mv)) (Some game_version)) (\<lambda>versions.
          bindE (if versions = [] then list_project_versions s pid (Some (m_type mv)) None
                 else Inr versions) (\<lambda>versions.
          if versions = [] then Inr no_update_info
          else
            let versions = newest_first versions in
            bindE (first_update game_version md versions) (\<lambda>r. case r of
              Some i \<Rightarrow> Inr i
            | None \<Rightarrow> Inr \<lparr>update_status = NO_COMPATIBLE_VERSIONS,
                          new_versions_ids = map ver_id versions,
                          game_versions = map ver_game_versions versions\<rparr>)))
     of Inr i \<Rightarrow> i | Inl _ \<Rightarrow> no_update_info)"

text \<open>The dictionary has one entry per mod row; their ids differ.\<close>

definition list_possible_mod_updates ::
  "'d services \<Rightarrow> db \<Rightarrow> miniverse \<Rightarrow> string option \<Rightarrow> (string \<times> mod_update_info) list" where
  "list_possible_mod_updates s d mv game_version =
    (let game_version = (case game_version of None \<Rightarrow> m_mc_version mv | Some g \<Rightarrow> g) in
     map (\<lambda>md. (mod_id md, mod_update_of s mv game_version md)) (mods_of d (m_id mv)))"

end
