(* ===== verification/Lifecycle.thy ===== *)
theory Lifecycle
  imports Mods
begin

text \<open>
  \<open>app/services/miniverse_service.py\<close>: creating, starting, stopping, updating and deleting a
  miniverse, with the requests and the columns that change. An operation takes the ORM object of
  the miniverse (a \<open>miniverse\<close> record) and gives it back as the code leaves it; a commit writes
  the attributes that were set to the row.
\<close>

section \<open>Rows\<close>

definition get_miniverses :: "db \<Rightarrow> miniverse list" where
  "get_miniverses d = miniverses d"

definition get_miniverse :: "string \<Rightarrow> db \<Rightarrow> miniverse option" where
  "get_miniverse i d = row_by m_id i (miniverses d)"

definition set_miniverse :: "string \<Rightarrow> (miniverse \<Rightarrow> miniverse) \<Rightarrow> ('d world, unit) action" where
  "set_miniverse i f = on_db (modifyA (\<lambda>d. d\<lparr>miniverses := update_by m_id i f (miniverses d)\<rparr>))"

definition insert_miniverse :: "miniverse \<Rightarrow> (db, unit) action" where
  "insert_miniverse mv d =
    (if m_id mv \<in> m_id ` set (miniverses d) then (Inl IntegrityError, d)
     else (Inr (), d\<lparr>miniverses := miniverses d @ [mv]\<rparr>))"

definition insert_user_role :: "miniverse_user_role \<Rightarrow> (db, unit) action" where
  "insert_user_role r d =
    (if mur_key r \<in> mur_key ` set (user_roles d) \<or> mur_user_id r \<notin> u_id ` set (users d) \<or>
        mur_miniverse_id r \<notin> m_id ` set (miniverses d)
     then (Inl IntegrityError, d) else (Inr (), d\<lparr>user_roles := user_roles d @ [r]\<rparr>))"

text \<open>\<open>db.delete(miniverse)\<close> cascades to the roles and the mods.\<close>

definition delete_miniverse_row :: "string \<Rightarrow> (db, unit) action" where
  "delete_miniverse_row i = modifyA (\<lambda>d. d\<lparr>miniverses := delete_by m_id i (miniverses d),
     user_roles := delete_by mur_miniverse_id i (user_roles d),
     mods := delete_by mod_miniverse_id i (mods d)\<rparr>)"

definition get_miniverse_user_role :: "string \<Rightarrow> string \<Rightarrow> db \<Rightarrow> miniverse_user_role option" where
  "get_miniverse_user_role miniverse_id user_id d =
    find (\<lambda>r. mur_user_id r = user_id \<and> mur_miniverse_id r = miniverse_id) (user_roles d)"

text \<open>The users of the roles; the foreign key guarantees that each exists.\<close>

definition list_miniverse_users :: "string \<Rightarrow> db \<Rightarrow> user list" where
  "list_miniverse_users miniverse_id d =
    List.map_filter (\<lambda>r. row_by u_id (mur_user_id r) (users d)) (users_roles d miniverse_id)"

section \<open>Containers and the data directory\<close>

definition container_name :: "miniverse \<Rightarrow> string" where
  "container_name mv = ''miniverse-'' @ m_id mv"

definition volume_data_path :: "env \<Rightarrow> miniverse \<Rightarrow> ppath" where
  "volume_data_path e mv = get_miniverse_path e (m_id mv) [''data''] False"

definition miniverse_spec :: "env \<Rightarrow> miniverse \<Rightarrow> container_spec" where
  "miniverse_spec e mv =
    \<lparr>cs_image = ''itzg/minecraft-server:'' @
       (case m_java_version mv of Some j \<Rightarrow> if j \<noteq> [] then j else ''latest'' | None \<Rightarrow> ''latest''),
     cs_name = container_name mv, cs_command = None, cs_network = DOCKER_NETWORK_NAME e,
     cs_volumes = [(path_str (get_miniverse_path e (m_id mv) [''data''] True), rw_volume ''/data'')],
     cs_ports = [], cs_tty = True, cs_stdin_open = True,
     cs_environment =
       [(''EULA'', Some ''TRUE''),
        (''TYPE'', Some (upper (miniverse_type_value (m_type mv)))),
        (''VERSION'', Some (m_mc_version mv)),
        (''MOTD'', Some (''Welcome to '' @ m_name mv @ ''!'')),
        (''ONLINE_MODE'', Some (if m_is_on_lite_proxy mv \<and> m_online_mode mv then ''TRUE'' else ''FALSE'')),
        (''SERVER_PORT'', Some ''25565''),
        (''MAX_MEMORY'', Some ''90%''),
        (''MANAGEMENT_SERVER_ENABLED'', Some ''TRUE''),
        (''MANAGEMENT_SERVER_TLS_ENABLED'', Some ''FALSE''),
        (''MANAGEMENT_SERVER_HOST'', Some ''0.0.0.0''),
        (''MANAGEMENT_SERVER_PORT'', Some ''25585''),
        (''MANAGEMENT_SERVER_SECRET'', m_secret mv)],
     cs_auto_remove = True\<rparr>"

definition create_miniverse_container ::
  "'d services \<Rightarrow> miniverse \<Rightarrow> ('d world, string \<times> miniverse) action" where
  "create_miniverse_container s mv =
    bindA (on_docker (create_container (s_docker s) (miniverse_spec (s_env s) mv))) (\<lambda>cid.
    thenA (set_miniverse (m_id mv) (\<lambda>m. m\<lparr>m_container_id := Some cid\<rparr>))
          (ret (cid, mv\<lparr>m_container_id := Some cid\<rparr>)))"

text \<open>
  \<open>parse_version(...) == 'release'\<close> compares a dataclass or \<open>None\<close> with a string: never equal in
  Python, whatever the type of the version is.
\<close>

fun parsed_eq_str :: "parsed_version option \<Rightarrow> string \<Rightarrow> bool" where
  "parsed_eq_str (Some _) _ = False"
| "parsed_eq_str None _ = False"

definition prioritize_release :: "miniverse \<Rightarrow> bool" where
  "prioritize_release mv = parsed_eq_str (parse_version (m_mc_version mv)) ''release''"

definition write_config :: "'d services \<Rightarrow> ppath \<Rightarrow> string \<Rightarrow> json \<Rightarrow> ('d world, unit) action" where
  "write_config s config_path name doc =
    on_fs (write_file (work_dir (s_env s)) (path_child config_path name) (s_print_toml s doc))"

definition init_data_path :: "'d services \<Rightarrow> miniverse \<Rightarrow> ('d world, unit) action" where
  "init_data_path s mv =
    (let e = s_env s; wd = work_dir e; data = volume_data_path e mv;
         icon_path = path_child data ''server-icon.png''; config_path = path_child data ''config'';
         install = (\<lambda>pid retry. thenA (automatic_mod_install s pid mv None (prioritize_release mv) retry)
                                      (ret ()))
     in thenA (bindA (getA (\<lambda>w. exists (w_fs w) wd icon_path)) (\<lambda>ex.
               if \<not> ex then on_fs (write_file wd icon_path (s_icon s)) else ret ()))
       (if m_is_on_lite_proxy mv then ret ()
        else
          thenA (on_fs (mkdir_parents wd config_path))
         (if m_type mv = FABRIC then
            thenA (install ''P7dR8mSH'' False)
           (thenA (install ''8dI2tmqs'' True)
                  (write_config s config_path ''FabricProxy-Lite.toml''
                     (JObj [(''secret'', JStr (PROXY_SECRET e))])))
          else if m_type mv = NEO_FORGE \<or> m_type mv = FORGE then
            thenA (install ''vDyrHl8l'' True)
                  (write_config s config_path ''pcf-common.toml''
                     (JObj [(''modernForwarding'', JObj [(''forwardingSecret'', JStr (PROXY_SECRET e))])]))
          else ret ())))"

section \<open>Starting and stopping\<close>

text \<open>A method of a controller that is \<open>None\<close> is \<open>AttributeError\<close>.\<close>

definition controllerA :: "string \<Rightarrow> ('d world, controller) action" where
  "controllerA i = bindA (getA (\<lambda>w. get_miniverse_controller i (w_live w))) (\<lambda>c. case c of
     None \<Rightarrow> raise AttributeError | Some c \<Rightarrow> ret c)"

definition start_miniverse :: "'d services \<Rightarrow> miniverse \<Rightarrow> ('d world, string \<times> miniverse) action" where
  "start_miniverse s mv =
    (let i = m_id mv in
     thenA (init_data_path s mv)
    (thenA (set_miniverse i (\<lambda>m. m\<lparr>m_started := True\<rparr>))
    (bindA (on_docker (get_container_by_name (s_docker s) (container_name mv))) (\<lambda>existing_container.
     let mv1 = mv\<lparr>m_started := True\<rparr> in
     case existing_container of
       Some cid \<Rightarrow>
         thenA (set_miniverse i (\<lambda>m. m\<lparr>m_container_id := Some cid\<rparr>))
        (thenA (on_docker (start_container (s_docker s) cid))
               (ret (cid, mv1\<lparr>m_container_id := Some cid\<rparr>)))
     | None \<Rightarrow>
         bindA (create_miniverse_container s mv1) (\<lambda>(cid, mv2).
         thenA (on_docker (start_container (s_docker s) cid))
        (bindA (controllerA i) (\<lambda>c.
         thenA (on_live (set_controller i (controller_start c)))
        (thenA (publish_updated i None)
               (ret (cid, mv2)))))))))) "

text \<open>
  The container found by name is not used: the test that follows reads the object again.
\<close>

definition stop_miniverse_container :: "'d services \<Rightarrow> miniverse \<Rightarrow> ('d world, unit) action" where
  "stop_miniverse_container s mv =
    bindA (case m_container_id mv of
             Some c \<Rightarrow> ret (Some c)
           | None \<Rightarrow> on_docker (get_container_by_name (s_docker s) (container_name mv))) (\<lambda>container_id.
    case m_container_id mv of
      None \<Rightarrow> ret ()
    | Some c \<Rightarrow>
        if c = [] then ret ()
        else catchA (on_docker (stop_container (s_docker s) (the container_id))) not_found (ret ()))"

definition stop_miniverse :: "'d services \<Rightarrow> miniverse \<Rightarrow> ('d world, miniverse) action" where
  "stop_miniverse s mv =
    (let i = m_id mv in
     thenA (stop_miniverse_container s mv)
    (bindA (controllerA i) (\<lambda>c.
     bindA (on_live (on_hub (controller_stop (s_ns s) (s_rpc s) i c))) (\<lambda>c'.
     thenA (on_live (set_controller i c'))
    (thenA (set_miniverse i (\<lambda>m. m\<lparr>m_started := False, m_container_id := None\<rparr>))
    (thenA (publish_updated i None)
           (ret (mv\<lparr>m_started := False, m_container_id := None\<rparr>))))))))"

definition restart_miniverse :: "'d services \<Rightarrow> miniverse \<Rightarrow> ('d world, string \<times> miniverse) action" where
  "restart_miniverse s mv = bindA (stop_miniverse s mv) (start_miniverse s)"

section \<open>Creating and deleting\<close>

record miniverse_create =
  c_name :: string
  c_type :: miniverse_type
  c_description :: "string option"
  c_java_version :: "string option"
  c_mc_version :: string
  c_subdomain :: "string option"
  c_online_mode :: bool
  c_is_on_lite_proxy :: bool

text \<open>The requested proxy mode is not used; a missing subdomain violates a column constraint.\<close>

definition new_miniverse :: "miniverse_create \<Rightarrow> string \<Rightarrow> string \<Rightarrow> string \<Rightarrow> miniverse" where
  "new_miniverse req i subdomain secret =
    \<lparr>m_id = i, m_name = c_name req, m_type = c_type req, m_description = c_description req,
     m_container_id = None, m_java_version = c_java_version req, m_mc_version = c_mc_version req,
     m_subdomain = subdomain, m_online_mode = c_online_mode req, m_is_on_lite_proxy = True,
     m_allow_bedrock = False, m_started = False, m_secret = Some secret\<rparr>"

definition add_controller :: "'d services \<Rightarrow> miniverse \<Rightarrow> ('d world, controller) action" where
  "add_controller s mv =
    on_live (add_miniverse (s_from_iso s) (s_web s (MODRINTH_BASE_URL @ ''/tag/game_version'') []) mv)"

definition created_event :: "string \<Rightarrow> ('d world, unit) action" where
  "created_event i =
    bindA (getA (\<lambda>w. users_roles (w_db w) i)) (\<lambda>rs.
    on_live (on_hub (publish_miniverse_created_event i (user_list_from_user_role_list rs))))"

definition create_miniverse ::
  "'d services \<Rightarrow> miniverse_create \<Rightarrow> string \<Rightarrow> ('d world, miniverse) action" where
  "create_miniverse s req creator_id =
    bindA (getA (\<lambda>w. s_new_id s (w_db w))) (\<lambda>i.
    case c_subdomain req of
      None \<Rightarrow> raise IntegrityError
    | Some sub \<Rightarrow>
        let mv = new_miniverse req i sub (s_secret s) in
        thenA (on_db (insert_miniverse mv))
       (thenA (on_db (insert_user_role
                 \<lparr>mur_user_id = creator_id, mur_miniverse_id = i, mur_role = ADMIN\<rparr>))
       (thenA (on_fs (mkdir_parents (work_dir (s_env s)) (volume_data_path (s_env s) mv)))
       (thenA (add_controller s mv)
       (bindA (start_miniverse s mv) (\<lambda>(_, mv').
        thenA (update_proxy_config s)
       (thenA (created_event i)
              (ret mv'))))))))"

definition remove_controller :: "'d services \<Rightarrow> string \<Rightarrow> ('d world, unit) action" where
  "remove_controller s i = on_live (remove_miniverse (s_ns s) (s_rpc s) i)"

text \<open>The object keeps the roles it was loaded with after its row is deleted.\<close>

definition delete_miniverse :: "'d services \<Rightarrow> miniverse \<Rightarrow> ('d world, unit) action" where
  "delete_miniverse s mv =
    (let i = m_id mv; e = s_env s; base = get_miniverse_path e i [] False in
     bindA (getA (\<lambda>w. users_roles (w_db w) i)) (\<lambda>roles.
     thenA (remove_controller s i)
    (thenA (case m_container_id mv of
              None \<Rightarrow> ret ()
            | Some c \<Rightarrow> if c = [] then ret () else on_docker (remove_container (s_docker s) c))
    (thenA (bindA (getA (\<lambda>w. exists (w_fs w) (work_dir e) base \<and> is_dir (w_fs w) (work_dir e) base)) (\<lambda>b.
            if b then on_fs (rmtree (work_dir e) base) else ret ()))
    (thenA (on_db (delete_miniverse_row i))
    (thenA (on_live (on_hub (delete_miniverse_cache i)))
    (thenA (update_proxy_config s)
           (on_live (on_hub (publish_miniverse_deleted_event i
              (user_list_from_user_role_list roles)))))))))))"

section \<open>Updating\<close>

text \<open>
  The fields of an update; \<open>None\<close> stands for an absent key or null. The request is a dictionary; the
  values are those that the columns can hold, others are left to the database driver.
\<close>

record update_request =
  up_name :: "string option"
  up_description :: "string option"
  up_subdomain :: "string option"
  up_java_version :: "string option"
  up_allow_bedrock :: "bool option"
  up_online_mode :: "bool option"
  up_mc_version :: "string option"

datatype field = FName | FDescription | FSubdomain | FJavaVersion | FAllowBedrock | FOnlineMode

definition fields_to_update :: "field list" where
  "fields_to_update = [FName, FDescription, FSubdomain, FJavaVersion, FAllowBedrock, FOnlineMode]"

text \<open>The object after \<open>setattr\<close>, when the request has a new value for the field.\<close>

fun field_change :: "update_request \<Rightarrow> field \<Rightarrow> miniverse \<Rightarrow> miniverse option" where
  "field_change r FName mv = (case up_name r of None \<Rightarrow> None
     | Some v \<Rightarrow> if m_name mv \<noteq> v then Some (mv\<lparr>m_name := v\<rparr>) else None)"
| "field_change r FDescription mv = (case up_description r of None \<Rightarrow> None
     | Some v \<Rightarrow> if m_description mv \<noteq> Some v then Some (mv\<lparr>m_description := Some v\<rparr>) else None)"
| "field_change r FSubdomain mv = (case up_subdomain r of None \<Rightarrow> None
     | Some v \<Rightarrow> if m_subdomain mv \<noteq> v then Some (mv\<lparr>m_subdomain := v\<rparr>) else None)"
| "field_change r FJavaVersion mv = (case up_java_version r of None \<Rightarrow> None
     | Some v \<Rightarrow> if m_java_version mv \<noteq> Some v then Some (mv\<lparr>m_java_version := Some v\<rparr>) else None)"
| "field_change r FAllowBedrock mv = (case up_allow_bedrock r of None \<Rightarrow> None
     | Some v \<Rightarrow> if m_allow_bedrock mv \<noteq> v then Some (mv\<lparr>m_allow_bedrock := v\<rparr>) else None)"
| "field_change r FOnlineMode mv = (case up_online_mode r of None \<Rightarrow> None
     | Some v \<Rightarrow> if m_online_mode mv \<noteq> v then Some (mv\<lparr>m_online_mode := v\<rparr>) else None)"

text \<open>\<open>select(Miniverse).where(field == new_value)\<close> for the two unique fields.\<close>

fun value_taken :: "db \<Rightarrow> field \<Rightarrow> miniverse \<Rightarrow> bool" where
  "value_taken d FName mv = (m_name mv \<in> m_name ` set (miniverses d))"
| "value_taken d FSubdomain mv = (m_subdomain mv \<in> m_subdomain ` set (miniverses d))"
| "value_taken d _ mv = False"

fun update_fields ::
  "db \<Rightarrow> update_request \<Rightarrow> field list \<Rightarrow> miniverse \<Rightarrow> exn + (miniverse \<times> field list)" where
  "update_fields d r [] mv = Inr (mv, [])"
| "update_fields d r (f # fs) mv =
     (case field_change r f mv of
        None \<Rightarrow> update_fields d r fs mv
      | Some mv' \<Rightarrow>
          if value_taken d f mv' then Inl ValidationException
          else bindE (update_fields d r fs mv') (\<lambda>(mv'', changed). Inr (mv'', f # changed)))"

text \<open>The commit writes the attributes that were set.\<close>

definition copy_fields :: "miniverse \<Rightarrow> miniverse \<Rightarrow> miniverse" where
  "copy_fields mv m = m\<lparr>m_name := m_name mv, m_description := m_description mv,
     m_subdomain := m_subdomain mv, m_java_version := m_java_version mv,
     m_allow_bedrock := m_allow_bedrock mv, m_online_mode := m_online_mode mv\<rparr>"

definition is_modded :: "miniverse \<Rightarrow> bool" where
  "is_modded mv \<longleftrightarrow> m_type mv = FORGE \<or> m_type mv = NEO_FORGE \<or> m_type mv = FABRIC"

definition unsafe_update :: "mod_update_info \<Rightarrow> bool" where
  "unsafe_update i \<longleftrightarrow> update_status i = UPDATE_ERROR \<or> update_status i = NO_COMPATIBLE_VERSIONS"

text \<open>\<open>possible_mod_updates[mod.id]\<close>\<close>

definition apply_mod_update ::
  "'d services \<Rightarrow> (string \<times> mod_update_info) list \<Rightarrow> mod_row \<Rightarrow> ('d world, unit) action" where
  "apply_mod_update s possible md = (case map_of possible (mod_id md) of
     None \<Rightarrow> raise KeyError
   | Some info \<Rightarrow>
       if update_status info = UPDATE_AVAILABLE
       then (case new_versions_ids info of
               [] \<Rightarrow> raise IndexError
             | new_version_id # _ \<Rightarrow> thenA (update_mod s md (fmt s new_version_id)) (ret ()))
       else ret ())"

definition update_all_mods ::
  "'d services \<Rightarrow> miniverse \<Rightarrow> string \<Rightarrow> bool \<Rightarrow> ('d world, unit) action" where
  "update_all_mods s mv new_mc_version force_update =
    bindA (getA (\<lambda>w. list_possible_mod_updates s (w_db w) mv (Some new_mc_version))) (\<lambda>possible.
    if list_ex (\<lambda>(_, i). unsafe_update i) possible \<and> \<not> force_update then raise ValidationException
    else bindA (getA (\<lambda>w. mods_of (w_db w) (m_id mv))) (forA (apply_mod_update s possible)))"

definition update_miniverse_game_version ::
  "'d services \<Rightarrow> miniverse \<Rightarrow> string \<Rightarrow> bool \<Rightarrow> ('d world, miniverse) action" where
  "update_miniverse_game_version s mv new_mc_version force_update =
    (if m_mc_version mv = new_mc_version then raise ValidationException
     else
       bindA (on_live (on_cache (compare_versions (s_from_iso s)
                (s_web s (MODRINTH_BASE_URL @ ''/tag/game_version'') [])
                (m_mc_version mv) new_mc_version))) (\<lambda>version_comparison.
       case version_comparison of
         None \<Rightarrow> raise ValidationException
       | Some c \<Rightarrow>
           if c > 0 then raise ValidationException
           else
             thenA (if is_modded mv then update_all_mods s mv new_mc_version force_update else ret ())
            (bindA (stop_miniverse s mv) (\<lambda>mv1.
             thenA (set_miniverse (m_id mv) (\<lambda>m. m\<lparr>m_mc_version := new_mc_version\<rparr>))
            (bindA (start_miniverse s (mv1\<lparr>m_mc_version := new_mc_version\<rparr>)) (\<lambda>(_, mv2).
             ret mv2)))))) "

definition update_miniverse :: "'d services \<Rightarrow> miniverse \<Rightarrow> update_request \<Rightarrow> ('d world, miniverse) action" where
  "update_miniverse s mv r =
    bindA (\<lambda>w. (update_fields (w_db w) r fields_to_update mv, w)) (\<lambda>(mv1, changed_fields).
    let version_changed = (case up_mc_version r of None \<Rightarrow> False | Some v \<Rightarrow> m_mc_version mv1 \<noteq> v);
        should_restart = (case up_java_version r of None \<Rightarrow> False | Some j \<Rightarrow> m_java_version mv1 \<noteq> Some j)
    in thenA (if changed_fields \<noteq> [] then set_miniverse (m_id mv) (copy_fields mv1) else ret ())
      (bindA (if version_changed
              then update_miniverse_game_version s mv1 (the (up_mc_version r)) False else ret mv1) (\<lambda>mv2.
       bindA (if should_restart then bindA (restart_miniverse s mv2) (\<lambda>(_, mv3). ret mv3) else ret mv2) (\<lambda>mv3.
       thenA (if FSubdomain \<in> set changed_fields \<or> FAllowBedrock \<in> set changed_fields
              then update_proxy_config s else ret ())
      (thenA (if changed_fields \<noteq> [] \<or> version_changed then publish_updated (m_id mv) None else ret ())
             (ret mv3))))))"

section \<open>Players\<close>

definition miniverse_set_player_operator ::
  "'d services \<Rightarrow> miniverse \<Rightarrow> string \<Rightarrow> bool \<Rightarrow> ('d world, bool) action" where
  "miniverse_set_player_operator s mv player_id operator =
    bindA (controllerA (m_id mv)) (\<lambda>c. liftA (set_player_operator (s_rpc s) (m_id mv) c player_id operator))"

definition miniverse_kick_player ::
  "'d services \<Rightarrow> miniverse \<Rightarrow> string \<Rightarrow> string \<Rightarrow> ('d world, bool) action" where
  "miniverse_kick_player s mv player_id reason =
    bindA (controllerA (m_id mv)) (\<lambda>c. liftA (kick_player (s_rpc s) (m_id mv) c player_id reason))"

definition miniverse_ban_player ::
  "'d services \<Rightarrow> miniverse \<Rightarrow> string \<Rightarrow> string \<Rightarrow> ('d world, bool) action" where
  "miniverse_ban_player s mv player_id reason =
    bindA (controllerA (m_id mv)) (\<lambda>c. liftA (ban_player_cmd (s_rpc s) (m_id mv) c player_id reason))"

definition miniverse_unban_player :: "'d services \<Rightarrow> miniverse \<Rightarrow> string \<Rightarrow> ('d world, bool) action" where
  "miniverse_unban_player s mv player_id =
    bindA (controllerA (m_id mv)) (\<lambda>c. liftA (unban_player (s_rpc s) (m_id mv) c player_id))"

end
