(* ===== verification/Api.thy ===== *)
theory Api
  imports Lifecycle Users Files
begin

text \<open>
  The HTTP endpoints: \<open>app/api/v1/miniverses.py\<close>, \<open>files.py\<close>, \<open>mods.py\<close>, \<open>minecraft.py\<close> and
  \<open>app/api/internal/mcrouter.py\<close>. An endpoint gets the user that the token handler loaded; a
  request is a value of \<open>request\<close>, and \<open>serve\<close> runs its endpoint.
\<close>

section \<open>Guards\<close>

definition require :: "role \<Rightarrow> user_obj \<Rightarrow> string \<Rightarrow> ('w, unit) action" where
  "require r cu miniverse_id =
    (if get_miniverse_role cu miniverse_id < r then raise NotAuthorizedException else ret ())"

text \<open>The miniverse of a request; an endpoint that does not test for \<open>None\<close> fails on its first use.\<close>

definition found :: "exn \<Rightarrow> string \<Rightarrow> ('d world, miniverse) action" where
  "found e i = bindA (getA (\<lambda>w. get_miniverse i (w_db w))) (\<lambda>m. case m of
     None \<Rightarrow> raise e | Some mv \<Rightarrow> ret mv)"

section \<open>Miniverses\<close>

definition api_list_miniverses :: "user_obj \<Rightarrow> ('d world, miniverse list) action" where
  "api_list_miniverses cu = getA (\<lambda>w.
     filter (\<lambda>m. get_miniverse_role cu (m_id m) \<ge> USER) (get_miniverses (w_db w)))"

definition api_create_miniverse ::
  "'d services \<Rightarrow> user_obj \<Rightarrow> miniverse_create \<Rightarrow> ('d world, miniverse) action" where
  "api_create_miniverse s cu data =
    (if u_role cu < MODERATOR then raise NotAuthorizedException
     else create_miniverse s data (u_id cu))"

definition api_delete_miniverse :: "'d services \<Rightarrow> user_obj \<Rightarrow> string \<Rightarrow> ('d world, unit) action" where
  "api_delete_miniverse s cu i =
    thenA (require ADMIN cu i) (bindA (found AttributeError i) (delete_miniverse s))"

definition api_start_miniverse :: "'d services \<Rightarrow> user_obj \<Rightarrow> string \<Rightarrow> ('d world, miniverse) action" where
  "api_start_miniverse s cu i =
    thenA (require USER cu i) (bindA (found NotFoundException i) (\<lambda>mv.
      bindA (start_miniverse s mv) (\<lambda>(_, mv'). ret mv')))"

definition api_stop_miniverse :: "'d services \<Rightarrow> user_obj \<Rightarrow> string \<Rightarrow> ('d world, miniverse) action" where
  "api_stop_miniverse s cu i =
    thenA (require USER cu i) (bindA (found NotFoundException i) (stop_miniverse s))"

definition api_restart_miniverse :: "'d services \<Rightarrow> user_obj \<Rightarrow> string \<Rightarrow> ('d world, miniverse) action" where
  "api_restart_miniverse s cu i =
    thenA (require USER cu i) (bindA (found NotFoundException i) (\<lambda>mv.
      bindA (restart_miniverse s mv) (\<lambda>(_, mv'). ret mv')))"

definition api_update_miniverse ::
  "'d services \<Rightarrow> user_obj \<Rightarrow> string \<Rightarrow> update_request \<Rightarrow> ('d world, miniverse) action" where
  "api_update_miniverse s cu i data =
    thenA (require ADMIN cu i) (bindA (found NotFoundException i) (\<lambda>mv. update_miniverse s mv data))"

definition api_automatic_install_mod ::
  "'d services \<Rightarrow> user_obj \<Rightarrow> string \<Rightarrow> string \<Rightarrow> ('d world, mod_row) action" where
  "api_automatic_install_mod s cu i project_id =
    thenA (require MODERATOR cu i) (bindA (found AttributeError i) (\<lambda>mv.
      automatic_mod_install s project_id mv None True True))"

definition api_install_mod ::
  "'d services \<Rightarrow> user_obj \<Rightarrow> string \<Rightarrow> string \<Rightarrow> ('d world, mod_row) action" where
  "api_install_mod s cu i version_id =
    thenA (require MODERATOR cu i)
      (bindA (getA (\<lambda>w. get_miniverse i (w_db w))) (\<lambda>m. case m of
         Some mv \<Rightarrow> install_mod s version_id (m_id mv)
       | None \<Rightarrow>   \<comment> \<open>the two requests come before the first use of the object\<close>
           bindA (liftA (get_version_details s version_id)) (\<lambda>version.
           bindA (liftA (get_project_details s (fmt s (ver_project_id version)))) (\<lambda>_.
           raise AttributeError))))"

definition api_uninstall_mod :: "'d services \<Rightarrow> user_obj \<Rightarrow> string \<Rightarrow> ('d world, unit) action" where
  "api_uninstall_mod s cu i =
    bindA (getA (\<lambda>w. get_mod i (w_db w))) (\<lambda>m. case m of
      None \<Rightarrow> raise NotFoundException
    | Some md \<Rightarrow> thenA (require MODERATOR cu (mod_miniverse_id md)) (uninstall_mod s md))"

text \<open>
  \<open>if mod := get_mod(mod_id, db) is None\<close> binds \<open>mod\<close> to the comparison of a coroutine with \<open>None\<close>,
  which is \<open>False\<close>; the attribute access on it fails.
\<close>

definition api_update_mod :: "'d services \<Rightarrow> user_obj \<Rightarrow> string \<Rightarrow> string \<Rightarrow> ('d world, mod_row) action" where
  "api_update_mod s cu i new_version_id =
    (let md = False in if md then raise NotFoundException else raise AttributeError)"

definition api_list_mod_updates ::
  "'d services \<Rightarrow> user_obj \<Rightarrow> string \<Rightarrow> ('d world, (string \<times> mod_update_info) list) action" where
  "api_list_mod_updates s cu i =
    thenA (require USER cu i) (bindA (found AttributeError i) (\<lambda>mv.
      getA (\<lambda>w. list_possible_mod_updates s (w_db w) mv None)))"

text \<open>The global role is hidden in the answer; the session is not committed.\<close>

definition api_list_miniverse_users :: "user_obj \<Rightarrow> string \<Rightarrow> ('d world, user list) action" where
  "api_list_miniverse_users cu i =
    thenA (require MODERATOR cu i) (bindA (found AttributeError i) (\<lambda>mv.
      getA (\<lambda>w. map (\<lambda>u. u\<lparr>u_role := NONE\<rparr>) (list_miniverse_users i (w_db w)))))"

definition is_hex :: "char \<Rightarrow> bool" where
  "is_hex c \<longleftrightarrow> is_digit c \<or> upper_char c \<in> set ''ABCDEF''"

definition hex_run :: "nat \<Rightarrow> regex" where
  "hex_run n = Rep is_hex n (Some n)"

definition UUID4_REGEX :: regex where
  "UUID4_REGEX = seqs
    [hex_run 8, Lit ''-'', hex_run 4, Lit ''-'', Lit ''4'', hex_run 3, Lit ''-'',
     Rep (\<lambda>c. c \<in> set ''89'' \<or> upper_char c \<in> set ''AB'') 1 (Some 1), hex_run 3, Lit ''-'',
     hex_run 12, Eol]"

definition find_user :: "string \<Rightarrow> db \<Rightarrow> user option" where
  "find_user user_id_or_name d =
    (if re_match UUID4_REGEX user_id_or_name \<noteq> None then row_by u_id user_id_or_name (users d)
     else row_by u_username user_id_or_name (users d))"

definition write_role :: "string \<Rightarrow> string \<Rightarrow> role \<Rightarrow> (db, unit) action" where
  "write_role miniverse_id user_id r =
    bindA (getA (get_miniverse_user_role miniverse_id user_id)) (\<lambda>mur. case mur of
      None \<Rightarrow>
        if r \<noteq> NONE then insert_user_role
          \<lparr>mur_user_id = user_id, mur_miniverse_id = miniverse_id, mur_role = r\<rparr>
        else ret ()
    | Some _ \<Rightarrow>
        if r = NONE
        then modifyA (\<lambda>d. d\<lparr>user_roles := delete_by mur_key (user_id, miniverse_id) (user_roles d)\<rparr>)
        else modifyA (\<lambda>d. d\<lparr>user_roles := update_by mur_key (user_id, miniverse_id)
               (\<lambda>m. m\<lparr>mur_role := r\<rparr>) (user_roles d)\<rparr>))"

definition api_set_miniverse_role ::
  "user_obj \<Rightarrow> string \<Rightarrow> string \<Rightarrow> role \<Rightarrow> ('d world, unit) action" where
  "api_set_miniverse_role cu i user_id_or_name r =
    thenA (require ADMIN cu i) (bindA (getA (\<lambda>w. find_user user_id_or_name (w_db w))) (\<lambda>user. case user of
      None \<Rightarrow> raise NotFoundException
    | Some u \<Rightarrow> thenA (on_db (write_role i (u_id u) r)) (publish_updated i (Some [u_id u]))))"

definition visible_miniverses :: "user_obj \<Rightarrow> ('d world, miniverse list) action" where
  "visible_miniverses cu = api_list_miniverses cu"

definition source_of :: "'d services \<Rightarrow> string \<Rightarrow> controller \<Rightarrow> string \<Rightarrow> exn + json" where
  "source_of s i c = get_data_from_source (s_rpc s) i c"

definition api_list_all_players ::
  "'d services \<Rightarrow> user_obj \<Rightarrow> ('d world, (string \<times> player list) list) action" where
  "api_list_all_players s cu = bindA (visible_miniverses cu) (mapA (\<lambda>m.
     if \<not> m_started m then ret (m_id m, [])
     else bindA (controllerA (m_id m)) (\<lambda>c.
          bindA (on_live (on_hub (get_msmp_player_list (s_ns s) (m_id m) (source_of s (m_id m) c) False))) (\<lambda>ps.
          ret (m_id m, ps)))))"

text \<open>A router service has no list of banned players.\<close>

definition api_list_all_banned_players ::
  "'d services \<Rightarrow> user_obj \<Rightarrow> ('d world, (string \<times> player_ban list) list) action" where
  "api_list_all_banned_players s cu = bindA (visible_miniverses cu) (mapA (\<lambda>m.
     if \<not> m_started m then ret (m_id m, [])
     else bindA (controllerA (m_id m)) (\<lambda>c. case c of
            MCRouter _ \<Rightarrow> raise AttributeError
          | WebSocket _ _ \<Rightarrow>
              bindA (on_live (on_hub (get_msmp_banned_player_list (s_ns s) (m_id m) (source_of s (m_id m) c) False)))
                (\<lambda>bs. ret (m_id m, bs)))))"

definition player_command :: "('d world, bool) action \<Rightarrow> ('d world, unit) action" where
  "player_command m = bindA m (\<lambda>result. if \<not> result then raise NotFoundException else ret ())"

definition api_set_operator ::
  "'d services \<Rightarrow> user_obj \<Rightarrow> string \<Rightarrow> string \<Rightarrow> bool \<Rightarrow> ('d world, unit) action" where
  "api_set_operator s cu i player_id v =
    thenA (require MODERATOR cu i) (bindA (found AttributeError i) (\<lambda>mv.
      player_command (miniverse_set_player_operator s mv player_id v)))"

definition api_kick_player ::
  "'d services \<Rightarrow> user_obj \<Rightarrow> string \<Rightarrow> string \<Rightarrow> string \<Rightarrow> ('d world, unit) action" where
  "api_kick_player s cu i player_id reason =
    thenA (require MODERATOR cu i) (bindA (found AttributeError i) (\<lambda>mv.
      player_command (miniverse_kick_player s mv player_id reason)))"

definition api_ban_player ::
  "'d services \<Rightarrow> user_obj \<Rightarrow> string \<Rightarrow> string \<Rightarrow> string \<Rightarrow> ('d world, unit) action" where
  "api_ban_player s cu i player_id reason =
    thenA (require MODERATOR cu i) (bindA (found AttributeError i) (\<lambda>mv.
      player_command (miniverse_ban_player s mv player_id reason)))"

definition api_unban_player ::
  "'d services \<Rightarrow> user_obj \<Rightarrow> string \<Rightarrow> string \<Rightarrow> ('d world, unit) action" where
  "api_unban_player s cu i player_id =
    thenA (require MODERATOR cu i) (bindA (found AttributeError i) (\<lambda>mv.
      player_command (miniverse_unban_player s mv player_id)))"

section \<open>Files\<close>

definition file_request ::
  "user_obj \<Rightarrow> string \<Rightarrow> (miniverse \<Rightarrow> (fs, 'a) action) \<Rightarrow> ('d world, 'a) action" where
  "file_request cu i act =
    thenA (require MODERATOR cu i) (bindA (found AttributeError i) (\<lambda>mv. on_fs (act mv)))"

definition api_list_files ::
  "'d services \<Rightarrow> (ppath \<Rightarrow> int \<times> int) \<Rightarrow> user_obj \<Rightarrow> string \<Rightarrow> string \<Rightarrow>
   ('d world, file_info list option) action" where
  "api_list_files s stamps cu i path =
    file_request cu i (\<lambda>mv. list_miniverse_files stamps (s_env s) mv (Path path))"

definition api_delete_files :: "'d services \<Rightarrow> user_obj \<Rightarrow> string \<Rightarrow> string list \<Rightarrow> ('d world, unit) action" where
  "api_delete_files s cu i paths =
    file_request cu i (\<lambda>mv. delete_miniverse_files (s_env s) mv (map Path paths))"

definition api_copy_files ::
  "'d services \<Rightarrow> nat \<Rightarrow> user_obj \<Rightarrow> string \<Rightarrow> string list \<Rightarrow> string \<Rightarrow> ('d world, unit) action" where
  "api_copy_files s depth cu i paths destination =
    file_request cu i (\<lambda>mv. copy_miniverse_files depth (s_env s) mv (map Path paths) (Path destination))"

definition api_download_files :: "'d services \<Rightarrow> user_obj \<Rightarrow> string \<Rightarrow> string \<Rightarrow> ('d world, response) action" where
  "api_download_files s cu i paths =
    file_request cu i (\<lambda>mv.
      bindA (transform_safe_miniverse_files (s_env s) mv (map Path (split_on (CHR '','') paths)))
        (\<lambda>safe_paths. if length safe_paths = 0 then raise NotFoundException
                      else download_files (s_env s) safe_paths))"

definition api_extract ::
  "'d services \<Rightarrow> (string \<Rightarrow> exn + zip_member list) \<Rightarrow> user_obj \<Rightarrow> string \<Rightarrow> string \<Rightarrow> ('d world, unit) action" where
  "api_extract s unzip cu i path =
    file_request cu i (\<lambda>mv. extract_miniverse_archive unzip (s_env s) mv (Path path))"

definition api_compress ::
  "'d services \<Rightarrow> ((string \<times> string) list \<Rightarrow> string) \<Rightarrow> user_obj \<Rightarrow> string \<Rightarrow> string list \<Rightarrow> ('d world, unit) action" where
  "api_compress s pack cu i paths =
    file_request cu i (\<lambda>mv. compress_miniverse_files pack (s_env s) mv (map Path paths))"

definition api_rename ::
  "'d services \<Rightarrow> user_obj \<Rightarrow> string \<Rightarrow> string \<Rightarrow> string \<Rightarrow> ('d world, unit) action" where
  "api_rename s cu i path new_name =
    file_request cu i (\<lambda>mv. rename_file (s_env s) mv (Path path) new_name)"

definition api_get_content :: "'d services \<Rightarrow> user_obj \<Rightarrow> string \<Rightarrow> string \<Rightarrow> ('d world, ppath) action" where
  "api_get_content s cu i path =
    file_request cu i (\<lambda>mv. get_file_content (s_env s) mv (Path path))"

text \<open>The body must hold the key \<open>content\<close>, a string.\<close>

definition api_set_content ::
  "'d services \<Rightarrow> user_obj \<Rightarrow> string \<Rightarrow> string \<Rightarrow> json \<Rightarrow> ('d world, unit) action" where
  "api_set_content s cu i path data =
    thenA (require MODERATOR cu i)
      (bindA (getA (\<lambda>w. get_miniverse i (w_db w))) (\<lambda>m.
       bindA (liftA (py_in ''content'' data)) (\<lambda>has.
       if \<not> has then raise ValueError
       else bindA (liftA (getitem data ''content'')) (\<lambda>c. case m of
              None \<Rightarrow> raise AttributeError
            | Some mv \<Rightarrow> (case c of
                 JStr t \<Rightarrow> on_fs (set_file_content (s_env s) mv (Path path) t)
               | _ \<Rightarrow> raise TypeError)))))"

text \<open>
  The hooks of the upload server. A role lookup with a value that is no string finds no row. The id of
  an upload and its metadata are strings; others are refused when they are read.
\<close>

datatype hook = PreCreate json | PostFinish json

datatype hook_answer = UploadRejected | UploadAccepted | NoAnswer

definition json_role :: "user_obj \<Rightarrow> json \<Rightarrow> role" where
  "json_role cu j = (case j of JStr i \<Rightarrow> get_miniverse_role cu i | _ \<Rightarrow> NONE)"

definition meta_of :: "json \<Rightarrow> exn + json" where
  "meta_of ev = bindE (getitem ev ''Upload'') (\<lambda>u. getitem u ''MetaData'')"

definition upload_path :: "env \<Rightarrow> string \<Rightarrow> ppath" where
  "upload_path e file_id = path_child (path_child (DATA_PATH e) ''uploads'') file_id"

definition finish_upload ::
  "'d services \<Rightarrow> user_obj \<Rightarrow> string \<Rightarrow> json \<Rightarrow> json \<Rightarrow> ('d world, hook_answer) action" where
  "finish_upload s cu file_id meta miniverse_id =
    (let e = s_env s in
     if json_role cu miniverse_id < MODERATOR then
       thenA (on_fs (unlink (work_dir e) (upload_path e file_id)))
      (thenA (on_fs (unlink (work_dir e) (upload_path e (file_id @ ''.info''))))
             (ret NoAnswer))
     else
       bindA (liftA (need_str miniverse_id)) (\<lambda>i.
       bindA (getA (\<lambda>w. get_miniverse i (w_db w))) (\<lambda>m.
       bindA (liftA (bindE (getitem meta ''filename'') need_str)) (\<lambda>filename.
       bindA (liftA (bindE (getitem meta ''destination'') need_str)) (\<lambda>destination.
       case m of
         None \<Rightarrow> raise AttributeError
       | Some mv \<Rightarrow>
           thenA (on_fs (upload_miniverse_file e mv file_id filename (Path destination)))
                 (ret NoAnswer))))))"

definition confirm_upload :: "'d services \<Rightarrow> user_obj \<Rightarrow> hook \<Rightarrow> ('d world, hook_answer) action" where
  "confirm_upload s cu data = (case data of
     PreCreate ev \<Rightarrow>
       bindA (liftA (meta_of ev)) (\<lambda>meta.
       bindA (liftA (getitem meta ''miniverseId'')) (\<lambda>miniverse_id.
       if json_role cu miniverse_id < MODERATOR then ret UploadRejected
       else bindA (liftA (getitem meta ''filename'')) (\<lambda>_. ret UploadAccepted)))
   | PostFinish ev \<Rightarrow>
       bindA (liftA (bindE (bindE (getitem ev ''Upload'') (\<lambda>u. getitem u ''ID'')) need_str)) (\<lambda>file_id.
       bindA (liftA (meta_of ev)) (\<lambda>meta.
       bindA (liftA (getitem meta ''miniverseId'')) (\<lambda>miniverse_id.
       finish_upload s cu file_id meta miniverse_id))))"

section \<open>Mods, versions, webhooks\<close>

definition api_search_mods :: "'d services \<Rightarrow> string \<Rightarrow> nat \<Rightarrow> nat \<Rightarrow> exn + search_results" where
  "api_search_mods s q limit offset = search_modrinth_projects s q
     \<lparr>sf_project_type = Some PT_MOD, sf_categories = None, sf_versions = None,
      sf_client_side = None, sf_server_side = None\<rparr> limit offset"

definition api_mod_details :: "'d services \<Rightarrow> string \<Rightarrow> exn + project" where
  "api_mod_details s project_id = get_project_details s project_id"

definition api_mod_version_details :: "'d services \<Rightarrow> string \<Rightarrow> exn + project_version" where
  "api_mod_version_details s version_id = get_version_details s version_id"

definition api_list_mod_versions ::
  "'d services \<Rightarrow> string \<Rightarrow> string option \<Rightarrow> string option \<Rightarrow> exn + project_version list" where
  "api_list_mod_versions s project_id loader game_version = (case loader of
     None \<Rightarrow> list_project_versions s project_id None game_version
   | Some l \<Rightarrow>
       (case find (\<lambda>t. miniverse_type_value t = l) [VANILLA, PAPER, FABRIC, FORGE, NEO_FORGE] of
          None \<Rightarrow> Inl ValidationException
        | Some t \<Rightarrow> list_project_versions s project_id (Some t) game_version))"

definition is_space :: "char \<Rightarrow> bool" where
  "is_space c \<longleftrightarrow> (let n = of_char c :: nat in
     n = 32 \<or> (9 \<le> n \<and> n \<le> 13) \<or> (28 \<le> n \<and> n \<le> 31) \<or> n = 133 \<or> n = 160)"

definition strip :: "string \<Rightarrow> string" where
  "strip t = rev (dropWhile is_space (rev (dropWhile is_space t)))"

fun take_through :: "('a \<Rightarrow> bool) \<Rightarrow> 'a list \<Rightarrow> 'a list option" where
  "take_through p [] = None"
| "take_through p (x # xs) = (if p x then Some [x] else map_option ((#) x) (take_through p xs))"

text \<open>\<open>all_versions[:index + 1]\<close> for the first index with the wanted version.\<close>

definition api_list_minecraft_versions ::
  "'d services \<Rightarrow> string option \<Rightarrow> ('d world, mc_version list) action" where
  "api_list_minecraft_versions s min_version =
    bindA (on_live (on_cache (get_minecraft_versions (s_from_iso s)
             (s_web s (MODRINTH_BASE_URL @ ''/tag/game_version'') [])))) (\<lambda>all_versions.
    case min_version of
      None \<Rightarrow> ret all_versions
    | Some m \<Rightarrow>
        (case take_through (\<lambda>v. mv_version v = JStr (strip (lower m))) all_versions of
           Some vs \<Rightarrow> ret vs | None \<Rightarrow> raise NotFoundException))"

definition receive_webhook :: "'d services \<Rightarrow> json \<Rightarrow> ('d world, unit) action" where
  "receive_webhook s data = on_live (handle_mc_router_webhook (s_ns s) (s_rpc s) (s_py_str s) data)"

section \<open>Requests\<close>

text \<open>
  The requests of the miniverse and file endpoints that can change the backend; the reading ones
  have their own definitions above.
\<close>

datatype request =
    CreateMiniverse miniverse_create | DeleteMiniverse string | StartMiniverse string
  | StopMiniverse string | RestartMiniverse string | UpdateMiniverse string update_request
  | AutoInstallMod string string | InstallMod string string | UninstallMod string
  | UpdateMod string string | SetMiniverseRole string string role
  | SetOperator string string bool | KickPlayer string string string
  | BanPlayer string string string | UnbanPlayer string string
  | DeleteFiles string "string list" | CopyFiles string "string list" string
  | ExtractArchive string string | CompressFiles string "string list"
  | RenameFile string string string | SetContent string string json | TusHook hook

definition discard :: "('w, 'a) action \<Rightarrow> ('w, unit) action" where
  "discard m = thenA m (ret ())"

record codecs =
  unzip :: "string \<Rightarrow> exn + zip_member list"
  pack :: "(string \<times> string) list \<Rightarrow> string"
  copy_depth :: nat

fun endpoint :: "'d services \<Rightarrow> codecs \<Rightarrow> user_obj \<Rightarrow> request \<Rightarrow> ('d world, unit) action" where
  "endpoint s z cu (CreateMiniverse d) = discard (api_create_miniverse s cu d)"
| "endpoint s z cu (DeleteMiniverse i) = api_delete_miniverse s cu i"
| "endpoint s z cu (StartMiniverse i) = discard (api_start_miniverse s cu i)"
| "endpoint s z cu (StopMiniverse i) = discard (api_stop_miniverse s cu i)"
| "endpoint s z cu (RestartMiniverse i) = discard (api_restart_miniverse s cu i)"
| "endpoint s z cu (UpdateMiniverse i d) = discard (api_update_miniverse s cu i d)"
| "endpoint s z cu (AutoInstallMod i p) = discard (api_automatic_install_mod s cu i p)"
| "endpoint s z cu (InstallMod i v) = discard (api_install_mod s cu i v)"
| "endpoint s z cu (UninstallMod m) = api_uninstall_mod s cu m"
| "endpoint s z cu (UpdateMod m v) = discard (api_update_mod s cu m v)"
| "endpoint s z cu (SetMiniverseRole i u r) = api_set_miniverse_role cu i u r"
| "endpoint s z cu (SetOperator i p v) = api_set_operator s cu i p v"
| "endpoint s z cu (KickPlayer i p r) = api_kick_player s cu i p r"
| "endpoint s z cu (BanPlayer i p r) = api_ban_player s cu i p r"
| "endpoint s z cu (UnbanPlayer i p) = api_unban_player s cu i p"
| "endpoint s z cu (DeleteFiles i ps) = api_delete_files s cu i ps"
| "endpoint s z cu (CopyFiles i ps d) = api_copy_files s (copy_depth z) cu i ps d"
| "endpoint s z cu (ExtractArchive i p) = api_extract s (unzip z) cu i p"
| "endpoint s z cu (CompressFiles i ps) = api_compress s (pack z) cu i ps"
| "endpoint s z cu (RenameFile i p n) = api_rename s cu i p n"
| "endpoint s z cu (SetContent i p d) = api_set_content s cu i p d"
| "endpoint s z cu (TusHook h) = discard (confirm_upload s cu h)"

text \<open>A request comes with the token of its caller.\<close>

definition serve :: "'d services \<Rightarrow> codecs \<Rightarrow> token \<Rightarrow> request \<Rightarrow> ('d world, unit) action" where
  "serve s z tok req = bindA (on_db (retrieve_user_handler tok)) (\<lambda>cu. endpoint s z cu req)"

fun run_requests :: "'d services \<Rightarrow> codecs \<Rightarrow> (token \<times> request) list \<Rightarrow> 'd world \<Rightarrow> 'd world" where
  "run_requests s z [] w = w"
| "run_requests s z ((tok, req) # rest) w = run_requests s z rest (snd (serve s z tok req w))"

end
