(* ===== verification/ModUpdates.thy ===== *)
theory ModUpdates
  imports Mods FileSafety
begin

text \<open>
  Which version the mod service installs and reports, what a failed update leaves behind, and a
  concrete backend on which the properties of the services are evaluated.
\<close>

section \<open>Choosing versions\<close>

lemma set_newest [simp]: "set (newest_first vs) = set vs"
  by (simp add: newest_first_def)

lemma newest_first_Nil [simp]: "newest_first vs = [] \<longleftrightarrow> vs = []"
  using set_newest [of vs] by (metis set_empty)

lemma newest_sorted: "sorted (map (\<lambda>v. - ver_date_published v) (newest_first vs))"
  by (simp add: newest_first_def)

lemma newest_split:
  assumes "newest_first vs = as @ v # bs" "u \<in> set bs"
  shows "ver_date_published u \<le> ver_date_published v"
  using newest_sorted [of vs] assms by (auto simp: sorted_append)

lemma newest_hd: "u \<in> set vs \<Longrightarrow> ver_date_published u \<le> ver_date_published (hd (newest_first vs))"
proof (cases "newest_first vs")
  case Nil
  assume "u \<in> set vs"
  with Nil show ?thesis using newest_first_Nil [of vs] by simp
next
  case (Cons v bs)
  assume "u \<in> set vs"
  then have "u \<in> set (newest_first vs)" by simp
  with Cons newest_split [of vs "[]" v bs u] show ?thesis by auto
qed

definition is_release :: "project_version \<Rightarrow> bool" where
  "is_release v \<longleftrightarrow> ver_version_type v = MVT_RELEASE"

lemma prefer_releases_cases:
  "prefer_releases b vs =
    (if b \<and> (\<exists>v \<in> set vs. is_release v) then filter is_release vs else vs)"
  by (auto simp: prefer_releases_def Let_def filter_empty_conv is_release_def [abs_def])

text \<open>
  Property C32 (newest_version_is_installed). An automatic installation installs the most recently published version of the
  candidates, and the most recent release when releases are preferred and there is one.
\<close>

theorem newest_version_is_installed:
  assumes "candidate_versions s pid mv (Some (m_mc_version mv)) retry = Inr vs"
  shows "\<exists>v \<in> set vs. automatic_mod_install s pid mv None b retry w = install_mod s (fmt s (ver_id v)) (m_id mv) w \<and>
    (if b \<and> (\<exists>u \<in> set vs. is_release u)
     then is_release v \<and> (\<forall>u \<in> set vs. is_release u \<longrightarrow> ver_date_published u \<le> ver_date_published v)
     else (\<forall>u \<in> set vs. ver_date_published u \<le> ver_date_published v))"
proof -
  let ?ps = "prefer_releases b vs"
  have "vs \<noteq> []" using assms by (auto simp: candidate_versions_def bindE_eq_Inr split: if_splits)
  then have ne: "?ps \<noteq> []"
    by (auto simp: prefer_releases_cases filter_empty_conv)
  then have "hd (newest_first ?ps) \<in> set (newest_first ?ps)" by (intro hd_in_set) simp
  then have v: "hd (newest_first ?ps) \<in> set ?ps" by simp
  have m: "\<forall>u \<in> set ?ps. ver_date_published u \<le> ver_date_published (hd (newest_first ?ps))"
    using newest_hd by blast
  have "automatic_mod_install s pid mv None b retry w
      = install_mod s (fmt s (ver_id (hd (newest_first ?ps)))) (m_id mv) w"
    by (simp add: automatic_mod_install_def act_simps assms)
  with v m show ?thesis
    by (intro bexI [of _ "hd (newest_first ?ps)"]) (auto simp: prefer_releases_cases split: if_splits)
qed

section \<open>Updates\<close>

text \<open>A version that fits the game version, when the list of supported versions is a list.\<close>

fun supports :: "string \<Rightarrow> json \<Rightarrow> bool" where
  "supports g (JList js) = (JStr g \<in> set js)"
| "supports g _ = False"

fun is_jlist :: "json \<Rightarrow> bool" where
  "is_jlist (JList _) = True"
| "is_jlist _ = False"

lemma py_in_list: "is_jlist j \<Longrightarrow> py_in g j = Inr (supports g j)"
  by (cases j) auto

definition fits :: "string \<Rightarrow> mod_row \<Rightarrow> project_version \<Rightarrow> bool" where
  "fits g md v \<longleftrightarrow> supports g (ver_game_versions v) \<or> ver_id v = opt_json (mod_version_id md)"

lemma first_update_find:
  "\<forall>v \<in> set vs. is_jlist (ver_game_versions v) \<Longrightarrow>
   first_update g md vs = Inr (map_option (\<lambda>v.
     \<lparr>update_status = (if ver_id v = opt_json (mod_version_id md) then ALREADY_UP_TO_DATE else UPDATE_AVAILABLE),
      new_versions_ids = [ver_id v], game_versions = [ver_game_versions v]\<rparr>) (find (fits g md) vs))"
  by (induction vs) (auto simp: fits_def py_in_list)

lemma find_newest:
  assumes "find P (newest_first vs) = Some v"
  shows "v \<in> set vs \<and> P v \<and> (\<forall>u \<in> set vs. P u \<longrightarrow> ver_date_published u \<le> ver_date_published v)"
proof -
  from assms obtain i where i: "i < length (newest_first vs)" "P (newest_first vs ! i)"
    "v = newest_first vs ! i" "\<forall>j < i. \<not> P (newest_first vs ! j)"
    by (auto simp: find_Some_iff)
  have "ver_date_published u \<le> ver_date_published v" if u: "u \<in> set vs" "P u" for u
  proof -
    from u(1) obtain j where j: "j < length (newest_first vs)" "u = newest_first vs ! j"
      by (metis in_set_conv_nth set_newest)
    with i u(2) have "i \<le> j" by (metis not_le)
    then show ?thesis
      using newest_sorted [of vs] i(1,3) j by (auto simp: sorted_iff_nth_mono)
  qed
  moreover have "v \<in> set vs" using i(1,3) by (metis nth_mem set_newest)
  ultimately show ?thesis using i by blast
qed

text \<open>
  The update check of a mod is right: an available update is the newest version that
  supports the game version and differs from the installed one; a mod is up to date when nothing
  newer supports the game version; and no version fits when it says so.
\<close>

theorem update_check_finds_newest:
  assumes "list_project_versions s pid (Some (m_type mv)) (Some g) = Inr vs" "vs \<noteq> []"
    and "mod_project_id md = Some pid" "\<forall>v \<in> set vs. is_jlist (ver_game_versions v)"
  shows "case update_status (mod_update_of s mv g md) of
      UPDATE_AVAILABLE \<Rightarrow> \<exists>v \<in> set vs. new_versions_ids (mod_update_of s mv g md) = [ver_id v] \<and>
        supports g (ver_game_versions v) \<and> ver_id v \<noteq> opt_json (mod_version_id md) \<and>
        (\<forall>u \<in> set vs. fits g md u \<longrightarrow> ver_date_published u \<le> ver_date_published v)
    | ALREADY_UP_TO_DATE \<Rightarrow> \<exists>v \<in> set vs. ver_id v = opt_json (mod_version_id md) \<and>
        (\<forall>u \<in> set vs. supports g (ver_game_versions u) \<longrightarrow> ver_date_published u \<le> ver_date_published v)
    | NO_COMPATIBLE_VERSIONS \<Rightarrow> \<forall>u \<in> set vs. \<not> fits g md u
    | UPDATE_ERROR \<Rightarrow> False"
proof -
  let ?f = "find (fits g md) (newest_first vs)"
  have fu: "first_update g md (newest_first vs) = Inr (map_option (\<lambda>v.
     \<lparr>update_status = (if ver_id v = opt_json (mod_version_id md) then ALREADY_UP_TO_DATE else UPDATE_AVAILABLE),
      new_versions_ids = [ver_id v], game_versions = [ver_game_versions v]\<rparr>) ?f)"
    by (rule first_update_find) (use assms(4) in simp)
  show ?thesis
  proof (cases ?f)
    case None
    then have "\<forall>u \<in> set vs. \<not> fits g md u" by (simp add: find_None_iff)
    with None fu assms(1-3) show ?thesis by (simp add: mod_update_of_def Let_def)
  next
    case (Some v)
    from find_newest [OF this] have v: "v \<in> set vs" "fits g md v"
      "\<forall>u \<in> set vs. fits g md u \<longrightarrow> ver_date_published u \<le> ver_date_published v" by auto
    with Some fu assms(1-3) show ?thesis
      by (auto simp: mod_update_of_def fits_def Let_def)
  qed
qed

section \<open>A failed update\<close>

lemma unlink_file:
  assumes "no_links fs" "proper q" "is_file fs wd (abs_path q)"
  shows "unlink wd (abs_path q) fs = (Inr (), del fs q) \<and> \<not> exists (del fs q) wd (abs_path q)"
proof -
  have q: "q \<noteq> []" "dir_chain fs (butlast q)" "\<exists>c. node_at fs q = Some (File c)"
    using is_file_physical [OF no_links_physical [OF assms(1)] assms(2)] assms(3) by auto
  have e: "entry_path fs wd (abs_path q) = Inr q" using entry_path_chain [OF assms(2) q(1,2)] .
  have "target_in [] fs q" using assms(1,2) by (simp add: target_in_def no_links_physical)
  then have "target_in [] (del fs q) q" by (rule shrinks_target [OF _ shrinks_del [of "[]"]]) (use q in auto)
  then have "\<not> exists (del fs q) wd (abs_path q)"
    using q(1) by (simp add: target_in_def exists_physical fs_simps)
  with e q(3) show ?thesis by (auto simp: unlink_def)
qed

text \<open>
  An update to a version without a primary file is refused only after the old file was
  deleted: the mod row stays and its file is gone.
\<close>

theorem failed_update_loses_the_file:
  assumes "get_version_details s vid = Inr v" "get_project_details s (fmt s (ver_project_id v)) = Inr p"
    and "find (\<lambda>f. truthy (pf_primary f)) (ver_files v) = None"
    and "path_child (mods_path (s_env s) (mod_miniverse_id md)) (mod_file_name md) = abs_path q"
    and "proper q" "no_links (w_fs w)" "is_file (w_fs w) (work_dir (s_env s)) (abs_path q)"
  shows "fst (update_mod s md vid w) = Inl ValidationException \<and>
    w_db (snd (update_mod s md vid w)) = w_db w \<and>
    \<not> exists (w_fs (snd (update_mod s md vid w))) (work_dir (s_env s)) (abs_path q)"
proof -
  have "exists (w_fs w) (work_dir (s_env s)) (abs_path q)"
    using assms(7) by (auto simp: is_file_def exists_def split: option.splits)
  with assms(1-4,7) unlink_file [OF assms(6,5,7)] show ?thesis
    by (simp add: update_mod_def delete_mod_file_def download_mod_file_def act_simps Let_def)
qed

section \<open>A concrete backend\<close>

text \<open>A Docker daemon that knows one container per name, and answers of Modrinth for one project.\<close>

definition demo_docker :: "unit docker_client" where
  "demo_docker = \<lparr>images_get = (\<lambda>_. ret ()), images_pull = (\<lambda>_. ret ()),
     containers_create = (\<lambda>c. ret (''id-'' @ cs_name c)), containers_get = (\<lambda>i. ret i),
     containers_list = ret [], containers_named = (\<lambda>_. ret []),
     cont_start = (\<lambda>_. ret ()), cont_stop = (\<lambda>_. ret ()), cont_restart = (\<lambda>_. ret ()),
     cont_remove_force = (\<lambda>_. ret ()), cont_kill = (\<lambda>_ _. ret ()), cont_exec = (\<lambda>_ _. ret []),
     cont_stats = (\<lambda>_. ret []), aio_get = ret, aio_log = (\<lambda>_. ret []), aio_write_in = (\<lambda>_ _. ret ()),
     client_close = ret (), aio_close = ret ()\<rparr>"

definition demo_version :: "string \<Rightarrow> string \<Rightarrow> string \<Rightarrow> string list \<Rightarrow> json list \<Rightarrow> json" where
  "demo_version i date t gvs files = JObj
     [(''id'', JStr i), (''project_id'', JStr ''P''), (''author_id'', JNull), (''date_published'', JStr date),
      (''downloads'', JInt 0), (''name'', JStr i), (''version_number'', JStr i), (''changelog'', JNull),
      (''game_versions'', JList (map JStr gvs)), (''version_type'', JStr t), (''loaders'', JList []),
      (''featured'', JBool False), (''status'', JNull), (''requested_status'', JNull), (''files'', JList files)]"

definition demo_project :: json where
  "demo_project = JObj
     [(''id'', JStr ''P''), (''slug'', JStr ''p''), (''title'', JStr ''Project''), (''description'', JNull),
      (''body'', JNull), (''categories'', JNull), (''client_side'', JStr ''required''),
      (''server_side'', JStr ''required''), (''team'', JNull), (''published'', JStr ''1''), (''updated'', JStr ''1''),
      (''followers'', JInt 0), (''project_type'', JStr ''mod''), (''downloads'', JInt 0), (''icon_url'', JNull),
      (''versions'', JNull), (''game_versions'', JNull), (''loaders'', JNull)]"

definition demo_web :: "string \<Rightarrow> (string \<times> string option) list \<Rightarrow> exn + json" where
  "demo_web url params =
    (if url = MODRINTH_BASE_URL @ ''/project/P/version'' then
       Inr (JList [demo_version ''a'' ''1'' ''release'' [''1.20''] [], demo_version ''b'' ''3'' ''beta'' [''1.21''] [],
                   demo_version ''c'' ''2'' ''release'' [''1.21''] []])
     else if url = MODRINTH_BASE_URL @ ''/version/b'' then Inr (demo_version ''b'' ''3'' ''beta'' [''1.21''] [])
     else if url = MODRINTH_BASE_URL @ ''/project/P'' then Inr demo_project
     else Inl HTTPStatusError)"

definition demo_services :: "unit services" where
  "demo_services = \<lparr>s_env = demo_env, s_docker = demo_docker, s_ns = ''r:'',
     s_rpc = (\<lambda>_ _ _. Inr JNull), s_pydantic = \<lparr>coerce_int = (\<lambda>_. None), coerce_bool = (\<lambda>_. None)\<rparr>,
     s_py_str = (\<lambda>_. []), s_from_iso = (\<lambda>t. Some (int (int_of_str t))), s_web = demo_web,
     s_new_id = (\<lambda>d. ''new''), s_download = (\<lambda>_. Inr ''bytes''),
     s_print_toml = (\<lambda>_. ''toml''), s_icon = ''png'', s_secret = ''0123''\<rparr>"

definition demo_mod :: mod_row where
  "demo_mod = \<lparr>mod_id = ''mod1'', mod_slug = ''p'', mod_version_id = Some ''a'', mod_project_id = Some ''P'',
     mod_title = ''Project'', mod_icon_url = None, mod_version_name = None, mod_version_number = None,
     mod_file_name = ''p-a.jar'', mod_miniverse_id = ''m1''\<rparr>"

definition demo_world :: "unit world" where
  "demo_world = \<lparr>w_db = \<lparr>users = [], user_roles = [], miniverses = [demo_mv], mods = [demo_mod]\<rparr>,
     w_fs = demo_fs @ [(demo_root @ [''mods''], Dir), (demo_root @ [''mods'', ''p-a.jar''], File ''old'')],
     w_docker = (),
     w_live = \<lparr>l_hub = \<lparr>kv = [], channel = []\<rparr>, l_cache = Map.empty, l_controllers = []\<rparr>\<rparr>"

definition demo_versions :: "project_version list" where
  "demo_versions =
    (case list_project_versions demo_services ''P'' (Some VANILLA) (Some ''1.21'') of Inr vs \<Rightarrow> vs | Inl _ \<Rightarrow> [])"

lemma demo_listing:
  "list_project_versions demo_services ''P'' (Some VANILLA) (Some ''1.21'') = Inr demo_versions"
  "demo_versions \<noteq> []" "\<forall>v \<in> set demo_versions. is_jlist (ver_game_versions v)"
  by code_simp+

theorem newest_version_is_installed_witness:
  "\<exists>v \<in> set demo_versions.
     automatic_mod_install demo_services ''P'' demo_mv None True False demo_world
       = install_mod demo_services (fmt demo_services (ver_id v)) (m_id demo_mv) demo_world"
proof -
  have "candidate_versions demo_services ''P'' demo_mv (Some (m_mc_version demo_mv)) False = Inr demo_versions"
    using demo_listing(1,2) by (simp add: candidate_versions_def demo_mv_def)
  from newest_version_is_installed [OF this, of True demo_world] show ?thesis by blast
qed

theorem update_check_finds_newest_witness:
  "update_status (mod_update_of demo_services demo_mv ''1.21'' demo_mod) = UPDATE_AVAILABLE \<and>
   (\<exists>v \<in> set demo_versions. supports ''1.21'' (ver_game_versions v) \<and>
     new_versions_ids (mod_update_of demo_services demo_mv ''1.21'' demo_mod) = [ver_id v])"
proof -
  have st: "update_status (mod_update_of demo_services demo_mv ''1.21'' demo_mod) = UPDATE_AVAILABLE"
    by code_simp
  have "m_type demo_mv = VANILLA" "mod_project_id demo_mod = Some ''P''"
    by (simp_all add: demo_mv_def demo_mod_def)
  then show ?thesis
    using update_check_finds_newest [of demo_services "''P''" demo_mv "''1.21''" demo_versions demo_mod]
      demo_listing st by auto
qed

theorem failed_update_loses_the_file_witness:
  "fst (update_mod demo_services demo_mod ''b'' demo_world) = Inl ValidationException \<and>
    w_db (snd (update_mod demo_services demo_mod ''b'' demo_world)) = w_db demo_world \<and>
    \<not> exists (w_fs (snd (update_mod demo_services demo_mod ''b'' demo_world))) (work_dir (s_env demo_services))
        (abs_path (demo_root @ [''mods'', ''p-a.jar'']))"
proof -
  obtain v p where v: "get_version_details demo_services ''b'' = Inr v"
      "get_project_details demo_services (fmt demo_services (ver_project_id v)) = Inr p"
      "find (\<lambda>f. truthy (pf_primary f)) (ver_files v) = None"
  proof -
    have "\<exists>v p. get_version_details demo_services ''b'' = Inr v \<and>
        get_project_details demo_services (fmt demo_services (ver_project_id v)) = Inr p \<and>
        find (\<lambda>f. truthy (pf_primary f)) (ver_files v) = None"
      by (simp add: get_version_details_def get_project_details_def demo_services_def demo_web_def
          demo_version_def demo_project_def project_version_from_dict_def project_from_dict_def fmt_def
          mod_version_type_of_def side_support_of_def project_type_of_def MODRINTH_BASE_URL_def)
    then show ?thesis using that by blast
  qed
  have f: "path_child (mods_path (s_env demo_services) (mod_miniverse_id demo_mod)) (mod_file_name demo_mod)
      = abs_path (demo_root @ [''mods'', ''p-a.jar''])" "proper (demo_root @ [''mods'', ''p-a.jar''])"
    "no_links (w_fs demo_world)"
    "is_file (w_fs demo_world) (work_dir (s_env demo_services)) (abs_path (demo_root @ [''mods'', ''p-a.jar'']))"
    by code_simp+
  show ?thesis by (rule failed_update_loses_the_file [OF v f])
qed

end
