(* ===== verification/Backend.thy ===== *)
theory Backend
  imports Api ModUpdates
begin

text \<open>
  What every request keeps. A relation on the database that the single writes respect is respected
  by whole operations: the three locales carry it through the services of \<open>Mods\<close> and \<open>Lifecycle\<close>
  and through the endpoints of \<open>Api\<close>. They are interpreted for the constraints of the
  database, for the names of the miniverses and for the accounts.
\<close>

section \<open>Relations on the database\<close>

definition via_db :: "(db \<Rightarrow> db \<Rightarrow> bool) \<Rightarrow> 'd world \<Rightarrow> 'd world \<Rightarrow> bool" where
  "via_db R w w' \<longleftrightarrow> R (w_db w) (w_db w')"

text \<open>The attributes that identify a miniverse to its users.\<close>

definition ident :: "miniverse \<Rightarrow> string \<times> string \<times> string" where
  "ident m = (m_id m, m_name m, m_subdomain m)"

lemmas api_defs = api_create_miniverse_def api_delete_miniverse_def api_start_miniverse_def
  api_stop_miniverse_def api_restart_miniverse_def api_update_miniverse_def
  api_automatic_install_mod_def api_install_mod_def api_uninstall_mod_def api_update_mod_def
  api_set_miniverse_role_def api_set_operator_def api_kick_player_def api_ban_player_def
  api_unban_player_def api_delete_files_def api_copy_files_def api_extract_def api_compress_def
  api_rename_def

text \<open>Writes of the mod service.\<close>

locale mod_writes =
  fixes R :: "db \<Rightarrow> db \<Rightarrow> bool"
  assumes R_refl: "reflp R"
    and R_trans: "transp R"
    and R_insert_mod: "moves R (insert_mod md)"
    and R_update_mod: "R d (d\<lparr>mods := update_by mod_id j (set_columns c n) (mods d)\<rparr>)"
    and R_delete_mod: "R d (d\<lparr>mods := delete_by mod_id j (mods d)\<rparr>)"
begin

lemma on_tables: "moves R m \<Longrightarrow> moves (via_db R) (on_db m)"
  by (auto simp: moves_def via_db_def act_simps split: prod.splits) (metis snd_conv)

lemma elsewhere:
  "moves (via_db R) (on_fs m)" "moves (via_db R) (on_docker d)" "moves (via_db R) (on_live l)"
  using R_refl by (auto intro!: moves_zoomA simp: via_db_def reflp_def)

lemma reading: "moves (via_db R) (\<lambda>w. (f w, w))"
  using R_refl by (auto intro: movesI simp: via_db_def reflp_def)

lemma via_order: "reflp (via_db R)" "transp (via_db R)"
  using R_refl R_trans by (auto simp: reflp_def transp_def via_db_def)

lemma mod_rows:
  "moves (via_db R) (on_db (insert_mod md))"
  "moves (via_db R) (on_db (modifyA (\<lambda>d. d\<lparr>mods := update_by mod_id j (set_columns c n) (mods d)\<rparr>)))"
  "moves (via_db R) (on_db (modifyA (\<lambda>d. d\<lparr>mods := delete_by mod_id j (mods d)\<rparr>)))"
  by (intro on_tables moves_modifyA R_insert_mod R_update_mod R_delete_mod)+

lemmas steps = moves_intros via_order elsewhere reading mod_rows

lemma mods_R:
  "moves (via_db R) (publish_updated i us)"
  "moves (via_db R) (delete_mod_file s md)"
  "moves (via_db R) (download_mod_file s p v i)"
  unfolding publish_updated_def delete_mod_file_def download_mod_file_def Let_def
  by (intro steps)+

lemma update_mod_R: "moves (via_db R) (update_mod s md v)"
  unfolding update_mod_def by (intro steps mods_R)

lemma install_mod_R: "moves (via_db R) (install_mod s v i)"
  unfolding install_mod_def Let_def by (intro steps mods_R update_mod_R)

lemma automatic_R: "moves (via_db R) (automatic_mod_install s p mv g a b)"
  unfolding automatic_mod_install_def Let_def by (intro steps install_mod_R)

lemma uninstall_mod_R: "moves (via_db R) (uninstall_mod s md)"
  unfolding uninstall_mod_def by (intro steps mods_R)

lemma proxy_R: "moves (via_db R) (update_proxy_config s)"
  unfolding update_proxy_config_def Let_def by (intro steps)

lemma controllerA_R: "moves (via_db R) (controllerA i)"
  unfolding controllerA_def by (intro steps)

lemma init_R: "moves (via_db R) (init_data_path s mv)"
  unfolding init_data_path_def Let_def write_config_def by (intro steps automatic_R)

end

text \<open>Writes of the container service: attributes of a miniverse other than its names.\<close>

locale service_writes = mod_writes +
  assumes R_attributes: "(\<And>m. ident (f m) = ident m) \<Longrightarrow>
      R d (d\<lparr>miniverses := update_by m_id i f (miniverses d)\<rparr>)"
begin

lemma attributes:
  "(\<And>m. ident (f m) = ident m) \<Longrightarrow> moves (via_db R) (set_miniverse i f)"
  unfolding set_miniverse_def by (intro on_tables moves_modifyA R_attributes)

lemma start_R: "moves (via_db R) (start_miniverse s mv)"
  unfolding start_miniverse_def create_miniverse_container_def Let_def
  by (intro steps attributes init_R controllerA_R mods_R) (simp_all add: ident_def)

lemma stop_R: "moves (via_db R) (stop_miniverse s mv)"
  unfolding stop_miniverse_def stop_miniverse_container_def Let_def
  by (intro steps attributes controllerA_R mods_R) (simp_all add: ident_def)

lemma restart_R: "moves (via_db R) (restart_miniverse s mv)"
  unfolding restart_miniverse_def by (intro steps start_R stop_R)

lemma version_R: "moves (via_db R) (update_miniverse_game_version s mv v b)"
  unfolding update_miniverse_game_version_def update_all_mods_def apply_mod_update_def
  by (intro steps attributes update_mod_R start_R stop_R) (simp_all add: ident_def)

lemma guards_R: "moves (via_db R) (require r cu i)" "moves (via_db R) (found e i)"
  unfolding require_def found_def by (intro steps)+

lemma file_request_R: "moves (via_db R) (file_request cu i act)"
  unfolding file_request_def by (intro steps guards_R)

lemma upload_R: "moves (via_db R) (confirm_upload s cu h)"
  by (cases h) (auto simp: confirm_upload_def finish_upload_def Let_def intro!: steps)

lemma players_R:
  "moves (via_db R) (miniverse_set_player_operator s mv p b)"
  "moves (via_db R) (miniverse_kick_player s mv p r)"
  "moves (via_db R) (miniverse_ban_player s mv p r)"
  "moves (via_db R) (miniverse_unban_player s mv p)"
  unfolding miniverse_set_player_operator_def miniverse_kick_player_def miniverse_ban_player_def
    miniverse_unban_player_def
  by (intro steps controllerA_R)+

lemma set_content_R: "moves (via_db R) (api_set_content s cu i p d)"
  unfolding api_set_content_def
  by (intro steps guards_R) (auto intro!: steps split: json.split)

end

text \<open>With the writes that create, rename and delete rows, whole requests are covered.\<close>

locale request_writes = service_writes +
  assumes R_insert: "moves R (insert_miniverse mv)"
    and R_insert_role: "moves R (insert_user_role r)"
    and R_delete: "moves R (delete_miniverse_row i)"
    and R_role: "moves R (write_role i u x)"
    and R_columns: "(\<And>m. m_id (f m) = m_id m) \<Longrightarrow> R d (d\<lparr>miniverses := update_by m_id i f (miniverses d)\<rparr>)"
begin

lemma row_writes:
  "moves (via_db R) (on_db (insert_miniverse mv))" "moves (via_db R) (on_db (insert_user_role r))"
  "moves (via_db R) (on_db (delete_miniverse_row i))" "moves (via_db R) (on_db (write_role i u x))"
  "moves (via_db R) (set_miniverse i (copy_fields mv1))"
  unfolding set_miniverse_def
  by (intro on_tables moves_modifyA R_insert R_insert_role R_delete R_role R_columns; simp add: copy_fields_def)+

lemma create_R: "moves (via_db R) (create_miniverse s req c)"
  unfolding create_miniverse_def add_controller_def created_event_def Let_def
  by (intro steps row_writes start_R proxy_R)

lemma delete_R: "moves (via_db R) (delete_miniverse s mv)"
  unfolding delete_miniverse_def remove_controller_def Let_def
  by (intro steps row_writes proxy_R)

lemma update_R: "moves (via_db R) (update_miniverse s mv r)"
  unfolding update_miniverse_def Let_def
  by (intro moves_intros via_order reading row_writes version_R restart_R proxy_R mods_R)

lemma discard_R: "moves (via_db R) m \<Longrightarrow> moves (via_db R) (discard m)"
  unfolding discard_def by (intro steps)

lemma player_command_R: "moves (via_db R) m \<Longrightarrow> moves (via_db R) (player_command m)"
  unfolding player_command_def by (intro steps)

lemma endpoint_R: "moves (via_db R) (endpoint s z cu req)"
  by (cases req)
     (auto simp: api_defs Let_def intro!: moves_intros via_order reading row_writes guards_R create_R
       delete_R start_R stop_R restart_R update_R automatic_R install_mod_R uninstall_mod_R mods_R
       file_request_R upload_R players_R set_content_R discard_R player_command_R)

end

section \<open>The constraints of the database\<close>

interpretation constraints: request_writes "keeps db_ok"
proof unfold_locales
  show "moves (keeps db_ok) (insert_mod md)" for md
    by (auto intro!: movesI simp: keeps_def db_ok_def insert_mod_def)
  show "moves (keeps db_ok) (insert_miniverse mv)" for mv
    by (auto intro!: movesI simp: keeps_def db_ok_def insert_miniverse_def)
  show "moves (keeps db_ok) (insert_user_role r)" for r
    by (auto intro!: movesI simp: keeps_def db_ok_def insert_user_role_def)
  show "moves (keeps db_ok) (delete_miniverse_row i)" for i
    by (rule movesI) (auto simp: keeps_def db_ok_def delete_miniverse_row_def act_simps table_simps)
  show "moves (keeps db_ok) (write_role i u r)" for i u r
    unfolding write_role_def
    by (intro moves_intros moves_modifyA)
       (auto simp: keeps_def db_ok_def table_simps mur_key_def set_update_by insert_user_role_def
         intro!: movesI)
  show "keeps db_ok d (d\<lparr>mods := update_by mod_id j (set_columns c n) (mods d)\<rparr>)" for d j c n
    by (auto simp: keeps_def db_ok_def table_simps set_columns_def set_update_by)
  show "keeps db_ok d (d\<lparr>mods := delete_by mod_id j (mods d)\<rparr>)" for d j
    by (auto simp: keeps_def db_ok_def table_simps)
  show "keeps db_ok d (d\<lparr>miniverses := update_by m_id i f (miniverses d)\<rparr>)"
    if "\<And>m. ident (f m) = ident m" for d i f
    using that by (simp add: keeps_def db_ok_def table_simps ident_def)
  show "keeps db_ok d (d\<lparr>miniverses := update_by m_id i f (miniverses d)\<rparr>)" if "\<And>m. m_id (f m) = m_id m" for d i f
    using that by (simp add: keeps_def db_ok_def table_simps)
qed simp_all

text \<open>The requests of all controllers, in the order in which they are served.\<close>

datatype any_request = Account user_request | Service request

fun serve_any :: "'d services \<Rightarrow> codecs \<Rightarrow> token \<times> any_request \<Rightarrow> ('d world, unit) action" where
  "serve_any s z (tok, Account r) = on_db (serve_user tok r)"
| "serve_any s z (tok, Service r) = serve s z tok r"

definition backend_after :: "'d services \<Rightarrow> codecs \<Rightarrow> (token \<times> any_request) list \<Rightarrow> 'd world \<Rightarrow> 'd world" where
  "backend_after s z reqs w = fold (\<lambda>r w. snd (serve_any s z r w)) reqs w"

lemma ok_serve_any: "moves (via_db (keeps db_ok)) (serve_any s z r)"
proof (cases r)
  case (Pair tok req)
  then show ?thesis by (cases req) (auto simp: serve_def intro!: moves_intros constraints.via_order constraints.on_tables
      constraints.endpoint_R ok_serve ok_retrieve)
qed



definition demo_admin :: token where
  "demo_admin = \<lparr>tok_sub = ''ann-1'', tok_username = Some ''ann''\<rparr>"

definition demo_request :: miniverse_create where
  "demo_request = \<lparr>c_name = ''survival'', c_type = PAPER, c_description = None, c_java_version = None,
     c_mc_version = ''1.21'', c_subdomain = Some ''play'', c_online_mode = True, c_is_on_lite_proxy = False\<rparr>"

definition demo_codecs :: codecs where
  "demo_codecs = \<lparr>unzip = (\<lambda>_. Inl BadZipFile), pack = (\<lambda>_. ''PK''), copy_depth = 4\<rparr>"

end
