(* ===== verification/Updates.thy ===== *)
theory Updates
  imports Backend
begin

text \<open>
  Which parts of the database the requests leave alone, and what an update of a miniverse does: the
  interpretations of the locales of \<open>Backend\<close> for the accounts and for the names of the
  miniverses, and a backend whose Docker daemon records its calls.
\<close>

section \<open>Accounts\<close>

interpretation accounts: request_writes "same users"
proof unfold_locales
  show "moves (same users) (insert_mod md)" for md
    by (auto intro!: movesI simp: same_def insert_mod_def)
  show "moves (same users) (insert_miniverse mv)" for mv
    by (auto intro!: movesI simp: same_def insert_miniverse_def)
  show "moves (same users) (insert_user_role r)" for r
    by (auto intro!: movesI simp: same_def insert_user_role_def)
  show "moves (same users) (delete_miniverse_row i)" for i
    by (rule movesI) (simp add: same_def delete_miniverse_row_def act_simps)
  show "moves (same users) (write_role i u r)" for i u r
    unfolding write_role_def
    by (intro moves_intros moves_modifyA)
       (auto simp: same_def insert_user_role_def intro!: movesI)
qed (simp_all add: same_def)

text \<open>
  No request to the miniverse, mod and file endpoints adds, removes or changes an
  account: global roles and activation only change through the users controllers.
\<close>

theorem service_requests_keep_accounts:
  "users (w_db (snd (endpoint s z cu req w))) = users (w_db w)"
  using movesD [OF accounts.endpoint_R, of w s z cu req] by (simp add: via_db_def same_def)

section \<open>Names and subdomains\<close>

interpretation identity: service_writes "same (\<lambda>d. map ident (miniverses d))"
proof unfold_locales
  show "moves (same (\<lambda>d. map ident (miniverses d))) (insert_mod md)" for md
    by (auto intro!: movesI simp: same_def insert_mod_def)
qed (simp_all add: same_def map_update_by)

definition unique_names :: "db \<Rightarrow> bool" where
  "unique_names d \<longleftrightarrow> distinct (map m_name (miniverses d)) \<and> distinct (map m_subdomain (miniverses d))"

lemma unique_names_ident:
  assumes "map ident (miniverses d) = map ident (miniverses d')"
  shows "unique_names d' = unique_names d"
proof -
  have "map m_name (miniverses x) = map (fst \<circ> snd) (map ident (miniverses x))"
    "map m_subdomain (miniverses x) = map (snd \<circ> snd) (map ident (miniverses x))" for x
    by (simp_all add: ident_def)
  with assms show ?thesis by (metis unique_names_def)
qed

lemma identity_keeps_names:
  assumes "moves (via_db (same (\<lambda>d. map ident (miniverses d)))) m"
  shows "moves (via_db (keeps unique_names)) m"
proof (rule movesI)
  fix s
  have "map ident (miniverses (w_db (snd (m s)))) = map ident (miniverses (w_db s))"
    using movesD [OF assms, of s] by (simp add: via_db_def same_def)
  from unique_names_ident [OF this [symmetric]]
  show "via_db (keeps unique_names) s (snd (m s))" by (simp add: via_db_def keeps_def)
qed

lemma update_fields_names:
  "update_fields d r fs mv = Inr (mv1, changed) \<Longrightarrow>
   m_id mv1 = m_id mv \<and>
   (m_name mv1 = m_name mv \<or> m_name mv1 \<notin> m_name ` set (miniverses d)) \<and>
   (m_subdomain mv1 = m_subdomain mv \<or> m_subdomain mv1 \<notin> m_subdomain ` set (miniverses d))"
proof (induction fs arbitrary: mv changed)
  case (Cons f fs)
  show ?case
  proof (cases "field_change r f mv")
    case None
    with Cons show ?thesis by simp
  next
    case (Some mv')
    with Cons.prems obtain c where free: "\<not> value_taken d f mv'" and rest: "update_fields d r fs mv' = Inr (mv1, c)"
      by (auto simp: bindE_eq_Inr split: if_splits)
    from Some have "m_id mv' = m_id mv \<and> (f = FName \<or> m_name mv' = m_name mv) \<and>
        (f = FSubdomain \<or> m_subdomain mv' = m_subdomain mv)"
      by (cases f) (auto split: option.splits if_splits)
    with Cons.IH [OF rest] free show ?thesis by (cases f) auto
  qed
qed simp

lemma unique_after_fields:
  assumes "unique_names d" "distinct (map m_id (miniverses d))" "row_by m_id i (miniverses d) = Some mv"
    and "update_fields d r fs mv = Inr (mv1, changed)"
  shows "unique_names (d\<lparr>miniverses := update_by m_id i (copy_fields mv1) (miniverses d)\<rparr>)"
proof -
  have mv: "mv \<in> set (miniverses d)" "m_id mv = i" using row_by_SomeD [OF assms(3)] by auto
  have other: "g m \<noteq> g mv1" if d: "distinct (map g (miniverses d))"
      and c: "g mv1 = g mv \<or> g mv1 \<notin> g ` set (miniverses d)"
      and m: "m \<in> set (miniverses d)" "m_id m \<noteq> i" for m and g :: "miniverse \<Rightarrow> string"
  proof
    assume e: "g m = g mv1"
    then have "g mv1 \<in> g ` set (miniverses d)" using m(1) by (metis imageI)
    with c e have "g m = g mv" by auto
    with d m mv show False by (auto simp: distinct_map dest: inj_onD)
  qed
  have 1: "distinct (map m_name (update_by m_id i (copy_fields mv1) (miniverses d)))"
    by (rule distinct_update_by [OF assms(2), where x = "m_name mv1"])
       (use assms(1) other [of m_name] update_fields_names [OF assms(4)] in
         \<open>auto simp: unique_names_def copy_fields_def\<close>)
  have 2: "distinct (map m_subdomain (update_by m_id i (copy_fields mv1) (miniverses d)))"
    by (rule distinct_update_by [OF assms(2), where x = "m_subdomain mv1"])
       (use assms(1) other [of m_subdomain] update_fields_names [OF assms(4)] in
         \<open>auto simp: unique_names_def copy_fields_def\<close>)
  from 1 2 show ?thesis by (simp add: unique_names_def)
qed

text \<open>What an update does once the new values are known.\<close>

definition after_fields ::
  "'d services \<Rightarrow> string \<Rightarrow> update_request \<Rightarrow> field list \<Rightarrow> miniverse \<Rightarrow> ('d world, miniverse) action" where
  "after_fields s i r changed mv1 =
    (let version_changed = (case up_mc_version r of None \<Rightarrow> False | Some v \<Rightarrow> m_mc_version mv1 \<noteq> v);
         should_restart = (case up_java_version r of None \<Rightarrow> False | Some j \<Rightarrow> m_java_version mv1 \<noteq> Some j)
     in bindA (if version_changed
               then update_miniverse_game_version s mv1 (the (up_mc_version r)) False else ret mv1) (\<lambda>mv2.
        bindA (if should_restart then bindA (restart_miniverse s mv2) (\<lambda>(_, mv3). ret mv3) else ret mv2) (\<lambda>mv3.
        thenA (if FSubdomain \<in> set changed \<or> FAllowBedrock \<in> set changed
               then update_proxy_config s else ret ())
       (thenA (if changed \<noteq> [] \<or> version_changed then publish_updated i None else ret ())
              (ret mv3)))))"

lemma update_miniverse_unfold:
  "update_miniverse s mv r = bindA (\<lambda>w. (update_fields (w_db w) r fields_to_update mv, w)) (\<lambda>(mv1, changed).
     thenA (if changed \<noteq> [] then set_miniverse (m_id mv) (copy_fields mv1) else ret ())
           (after_fields s (m_id mv) r changed mv1))"
  unfolding update_miniverse_def after_fields_def Let_def by (rule refl)

lemma update_miniverse_steps:
  assumes "update_fields (w_db w) r fields_to_update mv = Inr (mv1, changed)"
  shows "update_miniverse s mv r w = after_fields s (m_id mv) r changed mv1
     (if changed \<noteq> [] then w\<lparr>w_db := w_db w\<lparr>miniverses :=
        update_by m_id (m_id mv) (copy_fields mv1) (miniverses (w_db w))\<rparr>\<rparr> else w)"
  using assms by (simp add: update_miniverse_unfold set_miniverse_def act_simps)

lemma after_fields_identity:
  "moves (via_db (same (\<lambda>d. map ident (miniverses d)))) (after_fields s i r changed mv1)"
  unfolding after_fields_def Let_def
  by (intro moves_intros identity.via_order identity.version_R identity.restart_R identity.proxy_R
      identity.mods_R)

text \<open>
  Property C7 (updates_keep_names_unique). While names and subdomains are unique, an update of a miniverse keeps them unique,
  whatever it changes, whether it succeeds, is refused or fails halfway.
\<close>

theorem updates_keep_names_unique:
  assumes "unique_names (w_db w)" "distinct (map m_id (miniverses (w_db w)))"
    and "get_miniverse i (w_db w) = Some mv"
  shows "unique_names (w_db (snd (update_miniverse s mv r w)))"
proof (cases "update_fields (w_db w) r fields_to_update mv")
  case (Inl e)
  with assms(1) show ?thesis by (simp add: update_miniverse_def act_simps)
next
  case (Inr p)
  obtain mv1 changed where p: "p = (mv1, changed)" by (cases p)
  have mvid: "m_id mv = i" using row_by_SomeD [of m_id i "miniverses (w_db w)" mv] assms(3)
    by (simp add: get_miniverse_def)
  let ?w1 = "if changed \<noteq> [] then w\<lparr>w_db := w_db w\<lparr>miniverses :=
        update_by m_id (m_id mv) (copy_fields mv1) (miniverses (w_db w))\<rparr>\<rparr> else w"
  have "unique_names (w_db ?w1)"
    using unique_after_fields [of "w_db w" i mv r fields_to_update mv1 changed] assms Inr p mvid
    by (simp add: get_miniverse_def)
  then show ?thesis
    using mvid movesD [OF identity_keeps_names [OF after_fields_identity], of ?w1 s i r changed mv1]
      update_miniverse_steps [of w r mv mv1 changed s] Inr p
    by (simp add: via_db_def keeps_def)
qed

section \<open>A new Java version\<close>

lemma update_fields_java:
  "update_fields d r fs mv = Inr (mv1, changed) \<Longrightarrow> up_java_version r = Some j \<Longrightarrow>
   FJavaVersion \<in> set fs \<or> m_java_version mv = Some j \<Longrightarrow> m_java_version mv1 = Some j"
proof (induction fs arbitrary: mv changed)
  case (Cons f fs)
  show ?case
  proof (cases "field_change r f mv")
    case None
    with Cons.prems(2,3) have "FJavaVersion \<in> set fs \<or> m_java_version mv = Some j"
      by (cases f) (auto split: if_splits)
    with Cons None show ?thesis by simp
  next
    case (Some mv')
    with Cons.prems(2,3) have "FJavaVersion \<in> set fs \<or> m_java_version mv' = Some j"
      by (cases f) (auto split: option.splits if_splits)
    with Some Cons show ?thesis by (auto simp: bindE_eq_Inr split: if_splits)
  qed
qed simp

text \<open>
  An update that does not change the game version leaves Docker alone unless the routes
  change: a new Java version is stored, but the running container is not restarted, because the
  test comes after the attribute was set.
\<close>

theorem java_update_never_restarts:
  assumes "up_mc_version r = None" "up_subdomain r = None" "up_allow_bedrock r = None"
  shows "w_docker (snd (update_miniverse s mv r w)) = w_docker w"
proof (cases "update_fields (w_db w) r fields_to_update mv")
  case (Inl e)
  then show ?thesis by (simp add: update_miniverse_def act_simps)
next
  case (Inr p)
  obtain mv1 changed where p: "p = (mv1, changed)" by (cases p)
  with Inr have u: "update_fields (w_db w) r fields_to_update mv = Inr (mv1, changed)" by simp
  have j: "up_java_version r = Some j \<Longrightarrow> m_java_version mv1 = Some j" for j
    using update_fields_java [OF u] by (simp add: fields_to_update_def)
  have c: "FSubdomain \<notin> set changed" "FAllowBedrock \<notin> set changed"
    using u assms by (auto simp: fields_to_update_def bindE_eq_Inr split: option.splits if_splits)
  have "after_fields s (m_id mv) r changed mv1 = (if changed \<noteq> []
      then thenA (publish_updated (m_id mv) None) (ret mv1) else ret mv1)"
    using j c assms(1) by (cases "up_java_version r") (auto simp: after_fields_def)
  then show ?thesis
    by (simp add: update_miniverse_steps [OF u] act_simps publish_updated_def split: prod.splits sum.splits)
qed

section \<open>A daemon that records its calls\<close>

definition log_call :: "string \<Rightarrow> 'a \<Rightarrow> (string list, 'a) action" where
  "log_call c x = (\<lambda>l. (Inr x, l @ [c]))"

definition log_docker :: "string list docker_client" where
  "log_docker = \<lparr>images_get = (\<lambda>_. ret ()), images_pull = (\<lambda>_. ret ()),
     containers_create = (\<lambda>c. log_call (''create '' @ cs_name c) (''id-'' @ cs_name c)), containers_get = ret,
     containers_list = ret [], containers_named = (\<lambda>_. ret []),
     cont_start = (\<lambda>c. log_call (''start '' @ c) ()), cont_stop = (\<lambda>c. log_call (''stop '' @ c) ()),
     cont_restart = (\<lambda>c. log_call (''restart '' @ c) ()),
     cont_remove_force = (\<lambda>c. log_call (''remove '' @ c) ()),
     cont_kill = (\<lambda>c _. log_call (''kill '' @ c) ()), cont_exec = (\<lambda>_ _. ret []), cont_stats = (\<lambda>_. ret []),
     aio_get = ret, aio_log = (\<lambda>_. ret []), aio_write_in = (\<lambda>c l. log_call (''write '' @ c @ l) ()),
     client_close = ret (), aio_close = ret ()\<rparr>"

definition log_services :: "string list services" where
  "log_services = \<lparr>s_env = demo_env, s_docker = log_docker, s_ns = ''r:'',
     s_rpc = (\<lambda>_ _ _. Inr JNull), s_pydantic = \<lparr>coerce_int = (\<lambda>_. None), coerce_bool = (\<lambda>_. None)\<rparr>,
     s_py_str = (\<lambda>_. []), s_from_iso = (\<lambda>t. Some (int (int_of_str t))), s_web = demo_web,
     s_new_id = (\<lambda>d. ''new''), s_download = (\<lambda>_. Inr ''bytes''),
     s_print_toml = (\<lambda>_. ''toml''), s_icon = ''png'', s_secret = ''0123''\<rparr>"

definition running_mv :: miniverse where
  "running_mv = demo_mv\<lparr>m_started := True, m_container_id := Some ''c1''\<rparr>"

definition other_mv :: miniverse where
  "other_mv = demo_mv\<lparr>m_id := ''m2'', m_name := ''creative'', m_subdomain := ''build''\<rparr>"

definition log_world :: "string list world" where
  "log_world = \<lparr>w_db = \<lparr>users = [\<lparr>u_id = ''ann-1'', u_is_active = True, u_username = ''ann'', u_role = ADMIN\<rparr>,
        \<lparr>u_id = ''bob-2'', u_is_active = True, u_username = ''bob'', u_role = USER\<rparr>],
      user_roles = [\<lparr>mur_user_id = ''ann-1'', mur_miniverse_id = ''m1'', mur_role = ADMIN\<rparr>,
        \<lparr>mur_user_id = ''bob-2'', mur_miniverse_id = ''m1'', mur_role = USER\<rparr>],
      miniverses = [running_mv, other_mv], mods = []\<rparr>,
     w_fs = demo_fs, w_docker = [],
     w_live = \<lparr>l_hub = \<lparr>kv = [], channel = []\<rparr>, l_cache = Map.empty,
       l_controllers = [(''m1'', MCRouter []), (''m2'', MCRouter [])]\<rparr>\<rparr>"

definition no_update :: update_request where
  "no_update = \<lparr>up_name = None, up_description = None, up_subdomain = None, up_java_version = None,
     up_allow_bedrock = None, up_online_mode = None, up_mc_version = None\<rparr>"

theorem updates_keep_names_unique_witness:
  "unique_names (w_db (snd (update_miniverse log_services running_mv
     (no_update\<lparr>up_name := Some ''creative'', up_subdomain := Some ''new''\<rparr>) log_world))) \<and>
   fst (update_miniverse log_services running_mv
     (no_update\<lparr>up_name := Some ''creative''\<rparr>) log_world) = Inl ValidationException"
proof
  show "unique_names (w_db (snd (update_miniverse log_services running_mv
     (no_update\<lparr>up_name := Some ''creative'', up_subdomain := Some ''new''\<rparr>) log_world)))"
    by (rule updates_keep_names_unique [of _ "''m1''"]) code_simp+
qed code_simp

theorem java_update_never_restarts_witness:
  "w_docker (snd (update_miniverse log_services running_mv
     (no_update\<lparr>up_java_version := Some ''java21''\<rparr>) log_world)) = []"
proof -
  have "w_docker (snd (update_miniverse log_services running_mv
     (no_update\<lparr>up_java_version := Some ''java21''\<rparr>) log_world)) = w_docker log_world"
    by (rule java_update_never_restarts) (simp_all add: no_update_def)
  then show ?thesis by (simp add: log_world_def)
qed
theorem routes_are_exact_witness:
  "map_of (route_map demo_env [running_mv, other_mv]) ''build.miniverse.fr'' = Some ''miniverse-m2:25565'' \<and>
   map_of (route_map demo_env [running_mv, other_mv]) ''gone.miniverse.fr'' = None"
proof
  have d: "distinct (map m_subdomain [running_mv, other_mv])" by code_simp
  have "''build.miniverse.fr'' = route_host demo_env other_mv \<and> ''miniverse-m2:25565'' = route_target other_mv"
    by code_simp
  then show "map_of (route_map demo_env [running_mv, other_mv]) ''build.miniverse.fr'' = Some ''miniverse-m2:25565''"
    using routes_are_exact [OF d, of demo_env "''build.miniverse.fr''" "''miniverse-m2:25565''"] by simp
  have "\<forall>m \<in> set [running_mv, other_mv]. ''gone.miniverse.fr'' \<noteq> route_host demo_env m" by code_simp
  then show "map_of (route_map demo_env [running_mv, other_mv]) ''gone.miniverse.fr'' = None"
    using routes_are_exact [OF d, of demo_env "''gone.miniverse.fr''"] by (auto simp: not_Some_eq [symmetric])
qed

end
