(* ===== verification/LifecycleProps.thy ===== *)
theory LifecycleProps
  imports Updates
begin

text \<open>
  Starting and deleting a miniverse: what a start leaves in the database when Docker fails, and that
  a deletion leaves neither rows nor files nor a control service behind.
\<close>

section \<open>Starting\<close>

definition row_started :: "string \<Rightarrow> db \<Rightarrow> bool" where
  "row_started i d \<longleftrightarrow> map_option m_started (get_miniverse i d) = Some True"

interpretation ids: service_writes "same (\<lambda>d. map m_id (miniverses d))"
proof unfold_locales
  show "moves (same (\<lambda>d. map m_id (miniverses d))) (insert_mod md)" for md
    by (auto intro!: movesI simp: same_def insert_mod_def)
qed (simp_all add: same_def map_update_by ident_def)

lemma get_miniverse_ids: "get_miniverse i d \<noteq> None \<longleftrightarrow> i \<in> set (map m_id (miniverses d))"
  by (simp add: get_miniverse_def row_by_None_iff)

lemma row_update:
  "(\<And>m. m_id (f m) = m_id m) \<Longrightarrow>
   get_miniverse j (d\<lparr>miniverses := update_by m_id i f (miniverses d)\<rparr>)
     = (if j = i then map_option f (get_miniverse j d) else get_miniverse j d)"
  by (simp add: get_miniverse_def row_by_update_by)

lemma started_moves:
  "moves (via_db (keeps (row_started i))) (on_docker dm)"
  "moves (via_db (keeps (row_started i))) (on_live lm)"
  "moves (via_db (keeps (row_started i))) (set_miniverse i (\<lambda>m. m\<lparr>m_container_id := c\<rparr>))"
  "reflp (via_db (keeps (row_started i)))" "transp (via_db (keeps (row_started i)))"
  by (auto simp: moves_def via_db_def keeps_def set_miniverse_def row_started_def row_update
      reflp_def transp_def act_simps split: prod.splits)

text \<open>After the data directory is ready: the row is marked before Docker is asked.\<close>

definition launch :: "'d services \<Rightarrow> miniverse \<Rightarrow> ('d world, string \<times> miniverse) action" where
  "launch s mv =
    (let i = m_id mv in
     bindA (on_docker (get_container_by_name (s_docker s) (container_name mv))) (\<lambda>existing_container.
     let mv1 = mv\<lparr>m_started := True\<rparr> in
     case existing_container of
       Some cid \<Rightarrow>
         thenA (set_miniverse i (\<lambda>m. m\<lparr>m_container_id := Some cid\<rparr>))
        (thenA (on_docker (start_container (s_docker s) cid))
               (ret (cid, mv1\<lparr>m_container_id := Some cid\<rparr>)))
     | None \<Rightarrow>
         bindA (create_miniverse_container s mv1) (\<lambda>(cid, mv2).
         thenA (on_docker (start_container (s_docker s) cid))
        (bindA (controllerA i) (\<lambda>c.
         thenA (on_live (set_controller i (controller_start c)))
        (thenA (publish_updated i None)
               (ret (cid, mv2))))))))"

lemma start_unfold:
  "start_miniverse s mv = thenA (init_data_path s mv)
     (thenA (set_miniverse (m_id mv) (\<lambda>m. m\<lparr>m_started := True\<rparr>)) (launch s mv))"
  unfolding start_miniverse_def launch_def Let_def by (rule refl)

lemma launch_keeps_started: "moves (via_db (keeps (row_started (m_id mv)))) (launch s mv)"
  unfolding launch_def create_miniverse_container_def controllerA_def publish_updated_def Let_def
  by (intro moves_intros started_moves) (simp_all add: started_moves)

lemma launch_result:
  assumes "launch s mv w = (Inr (cid, mv'), w')" "get_miniverse (m_id mv) (w_db w) = Some m"
  shows "get_miniverse (m_id mv) (w_db w') = Some (m\<lparr>m_container_id := Some cid\<rparr>) \<and>
    mv' = mv\<lparr>m_started := True, m_container_id := Some cid\<rparr>"
  using assms
  by (auto simp: launch_def create_miniverse_container_def controllerA_def publish_updated_def Let_def
      bindA_apply thenA_apply set_miniverse_def ret_apply getA_apply raise_apply modifyA_apply zoomA_apply row_update
      split: prod.splits sum.splits option.splits)

text \<open>
  Once the data directory is ready, a start marks the miniverse as started before it
  asks Docker, and a failure of Docker does not undo it; a start that succeeds also stores the id
  of the container that it returns.
\<close>

theorem start_marks_the_row:
  assumes "get_miniverse (m_id mv) (w_db w) \<noteq> None" "init_data_path s mv w = (Inr (), w1)"
    and "start_miniverse s mv w = (res, w')"
  shows "row_started (m_id mv) (w_db w') \<and>
    (\<forall>cid mv'. res = Inr (cid, mv') \<longrightarrow> m_container_id mv' = Some cid \<and>
       map_option m_container_id (get_miniverse (m_id mv) (w_db w')) = Some (Some cid))"
proof -
  let ?i = "m_id mv"
  let ?w2 = "w1\<lparr>w_db := w_db w1\<lparr>miniverses := update_by m_id ?i (\<lambda>m. m\<lparr>m_started := True\<rparr>) (miniverses (w_db w1))\<rparr>\<rparr>"
  have "map m_id (miniverses (w_db w1)) = map m_id (miniverses (w_db w))"
    using movesD [OF ids.init_R, of w s mv] assms(2) by (simp add: via_db_def same_def)
  with assms(1) obtain m where "get_miniverse ?i (w_db w1) = Some m"
    by (metis get_miniverse_ids option.exhaust)
  then have m2: "get_miniverse ?i (w_db ?w2) = Some (m\<lparr>m_started := True\<rparr>)"
    by (simp add: row_update)
  have l: "launch s mv ?w2 = (res, w')"
    using assms(2,3) by (simp add: start_unfold set_miniverse_def act_simps)
  have "row_started ?i (w_db ?w2)" using m2 by (simp add: row_started_def)
  then have "row_started ?i (w_db w')"
    using movesD [OF launch_keeps_started [of mv s], of ?w2] l by (simp add: via_db_def keeps_def)
  moreover have "m_container_id mv' = Some cid \<and>
       map_option m_container_id (get_miniverse ?i (w_db w')) = Some (Some cid)"
    if "res = Inr (cid, mv')" for cid mv'
    using launch_result [OF _ m2, of s cid mv' w'] l that by simp
  ultimately show ?thesis by blast
qed

theorem start_marks_the_row_witness:
  "row_started ''m1'' (w_db (snd (start_miniverse
     (log_services\<lparr>s_docker := log_docker\<lparr>cont_start := (\<lambda>_. raise DockerError)\<rparr>\<rparr>) running_mv log_world)))"
proof -
  let ?s = "log_services\<lparr>s_docker := log_docker\<lparr>cont_start := (\<lambda>_. raise DockerError)\<rparr>\<rparr>"
  obtain w1 where w1: "init_data_path ?s running_mv log_world = (Inr (), w1)"
  proof -
    have "fst (init_data_path ?s running_mv log_world) = Inr ()" by code_simp
    then show ?thesis using that by (metis prod.collapse)
  qed
  obtain res w' where r: "start_miniverse ?s running_mv log_world = (res, w')"
    by (cases "start_miniverse ?s running_mv log_world")
  have i: "get_miniverse (m_id running_mv) (w_db log_world) \<noteq> None" "m_id running_mv = ''m1''"
    by code_simp+
  show ?thesis using start_marks_the_row [OF i(1) w1 r] r i(2) by simp
qed

section \<open>Deleting\<close>

lemma thenA_Inr: "thenA m n s = (Inr x, s') \<longleftrightarrow> (\<exists>u s1. m s = (Inr u, s1) \<and> n s1 = (Inr x, s'))"
  by (auto simp: thenA_apply split: prod.splits sum.splits)

lemma bindA_Inr: "bindA m f s = (Inr x, s') \<longleftrightarrow> (\<exists>u s1. m s = (Inr u, s1) \<and> f u s1 = (Inr x, s'))"
  by (auto simp: bindA_apply split: prod.splits sum.splits)

lemma only_live: "on_live m w = (r, w') \<Longrightarrow> w_db w' = w_db w \<and> w_fs w' = w_fs w \<and> w_docker w' = w_docker w"
  by (auto simp: zoomA_apply split: prod.splits)

lemma only_docker: "on_docker m w = (r, w') \<Longrightarrow> w_db w' = w_db w \<and> w_fs w' = w_fs w \<and> w_live w' = w_live w"
  by (auto simp: zoomA_apply split: prod.splits)

lemma only_db: "on_db m w = (r, w') \<Longrightarrow> w_fs w' = w_fs w \<and> w_docker w' = w_docker w \<and> w_live w' = w_live w"
  by (auto simp: zoomA_apply split: prod.splits)

lemma only_fs: "on_fs m w = (r, w') \<Longrightarrow> w_db w' = w_db w \<and> w_docker w' = w_docker w \<and> w_live w' = w_live w"
  by (auto simp: zoomA_apply split: prod.splits)

text \<open>Creating a directory with its parents only touches the prefixes of its path.\<close>

lemma os_mkdir_at:
  "no_links fs \<Longrightarrow> proper t \<Longrightarrow> q \<noteq> t \<Longrightarrow> node_at (snd (os_mkdir wd (abs_path t) fs)) q = node_at fs q"
  using entry_path_physical [of fs t wd] no_links_physical [of fs t]
  by (auto simp: os_mkdir_def fs_simps split: sum.splits)

lemma parent_abs: "t \<noteq> [] \<Longrightarrow> path_parent (abs_path t) = abs_path (butlast t)"
  by (simp add: path_parent_def abs_path_def)

lemma mkdir_parents_at:
  "no_links fs \<Longrightarrow> proper t \<Longrightarrow> \<not> prefix q t \<Longrightarrow>
   node_at (snd (mkdir_parents wd (abs_path t) fs)) q = node_at fs q"
proof (induction t arbitrary: fs rule: rev_induct)
  case Nil
  then show ?case
    using os_mkdir_at [of fs "[]" q wd]
    by (subst mkdir_parents.simps) (auto simp: abs_path_def split: prod.splits sum.splits)
next
  case (snoc n t)
  have q: "q \<noteq> t @ [n]" "\<not> prefix q t" using snoc.prems(3) by auto
  obtain r fs1 where m: "os_mkdir wd (abs_path (t @ [n])) fs = (r, fs1)"
    by (cases "os_mkdir wd (abs_path (t @ [n])) fs")
  have 1: "node_at fs1 q = node_at fs q" using os_mkdir_at [OF snoc.prems(1,2) q(1), of wd] m by simp
  have nl1: "no_links fs1"
    using movesD [OF spares_mkdir, of "\<lambda>_. True" fs wd "abs_path (t @ [n])"] m snoc.prems(1)
    by (simp add: spares_def)
  obtain r2 fs2 where m2: "mkdir_parents wd (abs_path t) fs1 = (r2, fs2)"
    by (cases "mkdir_parents wd (abs_path t) fs1")
  have 2: "node_at fs2 q = node_at fs1 q"
    using snoc.IH [OF nl1 _ q(2)] snoc.prems(2) m2 by simp
  have nl2: "no_links fs2"
    using spares_mkdir_parents [of "\<lambda>_. True" fs1 wd "abs_path t"] m2 nl1 by (simp add: spares_def)
  have 3: "node_at (snd (mkdir_ok wd (abs_path (t @ [n])) fs2)) q = node_at fs2 q"
    using os_mkdir_at [OF nl2 snoc.prems(2) q(1), of wd] by (auto simp: mkdir_ok_def split: prod.splits sum.splits)
  from m m2 1 2 3 show ?case
    by (subst mkdir_parents.simps) (auto simp: parent_abs split: prod.splits sum.splits)
qed

lemma write_file_at:
  "no_links fs \<Longrightarrow> proper t \<Longrightarrow> t \<noteq> [] \<Longrightarrow> q \<noteq> t \<Longrightarrow>
   node_at (snd (write_file wd (abs_path t) c fs)) q = node_at fs q"
  using kernel_path_physical [of fs t wd] no_links_physical [of fs t]
  by (auto simp: write_file_def fs_simps split: sum.splits option.splits node.splits)

lemma proper_clean: "proper_part n \<Longrightarrow> clean_part n"
  by (simp add: proper_part_def)

lemma child_abs: "proper_part n \<Longrightarrow> path_child (abs_path t) n = abs_path (t @ [n])"
  by (simp add: child_clean proper_clean abs_path_def)

lemma proper_names: "proper_part ''miniverses''" "proper_part ''proxy''" "proper_part ''routes.json''"
  by code_simp+

lemma proxy_config_at:
  assumes "DATA_PATH (s_env s) = abs_path d" "proper d" "no_links (w_fs w)"
    and "\<not> prefix q (d @ [''proxy'', ''routes.json''])" "update_proxy_config s w = (r, w')"
  shows "node_at (w_fs w') q = node_at (w_fs w) q"
proof -
  let ?wd = "work_dir (s_env s)"
  let ?t = "d @ [''proxy'', ''routes.json'']"
  have t: "routes_path (s_env s) = abs_path ?t" "proper ?t" "butlast ?t = d @ [''proxy'']"
    using assms(1,2) proper_names by (simp_all add: routes_path_def child_abs butlast_append)
  obtain fs1 r1 where m: "mkdir_parents ?wd (abs_path (d @ [''proxy''])) (w_fs w) = (r1, fs1)"
    by (cases "mkdir_parents ?wd (abs_path (d @ [''proxy''])) (w_fs w)")
  have q: "\<not> prefix q (d @ [''proxy''])" "q \<noteq> ?t"
    using assms(4) prefix_order.trans [of q "d @ [''proxy'']" ?t] by auto
  have 1: "node_at fs1 q = node_at (w_fs w) q"
    using mkdir_parents_at [OF assms(3) _ q(1), of ?wd] assms(2) proper_names m by simp
  have "no_links fs1"
    using spares_mkdir_parents [of "\<lambda>_. True" "w_fs w" ?wd "abs_path (d @ [''proxy''])"] m assms(3)
    by (simp add: spares_def)
  then have 2: "node_at (snd (write_file ?wd (abs_path ?t) c fs1)) q = node_at fs1 q" for c
    by (rule write_file_at [OF _ t(2) _ q(2)]) simp
  show ?thesis
    using assms(5) t m 1 2 [of "json_text (indent_format 4) 0 (generate_router_routes (s_env s) (miniverses (w_db w)))"]
      parent_abs [of ?t]
    by (auto simp: update_proxy_config_def Let_def act_simps split: sum.splits prod.splits option.splits)
qed

lemma join_nothing: "joinpath (abs_path t) (Path []) = abs_path t"
  by (simp add: joinpath_def Path_def splitroot_def keep_part_def abs_path_def)

lemma rmtree_chain:
  assumes "proper b" "b \<noteq> []" "dir_chain fs b"
  shows "rmtree wd (abs_path b) fs = (Inr (), del_tree fs b)"
proof -
  have "dir_chain fs (butlast b)" using assms(3) by (rule dir_chain_prefix) (simp add: prefixeq_butlast)
  with entry_path_chain [OF assms(1,2), of fs wd] dir_chain_node [OF assms(3)]
  show ?thesis by (simp add: rmtree_def)
qed

lemma remove_miniverse_gone: "get_miniverse_controller i (snd (remove_miniverse ns rpc i l)) = None"
proof (cases "get_miniverse_controller i l")
  case None
  then show ?thesis
    by (simp add: remove_miniverse_def act_simps) (simp add: get_miniverse_controller_def delete_conv')
next
  case (Some c)
  obtain r h where "thenA (controller_stop ns rpc i c) (ret ()) (l_hub l) = (r, h)"
    by (cases "thenA (controller_stop ns rpc i c) (ret ()) (l_hub l)")
  then show ?thesis
    using Some
    by (simp add: remove_miniverse_def bindA_apply thenA_apply getA_apply modifyA_apply zoomA_apply ret_apply
        get_miniverse_controller_def delete_conv' split: prod.split sum.split)
qed

lemma remove_controller_gone:
  assumes "remove_controller s i w = (r, w1)"
  shows "get_miniverse_controller i (w_live w1) = None \<and> w_db w1 = w_db w \<and> w_fs w1 = w_fs w"
proof -
  obtain r' l where l: "remove_miniverse (s_ns s) (s_rpc s) i (w_live w) = (r', l)"
    by (cases "remove_miniverse (s_ns s) (s_rpc s) i (w_live w)")
  have "get_miniverse_controller i l = None" using remove_miniverse_gone [of i "s_ns s" "s_rpc s" "w_live w"] l by simp
  with assms l show ?thesis by (auto simp: remove_controller_def zoomA_apply)
qed

lemma hub_keeps_controllers:
  "on_live (on_hub m) w = (r, w') \<Longrightarrow> get_miniverse_controller i (w_live w') = get_miniverse_controller i (w_live w)"
  by (auto simp: act_simps get_miniverse_controller_def split: prod.splits)

lemma proxy_keeps:
  "update_proxy_config s w = (r, w') \<Longrightarrow> w_db w' = w_db w \<and> w_live w' = w_live w"
  by (auto simp: update_proxy_config_def Let_def act_simps split: prod.splits sum.splits option.splits)

text \<open>
  Property C8 (delete_leaves_nothing). A deletion that returns has removed the row of the miniverse with the rows of
  its roles and mods, its control service and its whole directory; writing the routes file afterwards brings
  nothing of it back.
\<close>

theorem delete_leaves_nothing:
  assumes "DATA_PATH (s_env s) = abs_path d" "proper d" "proper_part (m_id mv)" "no_links (w_fs w)"
    and "dir_chain (w_fs w) (d @ [''miniverses'', m_id mv])"
    and "delete_miniverse s mv w = (Inr (), w')"
  shows "m_id mv \<notin> m_id ` set (miniverses (w_db w')) \<and>
    m_id mv \<notin> mur_miniverse_id ` set (user_roles (w_db w')) \<and>
    m_id mv \<notin> mod_miniverse_id ` set (mods (w_db w')) \<and>
    get_miniverse_controller (m_id mv) (w_live w') = None \<and>
    (\<forall>q. prefix (d @ [''miniverses'', m_id mv]) q \<longrightarrow> node_at (w_fs w') q = None)"
proof -
  let ?i = "m_id mv" and ?b = "d @ [''miniverses'', m_id mv]" and ?wd = "work_dir (s_env s)"
  have b: "proper ?b" "?b \<noteq> []" using assms(2,3) proper_names by simp_all
  have base: "get_miniverse_path (s_env s) ?i [] False = abs_path ?b"
    using assms(1,3) proper_names(1) by (simp add: get_miniverse_path_def join_all_def child_abs join_nothing)
  obtain w1 w2 w3 w4 w5 w6 where
    c: "remove_controller s ?i w = (Inr (), w1)"
    and k: "(case m_container_id mv of None \<Rightarrow> ret ()
       | Some c \<Rightarrow> if c = [] then ret () else on_docker (remove_container (s_docker s) c)) w1 = (Inr (), w2)"
    and f: "(if exists (w_fs w2) ?wd (abs_path ?b) \<and> is_dir (w_fs w2) ?wd (abs_path ?b)
        then on_fs (rmtree ?wd (abs_path ?b)) else ret ()) w2 = (Inr (), w3)"
    and r: "on_db (delete_miniverse_row ?i) w3 = (Inr (), w4)"
    and l: "on_live (on_hub (delete_miniverse_cache ?i)) w4 = (Inr (), w5)"
    and p: "update_proxy_config s w5 = (Inr (), w6)"
    and e: "on_live (on_hub (publish_miniverse_deleted_event ?i
              (user_list_from_user_role_list (users_roles (w_db w) ?i)))) w6 = (Inr (), w')"
    using assms(6) unfolding delete_miniverse_def Let_def base
    by (auto simp: thenA_Inr bindA_Inr getA_apply)
  note c1 = remove_controller_gone [OF c]
  have k1: "w_db w2 = w_db w1 \<and> w_fs w2 = w_fs w1 \<and> w_live w2 = w_live w1"
    using k only_docker by (fastforce simp: ret_apply split: option.splits if_splits)
  have "is_dir (w_fs w2) ?wd (abs_path ?b)" "exists (w_fs w2) ?wd (abs_path ?b)"
    using is_dir_physical [OF dir_chain_physical [OF assms(5)] b(1), of ?wd] assms(5) c1 k1
    by (auto simp: is_dir_def exists_def split: option.splits)
  with f rmtree_chain [OF b assms(5), of ?wd] c1 k1
  have f1: "w3 = w2\<lparr>w_fs := del_tree (w_fs w) ?b\<rparr>" by (simp add: act_simps)
  have q3: "prefix ?b q \<Longrightarrow> node_at (w_fs w3) q = None" for q
    using f1 b(2) by (cases "q = []") (auto simp: fs_simps)
  have w3: "no_links (w_fs w3)"
    using f1 assms(4) by (auto simp: no_links_def del_tree_def list_all_iff)
  have r1: "w_fs w4 = w_fs w3" "w_live w4 = w_live w3" using only_db [OF r] by auto
  have l1: "w_db w5 = w_db w4" "w_fs w5 = w_fs w4" using only_live [OF l] by auto
  have e1: "w_db w' = w_db w6" "w_fs w' = w_fs w6" using only_live [OF e] by auto
  have p1: "w_db w6 = w_db w5" "w_live w6 = w_live w5" using proxy_keeps [OF p] by auto
  have "node_at (w_fs w') q = None" if q: "prefix ?b q" for q
  proof -
    have "\<not> prefix q (d @ [''proxy'', ''routes.json''])"
    proof
      assume "prefix q (d @ [''proxy'', ''routes.json''])"
      with q have "prefix ?b (d @ [''proxy'', ''routes.json''])" by (rule prefix_order.trans)
      then show False by simp
    qed
    then have "node_at (w_fs w6) q = node_at (w_fs w5) q"
      using proxy_config_at [OF assms(1,2) _ _ p] w3 r1 l1 by simp
    with q3 [OF q] r1 l1 e1 show ?thesis by simp
  qed
  moreover have "get_miniverse_controller ?i (w_live w') = None"
    using hub_keeps_controllers [OF e, of ?i] hub_keeps_controllers [OF l, of ?i] p1 r1 f1 k1 c1 by simp
  moreover have "w_db w' = w_db w4" using e1 p1 l1 by simp
  moreover have "?i \<notin> m_id ` set (miniverses (w_db w4)) \<and> ?i \<notin> mur_miniverse_id ` set (user_roles (w_db w4)) \<and>
      ?i \<notin> mod_miniverse_id ` set (mods (w_db w4))"
    using r by (auto simp: delete_miniverse_row_def act_simps table_simps)
  ultimately show ?thesis by simp
qed

theorem delete_leaves_nothing_witness:
  "\<not> exists (w_fs (snd (delete_miniverse log_services running_mv log_world))) []
      (abs_path [''app'', ''data'', ''miniverses'', ''m1'']) \<and>
   w_docker (snd (delete_miniverse log_services running_mv log_world)) = [''remove c1''] \<and>
   map m_id (miniverses (w_db (snd (delete_miniverse log_services running_mv log_world)))) = [''m2'']"
proof -
  obtain w' where w': "delete_miniverse log_services running_mv log_world = (Inr (), w')"
  proof -
    have "fst (delete_miniverse log_services running_mv log_world) = Inr ()" by code_simp
    then show ?thesis using that by (metis prod.collapse)
  qed
  have f: "DATA_PATH (s_env log_services) = abs_path [''app'', ''data'']" "proper [''app'', ''data'']"
    "proper_part (m_id running_mv)" "no_links (w_fs log_world)"
    "dir_chain (w_fs log_world) ([''app'', ''data''] @ [''miniverses'', m_id running_mv])"
    "m_id running_mv = ''m1''" "no_links (w_fs (snd (delete_miniverse log_services running_mv log_world)))"
    "proper [''app'', ''data'', ''miniverses'', ''m1'']"
    by code_simp+
  have "node_at (w_fs w') [''app'', ''data'', ''miniverses'', ''m1''] = None"
    using delete_leaves_nothing [OF f(1-5) w'] f(6) by simp
  then have "\<not> exists (w_fs w') [] (abs_path [''app'', ''data'', ''miniverses'', ''m1''])"
    using exists_physical [OF no_links_physical f(8), of "w_fs w'" "[]"] f(7) w' by simp
  moreover have "w_docker (snd (delete_miniverse log_services running_mv log_world)) = [''remove c1'']"
    by code_simp
  moreover have "map m_id (miniverses (w_db (snd (delete_miniverse log_services running_mv log_world)))) = [''m2'']"
    by code_simp
  ultimately show ?thesis using w' by simp
qed

end
