(* ===== verification/Access.thy ===== *)
theory Access
  imports LifecycleProps
begin

text \<open>
  Who may do what: the roles that the rows give a user, the guards of the endpoints against a specification,
  and the effect of a role change.
\<close>

section \<open>Roles\<close>

text \<open>What the association table says about a user and a miniverse.\<close>

definition role_at :: "db \<Rightarrow> string \<Rightarrow> string \<Rightarrow> role" where
  "role_at d uid mid = (case row_by mur_key (uid, mid) (user_roles d) of None \<Rightarrow> NONE | Some r \<Rightarrow> mur_role r)"

lemma role_in_rows:
  "role_in (filter (\<lambda>r. mur_user_id r = uid) rows) mid
    = (case row_by mur_key (uid, mid) rows of None \<Rightarrow> NONE | Some r \<Rightarrow> mur_role r)"
  by (induction rows) (auto simp: row_by_def mur_key_def)

lemma loaded_role [simp]: "get_miniverse_role (load_user d u) mid = role_at d (u_id u) mid"
  by (simp add: get_miniverse_role_def roles_of_user_def role_in_rows role_at_def)

text \<open>The specification of the guards: the role that a request needs.\<close>

fun allowed :: "db \<Rightarrow> user \<Rightarrow> request \<Rightarrow> bool" where
  "allowed d u (CreateMiniverse _) = (MODERATOR \<le> u_role u)"
| "allowed d u (DeleteMiniverse i) = (ADMIN \<le> role_at d (u_id u) i)"
| "allowed d u (UpdateMiniverse i _) = (ADMIN \<le> role_at d (u_id u) i)"
| "allowed d u (SetMiniverseRole i _ _) = (ADMIN \<le> role_at d (u_id u) i)"
| "allowed d u (StartMiniverse i) = (USER \<le> role_at d (u_id u) i)"
| "allowed d u (StopMiniverse i) = (USER \<le> role_at d (u_id u) i)"
| "allowed d u (RestartMiniverse i) = (USER \<le> role_at d (u_id u) i)"
| "allowed d u (AutoInstallMod i _) = (MODERATOR \<le> role_at d (u_id u) i)"
| "allowed d u (InstallMod i _) = (MODERATOR \<le> role_at d (u_id u) i)"
| "allowed d u (UninstallMod m) =
     (case get_mod m d of None \<Rightarrow> False | Some md \<Rightarrow> MODERATOR \<le> role_at d (u_id u) (mod_miniverse_id md))"
| "allowed d u (UpdateMod m _) =
     (case get_mod m d of None \<Rightarrow> False | Some md \<Rightarrow> MODERATOR \<le> role_at d (u_id u) (mod_miniverse_id md))"
| "allowed d u (SetOperator i _ _) = (MODERATOR \<le> role_at d (u_id u) i)"
| "allowed d u (KickPlayer i _ _) = (MODERATOR \<le> role_at d (u_id u) i)"
| "allowed d u (BanPlayer i _ _) = (MODERATOR \<le> role_at d (u_id u) i)"
| "allowed d u (UnbanPlayer i _) = (MODERATOR \<le> role_at d (u_id u) i)"
| "allowed d u (DeleteFiles i _) = (MODERATOR \<le> role_at d (u_id u) i)"
| "allowed d u (CopyFiles i _ _) = (MODERATOR \<le> role_at d (u_id u) i)"
| "allowed d u (ExtractArchive i _) = (MODERATOR \<le> role_at d (u_id u) i)"
| "allowed d u (CompressFiles i _) = (MODERATOR \<le> role_at d (u_id u) i)"
| "allowed d u (RenameFile i _ _) = (MODERATOR \<le> role_at d (u_id u) i)"
| "allowed d u (SetContent i _ _) = (MODERATOR \<le> role_at d (u_id u) i)"
| "allowed d u (TusHook _) = True"

lemma require_refuses: "\<not> r \<le> get_miniverse_role cu i \<Longrightarrow> require r cu i = raise NotAuthorizedException"
  by (auto simp: require_def not_le)

lemma guarded_endpoint:
  assumes "\<not> allowed (w_db w) u req"
  shows "\<exists>e. endpoint s z (load_user (w_db w) u) req w = (Inl e, w)"
  using assms
  by (cases req)
     (auto simp: api_defs api_set_content_def require_refuses discard_def file_request_def raise_apply
        bindA_apply getA_apply not_le split: option.splits)

text \<open>A login that finds an active account whose name has not changed writes nothing.\<close>

lemma login_found:
  assumes "db_ok d" "u \<in> set (users d)" "u_is_active u" "tok_sub tok = u_id u" "tok_username tok = Some (u_username u)"
  shows "retrieve_user_handler tok d = (Inr (load_user d u), d)"
proof -
  have "row_by u_id (tok_sub tok) (users d) = Some u"
    using assms(1,2,4) by (simp add: db_ok_def row_by_Some_iff)
  with assms(3,5) show ?thesis
    by (simp add: retrieve_user_handler_def get_user_def act_simps preferred_username_def)
qed


definition bob_row :: user where
  "bob_row = \<lparr>u_id = ''bob-2'', u_is_active = True, u_username = ''bob'', u_role = USER\<rparr>"

definition bob_token :: token where
  "bob_token = \<lparr>tok_sub = ''bob-2'', tok_username = Some ''bob''\<rparr>"


section \<open>Changing a role\<close>

lemma user_role_row: "get_miniverse_user_role mid uid d = row_by mur_key (uid, mid) (user_roles d)"
  by (simp add: get_miniverse_user_role_def row_by_def mur_key_def)

lemma row_by_append: "row_by key k (xs @ ys) = (case row_by key k xs of None \<Rightarrow> row_by key k ys | Some r \<Rightarrow> Some r)"
  by (induction xs) (auto simp: row_by_def)

lemma row_by_single: "row_by key k [x] = (if key x = k then Some x else None)"
  by (simp add: row_by_def)

lemma write_role_at:
  assumes "write_role mid uid r d = (Inr (), d')"
  shows "role_at d' v j = (if (v, j) = (uid, mid) then r else role_at d v j)"
proof (cases "row_by mur_key (uid, mid) (user_roles d)")
  case None
  with assms show ?thesis
    by (auto simp: write_role_def user_role_row act_simps role_at_def insert_user_role_def row_by_append
        mur_key_def row_by_single split: if_splits option.splits)
next
  case (Some x)
  have k: "mur_key (m\<lparr>mur_role := q\<rparr>) = mur_key m" for m q by (simp add: mur_key_def)
  from Some assms show ?thesis
    by (auto simp: write_role_def user_role_row act_simps role_at_def row_by_update_by k row_by_delete_by
        split: if_splits option.splits)
qed

text \<open>
  Property C11 (role_change_takes_effect). A role change that returns gives the named user exactly the new role in the
  miniverse, leaves every other role of every user as it was, and announces the change to the user it is about.
\<close>

theorem role_change_takes_effect:
  assumes "api_set_miniverse_role cu i name r w = (Inr (), w')"
  shows "\<exists>u. find_user name (w_db w) = Some u \<and>
    (\<forall>v j. get_miniverse_role (load_user (w_db w') v) j =
       (if u_id v = u_id u \<and> j = i then r else get_miniverse_role (load_user (w_db w) v) j)) \<and>
    channel (l_hub (w_live w')) = channel (l_hub (w_live w)) @
      [\<lparr>ev_type = UPDATED, ev_data = JObj [], ev_miniverse_id = Some i, ev_updated_user_ids = Some [u_id u]\<rparr>]"
proof -
  obtain u d' where u: "find_user name (w_db w) = Some u"
    and d: "write_role i (u_id u) r (w_db w) = (Inr (), d')"
    and w': "w' = snd (publish_updated i (Some [u_id u]) (w\<lparr>w_db := d'\<rparr>))"
    using assms
    by (auto simp: api_set_miniverse_role_def require_def act_simps publish_updated_def
        split: if_splits option.splits prod.splits sum.splits)
  have "role_at d' v j = (if v = u_id u \<and> j = i then r else role_at (w_db w) v j)" for v j
    using write_role_at [OF d, of v j] by auto
  with u w' show ?thesis
    by (simp add: publish_updated_def publish_miniverse_updated_event_def publish_def act_simps)
qed

theorem role_change_takes_effect_witness:
  "get_miniverse_role (load_user (w_db (snd (api_set_miniverse_role (load_user (w_db log_world) bob_row\<lparr>miniverses_roles :=
      [\<lparr>mur_user_id = ''ann-1'', mur_miniverse_id = ''m1'', mur_role = ADMIN\<rparr>]\<rparr>) ''m1'' ''bob'' MODERATOR log_world))) bob_row) ''m1''
     = MODERATOR"
proof -
  let ?cu = "load_user (w_db log_world) bob_row\<lparr>miniverses_roles :=
      [\<lparr>mur_user_id = ''ann-1'', mur_miniverse_id = ''m1'', mur_role = ADMIN\<rparr>]\<rparr>"
  obtain w' where w': "api_set_miniverse_role ?cu ''m1'' ''bob'' MODERATOR log_world = (Inr (), w')"
  proof -
    have "fst (api_set_miniverse_role ?cu ''m1'' ''bob'' MODERATOR log_world) = Inr ()" by code_simp
    then show ?thesis using that by (metis prod.collapse)
  qed
  have "find_user ''bob'' (w_db log_world) = Some bob_row" "u_id bob_row = u_id bob_row" by code_simp+
  with role_change_takes_effect [OF w'] w' show ?thesis by auto
qed

end
