(* ===== verification/Websockets.thy ===== *)
theory Websockets
  imports Access
begin

text \<open>
  \<open>app/api/v1/websockets.py\<close> with the schemas it sends (\<open>app/schemas/events.py\<close>, \<open>app/schemas/miniverse.py\<close>): the
  channel of updates that a subscriber hears, the data it starts with, and the console of a container.
\<close>

section \<open>The update channel\<close>

text \<open>\<open>db.refresh(user)\<close> loads the row and its roles again; a row that is gone cannot be refreshed.\<close>

definition refresh_user :: "db \<Rightarrow> user_obj \<Rightarrow> exn + user_obj" where
  "refresh_user d cu = (case row_by u_id (u_id cu) (users d) of
     None \<Rightarrow> Inl InvalidRequestError | Some u \<Rightarrow> Inr (load_user d u))"

definition event_role :: "user_obj \<Rightarrow> miniverse_event \<Rightarrow> role" where
  "event_role cu ev = (case ev_miniverse_id ev of None \<Rightarrow> NONE | Some i \<Rightarrow> get_miniverse_role cu i)"

definition concerns :: "user_obj \<Rightarrow> miniverse_event \<Rightarrow> bool" where
  "concerns cu ev \<longleftrightarrow> (case ev_updated_user_ids ev of None \<Rightarrow> False | Some us \<Rightarrow> u_id cu \<in> set us)"

text \<open>What is sent to the socket, and the user object that the context holds afterwards.\<close>

definition handle_miniverse_channel_message ::
  "jtext \<Rightarrow> db \<Rightarrow> user_obj \<Rightarrow> exn + (miniverse_event list \<times> user_obj)" where
  "handle_miniverse_channel_message message d cu =
    bindE (event_from_bytes message) (\<lambda>event.
    let before_user_role = event_role cu event in
    bindE (if concerns cu event then refresh_user d cu else Inr cu) (\<lambda>cu'.
    let max_user_role = (if concerns cu event then max before_user_role (event_role cu' event)
                         else before_user_role)
    in Inr (if ev_miniverse_id event = None \<or> USER \<le> max_user_role then [event] else [], cu')))"

text \<open>
  A subscriber handles the messages in the order of the channel, each with the database of its
  time; an exception ends its background task.
\<close>

fun deliver :: "(db \<times> jtext) list \<Rightarrow> user_obj \<Rightarrow> miniverse_event list" where
  "deliver [] cu = []"
| "deliver ((d, message) # rest) cu =
    (case handle_miniverse_channel_message message d cu of
       Inl e \<Rightarrow> []
     | Inr (sent, cu') \<Rightarrow> sent @ deliver rest cu')"

section \<open>The initial data\<close>

record mod_schema =
  ms_id :: string
  ms_slug :: string
  ms_version_id :: "string option"
  ms_project_id :: "string option"
  ms_title :: string
  ms_icon_url :: "string option"
  ms_version_name :: "string option"
  ms_version_number :: "string option"
  ms_miniverse_id :: string

definition mod_schema_of :: "mod_row \<Rightarrow> mod_schema" where
  "mod_schema_of m = \<lparr>ms_id = mod_id m, ms_slug = mod_slug m, ms_version_id = mod_version_id m,
     ms_project_id = mod_project_id m, ms_title = mod_title m, ms_icon_url = mod_icon_url m,
     ms_version_name = mod_version_name m, ms_version_number = mod_version_number m,
     ms_miniverse_id = mod_miniverse_id m\<rparr>"

text \<open>Neither the container id nor the secret of the management server is a field.\<close>

record miniverse_schema =
  sc_id :: string
  sc_name :: string
  sc_type :: miniverse_type
  sc_description :: "string option"
  sc_java_version :: "string option"
  sc_mc_version :: string
  sc_subdomain :: string
  sc_online_mode :: bool
  sc_is_on_lite_proxy :: bool
  sc_allow_bedrock :: bool
  sc_started :: bool
  sc_mods :: "mod_schema list"
  sc_users_roles :: "miniverse_user_role list"

definition miniverse_schema_of :: "db \<Rightarrow> miniverse \<Rightarrow> miniverse_schema" where
  "miniverse_schema_of d m = \<lparr>sc_id = m_id m, sc_name = m_name m, sc_type = m_type m,
     sc_description = m_description m, sc_java_version = m_java_version m,
     sc_mc_version = m_mc_version m, sc_subdomain = m_subdomain m, sc_online_mode = m_online_mode m,
     sc_is_on_lite_proxy = m_is_on_lite_proxy m, sc_allow_bedrock = m_allow_bedrock m,
     sc_started = m_started m, sc_mods = map mod_schema_of (mods_of d (m_id m)),
     sc_users_roles = users_roles d (m_id m)\<rparr>"

record sync_event_item =
  sy_miniverse :: miniverse_schema
  sy_players :: "player list"
  sy_seen_players :: "player list"
  sy_operators :: "operator list"
  sy_banned_players :: "player_ban list"

text \<open>The gathered reads of a service run in the order in which they are listed.\<close>

definition sync_item :: "'d services \<Rightarrow> miniverse \<Rightarrow> ('d world, sync_event_item) action" where
  "sync_item s m =
    (let i = m_id m in
     bindA (getA (\<lambda>w. get_miniverse_controller i (w_live w))) (\<lambda>c. case c of
       None \<Rightarrow> raise AssertionError
     | Some c \<Rightarrow>
         bindA (getA (\<lambda>w. miniverse_schema_of (w_db w) m)) (\<lambda>schema.
         bindA (on_live (on_hub (get_msmp_player_list (s_ns s) i (source_of s i c) False))) (\<lambda>players.
         bindA (on_live (on_hub (get_msmp_seen_player_list (s_ns s) i))) (\<lambda>seen_players.
         case c of
           WebSocket _ _ \<Rightarrow>
             bindA (on_live (on_hub (get_msmp_operator_list (s_ns s) (s_pydantic s) i (source_of s i c) False))) (\<lambda>operators.
             bindA (on_live (on_hub (get_msmp_banned_player_list (s_ns s) i (source_of s i c) False))) (\<lambda>banned_players.
             ret \<lparr>sy_miniverse = schema, sy_players = players, sy_seen_players = seen_players,
                  sy_operators = operators, sy_banned_players = banned_players\<rparr>))
         | MCRouter _ \<Rightarrow>
             ret \<lparr>sy_miniverse = schema, sy_players = players, sy_seen_players = seen_players,
                  sy_operators = [], sy_banned_players = []\<rparr>)))))"

definition send_init_data :: "'d services \<Rightarrow> user_obj \<Rightarrow> ('d world, sync_event_item list) action" where
  "send_init_data s cu = bindA (visible_miniverses cu) (mapA (sync_item s))"

section \<open>The console\<close>

text \<open>
  \<open>websocket_miniverse_logs_handler\<close>: the lines the client sends, up to the first empty one, go to the
  standard input of the container; the role of the user is not looked at. The log chunks that are
  streamed meanwhile do not change the state.
\<close>

definition websocket_miniverse_logs_handler ::
  "'d services \<Rightarrow> string \<Rightarrow> user_obj \<Rightarrow> string list \<Rightarrow> ('d world, unit) action" where
  "websocket_miniverse_logs_handler s i cu inputs =
    bindA (getA (\<lambda>w. get_miniverse i (w_db w))) (\<lambda>m. case m of
      None \<Rightarrow> raise AttributeError
    | Some mv \<Rightarrow>
        (case m_container_id mv of
           None \<Rightarrow> ret ()
         | Some cid \<Rightarrow>
             if cid = [] then ret ()
             else forA (\<lambda>line. on_docker (send_command_to_container (s_docker s) cid line))
                       (takeWhile (\<lambda>line. line \<noteq> []) inputs)))"

section \<open>What subscribers hear\<close>

definition message_of :: "db \<times> miniverse_event \<Rightarrow> db \<times> jtext" where
  "message_of p = (fst p, json_dumps (event_to_json (snd p)))"

lemma message_of_simps [simp]:
  "fst (message_of p) = fst p" "snd (message_of p) = json_dumps (event_to_json (snd p))"
  by (simp_all add: message_of_def)

lemma deliver_message: "deliver (message_of p # rest) cu =
    (case handle_miniverse_channel_message (json_dumps (event_to_json (snd p))) (fst p) cu of
       Inl e \<Rightarrow> [] | Inr (sent, cu') \<Rightarrow> sent @ deliver rest cu')"
  by (simp add: message_of_def)

lemma refresh_found:
  "row_by u_id (u_id cu) (users d) = Some u \<Longrightarrow> refresh_user d cu = Inr (load_user d u) \<and> u_id u = u_id cu"
  using row_by_SomeD by (fastforce simp: refresh_user_def)

text \<open>The user keeps its row and has no role in the miniverse.\<close>

definition shut_out :: "string \<Rightarrow> string \<Rightarrow> db \<Rightarrow> bool" where
  "shut_out uid i d \<longleftrightarrow> role_at d uid i = NONE \<and> uid \<in> u_id ` set (users d)"

lemma nothing_delivered:
  assumes "get_miniverse_role cu i = NONE"
    and "\<forall>(d, ev) \<in> set evs. ev_miniverse_id ev = Some i \<and> shut_out (u_id cu) i d"
  shows "deliver (map message_of evs) cu = []"
  using assms
proof (induction evs arbitrary: cu)
  case (Cons p evs)
  obtain d ev where p: "p = (d, ev)" by (cases p)
  from Cons.prems(2) p have ev: "ev_miniverse_id ev = Some i" "shut_out (u_id cu) i d" by auto
  then obtain u where u: "row_by u_id (u_id cu) (users d) = Some u"
    using row_by_None_iff [of u_id "u_id cu" "users d"] by (auto simp: shut_out_def)
  note r = refresh_found [OF u]
  have "handle_miniverse_channel_message (snd (message_of p)) d cu
      = Inr ([], if concerns cu ev then load_user d u else cu)"
    using ev r Cons.prems(1) p
    by (simp add: handle_miniverse_channel_message_def event_round_trip event_role_def shut_out_def
        not_le)
  moreover have "deliver (map message_of evs) (if concerns cu ev then load_user d u else cu) = []"
    using Cons r ev by (intro Cons.IH) (auto simp: shut_out_def)
  ultimately show ?case using p by (simp add: deliver_message split: if_splits)
qed simp

text \<open>
  Property C16 (revoked_user_hears_once). A subscriber who had a role in a miniverse and lost it gets the event that announces the
  loss, and none of the events of that miniverse that follow while the role is missing.
\<close>

theorem revoked_user_hears_once:
  assumes "USER \<le> get_miniverse_role cu i" "shut_out (u_id cu) i d"
    and "ev_miniverse_id loss = Some i" "ev_updated_user_ids loss = Some us" "u_id cu \<in> set us"
    and "\<forall>(d, ev) \<in> set later. ev_miniverse_id ev = Some i \<and> shut_out (u_id cu) i d"
  shows "deliver (map message_of ((d, loss) # later)) cu = [loss]"
proof -
  obtain u where u: "row_by u_id (u_id cu) (users d) = Some u"
    using assms(2) row_by_None_iff [of u_id "u_id cu" "users d"] by (auto simp: shut_out_def)
  note r = refresh_found [OF u]
  have "handle_miniverse_channel_message (snd (message_of (d, loss))) d cu = Inr ([loss], load_user d u)"
    using assms(1-5) r
    by (simp add: handle_miniverse_channel_message_def event_round_trip event_role_def concerns_def
        le_max_iff_disj)
  moreover have "deliver (map message_of later) (load_user d u) = []"
    using assms(2,6) r by (intro nothing_delivered) (auto simp: shut_out_def)
  ultimately show ?thesis by (simp add: deliver_message)
qed

definition update_event :: "string list option \<Rightarrow> miniverse_event" where
  "update_event us = \<lparr>ev_type = UPDATED, ev_data = JObj [], ev_miniverse_id = Some ''m1'', ev_updated_user_ids = us\<rparr>"

definition without_bob :: db where
  "without_bob = (w_db log_world)\<lparr>user_roles := []\<rparr>"

theorem revoked_user_hears_once_witness:
  "deliver (map message_of [(without_bob, update_event (Some [''bob-2''])), (without_bob, update_event None)])
     (load_user (w_db log_world) bob_row) = [update_event (Some [''bob-2''])]"
  by (rule revoked_user_hears_once [where i = "''m1''" and us = "[''bob-2'']"]) code_simp+

section \<open>What a new subscriber gets\<close>

text \<open>Only the live state may change.\<close>

definition live_only :: "'d world \<Rightarrow> 'd world \<Rightarrow> bool" where
  "live_only w w' \<longleftrightarrow> w_db w' = w_db w \<and> w_fs w' = w_fs w \<and> w_docker w' = w_docker w"

lemma live_only_moves [moves_intros]:
  "reflp live_only" "transp live_only" "moves live_only (on_live m)"
  by (auto simp: live_only_def reflp_def transp_def intro: moves_zoomA)

lemma moves_case_controller:
  "(\<And>ps. moves R (f ps)) \<Longrightarrow> (\<And>a b. moves R (g a b)) \<Longrightarrow>
   moves R (case c of MCRouter ps \<Rightarrow> f ps | WebSocket a b \<Rightarrow> g a b)"
  by (cases c) auto

lemma sync_item_live: "moves live_only (sync_item s m)"
  unfolding sync_item_def Let_def by (intro moves_intros moves_case_controller live_only_moves)

lemma sync_item_schema:
  "sync_item s m w = (Inr item, w') \<Longrightarrow> sy_miniverse item = miniverse_schema_of (w_db w) m"
  by (cases "get_miniverse_controller (m_id m) (w_live w)"; cases "the (get_miniverse_controller (m_id m) (w_live w))")
    (auto simp: sync_item_def Let_def bindA_Inr getA_apply raise_apply ret_apply)

text \<open>
  Property C17 (initial_data_is_visible). The data that a new subscriber gets is, in the order of the rows, one item for every
  miniverse in which the user has at least the role USER, and none for any other; each item describes the row with its
  mods and roles as the database has them, and collecting it changes no row, no file and no container.
\<close>

theorem initial_data_is_visible:
  assumes "send_init_data s cu w = (Inr entries, w')"
  shows "map sy_miniverse entries = map (miniverse_schema_of (w_db w))
      (filter (\<lambda>m. USER \<le> get_miniverse_role cu (m_id m)) (miniverses (w_db w))) \<and>
    w_db w' = w_db w \<and> w_fs w' = w_fs w \<and> w_docker w' = w_docker w"
proof -
  let ?ms = "filter (\<lambda>m. USER \<le> get_miniverse_role cu (m_id m)) (miniverses (w_db w))"
  have m: "mapA (sync_item s) ?ms w = (Inr entries, w')"
    using assms by (simp add: send_init_data_def visible_miniverses_def api_list_miniverses_def get_miniverses_def
        bindA_apply getA_apply)
  have "list_all2 (\<lambda>m item. sy_miniverse item = miniverse_schema_of (w_db w) m) ?ms entries"
    by (rule list_all2_mono [OF mapA_each [OF m sync_item_live live_only_moves(1,2)]])
      (auto simp: live_only_def dest: sync_item_schema)
  then have "map sy_miniverse entries = map (miniverse_schema_of (w_db w)) ?ms"
    by (induction rule: list_all2_induct) auto
  moreover have "live_only w w'"
    using movesD [OF moves_mapA [where xs = ?ms and f = "sync_item s", OF live_only_moves(1,2) sync_item_live], of w] m by simp
  ultimately show ?thesis by (simp add: live_only_def)
qed

theorem initial_data_is_visible_witness:
  "\<exists>entries. fst (send_init_data log_services (load_user (w_db log_world) bob_row) log_world) = Inr entries \<and>
     map (sc_id \<circ> sy_miniverse) entries = [''m1'']"
proof -
  have "(case fst (send_init_data log_services (load_user (w_db log_world) bob_row) log_world) of
      Inl _ \<Rightarrow> False | Inr _ \<Rightarrow> True)" by code_simp
  then obtain entries w' where i: "send_init_data log_services (load_user (w_db log_world) bob_row) log_world = (Inr entries, w')"
    by (auto split: sum.splits) (metis prod.collapse)
  have v: "map sc_id (map (miniverse_schema_of (w_db log_world))
      (filter (\<lambda>m. USER \<le> get_miniverse_role (load_user (w_db log_world) bob_row) (m_id m)) (miniverses (w_db log_world))))
    = [''m1'']" by code_simp
  from initial_data_is_visible [OF i] have "map sy_miniverse entries = map (miniverse_schema_of (w_db log_world))
      (filter (\<lambda>m. USER \<le> get_miniverse_role (load_user (w_db log_world) bob_row) (m_id m)) (miniverses (w_db log_world)))"
    by simp
  with v have "map sc_id (map sy_miniverse entries) = [''m1'']" by simp
  with i show ?thesis by simp
qed

end
