(* ===== verification/Startup.thy ===== *)
theory Startup
  imports Websockets
begin

text \<open>
  \<open>app/main.py\<close>: the hooks that run when the application starts and stops. Of the sessions
  of the hooks only the reads and writes on the database are modelled.
\<close>

section \<open>The hooks of the application\<close>

definition proxy_startup :: "'d services \<Rightarrow> ('d world, unit) action" where
  "proxy_startup s = update_proxy_config s"

definition resume_controller :: "'d services \<Rightarrow> miniverse \<Rightarrow> ('d world, unit) action" where
  "resume_controller s mv =
    bindA (add_controller s mv) (\<lambda>control.
    if m_started mv then on_live (set_controller (m_id mv) (controller_start control)) else ret ())"

definition miniverse_controller_manager_startup :: "'d services \<Rightarrow> ('d world, unit) action" where
  "miniverse_controller_manager_startup s =
    bindA (getA (\<lambda>w. get_miniverses (w_db w))) (forA (resume_controller s))"

definition resume_container :: "'d services \<Rightarrow> miniverse \<Rightarrow> ('d world, unit) action" where
  "resume_container s mv = (if m_started mv then thenA (start_miniverse s mv) (ret ()) else ret ())"

definition docker_startup :: "'d services \<Rightarrow> ('d world, unit) action" where
  "docker_startup s =
    thenA (start_proxy_containers s)
          (bindA (getA (\<lambda>w. get_miniverses (w_db w))) (forA (resume_container s)))"

text \<open>\<open>on_startup\<close>: the three hooks in order.\<close>

definition startup :: "'d services \<Rightarrow> ('d world, unit) action" where
  "startup s = thenA (proxy_startup s) (thenA (miniverse_controller_manager_startup s) (docker_startup s))"

text \<open>\<open>asyncio.gather\<close>: every task runs, the first exception is raised.\<close>

primrec gatherA :: "('s, unit) action list \<Rightarrow> ('s, unit) action" where
  "gatherA [] = ret ()"
| "gatherA (t # ts) = (\<lambda>s. case t s of
     (Inr _, s1) \<Rightarrow> gatherA ts s1
   | (Inl e, s1) \<Rightarrow> (Inl e, snd (gatherA ts s1)))"

definition docker_shutdown :: "'d services \<Rightarrow> ('d world, unit) action" where
  "docker_shutdown s =
    bindA (getA (\<lambda>w. get_miniverses (w_db w))) (\<lambda>ms.
    thenA (catchA (gatherA (map (stop_miniverse_container s) ms @ [stop_proxy_containers s])) not_found (ret ()))
          (on_docker (close_clients (s_docker s))))"

definition custom_cache_response_filter :: "nat \<Rightarrow> bool" where
  "custom_cache_response_filter status_code \<longleftrightarrow> 200 \<le> status_code \<and> status_code < 300"

section \<open>A miniverse with an invalid version blocks the startup\<close>

lemma forA_append: "forA f (xs @ ys) = thenA (forA f xs) (forA f ys)"
  by (induction xs) (auto simp: fun_eq_iff act_simps split: prod.splits sum.splits)

lemma add_controller_other:
  assumes "j \<noteq> m_id mv"
  shows "get_miniverse_controller j (w_live (snd (add_controller s mv w))) = get_miniverse_controller j (w_live w)"
  using assms
  by (auto simp: add_controller_def add_miniverse_def act_simps set_controller_def get_miniverse_controller_def
      update_conv' Let_def split: prod.splits sum.splits option.splits)

lemma resume_controller_other:
  assumes "j \<noteq> m_id mv"
  shows "get_miniverse_controller j (w_live (snd (resume_controller s mv w))) = get_miniverse_controller j (w_live w)"
  using assms add_controller_other [OF assms, of s w]
  by (auto simp: resume_controller_def act_simps set_controller_def get_miniverse_controller_def
      update_conv' split: prod.splits sum.splits)

lemma resume_controllers_other:
  "\<forall>m \<in> set ms. m_id m \<noteq> j \<Longrightarrow>
   get_miniverse_controller j (w_live (snd (forA (resume_controller s) ms w))) = get_miniverse_controller j (w_live w)"
proof (induction ms arbitrary: w)
  case (Cons m ms)
  then show ?case
    using resume_controller_other [of j m s w]
    by (auto simp: act_simps split: prod.splits sum.splits)
qed (simp add: act_simps)

lemma invalid_version_fails:
  assumes "parse_version (m_mc_version mv) = None" "get_miniverse_controller (m_id mv) (w_live w) = None"
  shows "fst (resume_controller s mv w) = Inl AttributeError"
proof -
  have "parse_version ''1.21.9'' \<noteq> None" by code_simp
  then have "compare_versions iso f (m_mc_version mv) ''1.21.9'' st = (Inl AttributeError, st)" for iso f st
    using assms(1) by (auto simp: compare_versions_def act_simps Let_def)
  with assms(2) show ?thesis
    by (simp add: resume_controller_def add_controller_def add_miniverse_def act_simps)
qed

text \<open>
  When the application starts with a miniverse whose version cannot be parsed, the startup
  never succeeds, whatever the other miniverses are and whatever Docker answers: choosing its control service raises.
\<close>

theorem invalid_version_blocks_startup:
  assumes "distinct (map m_id (miniverses (w_db w)))" "mv \<in> set (miniverses (w_db w))"
    and "parse_version (m_mc_version mv) = None" "get_miniverse_controller (m_id mv) (w_live w) = None"
  shows "\<exists>e. fst (startup s w) = Inl e"
proof -
  obtain r w1 where p: "update_proxy_config s w = (r, w1)" by (cases "update_proxy_config s w")
  then have w1: "w_db w1 = w_db w" "w_live w1 = w_live w" using proxy_keeps by blast+
  obtain as bs where ms: "miniverses (w_db w) = as @ mv # bs" using split_list [OF assms(2)] by blast
  have "m_id mv \<notin> m_id ` set as" using assms(1) ms by simp
  then have "\<forall>m \<in> set as. m_id m \<noteq> m_id mv" by (metis imageI)
  then have c: "get_miniverse_controller (m_id mv) (w_live (snd (forA (resume_controller s) as w1))) = None"
    using resume_controllers_other [of as "m_id mv" s w1] assms(4) w1 by simp
  have "\<exists>e. fst (forA (resume_controller s) (as @ mv # bs) w1) = Inl e"
    using invalid_version_fails [OF assms(3) c, of s]
    by (auto simp: forA_append thenA_apply split: prod.splits sum.splits)
  then show ?thesis
    using p w1 ms
    by (auto simp: startup_def proxy_startup_def miniverse_controller_manager_startup_def get_miniverses_def
        thenA_apply bindA_apply getA_apply split: prod.splits sum.splits)
qed

section \<open>What was started runs again\<close>

definition running :: "string \<Rightarrow> 'd world \<Rightarrow> bool" where
  "running i w \<longleftrightarrow> (\<exists>m. get_miniverse i (w_db w) = Some m \<and> m_started m \<and> m_container_id m \<noteq> None)"

interpretation rows: mod_writes "same miniverses"
proof unfold_locales
  show "moves (same miniverses) (insert_mod md)" for md
    by (auto intro!: movesI simp: same_def insert_mod_def)
qed (simp_all add: same_def)

lemma get_miniverse_same: "miniverses d = miniverses d' \<Longrightarrow> get_miniverse i d = get_miniverse i d'"
  by (simp add: get_miniverse_def)

lemma other_rows:
  "moves (via_db (same (get_miniverse j))) (on_docker dm)"
  "moves (via_db (same (get_miniverse j))) (on_live lm)"
  "j \<noteq> i \<Longrightarrow> (\<And>m. m_id (f m) = m_id m) \<Longrightarrow> moves (via_db (same (get_miniverse j))) (set_miniverse i f)"
  "reflp (via_db (same (get_miniverse j)))" "transp (via_db (same (get_miniverse j)))"
  by (auto simp: moves_def via_db_def same_def set_miniverse_def row_update
      reflp_def transp_def act_simps split: prod.splits)

lemma launch_other_rows: "j \<noteq> m_id mv \<Longrightarrow> moves (via_db (same (get_miniverse j))) (launch s mv)"
  unfolding launch_def create_miniverse_container_def controllerA_def publish_updated_def Let_def
  by (intro moves_intros other_rows) (simp_all add: other_rows)

lemma start_success:
  assumes "start_miniverse s mv w = (Inr x, w')" "get_miniverse (m_id mv) (w_db w) \<noteq> None"
  shows "running (m_id mv) w' \<and> (\<forall>j. j \<noteq> m_id mv \<longrightarrow> get_miniverse j (w_db w') = get_miniverse j (w_db w))"
proof -
  let ?i = "m_id mv"
  obtain w1 where i: "init_data_path s mv w = (Inr (), w1)"
    using assms(1) by (auto simp: start_unfold thenA_apply split: prod.splits sum.splits)
  have same: "miniverses (w_db w1) = miniverses (w_db w)"
    using movesD [OF rows.init_R, of w s mv] i by (simp add: via_db_def same_def)
  note g1 = get_miniverse_same [OF same]
  obtain m where m: "get_miniverse ?i (w_db w1) = Some m" using assms(2) g1 by auto
  let ?w2 = "w1\<lparr>w_db := w_db w1\<lparr>miniverses := update_by m_id ?i (\<lambda>m. m\<lparr>m_started := True\<rparr>) (miniverses (w_db w1))\<rparr>\<rparr>"
  have m2: "get_miniverse ?i (w_db ?w2) = Some (m\<lparr>m_started := True\<rparr>)" using m by (simp add: row_update)
  have l: "launch s mv ?w2 = (Inr x, w')"
    using assms(1) i by (simp add: start_unfold set_miniverse_def act_simps)
  obtain cid mv' where x: "x = (cid, mv')" by (cases x)
  have "running ?i w'"
    using launch_result [OF l [unfolded x] m2] by (simp add: running_def)
  moreover have "get_miniverse j (w_db w') = get_miniverse j (w_db w)" if "j \<noteq> ?i" for j
    using movesD [OF launch_other_rows [OF that, of s], of ?w2] l that g1
    by (simp add: via_db_def same_def row_update)
  ultimately show ?thesis by blast
qed

text \<open>\<open>calm w w'\<close>: no row went away and what ran still runs.\<close>

definition calm :: "'d world \<Rightarrow> 'd world \<Rightarrow> bool" where
  "calm w w' \<longleftrightarrow> (\<forall>i. (get_miniverse i (w_db w) \<noteq> None \<longrightarrow> get_miniverse i (w_db w') \<noteq> None) \<and>
     (running i w \<longrightarrow> running i w'))"

lemma calm_order: "reflp calm" "transp calm"
  by (auto simp: reflp_def transp_def calm_def)

lemma resume_container_step:
  assumes "resume_container s mv w = (Inr (), w')" "get_miniverse (m_id mv) (w_db w) \<noteq> None"
  shows "calm w w' \<and> (m_started mv \<longrightarrow> running (m_id mv) w')"
proof (cases "m_started mv")
  case True
  then obtain x where "start_miniverse s mv w = (Inr x, w')"
    using assms(1) by (auto simp: resume_container_def act_simps split: prod.splits sum.splits)
  note r = start_success [OF this assms(2)]
  have "calm w w'"
    unfolding calm_def
  proof
    fix j
    show "(get_miniverse j (w_db w) \<noteq> None \<longrightarrow> get_miniverse j (w_db w') \<noteq> None) \<and> (running j w \<longrightarrow> running j w')"
      using r by (cases "j = m_id mv") (auto simp: running_def)
  qed
  with r show ?thesis by simp
next
  case False
  then show ?thesis
    using assms(1) reflpD [OF calm_order(1)] by (auto simp: resume_container_def act_simps)
qed

lemma resume_containers:
  assumes "forA (resume_container s) ms w = (Inr (), w')"
    and "\<forall>m \<in> set ms. get_miniverse (m_id m) (w_db w) \<noteq> None"
  shows "calm w w' \<and> (\<forall>m \<in> set ms. m_started m \<longrightarrow> running (m_id m) w')"
proof (rule forA_post [where P = "\<lambda>m w. get_miniverse (m_id m) (w_db w) \<noteq> None" and R = calm
      and Q = "\<lambda>m w. m_started m \<longrightarrow> running (m_id m) w", OF _ _ _ assms(2,1) calm_order])
  show "calm s1 s2 \<and> (m_started x \<longrightarrow> running (m_id x) s2)"
    if "get_miniverse (m_id x) (w_db s1) \<noteq> None" "resume_container s x s1 = (Inr (), s2)" for s1 s2 x
    by (rule resume_container_step [OF that(2,1)])
qed (auto simp: calm_def)

lemma resume_controllers_db: "w_db (snd (forA (resume_controller s) ms w)) = w_db w"
proof -
  have "moves (same w_db) (forA (resume_controller s) ms)"
    unfolding resume_controller_def add_controller_def
    by (intro moves_intros moves_zoomA) (simp_all add: same_def)
  from movesD [OF this, of w] show ?thesis by (simp add: same_def)
qed

lemma start_proxy_db: "w_db (snd (start_proxy_containers s w)) = w_db w"
proof -
  have "moves (same w_db) (start_proxy_containers s)"
    unfolding start_proxy_containers_def by (intro moves_intros moves_zoomA) (simp_all add: same_def)
  from movesD [OF this, of w] show ?thesis by (simp add: same_def)
qed

text \<open>
  Property C25 (startup_resumes). A startup that succeeds leaves every miniverse that was marked as started still marked, with a
  container.
\<close>

theorem startup_resumes:
  assumes "startup s w = (Inr (), w')" "m \<in> set (miniverses (w_db w))" "m_started m"
  shows "running (m_id m) w'"
proof -
  obtain w1 w2 w3 where
    p: "update_proxy_config s w = (Inr (), w1)"
    and c: "forA (resume_controller s) (miniverses (w_db w1)) w1 = (Inr (), w2)"
    and d: "start_proxy_containers s w2 = (Inr (), w3)"
    and r: "forA (resume_container s) (miniverses (w_db w3)) w3 = (Inr (), w')"
    using assms(1)
    by (auto simp: startup_def proxy_startup_def miniverse_controller_manager_startup_def docker_startup_def
        get_miniverses_def thenA_Inr bindA_Inr getA_apply)
  have db: "w_db w3 = w_db w"
    using proxy_keeps [OF p] resume_controllers_db [of s "miniverses (w_db w1)" w1] c
      start_proxy_db [of s w2] d by simp
  have "\<forall>m \<in> set (miniverses (w_db w3)). get_miniverse (m_id m) (w_db w3) \<noteq> None"
    by (simp add: get_miniverse_def row_by_None_iff)
  from resume_containers [OF r this] show ?thesis using assms(2,3) db by simp
qed

text \<open>A daemon in which the containers still exist, under their names.\<close>

definition kept_services :: "string list services" where
  "kept_services = log_services\<lparr>s_docker := log_docker\<lparr>containers_named := (\<lambda>n. ret [n])\<rparr>\<rparr>"

lemma kept_proxy: "start_proxy_containers kept_services w = (Inr (), w)"
  by (simp add: start_proxy_containers_def kept_services_def log_services_def get_container_by_name_def act_simps)

theorem startup_resumes_witness: "running ''m1'' (snd (startup kept_services log_world))"
proof -
  let ?first = "thenA (proxy_startup kept_services) (miniverse_controller_manager_startup kept_services)"
  have f: "fst (?first log_world) = Inr ()" "miniverses (w_db (snd (?first log_world))) = [running_mv, other_mv]"
    "m_started running_mv" "\<not> m_started other_mv"
    "running_mv \<in> set (miniverses (w_db log_world))" "m_id running_mv = ''m1''"
    by code_simp+
  have st: "fst (start_miniverse kept_services running_mv (snd (?first log_world)))
      = Inr (''miniverse-m1'', running_mv\<lparr>m_container_id := Some ''miniverse-m1''\<rparr>)"
    by code_simp
  obtain w2 where w2: "?first log_world = (Inr (), w2)" using f(1) by (metis prod.collapse)
  obtain x w3 where w3: "start_miniverse kept_services running_mv w2 = (Inr x, w3)"
    using st w2 by (metis prod.collapse snd_conv)
  have "docker_startup kept_services w2 = (Inr (), w3)"
    using f(2-4) w2 w3
    by (simp add: docker_startup_def thenA_apply [of "start_proxy_containers _"] kept_proxy get_miniverses_def
        resume_container_def act_simps)
  then have "startup kept_services log_world = (Inr (), w3)"
    using w2 by (simp add: startup_def thenA_apply split: prod.splits sum.splits)
  with startup_resumes [OF this f(5,3)] f(6) show ?thesis by simp
qed

definition broken_world :: "string list world" where
  "broken_world = log_world\<lparr>w_db := (w_db log_world)\<lparr>miniverses := [running_mv, other_mv\<lparr>m_mc_version := ''latest''\<rparr>]\<rparr>,
     w_live := (w_live log_world)\<lparr>l_controllers := []\<rparr>\<rparr>"

theorem invalid_version_blocks_startup_witness:
  "\<exists>e. fst (startup log_services broken_world) = Inl e"
  by (rule invalid_version_blocks_startup [where mv = "other_mv\<lparr>m_mc_version := ''latest''\<rparr>"]) code_simp+

end
