(* ===== verification/Rpc.thy ===== *)
theory Rpc
  imports Connexion
begin

text \<open>
  \<open>app/services/rpc_service.py\<close> as a state machine: the task that connects to a game server again and
  again, and its refinement of the service that the manager sees; with the helpers of \<open>app/core/utils.py\<close>.
\<close>

section \<open>The connection loop\<close>

text \<open>
  Where the task of \<open>async_connect_loop\<close> is: there is none, it runs \<open>ws_connect\<close>, it waits while the
  server is connected (after \<open>on_connect\<close>), or it sleeps before the next attempt.
  \<open>rs_server\<close> says whether \<open>self.server\<close> is set.
\<close>

datatype phase = NoTask | Connecting | Connected | Sleeping

record rpc_state =
  rs_phase :: phase
  rs_server :: bool

definition new_rpc :: rpc_state where
  "new_rpc = \<lparr>rs_phase = NoTask, rs_server = False\<rparr>"

datatype rpc_event =
    Start | Cancel   \<comment> \<open>\<open>start()\<close> of the service, and the cancellation in \<open>stop()\<close>\<close>
  | Accepted | Refused   \<comment> \<open>\<open>ws_connect\<close> returns or raises\<close>
  | ConnectionLost   \<comment> \<open>\<open>on_connect\<close> raises, or the server is not connected any more\<close>
  | Awake

text \<open>
  Every way out of the \<open>try\<close> block, also by cancellation, runs \<open>finally\<close>, which clears \<open>self.server\<close>.
\<close>

inductive rpc_step :: "rpc_event \<Rightarrow> rpc_state \<Rightarrow> rpc_state \<Rightarrow> bool" where
  start: "rs_phase s = NoTask \<Longrightarrow> rpc_step Start s (s\<lparr>rs_phase := Connecting\<rparr>)"
| started: "rs_phase s \<noteq> NoTask \<Longrightarrow> rpc_step Start s s"
| accepted: "rs_phase s = Connecting \<Longrightarrow> rpc_step Accepted s (s\<lparr>rs_phase := Connected, rs_server := True\<rparr>)"
| refused: "rs_phase s = Connecting \<Longrightarrow> rpc_step Refused s (s\<lparr>rs_phase := Sleeping, rs_server := False\<rparr>)"
| lost: "rs_phase s = Connected \<Longrightarrow> rpc_step ConnectionLost s (s\<lparr>rs_phase := Sleeping, rs_server := False\<rparr>)"
| awake: "rs_phase s = Sleeping \<Longrightarrow> rpc_step Awake s (s\<lparr>rs_phase := Connecting\<rparr>)"
| cancel: "rs_phase s = Connecting \<or> rs_phase s = Connected \<Longrightarrow>
    rpc_step Cancel s (s\<lparr>rs_phase := NoTask, rs_server := False\<rparr>)"
| cancel_sleep: "rs_phase s = Sleeping \<Longrightarrow> rpc_step Cancel s (s\<lparr>rs_phase := NoTask\<rparr>)"
| cancel_none: "rs_phase s = NoTask \<Longrightarrow> rpc_step Cancel s s"

code_pred (modes: i \<Rightarrow> i \<Rightarrow> o \<Rightarrow> bool as run_step) rpc_step .

inductive_cases rpc_stepE [elim!]:
  "rpc_step Start s s'" "rpc_step Cancel s s'" "rpc_step Accepted s s'" "rpc_step Refused s s'"
  "rpc_step ConnectionLost s s'" "rpc_step Awake s s'"

inductive rpc_reachable :: "rpc_state \<Rightarrow> bool" where
  new: "rpc_reachable new_rpc"
| more: "rpc_reachable s \<Longrightarrow> rpc_step ev s s' \<Longrightarrow> rpc_reachable s'"

declare rpc_step.intros [intro]

text \<open>\<open>self.server\<close> is set exactly while the task watches a connection.\<close>

lemma server_iff_connected: "rpc_reachable s \<Longrightarrow> rs_server s \<longleftrightarrow> rs_phase s = Connected"
proof (induction rule: rpc_reachable.induct)
  case (more s ev s')
  then show ?case by (cases ev) auto
qed (simp add: new_rpc_def)

section \<open>The service that the manager sees\<close>

text \<open>The loop as the two flags of a \<open>WebSocket\<close> service.\<close>

definition service_of :: "rpc_state \<Rightarrow> controller" where
  "service_of s = WebSocket (rs_phase s \<noteq> NoTask) (rs_server s)"

text \<open>
  The specification of a step: \<open>start\<close> and the end of \<open>stop\<close> are the operations of the service, and
  in between only the connection of a running task changes.
\<close>

fun service_step :: "rpc_event \<Rightarrow> controller \<Rightarrow> controller \<Rightarrow> bool" where
  "service_step Start c c' = (c' = controller_start c)"
| "service_step Cancel c c' = (\<forall>ns rpc i h r h'. controller_stop ns rpc i c h = (Inr r, h') \<longrightarrow> c' = r)"
| "service_step Accepted c c' = (c = WebSocket True False \<and> c' = WebSocket True True)"
| "service_step Refused c c' = (c = WebSocket True False \<and> c' = c)"
| "service_step ConnectionLost c c' = (c = WebSocket True True \<and> c' = WebSocket True False)"
| "service_step Awake c c' = (c = WebSocket True False \<and> c' = c)"


lemma reach_connecting: "rpc_reachable \<lparr>rs_phase = Connecting, rs_server = False\<rparr>"
  using rpc_reachable.more [OF rpc_reachable.new rpc_step.start] by (simp add: new_rpc_def)


text \<open>Runs of the loop without the service being started or stopped.\<close>

inductive loop_run :: "rpc_event list \<Rightarrow> rpc_state \<Rightarrow> rpc_state \<Rightarrow> bool" where
  idle: "loop_run [] s s"
| step: "rpc_step ev s s1 \<Longrightarrow> ev \<noteq> Start \<Longrightarrow> ev \<noteq> Cancel \<Longrightarrow> loop_run evs s1 s2 \<Longrightarrow> loop_run (ev # evs) s s2"

text \<open>
  From every reachable state with a running task the loop comes to a connected state within two steps of its
  own when the server accepts, and a call is passed to the server there, while without a connection it answers null.
\<close>

theorem running_service_can_connect:
  assumes "rpc_reachable s" "rs_phase s \<noteq> NoTask"
  shows "\<exists>evs s'. length evs \<le> 2 \<and> set evs \<subseteq> {Awake, Accepted} \<and> loop_run evs s s' \<and>
    async_call_rpc rpc i (rs_server s') m args = rpc i m args \<and>
    (rs_phase s \<noteq> Connected \<longrightarrow> async_call_rpc rpc i (rs_server s) m args = Inr JNull)"
proof -
  have inv: "rs_server s \<longleftrightarrow> rs_phase s = Connected" by (rule server_iff_connected [OF assms(1)])
  show ?thesis
  proof (cases "rs_phase s")
    case NoTask
    with assms(2) show ?thesis by simp
  next
    case Connecting
    then have "loop_run [Accepted] s (s\<lparr>rs_phase := Connected, rs_server := True\<rparr>)"
      by (auto intro: loop_run.intros)
    with Connecting inv show ?thesis
      by (intro exI [of _ "[Accepted]"] exI [of _ "s\<lparr>rs_phase := Connected, rs_server := True\<rparr>"])
         (simp add: async_call_rpc_def)
  next
    case Connected
    with inv show ?thesis
      by (intro exI [of _ "[]"] exI [of _ s]) (simp add: async_call_rpc_def loop_run.idle)
  next
    case Sleeping
    let ?t = "s\<lparr>rs_phase := Connecting\<rparr>"
    have "rpc_step Awake s ?t" using Sleeping by auto
    moreover have "rpc_step Accepted ?t (?t\<lparr>rs_phase := Connected, rs_server := True\<rparr>)" by (rule rpc_step.accepted) simp
    ultimately have "loop_run [Awake, Accepted] s (?t\<lparr>rs_phase := Connected, rs_server := True\<rparr>)"
      by (auto intro!: loop_run.intros simp del: select_convs)
    with Sleeping inv show ?thesis
      by (intro exI [of _ "[Awake, Accepted]"] exI [of _ "?t\<lparr>rs_phase := Connected, rs_server := True\<rparr>"])
         (simp add: async_call_rpc_def)
  qed
qed

theorem running_service_can_connect_witness:
  "\<exists>evs s'. loop_run evs \<lparr>rs_phase = Connecting, rs_server = False\<rparr> s' \<and>
    async_call_rpc (\<lambda>_ _ _. Inr (JBool True)) ''m1'' (rs_server s') ''minecraft:players'' [] = Inr (JBool True)"
  using running_service_can_connect [OF reach_connecting, of "\<lambda>_ _ _. Inr (JBool True)" "''m1''" "''minecraft:players''" "[]"]
  by auto

section \<open>Addresses and handlers\<close>

definition websocket_uri_from_miniverse_id :: "string \<Rightarrow> string" where
  "websocket_uri_from_miniverse_id miniverse_id = ''ws://miniverse-'' @ miniverse_id @ '':25585''"

text \<open>\<open>setattr(self.server, ...)\<close> needs a server.\<close>

definition async_add_handler :: "rpc_state \<Rightarrow> exn + unit" where
  "async_add_handler s = (if rs_server s then Inr () else Inl AttributeError)"

text \<open>\<open>random.choice\<close> is a parameter: the index drawn for each position.\<close>

definition generate_random_string :: "(nat \<Rightarrow> nat) \<Rightarrow> nat \<Rightarrow> string" where
  "generate_random_string choice len =
    (let characters = ''abcdefghijklmnopqrstuvwxyzABCDEFGHIJKLMNOPQRSTUVWXYZ0123456789''
     in map (\<lambda>i. characters ! (choice i mod length characters)) [0..<len])"

end
