(* ===== verification/StatusTypes.thy ===== *)
theory StatusTypes
  imports Connexion
begin

text \<open>
  What the entries of the status store are: the players that the services write are well typed, and
  reading them cannot fail.
\<close>

section \<open>Well-typed entries\<close>

definition valid_player :: "json \<Rightarrow> bool" where
  "valid_player j \<longleftrightarrow> (case player_of_json j of Inl _ \<Rightarrow> False | Inr _ \<Rightarrow> True)"

text \<open>What the list of players may be: nothing, or a list of players.\<close>

fun players_typed :: "json \<Rightarrow> bool" where
  "players_typed JNull = True"
| "players_typed (JList js) = list_all valid_player js"
| "players_typed _ = False"

text \<open>What the seen players may be: nothing, or an object whose values are players.\<close>

fun seen_typed :: "json \<Rightarrow> bool" where
  "seen_typed JNull = True"
| "seen_typed (JObj kvs) = list_all valid_player (map snd kvs)"
| "seen_typed _ = False"

definition status_typed :: "string \<Rightarrow> string \<Rightarrow> hub \<Rightarrow> bool" where
  "status_typed ns i h \<longleftrightarrow> players_typed (status_value ns h i ''minecraft:players'') \<and>
     seen_typed (status_value ns h i ''miniverse:seen_players'')"

lemma players_typed_iff: "players_typed j \<longleftrightarrow> j = JNull \<or> (\<exists>js. j = JList js \<and> list_all valid_player js)"
  by (cases j) auto

lemma seen_typed_iff: "seen_typed j \<longleftrightarrow> j = JNull \<or> (\<exists>kvs. j = JObj kvs \<and> list_all valid_player (map snd kvs))"
  by (cases j) auto

lemma valid_playerE:
  assumes "valid_player j"
  obtains kvs p where "j = JObj kvs" "map_of kvs ''id'' = Some (JStr (pl_id p))" "player_of_json j = Inr p"
proof -
  obtain p where p: "player_of_json j = Inr p" using assms by (auto simp: valid_player_def split: sum.splits)
  then obtain kvs where j: "j = JObj kvs" by (cases j) auto
  with p have "str_field kvs ''id'' = Inr (pl_id p)" by (auto simp: bindE_eq_Inr)
  then have "map_of kvs ''id'' = Some (JStr (pl_id p))"
    by (auto simp: str_field_def split: option.splits json.splits)
  with j p that show ?thesis by blast
qed

lemma players_decode: "list_all valid_player js \<Longrightarrow> \<exists>ps. mapE player_of_json js = Inr ps"
proof (induction js)
  case (Cons j js)
  then obtain p ps where "player_of_json j = Inr p" "mapE player_of_json js = Inr ps"
    using valid_playerE by (auto elim: valid_playerE)
  then show ?case by simp
qed simp

lemma players_have_keys: "list_all valid_player js \<Longrightarrow> \<exists>ks. mapE player_key js = Inr ks"
proof (induction js)
  case (Cons j js)
  then obtain ks where "mapE player_key js = Inr ks" by auto
  moreover have "\<exists>k. player_key j = Inr k"
    using Cons.prems by (auto elim!: valid_playerE simp: player_key_def)
  ultimately show ?case by auto
qed simp

lemma update_values: "set (map snd (AList.update k v kvs)) \<subseteq> insert v (set (map snd kvs))"
  by (induction kvs) auto

lemma dict_update_values: "set (map snd (dict_update kvs new)) \<subseteq> set (map snd kvs) \<union> set (map snd new)"
proof (induction new arbitrary: kvs)
  case (Cons p new)
  obtain k v where p: "p = (k, v)" by (cases p)
  have "dict_update kvs (p # new) = dict_update (AList.update k v kvs) new" by (simp add: p dict_update_def)
  then show ?case using Cons.IH [of "AList.update k v kvs"] update_values [of k v kvs] p by auto
qed (simp add: dict_update_def)

lemma seen_dict:
  "seen_typed j \<Longrightarrow> \<exists>kvs. as_dict (or_empty j) = Inr kvs \<and> list_all valid_player (map snd kvs)"
  by (cases j) (simp_all add: or_empty_def)

lemma merge_typed:
  assumes "seen_typed seen" "list_all valid_player js"
  shows "\<exists>kvs. merge_seen seen (JList js) = Inr (JObj kvs) \<and> list_all valid_player (map snd kvs)"
proof -
  obtain ks where ks: "mapE player_key js = Inr ks" using players_have_keys [OF assms(2)] by blast
  obtain kvs where kvs: "as_dict (or_empty seen) = Inr kvs" "list_all valid_player (map snd kvs)"
    using seen_dict [OF assms(1)] by blast
  have "set (map snd (zip ks js)) \<subseteq> set js" by (auto dest: set_zip_rightD)
  with dict_update_values [of kvs "zip ks js"]
  have "set (map snd (dict_update kvs (zip ks js))) \<subseteq> set (map snd kvs) \<union> set js" by blast
  with kvs(2) assms(2) have "list_all valid_player (map snd (dict_update kvs (zip ks js)))"
    unfolding list_all_iff by blast
  with ks kvs(1) show ?thesis by (simp add: merge_seen_def)
qed

section \<open>Reads of a well-typed store\<close>

lemma seen_set:
  "status_set ns i ''miniverse:seen_players'' v False h = (Inr (), put_status ns i ''miniverse:seen_players'' v False h)"
  by (cases "v = JNull"; cases "kv_get (store_key ns i ''miniverse:seen_players'') h")
    (simp_all add: put_status_def status_set_def act_simps Let_def bytes_neq_str_def)

lemma players_set:
  "status_set ns i ''minecraft:players'' v True h = (Inr (), put_status ns i ''minecraft:players'' v True h)"
  using status_set_returns [OF event_type_of_value [of PLAYERS, unfolded event_type_value.simps], of ns i v h]
  by (auto simp: put_status_def)

lemma other_entry:
  "status_value ns (put_status ns i ''minecraft:players'' v p h) i ''miniverse:seen_players'' =
     status_value ns h i ''miniverse:seen_players''"
  "status_value ns (put_status ns i ''miniverse:seen_players'' v p h) i ''minecraft:players'' =
     status_value ns h i ''minecraft:players''"
  by (simp_all add: status_value_def kv_put_status store_key_def)

lemma cached_typed:
  assumes "status_typed ns i h" "\<forall>v. source ''minecraft:players'' = Inr v \<longrightarrow> players_typed v"
    and "get_data_cached ns i source ''minecraft:players'' refresh h = (r, h1)"
  shows "status_typed ns i h1 \<and> (case r of Inl e \<Rightarrow> source ''minecraft:players'' = Inl e
    | Inr (v, _) \<Rightarrow> players_typed v)"
  using assms
  by (auto simp: get_data_cached_def act_simps status_get_def players_set status_typed_def status.val_put_same
      other_entry split: sum.splits prod.splits if_splits)

text \<open>
  Property C22 (player_reads_are_typed). While the entries of a miniverse are well typed and the server answers with players,
  refreshing or reading the player list keeps them well typed, reading the seen players succeeds, and no error occurs
  but the one of the server itself.
\<close>

theorem player_reads_are_typed:
  assumes "status_typed ns i h" "\<forall>v. source ''minecraft:players'' = Inr v \<longrightarrow> players_typed v"
  shows "status_typed ns i (snd (get_msmp_player_list ns i source refresh h)) \<and>
    (\<exists>ps. get_msmp_seen_player_list ns i h = (Inr ps, h)) \<and>
    (case fst (get_msmp_player_list ns i source refresh h) of
       Inl e \<Rightarrow> source ''minecraft:players'' = Inl e | Inr _ \<Rightarrow> True)"
proof -
  obtain kvs where "as_dict (or_empty (status_value ns h i ''miniverse:seen_players'')) = Inr kvs"
      "list_all valid_player (map snd kvs)"
    using assms(1) seen_dict by (auto simp: status_typed_def)
  then have seen: "\<exists>ps. get_msmp_seen_player_list ns i h = (Inr ps, h)"
    using players_decode [of "map snd kvs"] by (auto simp: get_msmp_seen_player_list_def status_get_def act_simps)
  obtain r h1 where g: "get_data_cached ns i source ''minecraft:players'' refresh h = (r, h1)"
    by (cases "get_data_cached ns i source ''minecraft:players'' refresh h")
  note c = cached_typed [OF assms g]
  show ?thesis
  proof (cases r)
    case (Inl e)
    with g c seen show ?thesis by (simp add: get_msmp_player_list_def act_simps)
  next
    case (Inr x)
    then obtain v b where x: "r = Inr (v, b)" by (cases x) auto
    with c have "players_typed v" by simp
    then consider "v = JNull" | js where "v = JList js" "list_all valid_player js"
      by (auto simp: players_typed_iff)
    then show ?thesis
    proof cases
      case 1
      with g x c seen show ?thesis by (simp add: get_msmp_player_list_def act_simps)
    next
      case 2
      obtain kvs' where m: "merge_seen (status_value ns h1 i ''miniverse:seen_players'') v = Inr (JObj kvs')"
          "list_all valid_player (map snd kvs')"
        using merge_typed [of _ js] c 2 by (auto simp: status_typed_def)
      obtain ps where "mapE player_of_json js = Inr ps" using players_decode [OF 2(2)] by blast
      with g x c seen 2 m show ?thesis
        by (cases b)
          (simp_all add: get_msmp_player_list_def act_simps status_get_def seen_set status_typed_def
            status.val_put_same other_entry)
    qed
  qed
qed

theorem player_reads_are_typed_witness:
  "status_typed ''r:'' ''m1'' (snd (get_msmp_player_list ''r:'' ''m1''
     (\<lambda>_. Inr (JList [player_dump \<lparr>pl_id = ''b'', pl_name = ''Bob''\<rparr>])) True
     \<lparr>kv = [(''r:m1.miniverse:seen_players'', JsonText (JObj [(''a'', player_dump \<lparr>pl_id = ''a'', pl_name = ''Ann''\<rparr>)]))],
      channel = []\<rparr>))"
proof -
  have "status_typed ''r:'' ''m1''
     \<lparr>kv = [(''r:m1.miniverse:seen_players'', JsonText (JObj [(''a'', player_dump \<lparr>pl_id = ''a'', pl_name = ''Ann''\<rparr>)]))],
      channel = []\<rparr>" by code_simp
  from player_reads_are_typed [OF this, of "\<lambda>_. Inr (JList [player_dump \<lparr>pl_id = ''b'', pl_name = ''Bob''\<rparr>])" True]
  show ?thesis by (simp add: valid_player_def)
qed

end
