(* ===== verification/Migrations.thy ===== *)
theory Migrations
  imports Prelude
begin

text \<open>
  \<open>alembic/versions\<close>: the four revisions of the database schema, their upgrades and downgrades as
  operations on a catalogue of tables, and the tables that \<open>app/models\<close> declares. \<open>alembic/env.py\<close>: the deployment
  that applies the revisions after the stored one.
\<close>

section \<open>Schemas\<close>

datatype sql_type = SString nat | SText | SBoolean | SEnum "string list"

record column =
  col_name :: string
  col_type :: sql_type
  col_nullable :: bool
  col_default :: "string option"   \<comment> \<open>\<open>server_default\<close>\<close>

record foreign_key =
  fk_column :: string
  fk_table :: string
  fk_cascade :: bool

record table_index =
  ix_name :: string
  ix_column :: string
  ix_unique :: bool

record sql_table =
  tab_columns :: "column list"
  tab_key :: "string list"
  tab_foreign :: "foreign_key list"
  tab_indexes :: "table_index list"

type_synonym schema = "(string \<times> sql_table) list"

section \<open>Operations of Alembic\<close>

datatype schema_op =
    CreateTable string "column list" "string list" "foreign_key list"
  | DropTable string
  | AddColumn string column
  | DropColumn string string
  | AlterNullable string string bool
  | CreateIndex string table_index
  | DropIndex string string

definition has_column :: "sql_table \<Rightarrow> string \<Rightarrow> bool" where
  "has_column t c \<longleftrightarrow> c \<in> col_name ` set (tab_columns t)"

definition referenced :: "schema \<Rightarrow> string \<Rightarrow> bool" where
  "referenced S n \<longleftrightarrow> list_ex (\<lambda>(m, t). m \<noteq> n \<and> n \<in> fk_table ` set (tab_foreign t)) S"

text \<open>A change of one table, when the table exists and the change is possible.\<close>

definition on_table :: "string \<Rightarrow> (sql_table \<Rightarrow> bool) \<Rightarrow> (sql_table \<Rightarrow> sql_table) \<Rightarrow> schema \<Rightarrow> exn + schema" where
  "on_table n ok f S = (case map_of S n of
     None \<Rightarrow> Inl OperationalError
   | Some t \<Rightarrow> if ok t then Inr (AList.map_entry n f S) else Inl OperationalError)"

fun apply_op :: "schema_op \<Rightarrow> schema \<Rightarrow> exn + schema" where
  "apply_op (CreateTable n cs key fks) S =
     (if map_of S n \<noteq> None \<or> \<not> fk_table ` set fks \<subseteq> fst ` set S then Inl OperationalError
      else Inr (S @ [(n, \<lparr>tab_columns = cs, tab_key = key, tab_foreign = fks, tab_indexes = []\<rparr>)]))"
| "apply_op (DropTable n) S =
     (if map_of S n = None \<or> referenced S n then Inl OperationalError else Inr (AList.delete n S))"
| "apply_op (AddColumn n c) S =
     on_table n (\<lambda>t. \<not> has_column t (col_name c)) (\<lambda>t. t\<lparr>tab_columns := tab_columns t @ [c]\<rparr>) S"
| "apply_op (DropColumn n c) S =
     on_table n (\<lambda>t. has_column t c)
       (\<lambda>t. t\<lparr>tab_columns := filter (\<lambda>x. col_name x \<noteq> c) (tab_columns t)\<rparr>) S"
| "apply_op (AlterNullable n c b) S =
     on_table n (\<lambda>t. has_column t c)
       (\<lambda>t. t\<lparr>tab_columns := map (\<lambda>x. if col_name x = c then x\<lparr>col_nullable := b\<rparr> else x) (tab_columns t)\<rparr>) S"
| "apply_op (CreateIndex n ix) S =
     on_table n (\<lambda>t. has_column t (ix_column ix) \<and> ix_name ix \<notin> ix_name ` set (tab_indexes t))
       (\<lambda>t. t\<lparr>tab_indexes := tab_indexes t @ [ix]\<rparr>) S"
| "apply_op (DropIndex n i) S =
     on_table n (\<lambda>t. i \<in> ix_name ` set (tab_indexes t))
       (\<lambda>t. t\<lparr>tab_indexes := filter (\<lambda>x. ix_name x \<noteq> i) (tab_indexes t)\<rparr>) S"

fun apply_ops :: "schema_op list \<Rightarrow> schema \<Rightarrow> exn + schema" where
  "apply_ops [] S = Inr S"
| "apply_ops (op # ops) S = (case apply_op op S of Inl e \<Rightarrow> Inl e | Inr S' \<Rightarrow> apply_ops ops S')"

section \<open>The four revisions\<close>

record revision =
  rev_id :: string
  rev_down :: "string option"
  rev_upgrade :: "schema_op list"
  rev_downgrade :: "schema_op list"

definition required :: "string \<Rightarrow> sql_type \<Rightarrow> column" where
  "required n t = \<lparr>col_name = n, col_type = t, col_nullable = False, col_default = None\<rparr>"

definition optional :: "string \<Rightarrow> sql_type \<Rightarrow> column" where
  "optional n t = \<lparr>col_name = n, col_type = t, col_nullable = True, col_default = None\<rparr>"

definition miniverse_types :: sql_type where
  "miniverse_types = SEnum [''VANILLA'', ''PAPER'', ''FABRIC'', ''FORGE'', ''NEO_FORGE'']"

definition role_names :: sql_type where
  "role_names = SEnum [''NONE'', ''USER'', ''MODERATOR'', ''ADMIN'']"

definition initial_migration :: revision where
  "initial_migration = \<lparr>rev_id = ''a524f7b6c960'', rev_down = None,
    rev_upgrade =
     [CreateTable ''miniverses''
        [required ''id'' (SString 36), required ''name'' (SString 128), required ''type'' miniverse_types,
         optional ''description'' SText, optional ''container_id'' (SString 64),
         required ''mc_version'' (SString 64), required ''subdomain'' (SString 128),
         required ''is_on_lite_proxy'' SBoolean, required ''started'' SBoolean,
         optional ''management_server_secret'' (SString 40)] [''id''] [],
      CreateTable ''users''
        [required ''id'' (SString 36), required ''is_active'' SBoolean, required ''username'' (SString 128),
         required ''role'' role_names] [''id''] [],
      CreateIndex ''users'' \<lparr>ix_name = ''ix_users_is_active'', ix_column = ''is_active'', ix_unique = False\<rparr>,
      CreateIndex ''users'' \<lparr>ix_name = ''ix_users_username'', ix_column = ''username'', ix_unique = True\<rparr>,
      CreateTable ''miniverse_user_roles''
        [required ''user_id'' (SString 36), required ''miniverse_id'' (SString 36), required ''role'' role_names]
        [''user_id'', ''miniverse_id'']
        [\<lparr>fk_column = ''miniverse_id'', fk_table = ''miniverses'', fk_cascade = True\<rparr>,
         \<lparr>fk_column = ''user_id'', fk_table = ''users'', fk_cascade = True\<rparr>],
      CreateTable ''mods''
        [required ''id'' (SString 36), required ''slug'' (SString 128), optional ''version_id'' (SString 16),
         optional ''project_id'' (SString 16), required ''title'' (SString 128), optional ''icon_url'' SText,
         optional ''version_name'' (SString 128), optional ''version_number'' (SString 128),
         required ''file_name'' (SString 128), required ''miniverse_id'' (SString 36)] [''id'']
        [\<lparr>fk_column = ''miniverse_id'', fk_table = ''miniverses'', fk_cascade = False\<rparr>]],
    rev_downgrade =
     [DropTable ''mods'', DropTable ''miniverse_user_roles'', DropIndex ''users'' ''ix_users_username'',
      DropIndex ''users'' ''ix_users_is_active'', DropTable ''users'', DropTable ''miniverses'']\<rparr>"

definition allow_bedrock_migration :: revision where
  "allow_bedrock_migration = \<lparr>rev_id = ''a35a7fd95c00'', rev_down = Some ''a524f7b6c960'',
    rev_upgrade = [AddColumn ''miniverses''
      \<lparr>col_name = ''allow_bedrock'', col_type = SBoolean, col_nullable = False, col_default = Some ''false''\<rparr>],
    rev_downgrade = [DropColumn ''miniverses'' ''allow_bedrock'']\<rparr>"

definition java_version_migration :: revision where
  "java_version_migration = \<lparr>rev_id = ''974e10781089'', rev_down = Some ''a35a7fd95c00'',
    rev_upgrade = [AddColumn ''miniverses'' (optional ''java_version'' (SString 64)),
                   AlterNullable ''miniverses'' ''allow_bedrock'' False],
    rev_downgrade = [AlterNullable ''miniverses'' ''allow_bedrock'' True,
                     DropColumn ''miniverses'' ''java_version'']\<rparr>"

definition online_mode_migration :: revision where
  "online_mode_migration = \<lparr>rev_id = ''0bae0007b159'', rev_down = Some ''974e10781089'',
    rev_upgrade = [AddColumn ''miniverses''
      \<lparr>col_name = ''online_mode'', col_type = SBoolean, col_nullable = False, col_default = Some ''true''\<rparr>],
    rev_downgrade = [DropColumn ''miniverses'' ''online_mode'']\<rparr>"

definition history :: "revision list" where
  "history = [initial_migration, allow_bedrock_migration, java_version_migration, online_mode_migration]"

definition upgrade_all :: "schema \<Rightarrow> exn + schema" where
  "upgrade_all S = apply_ops (concat (map rev_upgrade history)) S"

definition downgrade_all :: "schema \<Rightarrow> exn + schema" where
  "downgrade_all S = apply_ops (concat (map rev_downgrade (rev history))) S"

section \<open>The tables of the models\<close>

text \<open>What \<open>app/models\<close> declares (the default string length of the settings is 128).\<close>

definition miniverses_table :: sql_table where
  "miniverses_table = \<lparr>tab_columns =
     [required ''id'' (SString 36), required ''name'' (SString 128), required ''type'' miniverse_types,
      optional ''description'' SText, optional ''container_id'' (SString 64),
      optional ''java_version'' (SString 64), required ''mc_version'' (SString 64),
      required ''subdomain'' (SString 128), required ''online_mode'' SBoolean,
      required ''is_on_lite_proxy'' SBoolean, required ''allow_bedrock'' SBoolean,
      required ''started'' SBoolean, optional ''management_server_secret'' (SString 40)],
     tab_key = [''id''], tab_foreign = [], tab_indexes = []\<rparr>"

definition mods_table :: sql_table where
  "mods_table = \<lparr>tab_columns =
     [required ''id'' (SString 36), required ''slug'' (SString 128), optional ''version_id'' (SString 16),
      optional ''project_id'' (SString 16), required ''title'' (SString 128), optional ''icon_url'' SText,
      optional ''version_name'' (SString 128), optional ''version_number'' (SString 128),
      required ''file_name'' (SString 128), required ''miniverse_id'' (SString 36)],
     tab_key = [''id''],
     tab_foreign = [\<lparr>fk_column = ''miniverse_id'', fk_table = ''miniverses'', fk_cascade = False\<rparr>],
     tab_indexes = []\<rparr>"

definition users_table :: sql_table where
  "users_table = \<lparr>tab_columns =
     [required ''id'' (SString 36), required ''is_active'' SBoolean, required ''username'' (SString 128),
      required ''role'' role_names],
     tab_key = [''id''], tab_foreign = [],
     tab_indexes = [\<lparr>ix_name = ''ix_users_is_active'', ix_column = ''is_active'', ix_unique = False\<rparr>,
                    \<lparr>ix_name = ''ix_users_username'', ix_column = ''username'', ix_unique = True\<rparr>]\<rparr>"

definition user_roles_table :: sql_table where
  "user_roles_table = \<lparr>tab_columns =
     [required ''user_id'' (SString 36), required ''miniverse_id'' (SString 36), required ''role'' role_names],
     tab_key = [''user_id'', ''miniverse_id''],
     tab_foreign = [\<lparr>fk_column = ''user_id'', fk_table = ''users'', fk_cascade = True\<rparr>,
                    \<lparr>fk_column = ''miniverse_id'', fk_table = ''miniverses'', fk_cascade = True\<rparr>],
     tab_indexes = []\<rparr>"

definition model_schema :: schema where
  "model_schema = [(''miniverses'', miniverses_table), (''mods'', mods_table), (''users'', users_table),
     (''miniverse_user_roles'', user_roles_table)]"

text \<open>Equal up to the order of columns and tables and to server defaults, which the models do not declare.\<close>

definition same_set :: "'a list \<Rightarrow> 'a list \<Rightarrow> bool" where
  "same_set xs ys \<longleftrightarrow> list_all (\<lambda>x. List.member ys x) xs \<and> list_all (\<lambda>y. List.member xs y) ys"

definition same_table :: "sql_table \<Rightarrow> sql_table \<Rightarrow> bool" where
  "same_table t u \<longleftrightarrow>
     same_set (map (\<lambda>c. c\<lparr>col_default := None\<rparr>) (tab_columns t)) (map (\<lambda>c. c\<lparr>col_default := None\<rparr>) (tab_columns u)) \<and>
     tab_key t = tab_key u \<and> same_set (tab_foreign t) (tab_foreign u) \<and> same_set (tab_indexes t) (tab_indexes u)"

definition same_schema :: "schema \<Rightarrow> schema \<Rightarrow> bool" where
  "same_schema S T \<longleftrightarrow> same_set (map fst S) (map fst T) \<and>
     list_all (\<lambda>(n, t). case map_of T n of None \<Rightarrow> False | Some u \<Rightarrow> same_table t u) S"

text \<open>
  Running all revisions on an empty database succeeds and builds exactly the
  tables that the models declare: columns with type and nullability, keys, foreign keys and indexes; the
  revisions form one chain, and going all the way back succeeds and leaves an empty database.
\<close>

theorem migrations_build_the_models:
  "(case upgrade_all [] of Inl _ \<Rightarrow> False
    | Inr S \<Rightarrow> same_schema S model_schema \<and> downgrade_all S = Inr []) \<and>
   map rev_down history = None # map Some (butlast (map rev_id history))"
proof
  show "case upgrade_all [] of Inl _ \<Rightarrow> False
    | Inr S \<Rightarrow> same_schema S model_schema \<and> downgrade_all S = Inr []" by code_simp
  show "map rev_down history = None # map Some (butlast (map rev_id history))" by code_simp
qed

section \<open>Going back\<close>

lemma on_table_Inr:
  "on_table n ok f S = Inr S' \<longleftrightarrow> (\<exists>t. map_of S n = Some t \<and> ok t \<and> S' = AList.map_entry n f S)"
  by (auto simp: on_table_def split: option.splits)

lemma map_entry_id:
  "map_of S n = Some t \<Longrightarrow> f t = t \<Longrightarrow> AList.map_entry n f S = S"
  by (induction S) (auto split: if_splits)

lemma map_entry_twice: "AList.map_entry n f (AList.map_entry n g S) = AList.map_entry n (f \<circ> g) S"
  by (induction S) auto

lemma map_of_map_entry: "map_of (AList.map_entry n f S) n = map_option f (map_of S n)"
  by (induction S) auto

lemma drop_added:
  assumes "apply_op (AddColumn n c) S = Inr S1"
  shows "apply_op (DropColumn n (col_name c)) S1 = Inr S"
proof -
  obtain t where t: "map_of S n = Some t" "\<not> has_column t (col_name c)"
      "S1 = AList.map_entry n (\<lambda>t. t\<lparr>tab_columns := tab_columns t @ [c]\<rparr>) S"
    using assms by (auto simp: on_table_Inr)
  have "filter (\<lambda>x. col_name x \<noteq> col_name c) (tab_columns t) = tab_columns t"
    using t(2) by (auto simp: has_column_def filter_id_conv image_iff)
  with t have "AList.map_entry n (\<lambda>t. t\<lparr>tab_columns := filter (\<lambda>x. col_name x \<noteq> col_name c) (tab_columns t)\<rparr>) S1 = S"
    by (simp add: map_entry_twice) (rule map_entry_id, auto)
  then show ?thesis
    using t by (simp add: on_table_Inr map_of_map_entry has_column_def)
qed

text \<open>
  Downgrading one of the two revisions that add a column with a default gives back
  the schema from before its upgrade, whatever that schema was.
\<close>

theorem column_migrations_reverse:
  assumes "m = allow_bedrock_migration \<or> m = online_mode_migration" "apply_ops (rev_upgrade m) S = Inr S1"
  shows "apply_ops (rev_downgrade m) S1 = Inr S"
proof -
  have "\<exists>c. rev_upgrade m = [AddColumn ''miniverses'' c] \<and> rev_downgrade m = [DropColumn ''miniverses'' (col_name c)]"
    using assms(1) by (elim disjE) (simp_all add: allow_bedrock_migration_def online_mode_migration_def)
  then obtain c where m: "rev_upgrade m = [AddColumn ''miniverses'' c]"
      "rev_downgrade m = [DropColumn ''miniverses'' (col_name c)]" by blast
  with assms(2) have "apply_op (AddColumn ''miniverses'' c) S = Inr S1"
    by (auto split: sum.splits simp del: apply_op.simps)
  from drop_added [OF this] m show ?thesis by (simp del: apply_op.simps)
qed

theorem column_migrations_reverse_witness:
  "\<exists>S S1. apply_ops (rev_upgrade initial_migration) [] = Inr S \<and>
     apply_ops (rev_upgrade allow_bedrock_migration) S = Inr S1 \<and>
     apply_ops (rev_downgrade allow_bedrock_migration) S1 = Inr S"
proof -
  have "(case apply_ops (rev_upgrade initial_migration) [] of Inl _ \<Rightarrow> False
     | Inr S \<Rightarrow> (case apply_ops (rev_upgrade allow_bedrock_migration) S of Inl _ \<Rightarrow> False | Inr _ \<Rightarrow> True))"
    by code_simp
  then obtain S S1 where "apply_ops (rev_upgrade initial_migration) [] = Inr S"
      "apply_ops (rev_upgrade allow_bedrock_migration) S = Inr S1"
    by (auto split: sum.splits)
  with column_migrations_reverse [of allow_bedrock_migration S S1] show ?thesis by blast
qed

section \<open>Deployments\<close>

text \<open>
  A database with the revision that Alembic has stored in it. \<open>alembic upgrade head\<close>, which every deployment runs,
  goes through \<open>alembic/env.py\<close>: online it applies the revisions after the stored one, one after another, and
  stores the last; offline it only prints the script of all revisions. The application itself creates the tables
  that are missing when it starts (\<open>create_all\<close> in \<open>app/db/session.py\<close>) and stores no revision.
\<close>

record database =
  db_schema :: schema
  db_version :: "string option"

definition pending :: "string option \<Rightarrow> exn + revision list" where
  "pending v = (case v of
     None \<Rightarrow> Inr history
   | Some i \<Rightarrow> if i \<notin> rev_id ` set history then Inl CommandError
               else Inr (tl (dropWhile (\<lambda>r. rev_id r \<noteq> i) history)))"

definition run_migrations_online :: "database \<Rightarrow> exn + database" where
  "run_migrations_online d = (case pending (db_version d) of
     Inl e \<Rightarrow> Inl e
   | Inr revs \<Rightarrow> (case apply_ops (concat (map rev_upgrade revs)) (db_schema d) of
        Inl e \<Rightarrow> Inl e
      | Inr S \<Rightarrow> Inr (if revs = [] then d else \<lparr>db_schema = S, db_version = Some (rev_id (last revs))\<rparr>)))"

definition run_migrations_offline :: "schema_op list" where
  "run_migrations_offline = concat (map rev_upgrade history)"

definition create_all :: "database \<Rightarrow> database" where
  "create_all d = d\<lparr>db_schema := db_schema d @ filter (\<lambda>(n, _). map_of (db_schema d) n = None) model_schema\<rparr>"

text \<open>The database after the first \<open>k\<close> revisions.\<close>

definition after_revisions :: "nat \<Rightarrow> exn + database" where
  "after_revisions k = (case apply_ops (concat (map rev_upgrade (take k history))) [] of
     Inl e \<Rightarrow> Inl e
   | Inr S \<Rightarrow> Inr \<lparr>db_schema = S, db_version = (if k = 0 then None else Some (rev_id (history ! (k - 1))))\<rparr>)"

lemma apply_ops_append:
  "apply_ops (xs @ ys) S = (case apply_ops xs S of Inl e \<Rightarrow> Inl e | Inr S' \<Rightarrow> apply_ops ys S')"
  by (induction xs arbitrary: S) (auto split: sum.splits simp del: apply_op.simps)

lemma history_ids: "distinct (map rev_id history)" "length history = 4"
  by code_simp+

lemma drop_to_nth:
  assumes "distinct (map f xs)" "k < length xs"
  shows "dropWhile (\<lambda>x. f x \<noteq> f (xs ! k)) xs = drop k xs"
proof -
  have "f x \<noteq> f (xs ! k)" if "x \<in> set (take k xs)" for x
    using that assms by (auto simp: in_set_conv_nth nth_eq_iff_index_eq distinct_map inj_on_def)
      (metis less_trans nat_neq_iff nth_eq_iff_index_eq nth_mem)
  then have "dropWhile (\<lambda>x. f x \<noteq> f (xs ! k)) (take k xs @ drop k xs) = dropWhile (\<lambda>x. f x \<noteq> f (xs ! k)) (drop k xs)"
    by (intro dropWhile_append2) auto
  also have "\<dots> = drop k xs" using assms(2) by (simp add: dropWhile_eq_self_iff hd_drop_conv_nth)
  finally show ?thesis by simp
qed

lemma pending_after:
  assumes "0 < k" "k \<le> 4"
  shows "pending (Some (rev_id (history ! (k - 1)))) = Inr (drop k history)"
proof -
  obtain j where k: "k = Suc j" using assms(1) by (cases k) auto
  then have "j < length history" using assms history_ids(2) by simp
  with drop_to_nth [OF history_ids(1) this] show ?thesis
    by (simp add: k pending_def drop_Suc tl_drop)
qed

text \<open>
  Property C28 (deployment_reaches_head). A deployment brings a database from any revision to the head: the result is the database that all revisions build
  from nothing, it has the tables of the models, and neither the start of the application nor a further
  deployment changes it.
\<close>

theorem deployment_reaches_head:
  assumes "k \<le> 4" "after_revisions k = Inr d"
  shows "\<exists>d'. run_migrations_online d = Inr d' \<and> after_revisions 4 = Inr d' \<and> same_schema (db_schema d') model_schema \<and>
    create_all d' = d' \<and> run_migrations_online d' = Inr d'"
proof -
  have "\<exists>d'. after_revisions 4 = Inr d' \<and> same_schema (db_schema d') model_schema \<and> create_all d' = d' \<and>
      run_migrations_online d' = Inr d'"
  proof -
    have "(case after_revisions 4 of Inl _ \<Rightarrow> False | Inr d' \<Rightarrow> same_schema (db_schema d') model_schema)" by code_simp
    moreover have "(case after_revisions 4 of Inl _ \<Rightarrow> False | Inr d' \<Rightarrow> create_all d' = d')" by code_simp
    moreover have "(case after_revisions 4 of Inl _ \<Rightarrow> False | Inr d' \<Rightarrow> run_migrations_online d' = Inr d')" by code_simp
    ultimately show ?thesis by (auto split: sum.splits)
  qed
  then obtain d' where d': "after_revisions 4 = Inr d'" "same_schema (db_schema d') model_schema" "create_all d' = d'"
    "run_migrations_online d' = Inr d'" by blast
  have "run_migrations_online d = Inr d'"
  proof (cases "k = 4")
    case True
    with assms(2) d' show ?thesis by simp
  next
    case False
    obtain S where S: "apply_ops (concat (map rev_upgrade (take k history))) [] = Inr S"
      "d = \<lparr>db_schema = S, db_version = (if k = 0 then None else Some (rev_id (history ! (k - 1))))\<rparr>"
      using assms(2) by (auto simp: after_revisions_def split: sum.splits)
    have "apply_ops (concat (map rev_upgrade (drop k history))) S = apply_ops (concat (map rev_upgrade history)) []"
      using S(1) apply_ops_append [of "concat (map rev_upgrade (take k history))" "concat (map rev_upgrade (drop k history))" "[]"]
      by (simp flip: concat_append map_append)
    moreover have "pending (db_version d) = Inr (drop k history)"
      using S(2) pending_after [of k] assms(1) by (cases "k = 0") (auto simp: pending_def)
    moreover have "drop k history \<noteq> []" "last (drop k history) = history ! 3"
      using False assms(1) history_ids(2) by (simp_all add: last_drop last_conv_nth)
    ultimately show ?thesis
      using d'(1) S(2) history_ids(2) by (auto simp: run_migrations_online_def after_revisions_def split: sum.splits)
  qed
  with d' show ?thesis by blast
qed

theorem deployment_reaches_head_witness:
  "(case after_revisions 2 of Inl _ \<Rightarrow> False
    | Inr d \<Rightarrow> \<exists>d'. run_migrations_online d = Inr d' \<and> same_schema (db_schema d') model_schema)"
proof -
  have "(case after_revisions 2 of Inl _ \<Rightarrow> False | Inr _ \<Rightarrow> True)" by code_simp
  then obtain d where "after_revisions 2 = Inr d" by (auto split: sum.splits)
  with deployment_reaches_head [of 2 d] show ?thesis by auto
qed

text \<open>
  A database that the application has created when it started cannot be migrated: its tables exist and no
  revision is stored, so the first revision fails.
\<close>

theorem started_before_migrating:
  "run_migrations_online (create_all \<lparr>db_schema = [], db_version = None\<rparr>) = Inl OperationalError"
  by code_simp

end
