(* ===== verification/Stopping.thy ===== *)
theory Stopping
  imports LifecycleProps
begin

text \<open>
  Stopping a miniverse and refusing to go back to an older version: what has changed when a stop returns, and that a
  refused change of version has changed nothing.
\<close>

section \<open>Stopping\<close>

text \<open>A control service at rest: a router that holds no players, a websocket service without a task.\<close>

fun at_rest :: "controller \<Rightarrow> bool" where
  "at_rest (MCRouter online) = (online = [])"
| "at_rest (WebSocket running connected) = (\<not> running)"

lemma stop_at_rest: "controller_stop ns rpc i c h = (Inr c', h') \<Longrightarrow> at_rest c'"
  by (cases c) (auto simp: thenA_Inr ret_apply)

lemma set_controller_at:
  "on_live (set_controller i c) w = (Inr (), w') \<Longrightarrow>
   get_miniverse_controller j (w_live w') = (if j = i then Some c else get_miniverse_controller j (w_live w))"
  by (auto simp: set_controller_def act_simps get_miniverse_controller_def update_conv')

lemma stop_container_only:
  assumes "stop_miniverse_container s mv w = (r, w')"
  shows "w_db w' = w_db w \<and> w_fs w' = w_fs w \<and> w_live w' = w_live w"
proof -
  have "moves (\<lambda>w w'. w_db w' = w_db w \<and> w_fs w' = w_fs w \<and> w_live w' = w_live w) (stop_miniverse_container s mv)"
    unfolding stop_miniverse_container_def
    by (intro moves_intros) (auto simp: reflp_def transp_def moves_def zoomA_apply split: prod.splits)
  from movesD [OF this, of w] assms show ?thesis by simp
qed

lemma controllerA_state: "controllerA i w = (r, w') \<Longrightarrow> w' = w"
  by (auto simp: controllerA_def act_simps split: option.splits)




section \<open>Refused version changes\<close>

text \<open>
  Property C19 (downgrade_is_refused). A request to change a miniverse from a release to an older one is refused before
  anything happens: no file, row, container or cached value changes, even with modified servers and when the update is forced.
\<close>

theorem downgrade_is_refused:
  assumes "small v" "small v'" "main_of v' < main_of v" "m_mc_version mv = release_text v"
  shows "update_miniverse_game_version s mv (release_text v') force w = (Inl ValidationException, w)"
proof -
  obtain M m po where v: "v = (M, m, po)" by (cases v)
  obtain M' m' po' where v': "v' = (M', m', po')" by (cases v')
  note pv = parse_version_release [of M m po] and pw = parse_version_release [of M' m' po']
  have ne: "release_text v \<noteq> release_text v'"
    using assms pv pw by (auto simp: v v' release_text_def small_def main_of_def)
  have "compare_versions iso fetch (release_text v) (release_text v') st = (Inr (Some 1), st)" for iso fetch st
    using assms pv pw ne
    by (auto simp: compare_versions_def release_text_def small_def main_of_def v v' Let_def
        compare_main_versions_lex act_simps py_cmp_def less_prod_def of_bool_def)
  with ne assms(4) show ?thesis
    by (simp add: update_miniverse_game_version_def act_simps)
qed

theorem downgrade_is_refused_witness:
  "update_miniverse_game_version log_services (running_mv\<lparr>m_mc_version := ''1.21.4''\<rparr>) ''1.8.9'' True log_world
     = (Inl ValidationException, log_world)"
proof -
  have t: "release_text (1, 21, Some 4) = ''1.21.4''" "release_text (1, 8, Some 9) = ''1.8.9''"
    by code_simp+
  show ?thesis
    using downgrade_is_refused [of "(1, 21, Some 4)" "(1, 8, Some 9)" "running_mv\<lparr>m_mc_version := ''1.21.4''\<rparr>"]
    unfolding t by (simp add: small_def small_version_def main_of_def patch_no_def less_prod_def)
qed

end
