(* ===== verification/Uploads.thy ===== *)
theory Uploads
  imports LifecycleProps
begin

text \<open>
  A finished upload moves a file of the upload directory into the data directory: where the entry arrives and
  what stays as it was.
\<close>

section \<open>Growing below a directory\<close>

text \<open>Nothing that exists changes, new entries are below \<open>m\<close> and no link appears.\<close>

definition grows :: "path \<Rightarrow> fs \<Rightarrow> fs \<Rightarrow> bool" where
  "grows m fs fs' \<longleftrightarrow> (\<forall>q n. node_at fs q = Some n \<longrightarrow> node_at fs' q = Some n) \<and>
     (\<forall>q. \<not> prefix m q \<longrightarrow> node_at fs' q = node_at fs q) \<and> (no_links fs \<longrightarrow> no_links fs')"

lemma grows_trans: "grows m fs fs1 \<Longrightarrow> grows m fs1 fs2 \<Longrightarrow> grows m fs fs2"
  by (simp add: grows_def)

lemma grows_refl [simp]: "grows m fs fs"
  by (simp add: grows_def)

lemma grows_chain: "grows m fs fs' \<Longrightarrow> dir_chain fs p \<Longrightarrow> dir_chain fs' p"
  by (simp add: grows_def dir_chain_def)

lemma mkdir_grows:
  assumes "no_links fs" "proper t" "dir_chain fs m" "prefix m t \<or> prefix t m"
  shows "grows m fs (snd (mkdir_parents wd (abs_path t) fs))"
proof -
  let ?g = "snd (mkdir_parents wd (abs_path t) fs)"
  have s: "spares (\<lambda>_. True) fs ?g" by (rule spares_mkdir_parents)
  have "node_at ?g q = node_at fs q" if "\<not> prefix m q" for q
  proof (cases "prefix q t")
    case True
    with that assms(4) have "prefix q m"
      using prefix_same_cases [of q t m] prefix_order.trans by blast
    then have "node_at fs q = Some Dir" using assms(3) by (simp add: dir_chain_def)
    with s show ?thesis by (simp add: spares_def)
  next
    case False
    with assms(1,2) show ?thesis by (rule mkdir_parents_at)
  qed
  with s show ?thesis by (auto simp: grows_def spares_def)
qed

section \<open>Uploads\<close>

lemma info_path:
  assumes "with_suffix (abs_path (u @ [i])) ''.info'' = Inr p"
  shows "\<exists>x. p = abs_path (u @ [x]) \<and> proper_part x"
proof -
  have "n \<noteq> []" "n \<noteq> ''.''" "n \<noteq> ''..''" if "n = y @ ''.info''" for n y :: string
    using that by (auto simp: append_eq_Cons_conv)
  with assms show ?thesis
    by (auto simp: with_suffix_def with_name_def abs_path_def proper_part_def clean_part_def keep_part_def
        split: if_splits)
qed

text \<open>Taking an entry out of \<open>u\<close>: the others stay.\<close>

lemma unlink_at:
  assumes "no_links fs" "proper t" "unlink wd (abs_path t) fs = (r, fs')"
  shows "no_links fs' \<and> (\<forall>q. q \<noteq> t \<longrightarrow> node_at fs' q = node_at fs q) \<and>
    node_at fs' t \<in> {node_at fs t, None} \<and> (r = Inr () \<longrightarrow> node_at fs' t = None)"
proof -
  have e: "entry_path fs wd (abs_path t) = Inr q \<Longrightarrow> q = t \<and> t \<noteq> []" for q
    using entry_path_physical no_links_physical assms(1,2) by blast
  have "no_links (del fs t)" using assms(1) by (auto simp: no_links_def del_def list_all_iff)
  with assms e show ?thesis
    by (auto simp: unlink_def fs_simps split: sum.splits option.splits node.splits)
qed

lemma rename_to_free:
  assumes "no_links fs" "proper s" "proper d" "\<not> exists fs wd (abs_path d)"
    and "os_rename wd (abs_path s) (abs_path d) fs = (r, fs')"
  shows "(case r of Inl _ \<Rightarrow> fs' = fs | Inr _ \<Rightarrow> s \<noteq> [] \<and> d \<noteq> [] \<and> node_at fs s \<noteq> None \<and> node_at fs d = None \<and>
      dir_chain fs (butlast d) \<and> fs' = move_tree fs s d)"
proof (cases "\<exists>q q'. entry_path fs wd (abs_path s) = Inr q \<and> entry_path fs wd (abs_path d) = Inr q'")
  case True
  then have entry: "entry_path fs wd (abs_path s) = Inr s" "entry_path fs wd (abs_path d) = Inr d" "s \<noteq> []" "d \<noteq> []"
    using entry_path_physical no_links_physical assms(1-3) by blast+
  then have "dir_chain fs (butlast d)"
    using entry_path_parent no_links_physical assms(1,3) by blast
  moreover from this have "node_at fs d = None"
    using assms(1,3,4) by (simp add: exists_physical no_links_physical)
  ultimately show ?thesis
    using assms(5) entry by (auto simp: os_rename_def split: option.splits if_splits)
next
  case False
  then show ?thesis using assms(5) by (auto simp: os_rename_def split: sum.splits)
qed


lemma shrunk_chain:
  "\<forall>q. node_at fs' q \<in> {node_at fs q, None} \<Longrightarrow> dir_chain fs' p \<Longrightarrow> dir_chain fs p"
  unfolding dir_chain_def by (metis empty_iff insert_iff option.distinct(1))

lemma shrunk_free:
  assumes "\<forall>q. node_at fs' q \<in> {node_at fs q, None}" "no_links fs" "no_links fs'" "proper t"
    and "\<not> exists fs wd (abs_path t)"
  shows "\<not> exists fs' wd (abs_path t)"
proof
  assume "exists fs' wd (abs_path t)"
  then have "t = [] \<or> dir_chain fs' (butlast t)" "node_at fs' t \<noteq> None"
    using assms(3,4) by (simp_all add: exists_physical no_links_physical)
  with shrunk_chain [OF assms(1)] have "t = [] \<or> dir_chain fs (butlast t)" "node_at fs t \<noteq> None"
    using assms(1) by (auto dest: spec [of _ t])
  with assms(2,4,5) show False by (simp add: exists_physical no_links_physical)
qed

lemma upload_end:
  assumes "no_links fs" "tree_ok fs" "grows m fs fs2" "proper (u @ [x])" "proper (u @ [i])" "proper t"
    and "prefix m t" "\<not> prefix m (u @ [x])" "\<not> prefix m (u @ [i])" "\<not> prefix u t"
    and "\<not> exists fs2 wd (abs_path t)"
    and "unlink wd (abs_path (u @ [x])) fs2 = (Inr (), fs3)"
    and "os_rename wd (abs_path (u @ [i])) (abs_path t) fs3 = (r, fs4)"
  shows "(\<forall>q n. node_at fs q = Some n \<and> \<not> prefix u q \<longrightarrow> node_at fs4 q = Some n) \<and>
    (\<forall>q. node_at fs q = None \<and> \<not> prefix m q \<longrightarrow> node_at fs4 q = None) \<and>
    (r = Inr () \<longrightarrow> node_at fs t = None \<and> node_at fs4 t \<noteq> None \<and> node_at fs4 t = node_at fs (u @ [i]) \<and>
       node_at fs4 (u @ [i]) = None)"
proof -
  let ?s = "u @ [i]" and ?x = "u @ [x]"
  have nl2: "no_links fs2" using assms(1,3) by (simp add: grows_def)
  note un = unlink_at [OF nl2 assms(4,12)]
  then have sh: "\<forall>q. node_at fs3 q \<in> {node_at fs2 q, None}" by (metis insertI1)
  have "\<not> exists fs3 wd (abs_path t)"
    using shrunk_free [OF sh nl2 _ assms(6,11)] un by blast
  note mv = rename_to_free [OF _ assms(5,6) this assms(13)]
  have old: "node_at fs3 q = Some n" if "node_at fs q = Some n" "\<not> prefix u q" for q n
  proof -
    have "q \<noteq> ?x" using that(2) by auto
    with that un assms(3) show ?thesis by (auto simp: grows_def)
  qed
  have new: "node_at fs3 q = None" if "node_at fs q = None" "\<not> prefix m q" for q
  proof -
    have "node_at fs2 q = None" using that assms(3) by (simp add: grows_def)
    then show ?thesis using sh by (auto dest: spec [of _ q])
  qed
  show ?thesis
  proof (cases r)
    case (Inl e)
    with mv un old new show ?thesis by simp
  next
    case (Inr v)
    then have m: "node_at fs3 ?s \<noteq> None" "node_at fs3 t = None" "t \<noteq> []" "fs4 = move_tree fs3 ?s t"
      using mv un by auto
    have "node_at fs q = None" if below: "prefix t q" for q
    proof (rule ccontr)
      assume "node_at fs q \<noteq> None"
      then obtain n where n: "node_at fs q = Some n" by blast
      from below obtain rest where q: "q = t @ rest" unfolding prefix_def by blast
      with n have q: "q = t @ rest" "node_at fs (t @ rest) = Some n" by simp_all
      then have "node_at fs t \<noteq> None"
        using tree_ok_chain [OF assms(2) q(2)] dir_chain_node by (cases "rest = []") fastforce+
      with old [of t] assms(10) m(2) show False by auto
    qed
    note free = this
    have "?s \<noteq> ?x" using un m(1) by auto
    then have s: "node_at fs3 ?s = node_at fs ?s"
      using un assms(3,9) by (simp add: grows_def)
    have ts: "\<not> prefix t ?s" using assms(7,9) prefix_order.trans by blast
    have at: "node_at fs4 q = (if prefix t q then (case map_of fs3 (?s @ drop (length t) q) of
                             None \<Rightarrow> None | Some v \<Rightarrow> Some v)
       else if prefix ?s q then None else node_at fs3 q)" for q
      using node_at_move_tree [of ?s t fs3 q] m(3,4) by simp
    have "node_at fs4 t = node_at fs3 ?s"
      by (simp add: at) (simp add: node_at_def split: option.splits)
    moreover have "node_at fs4 q = Some n" if "node_at fs q = Some n" "\<not> prefix u q" for q n
    proof -
      have "\<not> prefix t q" using free [of q] that(1) by auto
      moreover have "\<not> prefix ?s q" using that(2) prefix_order.trans [of u ?s q] by auto
      ultimately show ?thesis using old that at by simp
    qed
    moreover have "node_at fs4 q = None" if "node_at fs q = None" "\<not> prefix m q" for q
    proof -
      have "\<not> prefix t q" using that(2) assms(7) prefix_order.trans by blast
      with new that at show ?thesis by simp
    qed
    moreover have "node_at fs4 ?s = None" using at ts by simp
    ultimately show ?thesis using s m(1) free [of t] by simp
  qed
qed


text \<open>The names of the data directory and of the directory of uploads.\<close>

lemma upload_names: "proper_part ''data''" "proper_part ''uploads''"
  by code_simp+

lemma data_dir_abs:
  assumes "DATA_PATH e = abs_path d" "proper_part (m_id mv)"
  shows "data_dir e mv = abs_path (d @ [''miniverses'', m_id mv, ''data''])"
  using assms proper_names(1) upload_names(1)
  by (simp add: data_dir_def get_miniverse_path_def join_all_def child_abs join_nothing)

lemma fresh_below:
  assumes "proper t" "t \<noteq> []" "freshA e (abs_path t) fs = (Inr p, fs')"
  shows "fs' = fs \<and> (\<exists>q. p = abs_path q \<and> proper q \<and> \<not> exists fs (work_dir e) (abs_path q) \<and> butlast q = butlast t \<and> q \<noteq> [])"
  using clean_abs_path [OF assms(1)]
proof (cases rule: change_path_cases [where fs = fs and wd = "work_dir e"])
  case free
  with assms show ?thesis by (auto simp: freshA_def act_simps)
next
  case (taken x q)
  have "q = abs_path (butlast t @ [x])" using taken(5) parent_abs [OF assms(2)] by (simp add: abs_path_def)
  with taken assms show ?thesis
    by (auto simp: freshA_def act_simps proper_butlast intro!: exI [of _ "butlast t @ [x]"])
qed

lemma safe_below:
  assumes "safe_user_path fs wd (abs_path b) p = Inr t" "no_links fs" "proper b" "proper wd"
  shows "\<exists>q. t = abs_path q \<and> prefix b q \<and> proper q"
  using safe_user_pathD [OF assms(1) clean_abs_path [OF assms(3)] assms(4)] base_of_abs [OF assms(2,3)]
  by metis

text \<open>What an upload may do to the tree: \<open>u\<close> is the directory of uploads, \<open>m\<close> that of the miniverse.\<close>

definition upload_ok :: "path \<Rightarrow> path \<Rightarrow> string \<Rightarrow> fs \<Rightarrow> exn + unit \<Rightarrow> fs \<Rightarrow> bool" where
  "upload_ok m u i fs r fs' \<longleftrightarrow>
    (\<forall>q n. node_at fs q = Some n \<and> \<not> prefix u q \<longrightarrow> node_at fs' q = Some n) \<and>
    (\<forall>q. node_at fs q = None \<and> \<not> prefix m q \<longrightarrow> node_at fs' q = None) \<and>
    (r = Inr () \<longrightarrow> (\<exists>t. prefix m t \<and> node_at fs t = None \<and> node_at fs' t \<noteq> None \<and>
       node_at fs' t = node_at fs (u @ [i]) \<and> node_at fs' (u @ [i]) = None))"

lemma upload_fails: "grows m fs fs' \<Longrightarrow> upload_ok m u i fs (Inl x) fs'"
  by (auto simp: grows_def upload_ok_def)

definition upload_move :: "env \<Rightarrow> ppath \<Rightarrow> ppath \<Rightarrow> (fs, unit) action" where
  "upload_move e tmp_path target = bindA (liftA (with_suffix tmp_path ''.info'')) (\<lambda>info.
     thenA (unlink (work_dir e) info) (os_rename (work_dir e) tmp_path target))"

lemma upload_move_ok:
  assumes "no_links fs" "tree_ok fs" "grows m fs fs2" "proper u" "proper_part i" "proper t" "prefix m t"
    and "\<not> prefix m u" "\<not> prefix u m" "\<not> exists fs2 (work_dir e) (abs_path t)"
    and "upload_move e (abs_path (u @ [i])) (abs_path t) fs2 = (r, fs')"
  shows "upload_ok m u i fs r fs'"
proof (cases "with_suffix (abs_path (u @ [i])) ''.info''")
  case (Inl y)
  with assms(3,11) show ?thesis by (auto simp: upload_move_def act_simps upload_fails)
next
  case info: (Inr p)
  then obtain x where x: "p = abs_path (u @ [x])" "proper_part x" using info_path by blast
  obtain r3 fs3 where u3: "unlink (work_dir e) p fs2 = (r3, fs3)" by (cases "unlink (work_dir e) p fs2")
  show ?thesis
  proof (cases r3)
    case (Inl y)
    then have "fs3 = fs2" using u3 by (auto simp: unlink_def split: sum.splits option.splits node.splits)
    with Inl info u3 assms(3,11) show ?thesis by (auto simp: upload_move_def act_simps upload_fails)
  next
    case (Inr v)
    have move: "os_rename (work_dir e) (abs_path (u @ [i])) (abs_path t) fs3 = (r, fs')"
      using assms(11) u3 Inr info by (simp add: upload_move_def act_simps)
    have "\<not> prefix m (u @ [k])" for k
      using assms(8,9) prefix_snoc [of m u k] by auto
    moreover have "\<not> prefix u t"
      using assms(7-9) prefix_same_cases [of m t u] by blast
    moreover have "proper (u @ [x])" "proper (u @ [i])" using assms(4,5) x(2) by simp_all
    moreover have "unlink (work_dir e) (abs_path (u @ [x])) fs2 = (Inr (), fs3)" using u3 x(1) Inr by simp
    ultimately have "(\<forall>q n. node_at fs q = Some n \<and> \<not> prefix u q \<longrightarrow> node_at fs' q = Some n) \<and>
      (\<forall>q. node_at fs q = None \<and> \<not> prefix m q \<longrightarrow> node_at fs' q = None) \<and>
      (r = Inr () \<longrightarrow> node_at fs t = None \<and> node_at fs' t \<noteq> None \<and> node_at fs' t = node_at fs (u @ [i]) \<and>
        node_at fs' (u @ [i]) = None)"
      using upload_end [OF assms(1-3) _ _ assms(6,7) _ _ _ assms(10) _ move] by blast
    with assms(7) show ?thesis unfolding upload_ok_def by blast
  qed
qed

text \<open>From the mapped destination on.\<close>

lemma upload_rest_ok:
  assumes "no_links fs" "tree_ok fs" "dir_chain fs m" "proper wd" "wd = work_dir e"
    and "proper u" "proper_part i" "\<not> prefix m u" "\<not> prefix u m"
    and "proper p0" "prefix (m @ [n]) p0" "grows m fs fs1"
    and "(bindA (safeA e (abs_path p0) (Path fname)) (\<lambda>target0.
      thenA (mkdir_parents wd (path_parent target0))
     (bindA (freshA e target0) (upload_move e (abs_path (u @ [i]))))) fs1) = (r, fs')"
  shows "upload_ok m u i fs r fs'"
proof (cases "safe_user_path fs1 wd (abs_path p0) (Path fname)")
  case (Inl x)
  with assms(5,12,13) show ?thesis by (auto simp: act_simps safeA_pure upload_fails)
next
  case safe: (Inr target0)
  have nl1: "no_links fs1" using assms(1,12) by (simp add: grows_def)
  from safe_below [OF safe nl1 assms(10,4)] obtain p1 where
    p1: "target0 = abs_path p1" "prefix p0 p1" "proper p1" by blast
  obtain more where more: "p1 = m @ n # more"
    using prefix_order.trans [OF assms(11) p1(2)] unfolding prefix_def by auto
  then have ne: "p1 \<noteq> []" and pm: "prefix m (butlast p1)" by (simp_all add: butlast_append)
  obtain r2 fs2 where m2: "mkdir_parents wd (path_parent target0) fs1 = (r2, fs2)"
    by (cases "mkdir_parents wd (path_parent target0) fs1")
  have g: "grows m fs fs2"
    using grows_trans [OF assms(12) mkdir_grows [OF nl1 _ grows_chain [OF assms(12,3)], of "butlast p1" wd]]
      pm m2 p1(1,3) ne by (simp add: parent_abs proper_butlast)
  obtain r4 fs4 where fr: "freshA e target0 fs2 = (r4, fs4)" by (cases "freshA e target0 fs2")
  have "fs4 = fs2" using fr by (auto simp: freshA_def act_simps split: option.splits)
  show ?thesis
  proof (cases "r2 = Inr () \<and> (\<exists>target. r4 = Inr target)")
    case False
    with \<open>fs4 = fs2\<close> g safe m2 fr assms(5,13) show ?thesis
      by (cases r2; cases r4) (auto simp: act_simps safeA_pure upload_fails)
  next
    case True
    then obtain target where tg: "r2 = Inr ()" "freshA e target0 fs2 = (Inr target, fs2)"
      using fr \<open>fs4 = fs2\<close> by auto
    with fresh_below [OF p1(3) ne] p1(1) obtain p2 where
      p2: "target = abs_path p2" "proper p2" "\<not> exists fs2 (work_dir e) (abs_path p2)" "butlast p2 = butlast p1" by blast
    have mt: "prefix m p2" using prefix_order.trans [OF pm [folded p2(4)] prefixeq_butlast] .
    have "upload_move e (abs_path (u @ [i])) (abs_path p2) fs2 = (r, fs')"
      using safe m2 tg p2(1) assms(5,13) by (simp add: act_simps safeA_pure)
    from upload_move_ok [OF assms(1,2) g assms(6,7) p2(2) mt assms(8,9) p2(3) this] show ?thesis .
  qed
qed


definition upload_fs :: fs where
  "upload_fs = demo_fs @ [([''app'', ''data'', ''uploads''], Dir),
     ([''app'', ''data'', ''uploads'', ''f00''], File ''new level''),
     ([''app'', ''data'', ''uploads'', ''f00.info''], File ''{}'')]"


end
