(* ===== verification/Checksum.thy ===== *)
theory Checksum
  imports OsOps "HOL-Library.Word"
begin

text \<open>
  \<open>compute_crc32\<close> of \<open>app/services/files_service.py\<close>, with the CRC-32 of \<open>zlib\<close> on words of 32 bits.
\<close>

unbundle bit_operations_syntax

section \<open>CRC-32\<close>

text \<open>\<open>zlib.crc32(data, value)\<close>: one bit, one byte, and a sequence of bytes.\<close>

definition crc_bit :: "32 word \<Rightarrow> 32 word" where
  "crc_bit c = (if bit c 0 then drop_bit 1 c XOR 0xEDB88320 else drop_bit 1 c)"

definition crc_byte :: "char \<Rightarrow> 32 word \<Rightarrow> 32 word" where
  "crc_byte b c = (crc_bit ^^ 8) (c XOR of_nat (of_char b))"

definition crc32 :: "string \<Rightarrow> 32 word \<Rightarrow> 32 word" where
  "crc32 data v = NOT (fold crc_byte data (NOT v))"

text \<open>The loop of \<open>compute_crc32\<close> reads at most \<open>chunk_size\<close> bytes at a time until nothing is left.\<close>

function crc_loop :: "nat \<Rightarrow> string \<Rightarrow> 32 word \<Rightarrow> 32 word" where
  "crc_loop chunk_size rest crc =
    (let data = take (Suc chunk_size) rest
     in if data = [] then crc else crc_loop chunk_size (drop (Suc chunk_size) rest) (crc32 data crc))"
  by pat_completeness auto
termination by (relation "measure (\<lambda>(_, rest, _). length rest)") (auto simp: length_greater_0_conv)

declare crc_loop.simps [simp del]

text \<open>\<open>format(crc & 0xFFFFFFFF, '08x')\<close>\<close>

definition compute_crc32 :: "fs \<Rightarrow> path \<Rightarrow> ppath \<Rightarrow> exn + string" where
  "compute_crc32 fs cwd file_path = (case read_file fs cwd file_path of
     Inl e \<Rightarrow> Inl e
   | Inr content \<Rightarrow> Inr (hex_digits 8 (unat (crc_loop (1024 * 1024 - 1) content 0 AND 0xFFFFFFFF))))"

lemma funpow_8: "(f ^^ 8) x = f (f (f (f (f (f (f (f x)))))))"
  by (simp add: eval_nat_numeral)

text \<open>The check value that every description of CRC-32 gives.\<close>

lemma crc32_check: "crc32 ''123456789'' 0 = 0xCBF43926"
  by (simp add: crc32_def crc_byte_def funpow_8 crc_bit_def)

section \<open>Chunks do not matter\<close>

lemma crc32_append: "crc32 (xs @ ys) v = crc32 ys (crc32 xs v)"
  by (simp add: crc32_def)

lemma crc_loop_whole: "crc_loop n data crc = crc32 data crc"
proof (induction n data crc rule: crc_loop.induct)
  case (1 n data crc)
  show ?case
  proof (cases "data = []")
    case True
    then show ?thesis by (subst crc_loop.simps) (simp add: crc32_def)
  next
    case False
    with 1 have "crc_loop n data crc = crc32 (drop (Suc n) data) (crc32 (take (Suc n) data) crc)"
      by (subst crc_loop.simps) (simp add: Let_def)
    then show ?thesis by (simp flip: crc32_append)
  qed
qed

text \<open>
  Property C27 (checksum_of_whole_file). The checksum of a file that can be read is eight lower-case hexadecimal digits that denote the
  CRC-32 of its whole content: reading it in pieces of a megabyte makes no difference.
\<close>

theorem checksum_of_whole_file:
  assumes "read_file fs cwd p = Inr content"
  shows "\<exists>s. compute_crc32 fs cwd p = Inr s \<and> length s = 8 \<and> set s \<subseteq> set ''0123456789abcdef'' \<and>
    hex_number s = unat (crc32 content 0)"
proof -
  have m: "crc32 content 0 AND 0xFFFFFFFF = crc32 content 0"
  proof -
    have "(0xFFFFFFFF :: 32 word) = - 1" by simp
    then show ?thesis by (simp only: bit.conj_one_right)
  qed
  have "unat (crc32 content 0) < 2 ^ LENGTH(32)" by (rule unsigned_less)
  then have "unat (crc32 content 0) < 16 ^ 8" by simp
  then have "hex_number (hex_digits 8 (unat (crc32 content 0))) = unat (crc32 content 0)"
    by (rule hex_number_digits)
  with assms show ?thesis
    using set_hex_digits [of 8 "unat (crc32 content 0)"]
    by (simp add: compute_crc32_def crc_loop_whole m)
qed

theorem checksum_of_whole_file_witness:
  "\<exists>s. compute_crc32 [([''f''], File ''123456789'')] [] (Path ''/f'') = Inr s \<and> hex_number s = 0xCBF43926"
proof -
  have "read_file [([''f''], File ''123456789'')] [] (Path ''/f'') = Inr ''123456789''" by code_simp
  from checksum_of_whole_file [OF this] show ?thesis by (auto simp: crc32_check)
qed

end
