(* ===== verification/Threads.thy ===== *)
theory Threads
  imports Prelude
begin

text \<open>
  Requests that interleave. A coroutine runs without interruption from one \<open>await\<close> to the next, so it
  is a thread of turns: each turn is an atomic step on the shared state, and what comes next may
  depend on the state that the turn saw. A pool of threads runs under a schedule, the list of the
  positions whose turns come one after another. The actions of the other theories are threads that
  run alone.
\<close>

section \<open>Threads\<close>

datatype ('s, 'a) thread =
    Done "exn + 'a"
  | Turn "'s \<Rightarrow> 's" "'s \<Rightarrow> ('s, 'a) thread"

text \<open>An action that is not interrupted, and threads in sequence.\<close>

definition turn :: "('s, 'a) action \<Rightarrow> ('s, 'a) thread" where
  "turn m = Turn (\<lambda>s. snd (m s)) (\<lambda>s. Done (fst (m s)))"

primrec bindT :: "('s, 'a) thread \<Rightarrow> ('a \<Rightarrow> ('s, 'b) thread) \<Rightarrow> ('s, 'b) thread" where
  "bindT (Done r) g = (case r of Inl e \<Rightarrow> Done (Inl e) | Inr x \<Rightarrow> g x)"
| "bindT (Turn f k) g = Turn f (\<lambda>s. bindT (k s) g)"

definition retT :: "'a \<Rightarrow> ('s, 'a) thread" where
  "retT x = Done (Inr x)"

definition raiseT :: "exn \<Rightarrow> ('s, 'a) thread" where
  "raiseT e = Done (Inl e)"

definition liftT :: "exn + 'a \<Rightarrow> ('s, 'a) thread" where
  "liftT r = Done r"

text \<open>A thread that nothing interrupts.\<close>

primrec alone :: "('s, 'a) thread \<Rightarrow> ('s, 'a) action" where
  "alone (Done r) = liftA r"
| "alone (Turn f k) = (\<lambda>s. alone (k s) (f s))"

named_theorems thread_simps "threads that run alone"

lemma alone_turn [thread_simps]: "alone (turn m) = m"
  by (rule ext) (simp add: turn_def liftA_def)

lemma alone_retT [thread_simps]: "alone (retT x) = ret x"
  by (rule ext) (simp add: retT_def act_simps)

lemma alone_raiseT [thread_simps]: "alone (raiseT e) = raise e"
  by (rule ext) (simp add: raiseT_def act_simps)

lemma alone_liftT [thread_simps]: "alone (liftT r) = liftA r"
  by (simp add: liftT_def)

lemma alone_bindT [thread_simps]: "alone (bindT t g) = bindA (alone t) (\<lambda>x. alone (g x))"
proof (induction t)
  case (Done r)
  then show ?case by (cases r) (auto simp: act_simps)
next
  case (Turn f k)
  then show ?case by (simp add: bindA_def fun_eq_iff)
qed

lemma bindT_assoc: "bindT (bindT t f) g = bindT t (\<lambda>x. bindT (f x) g)"
  by (induction t) (auto split: sum.splits)

section \<open>Pools and schedules\<close>

type_synonym ('s, 'a) pool = "('s, 'a) thread list \<times> 's"

definition advance :: "nat \<Rightarrow> ('s, 'a) pool \<Rightarrow> ('s, 'a) pool" where
  "advance i p = (let (ts, s) = p in
     if i < length ts
     then (case ts ! i of Done r \<Rightarrow> (ts, s) | Turn f k \<Rightarrow> (ts[i := k s], f s))
     else (ts, s))"

definition run_pool :: "nat list \<Rightarrow> ('s, 'a) pool \<Rightarrow> ('s, 'a) pool" where
  "run_pool sched p = fold advance sched p"

definition finished :: "('s, 'a) thread \<Rightarrow> bool" where
  "finished t \<longleftrightarrow> (case t of Done _ \<Rightarrow> True | Turn _ _ \<Rightarrow> False)"

lemma run_pool_Nil [simp]: "run_pool [] p = p"
  by (simp add: run_pool_def)

lemma run_pool_Cons [simp]: "run_pool (i # sched) p = run_pool sched (advance i p)"
  by (simp add: run_pool_def)

lemma run_pool_snoc: "run_pool (sched @ [i]) p = advance i (run_pool sched p)"
  by (simp add: run_pool_def)

lemma run_pool_append: "run_pool (xs @ ys) p = run_pool ys (run_pool xs p)"
  by (simp add: run_pool_def)

lemma advance_cases:
  obtains (stuck) "advance i (ts, s) = (ts, s)"
  | (turn) f k where "i < length ts" "ts ! i = Turn f k" "advance i (ts, s) = (ts[i := k s], f s)"
proof (cases "i < length ts")
  case True
  then show ?thesis
  proof (cases "ts ! i")
    case (Done r)
    with True have "advance i (ts, s) = (ts, s)" by (simp add: advance_def)
    then show ?thesis by (rule stuck)
  next
    case (Turn f k)
    with True show ?thesis by (intro turn) (simp_all add: advance_def)
  qed
next
  case False
  then have "advance i (ts, s) = (ts, s)" by (simp add: advance_def)
  then show ?thesis by (rule stuck)
qed

lemma advance_turn:
  assumes "i < length ts" "ts ! i = bindT (turn m) k"
  shows "m s = (Inr x, s') \<Longrightarrow> advance i (ts, s) = (ts[i := k x], s')"
    and "m s = (Inl e, s') \<Longrightarrow> advance i (ts, s) = (ts[i := Done (Inl e)], s')"
  using assms by (simp_all add: advance_def turn_def)

lemma length_run_pool [simp]: "length (fst (run_pool sched p)) = length (fst p)"
proof (induction sched arbitrary: p)
  case (Cons i sched)
  have "length (fst (advance i p)) = length (fst p)"
    by (cases p) (auto simp: advance_def split: thread.splits)
  with Cons show ?case by simp
qed simp

text \<open>
  Running alone is a schedule: from some number of turns on, a thread of the pool is done with the
  result of its action, and the state is the one that the action leaves.
\<close>

lemma alone_is_a_schedule:
  assumes "i < length ts" "alone (ts ! i) s = (r, s')"
  shows "\<exists>n. run_pool (replicate n i) (ts, s) = (ts[i := Done r], s')"
proof -
  have "\<exists>n. run_pool (replicate n i) (ts, s) = (ts[i := Done r], s')"
    if "ts ! i = t" "i < length ts" "alone t s = (r, s')" for t ts s
    using that
  proof (induction t arbitrary: ts s)
    case (Done x)
    then have "ts[i := Done r] = ts" "s' = s" by (auto simp: act_simps intro: list_update_same_conv [THEN iffD2])
    then have "run_pool (replicate 0 i) (ts, s) = (ts[i := Done r], s')" by simp
    then show ?case by blast
  next
    case (Turn f k)
    obtain n where "run_pool (replicate n i) (ts[i := k s], f s) = (ts[i := Done r], s')"
      using Turn.IH [of "k s" "ts[i := k s]" "f s"] Turn.prems by auto
    then have "run_pool (replicate (Suc n) i) (ts, s) = (ts[i := Done r], s')"
      using Turn.prems by (simp add: advance_def)
    then show ?case by blast
  qed
  with assms show ?thesis by blast
qed

text \<open>The schedules give exactly the states that the step relation of a pool reaches.\<close>

inductive pool_step :: "('s, 'a) pool \<Rightarrow> ('s, 'a) pool \<Rightarrow> bool" where
  "i < length ts \<Longrightarrow> ts ! i = Turn f k \<Longrightarrow> pool_step (ts, s) (ts[i := k s], f s)"

lemma pool_steps_iff: "pool_step\<^sup>*\<^sup>* p q \<longleftrightarrow> (\<exists>sched. q = run_pool sched p)"
proof
  assume "pool_step\<^sup>*\<^sup>* p q"
  then show "\<exists>sched. q = run_pool sched p"
  proof induction
    case base
    have "p = run_pool [] p" by simp
    then show ?case ..
  next
    case (step q r)
    from step.IH obtain sched where q: "q = run_pool sched p" ..
    from step.hyps(2) obtain i where "r = advance i q"
    proof cases
      case (1 i ts f k s)
      then have "r = advance i q" by (simp add: advance_def)
      then show ?thesis by (rule that)
    qed
    with q have "r = run_pool (sched @ [i]) p" by (simp add: run_pool_snoc)
    then show ?case ..
  qed
next
  have "pool_step\<^sup>*\<^sup>* p (run_pool sched p)" for sched
  proof (induction sched rule: rev_induct)
    case (snoc i sched)
    obtain ts s where q: "run_pool sched p = (ts, s)" by (cases "run_pool sched p")
    show ?case
    proof (cases i ts s rule: advance_cases)
      case stuck
      with snoc q show ?thesis by (simp add: run_pool_snoc)
    next
      case (turn f k)
      with q have "pool_step (run_pool sched p) (run_pool (sched @ [i]) p)"
        by (simp add: run_pool_snoc pool_step.intros)
      with snoc show ?thesis by simp
    qed
  qed simp
  then show "pool_step\<^sup>*\<^sup>* p q" if "\<exists>sched. q = run_pool sched p" using that by blast
qed

section \<open>Relations that every turn respects\<close>

text \<open>\<open>turns R t\<close>: each turn of \<open>t\<close> respects \<open>R\<close>, from whatever state the others left.\<close>

primrec turns :: "('s \<Rightarrow> 's \<Rightarrow> bool) \<Rightarrow> ('s, 'a) thread \<Rightarrow> bool" where
  "turns R (Done r) = True"
| "turns R (Turn f k) = (\<forall>s. R s (f s) \<and> turns R (k s))"

named_theorems turns_intros "rules for turns"

lemma turns_turn [turns_intros]: "moves R m \<Longrightarrow> turns R (turn m)"
  by (simp add: turn_def moves_def)

lemma turns_Done [turns_intros]:
  "turns R (Done r)" "turns R (retT x)" "turns R (raiseT e)" "turns R (liftT r)"
  by (simp_all add: retT_def raiseT_def liftT_def)

lemma turns_bindT [turns_intros]:
  "turns R t \<Longrightarrow> (\<And>x. turns R (g x)) \<Longrightarrow> turns R (bindT t g)"
  by (induction t) (auto split: sum.splits)

lemma turns_if [turns_intros]:
  "(b \<Longrightarrow> turns R t) \<Longrightarrow> (\<not> b \<Longrightarrow> turns R u) \<Longrightarrow> turns R (if b then t else u)"
  by simp

lemma turns_case_option [turns_intros]:
  "turns R t \<Longrightarrow> (\<And>x. turns R (f x)) \<Longrightarrow> turns R (case z of None \<Rightarrow> t | Some x \<Rightarrow> f x)"
  by (cases z) auto

lemma turns_case_prod [turns_intros]: "(\<And>x y. turns R (f x y)) \<Longrightarrow> turns R (case p of (x, y) \<Rightarrow> f x y)"
  by (cases p) auto

lemma moves_alone: "reflp R \<Longrightarrow> transp R \<Longrightarrow> turns R t \<Longrightarrow> moves R (alone t)"
proof (induction t)
  case (Turn f k)
  then show ?case by (auto simp: moves_def intro: transpD)
qed (simp add: moves_liftA)

theorem pool_respects:
  assumes "reflp R" "transp R" "\<forall>t \<in> set ts. turns R t"
  shows "R s (snd (run_pool sched (ts, s)))"
proof -
  have "R s (snd p) \<and> (\<forall>t \<in> set (fst p). turns R t)" if "p = run_pool sched (ts, s)" for p
    using that
  proof (induction sched arbitrary: p rule: rev_induct)
    case (snoc i sched)
    obtain us u where q: "run_pool sched (ts, s) = (us, u)" by (cases "run_pool sched (ts, s)")
    from snoc.IH [OF q [symmetric]] have I: "R s u" "\<forall>t \<in> set us. turns R t" by simp_all
    show ?case
    proof (cases i us u rule: advance_cases)
      case stuck
      with snoc.prems q I show ?thesis by (simp add: run_pool_snoc)
    next
      case (turn f k)
      then have "turns R (Turn f k)" using I(2) nth_mem by force
      then have "R u (f u)" "turns R (k u)" by simp_all
      with snoc.prems q turn I transpD [OF assms(2)] show ?thesis
        by (auto simp: run_pool_snoc dest!: subsetD [OF set_update_subset_insert])
    qed
  qed (use assms(1,3) in \<open>auto dest: reflpD\<close>)
  then show ?thesis by blast
qed

section \<open>Invariants of every interleaving\<close>

text \<open>
  \<open>preserves I t\<close>: each turn of \<open>t\<close> keeps \<open>I\<close>, whatever other threads that keep \<open>I\<close> did since the turn
  before. What a turn read may be used later, as it was read from a state with \<open>I\<close>.
\<close>

primrec preserves :: "('s \<Rightarrow> bool) \<Rightarrow> ('s, 'a) thread \<Rightarrow> bool" where
  "preserves I (Done r) = True"
| "preserves I (Turn f k) = (\<forall>s. I s \<longrightarrow> I (f s) \<and> preserves I (k s))"

named_theorems thread_intros "rules for preserves"

lemma preserves_turn: "(\<And>s. I s \<Longrightarrow> I (snd (m s))) \<Longrightarrow> preserves I (turn m)"
  by (simp add: turn_def)

lemma preserves_turn_moves [thread_intros]: "moves (keeps I) m \<Longrightarrow> preserves I (turn m)"
  using movesD by (fastforce simp: turn_def keeps_def)

lemma preserves_Done [thread_intros]:
  "preserves I (Done r)" "preserves I (retT x)" "preserves I (raiseT e)" "preserves I (liftT r)"
  by (simp_all add: retT_def raiseT_def liftT_def)

lemma preserves_bindT [thread_intros]:
  "preserves I t \<Longrightarrow> (\<And>x. preserves I (g x)) \<Longrightarrow> preserves I (bindT t g)"
  by (induction t) (auto split: sum.splits)

text \<open>What comes after a turn may rely on what the turn returned from a state with \<open>I\<close>.\<close>

lemma preserves_read:
  assumes "\<And>s. I s \<Longrightarrow> I (snd (m s))" "\<And>s x. I s \<Longrightarrow> fst (m s) = Inr x \<Longrightarrow> preserves I (g x)"
  shows "preserves I (bindT (turn m) g)"
  using assms by (auto simp: turn_def split: sum.splits)

lemma preserves_if [thread_intros]:
  "(b \<Longrightarrow> preserves I t) \<Longrightarrow> (\<not> b \<Longrightarrow> preserves I u) \<Longrightarrow> preserves I (if b then t else u)"
  by simp

lemma preserves_case_option [thread_intros]:
  "preserves I t \<Longrightarrow> (\<And>x. preserves I (f x)) \<Longrightarrow> preserves I (case z of None \<Rightarrow> t | Some x \<Rightarrow> f x)"
  by (cases z) auto

text \<open>An invariant that two relations together keep.\<close>

lemma preserves_turns:
  "turns R t \<Longrightarrow> turns S t \<Longrightarrow> (\<And>s s'. R s s' \<Longrightarrow> S s s' \<Longrightarrow> I s \<Longrightarrow> I s') \<Longrightarrow> preserves I t"
proof (induction t)
  case (Turn f k)
  then show ?case by (simp, metis)
qed simp

text \<open>A thread that works on a part of the state.\<close>

primrec zoomT :: "('w \<Rightarrow> 's) \<Rightarrow> (('s \<Rightarrow> 's) \<Rightarrow> 'w \<Rightarrow> 'w) \<Rightarrow> ('s, 'a) thread \<Rightarrow> ('w, 'a) thread" where
  "zoomT sel upd (Done r) = Done r"
| "zoomT sel upd (Turn f k) = Turn (\<lambda>w. upd (\<lambda>_. f (sel w)) w) (\<lambda>w. zoomT sel upd (k (sel w)))"

lemma alone_zoomT:
  assumes "\<And>x y w. upd (\<lambda>_. x) (upd (\<lambda>_. y) w) = upd (\<lambda>_. x) w" "\<And>x w. sel (upd (\<lambda>_. x) w) = x"
    and "\<And>w. upd (\<lambda>_. sel w) w = w"
  shows "alone (zoomT sel upd t) w = zoomA sel upd (alone t) w"
proof (induction t arbitrary: w)
  case (Done r)
  then show ?case by (simp add: liftA_def zoomA_apply assms)
next
  case (Turn f k)
  then show ?case by (simp add: zoomA_apply assms split: prod.splits)
qed

lemma preserves_zoomT:
  "preserves I t \<Longrightarrow> (\<And>x w. sel (upd (\<lambda>_. x) w) = x) \<Longrightarrow> preserves (\<lambda>w. I (sel w)) (zoomT sel upd t)"
  by (induction t) auto

theorem pool_invariant:
  assumes "I s" "\<forall>t \<in> set ts. preserves I t"
  shows "I (snd (run_pool sched (ts, s)))"
proof -
  have "I (snd p) \<and> (\<forall>t \<in> set (fst p). preserves I t)" if "p = run_pool sched (ts, s)" for p
    using that
  proof (induction sched arbitrary: p rule: rev_induct)
    case (snoc i sched)
    obtain us u where q: "run_pool sched (ts, s) = (us, u)" by (cases "run_pool sched (ts, s)")
    from snoc.IH [OF q [symmetric]] have I: "I u" "\<forall>t \<in> set us. preserves I t" by simp_all
    show ?case
    proof (cases i us u rule: advance_cases)
      case stuck
      with snoc.prems q I show ?thesis by (simp add: run_pool_snoc)
    next
      case (turn f k)
      then have "preserves I (Turn f k)" using I(2) nth_mem by force
      with I(1) have "I (f u)" "preserves I (k u)" by simp_all
      with snoc.prems q turn I(2) show ?thesis
        by (auto simp: run_pool_snoc dest!: subsetD [OF set_update_subset_insert])
    qed
  qed (use assms in simp)
  then show ?thesis by blast
qed

end
