(* ===== verification/LifecycleThreads.thy ===== *)
theory LifecycleThreads
  imports Threads Startup
begin

text \<open>
  The lifecycle of a miniverse as threads: every access to the database or to Docker is a turn of its own, and other
  requests may come between. A request works with the ORM object that it loaded; a commit writes the columns
  that differ from the loaded ones, and a refresh loads the row again and opens a transaction, whose snapshot
  later reads of the request see. Installing mods, the calls inside a control service and the
  comparison of versions are single turns.
\<close>

section \<open>Commits\<close>

definition commit_row :: "string \<Rightarrow> (miniverse \<Rightarrow> miniverse) \<Rightarrow> ('d world, unit) action" where
  "commit_row i f =
    bindA (getA (\<lambda>w. i \<in> m_id ` set (miniverses (w_db w)))) (\<lambda>ex.
    if \<not> ex then raise StaleDataError else set_miniverse i f)"

definition changed_column :: "(miniverse \<Rightarrow> 'x) \<Rightarrow> miniverse \<Rightarrow> miniverse \<Rightarrow> miniverse \<Rightarrow> 'x" where
  "changed_column col mv mv' m = (if col mv' = col mv then col m else col mv')"

text \<open>The columns that are ever assigned after the insertion.\<close>

definition changes :: "miniverse \<Rightarrow> miniverse \<Rightarrow> miniverse \<Rightarrow> miniverse" where
  "changes mv mv' m = m\<lparr>m_name := changed_column m_name mv mv' m,
     m_description := changed_column m_description mv mv' m,
     m_container_id := changed_column m_container_id mv mv' m,
     m_java_version := changed_column m_java_version mv mv' m,
     m_mc_version := changed_column m_mc_version mv mv' m,
     m_subdomain := changed_column m_subdomain mv mv' m,
     m_online_mode := changed_column m_online_mode mv mv' m,
     m_allow_bedrock := changed_column m_allow_bedrock mv mv' m,
     m_started := changed_column m_started mv mv' m\<rparr>"

definition reload :: "string \<Rightarrow> ('d world, miniverse \<times> miniverse list) action" where
  "reload i = bindA (getA (\<lambda>w. (get_miniverse i (w_db w), miniverses (w_db w)))) (\<lambda>(row, snapshot).
     case row of None \<Rightarrow> raise InvalidRequestError | Some mv \<Rightarrow> ret (mv, snapshot))"

text \<open>\<open>commit\<close> and \<open>refresh\<close> of an object that was loaded as \<open>mv\<close> and is now \<open>mv'\<close>.\<close>

definition commit_thread :: "miniverse \<Rightarrow> miniverse \<Rightarrow> ('d world, miniverse \<times> miniverse list) thread" where
  "commit_thread mv mv' =
    bindT (if mv' = mv then retT () else turn (commit_row (m_id mv) (changes mv mv'))) (\<lambda>_.
    turn (reload (m_id mv)))"

section \<open>Starting and stopping\<close>

definition launch_thread ::
  "'d services \<Rightarrow> miniverse \<Rightarrow> ('d world, string \<times> miniverse \<times> miniverse list) thread" where
  "launch_thread s mv =
    bindT (turn (on_docker (get_container_by_name (s_docker s) (container_name mv)))) (\<lambda>existing_container.
    case existing_container of
      Some cid \<Rightarrow>
        bindT (commit_thread mv (mv\<lparr>m_container_id := Some cid\<rparr>)) (\<lambda>(mv1, snapshot).
        bindT (turn (on_docker (start_container (s_docker s) cid))) (\<lambda>_.
        retT (cid, mv1, snapshot)))
    | None \<Rightarrow>
        bindT (turn (on_docker (create_container (s_docker s) (miniverse_spec (s_env s) mv)))) (\<lambda>cid.
        bindT (commit_thread mv (mv\<lparr>m_container_id := Some cid\<rparr>)) (\<lambda>(mv1, snapshot).
        bindT (turn (on_docker (start_container (s_docker s) cid))) (\<lambda>_.
        turn (bindA (controllerA (m_id mv)) (\<lambda>c.
          thenA (on_live (set_controller (m_id mv) (controller_start c)))
         (thenA (publish_updated (m_id mv) None)
                (ret (cid, mv1, snapshot)))))))))"

definition start_thread ::
  "'d services \<Rightarrow> miniverse \<Rightarrow> ('d world, string \<times> miniverse \<times> miniverse list) thread" where
  "start_thread s mv =
    bindT (turn (init_data_path s mv)) (\<lambda>_.
    bindT (commit_thread mv (mv\<lparr>m_started := True\<rparr>)) (\<lambda>(mv1, _). launch_thread s mv1))"

definition stop_thread :: "'d services \<Rightarrow> miniverse \<Rightarrow> ('d world, miniverse \<times> miniverse list) thread" where
  "stop_thread s mv =
    (let i = m_id mv in
     bindT (turn (stop_miniverse_container s mv)) (\<lambda>_.
     bindT (turn (bindA (controllerA i) (\<lambda>c.
             bindA (on_live (on_hub (controller_stop (s_ns s) (s_rpc s) i c))) (\<lambda>c'.
             on_live (set_controller i c'))))) (\<lambda>_.
     bindT (commit_thread mv (mv\<lparr>m_started := False, m_container_id := None\<rparr>)) (\<lambda>(mv1, snapshot).
     turn (thenA (publish_updated i None) (ret (mv1, snapshot)))))))"

definition restart_thread ::
  "'d services \<Rightarrow> miniverse \<Rightarrow> ('d world, string \<times> miniverse \<times> miniverse list) thread" where
  "restart_thread s mv = bindT (stop_thread s mv) (\<lambda>(mv1, _). start_thread s mv1)"

section \<open>The routes\<close>

text \<open>What \<open>update_proxy_config\<close> does with the rows that it read.\<close>

definition write_routes :: "'d services \<Rightarrow> miniverse list \<Rightarrow> ('d world, unit) action" where
  "write_routes s miniverse_list =
    (let e = s_env s in
     thenA (on_fs (mkdir_parents (work_dir e) (path_parent (routes_path e))))
           (on_fs (write_file (work_dir e) (routes_path e)
                     (json_text (indent_format 4) 0 (generate_router_routes e miniverse_list)))))"

definition proxy_thread :: "'d services \<Rightarrow> miniverse list \<Rightarrow> ('d world, unit) thread" where
  "proxy_thread s miniverse_list =
    bindT (turn (write_routes s miniverse_list)) (\<lambda>_.
    bindT (turn (on_docker (get_container_by_name (s_docker s) ''miniverse-router''))) (\<lambda>router_container.
    case router_container of
      None \<Rightarrow> retT ()
    | Some c \<Rightarrow> turn (on_docker (kill_container (s_docker s) c ''SIGHUP''))))"

section \<open>Creating and deleting\<close>

definition refresh_role :: "string \<Rightarrow> string \<Rightarrow> ('d world, unit) action" where
  "refresh_role miniverse_id user_id =
    bindA (getA (\<lambda>w. get_miniverse_user_role miniverse_id user_id (w_db w))) (\<lambda>r.
    case r of None \<Rightarrow> raise InvalidRequestError | Some _ \<Rightarrow> ret ())"

definition create_thread :: "'d services \<Rightarrow> miniverse_create \<Rightarrow> string \<Rightarrow> ('d world, miniverse) thread" where
  "create_thread s req creator_id =
    bindT (turn (bindA (getA (\<lambda>w. s_new_id s (w_db w))) (\<lambda>i.
      case c_subdomain req of
        None \<Rightarrow> raise IntegrityError
      | Some sub \<Rightarrow> thenA (on_db (insert_miniverse (new_miniverse req i sub (s_secret s)))) (ret i)))) (\<lambda>i.
    bindT (turn (reload i)) (\<lambda>(mv, _).
    bindT (turn (on_db (insert_user_role
              \<lparr>mur_user_id = creator_id, mur_miniverse_id = i, mur_role = ADMIN\<rparr>))) (\<lambda>_.
    bindT (turn (refresh_role i creator_id)) (\<lambda>_.
    bindT (turn (on_fs (mkdir_parents (work_dir (s_env s)) (volume_data_path (s_env s) mv)))) (\<lambda>_.
    bindT (turn (add_controller s mv)) (\<lambda>_.
    bindT (start_thread s mv) (\<lambda>(_, mv', snapshot).
    bindT (proxy_thread s snapshot) (\<lambda>_.
    turn (thenA (created_event i) (ret mv'))))))))))"

text \<open>
  \<open>db.delete(miniverse)\<close> deletes the mods that were loaded with the row; the key of a mod that came since has no
  \<open>CASCADE\<close> and refuses the deletion. The roles cascade. Deleting a row that is gone is a warning.
\<close>

definition commit_delete :: "string \<Rightarrow> mod_row list \<Rightarrow> (db, unit) action" where
  "commit_delete i loaded d =
    (if \<exists>m \<in> set (mods d). mod_miniverse_id m = i \<and> mod_id m \<notin> mod_id ` set loaded
     then (Inl IntegrityError, d)
     else delete_miniverse_row i d)"

definition remove_directory :: "'d services \<Rightarrow> string \<Rightarrow> ('d world, unit) action" where
  "remove_directory s i =
    (let e = s_env s; base = get_miniverse_path e i [] False in
     bindA (getA (\<lambda>w. exists (w_fs w) (work_dir e) base \<and> is_dir (w_fs w) (work_dir e) base)) (\<lambda>b.
     if b then on_fs (rmtree (work_dir e) base) else ret ()))"

definition delete_thread ::
  "'d services \<Rightarrow> miniverse \<Rightarrow> miniverse_user_role list \<Rightarrow> mod_row list \<Rightarrow> ('d world, unit) thread" where
  "delete_thread s mv roles loaded =
    (let i = m_id mv in
     bindT (turn (remove_controller s i)) (\<lambda>_.
     bindT (case m_container_id mv of
              None \<Rightarrow> retT ()
            | Some c \<Rightarrow> if c = [] then retT () else turn (on_docker (remove_container (s_docker s) c))) (\<lambda>_.
     bindT (turn (remove_directory s i)) (\<lambda>_.
     bindT (turn (on_db (commit_delete i loaded))) (\<lambda>_.
     bindT (turn (on_live (on_hub (delete_miniverse_cache i)))) (\<lambda>_.
     bindT (turn (getA (\<lambda>w. miniverses (w_db w)))) (\<lambda>snapshot.
     bindT (proxy_thread s snapshot) (\<lambda>_.
     turn (on_live (on_hub (publish_miniverse_deleted_event i (user_list_from_user_role_list roles))))))))))))"

section \<open>Updating\<close>

definition version_thread ::
  "'d services \<Rightarrow> miniverse \<Rightarrow> string \<Rightarrow> bool \<Rightarrow> ('d world, miniverse \<times> miniverse list) thread" where
  "version_thread s mv new_mc_version force_update =
    (if m_mc_version mv = new_mc_version then raiseT ValidationException
     else
       bindT (turn (on_live (on_cache (compare_versions (s_from_iso s)
                (s_web s (MODRINTH_BASE_URL @ ''/tag/game_version'') [])
                (m_mc_version mv) new_mc_version)))) (\<lambda>version_comparison.
       case version_comparison of
         None \<Rightarrow> raiseT ValidationException
       | Some c \<Rightarrow>
           if c > 0 then raiseT ValidationException
           else
             bindT (if is_modded mv then turn (update_all_mods s mv new_mc_version force_update) else retT ()) (\<lambda>_.
             bindT (stop_thread s mv) (\<lambda>(mv1, _).
             bindT (commit_thread mv1 (mv1\<lparr>m_mc_version := new_mc_version\<rparr>)) (\<lambda>(mv2, _).
             bindT (start_thread s mv2) (\<lambda>(_, mv3, snapshot).
             retT (mv3, snapshot)))))))"

text \<open>
  The reads and the checks of an update are one transaction. The snapshot of the routes is that of the last
  refresh; the routes are only written when the fields were committed and refreshed.
\<close>

definition check_update :: "string \<Rightarrow> update_request \<Rightarrow> db \<Rightarrow> exn + (miniverse \<times> miniverse \<times> field list)" where
  "check_update i r d = (case get_miniverse i d of
     None \<Rightarrow> Inl NotFoundException
   | Some mv \<Rightarrow> bindE (update_fields d r fields_to_update mv) (\<lambda>(mv1, changed_fields). Inr (mv, mv1, changed_fields)))"

definition after_thread :: "'d services \<Rightarrow> string \<Rightarrow> update_request \<Rightarrow> field list \<Rightarrow> miniverse \<Rightarrow>
    miniverse \<times> miniverse list \<Rightarrow> ('d world, miniverse) thread" where
  "after_thread s i r changed_fields mv1 committed =
    (let version_changed = (case up_mc_version r of None \<Rightarrow> False | Some v \<Rightarrow> m_mc_version mv1 \<noteq> v);
         should_restart = (case up_java_version r of None \<Rightarrow> False | Some j \<Rightarrow> m_java_version mv1 \<noteq> Some j)
     in
       bindT (if version_changed then version_thread s (fst committed) (the (up_mc_version r)) False
              else retT committed) (\<lambda>(mv2, snapshot2).
       bindT (if should_restart then bindT (restart_thread s mv2) (\<lambda>(_, mv3, snapshot3). retT (mv3, snapshot3))
              else retT (mv2, snapshot2)) (\<lambda>(mv3, snapshot3).
       bindT (if FSubdomain \<in> set changed_fields \<or> FAllowBedrock \<in> set changed_fields
              then proxy_thread s snapshot3 else retT ()) (\<lambda>_.
       if changed_fields \<noteq> [] \<or> version_changed
       then turn (thenA (publish_updated i None) (ret mv3)) else retT mv3))))"

definition update_thread ::
  "'d services \<Rightarrow> string \<Rightarrow> update_request \<Rightarrow> ('d world, miniverse) thread" where
  "update_thread s i r =
    bindT (turn (getA (\<lambda>w. check_update i r (w_db w)))) (\<lambda>checked.
    bindT (liftT checked) (\<lambda>(mv, mv1, changed_fields).
    bindT (if changed_fields \<noteq> [] then commit_thread mv mv1 else retT (mv1, [])) (\<lambda>committed.
    after_thread s i r changed_fields mv1 committed)))"

section \<open>The endpoints\<close>

definition loaded_thread :: "exn \<Rightarrow> string \<Rightarrow> (miniverse \<Rightarrow> ('d world, 'a) thread) \<Rightarrow> ('d world, 'a) thread" where
  "loaded_thread e i t =
    bindT (turn (getA (\<lambda>w. get_miniverse i (w_db w)))) (\<lambda>m. case m of None \<Rightarrow> raiseT e | Some mv \<Rightarrow> t mv)"

definition allowed_thread :: "role \<Rightarrow> user_obj \<Rightarrow> string \<Rightarrow> ('d world, 'a) thread \<Rightarrow> ('d world, 'a) thread" where
  "allowed_thread r cu i t = (if get_miniverse_role cu i < r then raiseT NotAuthorizedException else t)"

text \<open>The answer of a request is not kept.\<close>

definition discardT :: "('s, 'a) thread \<Rightarrow> ('s, unit) thread" where
  "discardT t = bindT t (\<lambda>_. retT ())"

fun lifecycle_thread :: "'d services \<Rightarrow> user_obj \<Rightarrow> request \<Rightarrow> ('d world, unit) thread option" where
  "lifecycle_thread s cu (CreateMiniverse d) =
     Some (if u_role cu < MODERATOR then raiseT NotAuthorizedException
           else discardT (create_thread s d (u_id cu)))"
| "lifecycle_thread s cu (DeleteMiniverse i) = Some (allowed_thread ADMIN cu i
     (bindT (turn (getA (\<lambda>w. (get_miniverse i (w_db w), users_roles (w_db w) i, mods_of (w_db w) i))))
       (\<lambda>(m, roles, loaded). case m of
          None \<Rightarrow> raiseT AttributeError | Some mv \<Rightarrow> delete_thread s mv roles loaded)))"
| "lifecycle_thread s cu (StartMiniverse i) = Some (allowed_thread USER cu i
     (loaded_thread NotFoundException i (\<lambda>mv. discardT (start_thread s mv))))"
| "lifecycle_thread s cu (StopMiniverse i) = Some (allowed_thread USER cu i
     (loaded_thread NotFoundException i (\<lambda>mv. discardT (stop_thread s mv))))"
| "lifecycle_thread s cu (RestartMiniverse i) = Some (allowed_thread USER cu i
     (loaded_thread NotFoundException i (\<lambda>mv. discardT (restart_thread s mv))))"
| "lifecycle_thread s cu (UpdateMiniverse i r) = Some (allowed_thread ADMIN cu i
     (discardT (update_thread s i r)))"
| "lifecycle_thread s cu _ = None"

definition lifecycle_pool :: "'d services \<Rightarrow> (user_obj \<times> request) list \<Rightarrow> 'd world \<Rightarrow> ('d world, unit) pool" where
  "lifecycle_pool s reqs w =
    (map (\<lambda>(cu, req). case lifecycle_thread s cu req of Some t \<Rightarrow> t | None \<Rightarrow> retT ()) reqs, w)"

section \<open>What every turn respects\<close>

lemma changes_id [simp]: "m_id (changes mv mv' m) = m_id m"
  by (simp add: changes_def)

lemma reload_R: "reflp R \<Longrightarrow> moves R (reload i)"
  unfolding reload_def by (auto simp: moves_def bindA_apply getA_apply raise_apply ret_apply reflpD split: option.splits)

context mod_writes
begin

lemma proxy_turns: "turns (via_db R) (proxy_thread s ms)"
  unfolding proxy_thread_def write_routes_def Let_def by (intro turns_intros steps)

lemma reload_turn: "turns (via_db R) (turn (reload i))"
  by (intro turns_intros reload_R steps)

end

context service_writes
begin

lemma commit_turns:
  assumes "\<And>m. ident (changes mv mv' m) = ident m"
  shows "turns (via_db R) (commit_thread mv mv')"
  unfolding commit_thread_def commit_row_def by (intro turns_intros reload_turn steps attributes assms)

lemma assigned:
  "ident (changes mv (mv\<lparr>m_started := b\<rparr>) m) = ident m"
  "ident (changes mv (mv\<lparr>m_container_id := c\<rparr>) m) = ident m"
  "ident (changes mv (mv\<lparr>m_started := b, m_container_id := c\<rparr>) m) = ident m"
  "ident (changes mv (mv\<lparr>m_mc_version := v\<rparr>) m) = ident m"
  by (simp_all add: ident_def changes_def changed_column_def)

lemma start_turns: "turns (via_db R) (start_thread s mv)"
  unfolding start_thread_def launch_thread_def
  by (intro turns_intros steps commit_turns assigned init_R controllerA_R mods_R)

lemma stop_turns: "turns (via_db R) (stop_thread s mv)"
  unfolding stop_thread_def stop_miniverse_container_def Let_def
  by (intro turns_intros steps commit_turns assigned controllerA_R mods_R)

lemma restart_turns: "turns (via_db R) (restart_thread s mv)"
  unfolding restart_thread_def by (intro turns_intros start_turns stop_turns)

lemma version_turns: "turns (via_db R) (version_thread s mv v b)"
  unfolding version_thread_def update_all_mods_def apply_mod_update_def
  by (intro turns_intros steps commit_turns assigned start_turns stop_turns update_mod_R)

lemma after_turns: "turns (via_db R) (after_thread s i r changed mv c)"
  unfolding after_thread_def Let_def
  by (intro turns_intros steps version_turns restart_turns proxy_turns mods_R)

end

context request_writes
begin

lemma commit_any_turns: "turns (via_db R) (commit_thread mv mv')"
  unfolding commit_thread_def commit_row_def set_miniverse_def
  by (intro turns_intros reload_turn steps on_tables moves_modifyA R_columns) simp

lemma delete_commit: "moves R (commit_delete i ms)"
  unfolding moves_def commit_delete_def using R_refl R_delete by (auto simp: reflp_def moves_def)

lemma create_turns: "turns (via_db R) (create_thread s req c)"
  unfolding create_thread_def refresh_role_def add_controller_def created_event_def
  by (intro turns_intros steps row_writes reload_turn start_turns proxy_turns)

lemma delete_turns: "turns (via_db R) (delete_thread s mv roles ms)"
  unfolding delete_thread_def remove_controller_def remove_directory_def Let_def
  by (intro turns_intros steps proxy_turns on_tables delete_commit)

lemma update_turns: "turns (via_db R) (update_thread s i r)"
  unfolding update_thread_def by (intro turns_intros steps commit_any_turns after_turns)

lemma lifecycle_turns: "lifecycle_thread s cu req = Some t \<Longrightarrow> turns (via_db R) t"
  by (cases req)
     (auto simp: allowed_thread_def loaded_thread_def discardT_def intro!: turns_intros steps create_turns
       delete_turns start_turns stop_turns restart_turns update_turns)

end

end
