(* ===== verification/LifecycleAlone.thy ===== *)
theory LifecycleAlone
  imports LifecycleThreads
begin

text \<open>
  The threads of \<open>LifecycleThreads\<close> are the actions of \<open>Lifecycle\<close> and the endpoints of \<open>Api\<close> when nothing interrupts
  them (\<open>lifecycle_alone\<close>). Each lemma says so of one operation and whatever comes after it.
\<close>

section \<open>A request alone\<close>

text \<open>The row is as the object, and its id is unique.\<close>

definition loaded :: "miniverse \<Rightarrow> 'd world \<Rightarrow> bool" where
  "loaded mv w \<longleftrightarrow> distinct (map m_id (miniverses (w_db w))) \<and> get_miniverse (m_id mv) (w_db w) = Some mv"

text \<open>The attributes that no request assigns.\<close>

definition fixed :: "miniverse \<Rightarrow> string \<times> miniverse_type \<times> bool \<times> string option" where
  "fixed mv = (m_id mv, m_type mv, m_is_on_lite_proxy mv, m_secret mv)"

lemma changes_self: "fixed mv' = fixed mv \<Longrightarrow> changes mv mv' mv = mv'"
  by (auto simp: changes_def changed_column_def fixed_def)

lemma set_miniverse_apply:
  "set_miniverse i f w = (Inr (), w\<lparr>w_db := w_db w\<lparr>miniverses := update_by m_id i f (miniverses (w_db w))\<rparr>\<rparr>)"
  by (simp add: set_miniverse_def act_simps)

lemma loaded_set:
  assumes "loaded mv w" "\<And>m. m_id (f m) = m_id m"
  shows "loaded (f mv) (snd (set_miniverse (m_id mv) f w))"
  using assms by (simp add: loaded_def set_miniverse_apply row_update table_simps)

lemma alone_commit:
  assumes "loaded mv w" "\<And>m. m_id (f m) = m_id m" "fixed (f mv) = fixed mv"
  shows "alone (commit_thread mv (f mv)) w =
    (Inr (f mv, miniverses (w_db (snd (set_miniverse (m_id mv) f w)))), snd (set_miniverse (m_id mv) f w))"
proof -
  let ?w = "snd (set_miniverse (m_id mv) f w)"
  have d: "distinct (map m_id (miniverses (w_db w)))" "row_by m_id (m_id mv) (miniverses (w_db w)) = Some mv"
    using assms(1) by (auto simp: loaded_def get_miniverse_def)
  have "m_id mv \<in> m_id ` set (miniverses (w_db w))" using row_by_SomeD [OF d(2)] by auto
  then have "commit_row (m_id mv) (changes mv (f mv)) w = (Inr (), ?w)"
    using update_by_row(1) [OF d, of "changes mv (f mv)" f] changes_self [OF assms(3)]
    by (simp add: commit_row_def set_miniverse_apply act_simps)
  moreover have "?w = w" if "f mv = mv"
    using update_by_row(2) [where f = f, OF d that] by (simp add: set_miniverse_apply)
  moreover have "get_miniverse (m_id mv) (w_db ?w) = Some (f mv)"
    using loaded_set [OF assms(1,2)] assms(2) by (simp add: loaded_def)
  ultimately show ?thesis
    by (auto simp: commit_thread_def reload_def thenA_def thread_simps act_simps)
qed

lemma loaded_moves:
  "moves (via_db (same miniverses)) m \<Longrightarrow> loaded mv w \<Longrightarrow> loaded mv (snd (m w))"
  using movesD by (fastforce simp: loaded_def get_miniverse_def via_db_def same_def)

lemma alone_cases [thread_simps]:
  "alone (case opt of None \<Rightarrow> t | Some x \<Rightarrow> f x) = (case opt of None \<Rightarrow> alone t | Some x \<Rightarrow> alone (f x))"
  "alone (case p of (x, y) \<Rightarrow> g x y) = (case p of (x, y) \<Rightarrow> alone (g x y))"
  "alone (if b then t else u) = (if b then alone t else alone u)"
  by (simp_all split: option.split prod.split)

lemma keep_rows:
  "moves (via_db (same miniverses)) (on_docker d)" "moves (via_db (same miniverses)) (on_live l)"
  "moves (via_db (same miniverses)) (on_fs m)" "moves (via_db (same miniverses)) (controllerA i)"
  "moves (via_db (same miniverses)) (publish_updated i us)"
  by (rule rows.elsewhere rows.controllerA_R rows.mods_R)+

lemma bindA_assoc: "bindA (bindA m f) g = bindA m (\<lambda>x. bindA (f x) g)"
  by (rule ext) (simp add: bindA_apply split: prod.splits sum.splits)

text \<open>
  Steps that a thread and its action have in common, and a commit. What comes after may rely on the object being
  as its row.
\<close>

lemma bind_step:
  assumes "\<And>x w'. m w = (Inr x, w') \<Longrightarrow> f x w' = g x w'"
  shows "bindA m f w = bindA m g w"
  using assms by (simp add: bindA_apply split: prod.splits sum.splits)

lemma rows_step:
  assumes "moves (via_db (same miniverses)) m"
    and "\<And>x w'. miniverses (w_db w') = miniverses (w_db w) \<Longrightarrow> f x w' = g x w'"
  shows "bindA m f w = bindA m g w"
proof (rule bind_step)
  fix x w' assume "m w = (Inr x, w')"
  with movesD [OF assms(1), of w] show "f x w' = g x w'"
    by (intro assms(2)) (simp add: via_db_def same_def)
qed

lemma loaded_same: "loaded mv w \<Longrightarrow> miniverses (w_db w') = miniverses (w_db w) \<Longrightarrow> loaded mv w'"
  by (simp add: loaded_def get_miniverse_def)

lemma commit_step:
  assumes "loaded mv w" "\<And>m. m_id (f m) = m_id m" "fixed (f mv) = fixed mv" "m_id mv = i"
    and "\<And>w'. loaded (f mv) w' \<Longrightarrow> F (f mv, miniverses (w_db w')) w' = G w'"
  shows "bindA (alone (commit_thread mv (f mv))) F w = bindA (set_miniverse i f) (\<lambda>_. G) w"
  using loaded_set [OF assms(1,2)] assms(4,5)
  by (simp add: bindA_apply alone_commit [OF assms(1-3)]) (simp add: set_miniverse_apply)

text \<open>The three assignments of the lifecycle.\<close>

lemma commit_started:
  assumes "loaded mv w" "m_id mv = i" "\<And>w'. loaded (mv\<lparr>m_started := True\<rparr>) w' \<Longrightarrow>
    F (mv\<lparr>m_started := True\<rparr>, miniverses (w_db w')) w' = G w'"
  shows "bindA (alone (commit_thread mv (mv\<lparr>m_started := True\<rparr>))) F w =
    bindA (set_miniverse i (\<lambda>m. m\<lparr>m_started := True\<rparr>)) (\<lambda>_. G) w"
  by (rule commit_step [where f = "\<lambda>m. m\<lparr>m_started := True\<rparr>"]) (use assms in \<open>simp_all add: fixed_def\<close>)

lemma commit_container:
  assumes "loaded mv w" "m_id mv = i" "\<And>w'. loaded (mv\<lparr>m_container_id := c\<rparr>) w' \<Longrightarrow>
    F (mv\<lparr>m_container_id := c\<rparr>, miniverses (w_db w')) w' = G w'"
  shows "bindA (alone (commit_thread mv (mv\<lparr>m_container_id := c\<rparr>))) F w =
    bindA (set_miniverse i (\<lambda>m. m\<lparr>m_container_id := c\<rparr>)) (\<lambda>_. G) w"
  by (rule commit_step [where f = "\<lambda>m. m\<lparr>m_container_id := c\<rparr>"]) (use assms in \<open>simp_all add: fixed_def\<close>)

lemma commit_stopped:
  assumes "loaded mv w" "m_id mv = i" "\<And>w'. loaded (mv\<lparr>m_started := False, m_container_id := None\<rparr>) w' \<Longrightarrow>
    F (mv\<lparr>m_started := False, m_container_id := None\<rparr>, miniverses (w_db w')) w' = G w'"
  shows "bindA (alone (commit_thread mv (mv\<lparr>m_started := False, m_container_id := None\<rparr>))) F w =
    bindA (set_miniverse i (\<lambda>m. m\<lparr>m_started := False, m_container_id := None\<rparr>)) (\<lambda>_. G) w"
  by (rule commit_step [where f = "\<lambda>m. m\<lparr>m_started := False, m_container_id := None\<rparr>"])
    (use assms in \<open>simp_all add: fixed_def\<close>)

lemma commit_version:
  assumes "loaded mv w" "m_id mv = i" "\<And>w'. loaded (mv\<lparr>m_mc_version := v\<rparr>) w' \<Longrightarrow>
    F (mv\<lparr>m_mc_version := v\<rparr>, miniverses (w_db w')) w' = G w'"
  shows "bindA (alone (commit_thread mv (mv\<lparr>m_mc_version := v\<rparr>))) F w =
    bindA (set_miniverse i (\<lambda>m. m\<lparr>m_mc_version := v\<rparr>)) (\<lambda>_. G) w"
  by (rule commit_step [where f = "\<lambda>m. m\<lparr>m_mc_version := v\<rparr>"]) (use assms in \<open>simp_all add: fixed_def\<close>)

lemmas action_steps = thread_simps thenA_def bindA_assoc

lemma launch_step:
  fixes w :: "'d world"
  assumes "loaded (mv\<lparr>m_started := True\<rparr>) w"
    and "\<And>cid mv' ms w'. loaded mv' w' \<Longrightarrow> m_id mv' = m_id mv \<Longrightarrow> ms = miniverses (w_db w') \<Longrightarrow>
      F (cid, mv', ms) w' = G (cid, mv') w'"
  shows "bindA (alone (launch_thread s (mv\<lparr>m_started := True\<rparr>))) F w = bindA (launch s mv) G w"
proof -
  have name: "container_name (mv\<lparr>m_started := True\<rparr>) = container_name mv" by (simp add: container_name_def)
  show ?thesis
    unfolding launch_thread_def launch_def Let_def action_steps name
  proof (rule rows_step [OF keep_rows(1)], goal_cases)
    case (1 ex w1)
    then have l: "loaded (mv\<lparr>m_started := True\<rparr>) w1" using assms(1) by (auto intro: loaded_same)
    show ?case
    proof (cases ex)
      case None
      show ?thesis
        by (simp add: None create_miniverse_container_def action_steps,
            intro rows_step keep_rows commit_container, (auto intro: loaded_same l) [1], simp, simp,
            intro rows_step keep_rows assms(2)) (auto intro: loaded_same)
    next
      case (Some cid)
      show ?thesis
        by (simp add: Some action_steps,
            intro rows_step keep_rows commit_container, (auto intro: loaded_same l) [1], simp, simp,
            intro rows_step keep_rows assms(2)) (auto intro: loaded_same)
    qed
  qed
qed

lemma start_step:
  fixes w :: "'d world"
  assumes "loaded mv w"
    and "\<And>cid mv' ms w'. loaded mv' w' \<Longrightarrow> m_id mv' = m_id mv \<Longrightarrow> ms = miniverses (w_db w') \<Longrightarrow>
      F (cid, mv', ms) w' = G (cid, mv') w'"
  shows "bindA (alone (start_thread s mv)) F w = bindA (start_miniverse s mv) G w"
  unfolding start_thread_def start_unfold action_steps
proof (rule rows_step [OF rows.init_R], rule commit_started)
  show "loaded mv w'" if "miniverses (w_db w') = miniverses (w_db w)" for w' :: "'d world"
    using assms(1) that by (rule loaded_same)
qed (use assms in \<open>auto intro: launch_step\<close>)

lemma stop_step:
  fixes w :: "'d world"
  assumes "loaded mv w"
    and "\<And>mv' ms w'. loaded mv' w' \<Longrightarrow> m_id mv' = m_id mv \<Longrightarrow> ms = miniverses (w_db w') \<Longrightarrow>
      F (mv', ms) w' = G mv' w'"
  shows "bindA (alone (stop_thread s mv)) F w = bindA (stop_miniverse s mv) G w"
proof -
  have stop: "moves (via_db (same miniverses)) (stop_miniverse_container s mv)"
    unfolding stop_miniverse_container_def by (intro rows.steps)
  show ?thesis
    unfolding stop_thread_def stop_miniverse_def Let_def action_steps
    by (intro rows_step keep_rows stop commit_stopped, (use assms(1) in \<open>simp add: loaded_def get_miniverse_def\<close>) [1],
        simp, simp add: bindA_assoc, intro rows_step keep_rows assms(2)) (auto intro: loaded_same)
qed

lemma restart_step:
  fixes w :: "'d world"
  assumes "loaded mv w"
    and "\<And>cid mv' ms w'. loaded mv' w' \<Longrightarrow> m_id mv' = m_id mv \<Longrightarrow> ms = miniverses (w_db w') \<Longrightarrow>
      F (cid, mv', ms) w' = G (cid, mv') w'"
  shows "bindA (alone (restart_thread s mv)) F w = bindA (restart_miniverse s mv) G w"
  unfolding restart_thread_def restart_miniverse_def action_steps
proof (rule stop_step [OF assms(1)])
  fix mv1 ms and w' :: "'d world"
  assume "loaded mv1 w'" "m_id mv1 = m_id mv"
  then show "bindA (case (mv1, ms) of (mv1, _) \<Rightarrow> alone (start_thread s mv1)) F w' = bindA (start_miniverse s mv1) G w'"
    by (simp, intro start_step assms(2)) simp_all
qed

lemma proxy_step:
  fixes w :: "'d world"
  assumes "ms = miniverses (w_db w)"
    and "\<And>w'. miniverses (w_db w') = miniverses (w_db w) \<Longrightarrow> F () w' = G w'"
  shows "bindA (alone (proxy_thread s ms)) F w = bindA (update_proxy_config s) (\<lambda>_. G) w"
proof -
  have "alone (proxy_thread s ms) w = update_proxy_config s w"
    using assms(1)
    unfolding proxy_thread_def update_proxy_config_def write_routes_def Let_def action_steps
    by (simp add: bindA_apply getA_apply)
  then have "bindA (alone (proxy_thread s ms)) F w = bindA (update_proxy_config s) F w" by (simp add: bindA_apply)
  also have "\<dots> = bindA (update_proxy_config s) (\<lambda>_. G) w"
    by (rule rows_step [OF rows.proxy_R]) (use assms(2) in simp)
  finally show ?thesis .
qed

lemma version_step:
  fixes w :: "'d world"
  assumes "loaded mv w"
    and "\<And>mv' ms w'. loaded mv' w' \<Longrightarrow> m_id mv' = m_id mv \<Longrightarrow> ms = miniverses (w_db w') \<Longrightarrow>
      F (mv', ms) w' = G mv' w'"
  shows "bindA (alone (version_thread s mv v b)) F w = bindA (update_miniverse_game_version s mv v b) G w"
proof -
  have mods: "moves (via_db (same miniverses)) (update_all_mods s mv v b)"
    unfolding update_all_mods_def apply_mod_update_def by (intro rows.steps rows.update_mod_R)
  show ?thesis
  proof (cases "m_mc_version mv = v")
    case True
    then show ?thesis by (simp add: version_thread_def update_miniverse_game_version_def action_steps)
  next
    case False
    show ?thesis
      unfolding version_thread_def update_miniverse_game_version_def action_steps if_not_P [OF False]
    proof (rule rows_step [OF keep_rows(2)], goal_cases)
      case (1 c w1)
      then have l: "loaded mv w1" using assms(1) by (auto intro: loaded_same)
      have mods': "moves (via_db (same miniverses)) (if is_modded mv then update_all_mods s mv v b else ret ())"
        by (intro moves_if mods rows.steps)
      have rest: "bindA (alone (stop_thread s mv)) (\<lambda>x. bindA (case x of (mv1, _) \<Rightarrow>
            bindA (alone (commit_thread mv1 (mv1\<lparr>m_mc_version := v\<rparr>))) (\<lambda>x. case x of (mv2, _) \<Rightarrow>
            bindA (alone (start_thread s mv2)) (\<lambda>x. case x of (_, mv3, ms) \<Rightarrow> ret (mv3, ms)))) F) w2 =
          bindA (stop_miniverse s mv) (\<lambda>mv1. bindA (set_miniverse (m_id mv) (\<lambda>m. m\<lparr>m_mc_version := v\<rparr>)) (\<lambda>_.
            bindA (start_miniverse s (mv1\<lparr>m_mc_version := v\<rparr>)) (\<lambda>x. bindA (case x of (_, mv2) \<Rightarrow> ret mv2) G))) w2"
        if "loaded mv w2" for w2 :: "'d world"
        using that by (auto intro!: stop_step commit_version start_step assms(2) simp: bindA_assoc)
      show ?case
      proof (cases c)
        case None
        then show ?thesis by (simp add: thread_simps)
      next
        case (Some n)
        show ?thesis
        proof (cases "n > 0")
          case True
          with Some show ?thesis by (simp add: thread_simps)
        next
          case False
          show ?thesis
            unfolding Some option.case if_not_P [OF False] action_steps
            by (rule rows_step [OF mods'], rule rest) (use l in \<open>auto intro: loaded_same\<close>)
        qed
      qed
    qed
  qed
qed

lemma after_step:
  fixes w :: "'d world"
  assumes "loaded mv1 w" "m_id mv1 = i" "changed \<noteq> [] \<Longrightarrow> ms = miniverses (w_db w)"
  shows "alone (after_thread s i r changed mv1 (mv1, ms)) w = after_fields s i r changed mv1 w"
proof -
  define version_changed where
    "version_changed \<longleftrightarrow> (case up_mc_version r of None \<Rightarrow> False | Some v \<Rightarrow> m_mc_version mv1 \<noteq> v)"
  define should_restart where
    "should_restart \<longleftrightarrow> (case up_java_version r of None \<Rightarrow> False | Some j \<Rightarrow> m_java_version mv1 \<noteq> Some j)"
  define routed where "routed \<longleftrightarrow> FSubdomain \<in> set changed \<or> FAllowBedrock \<in> set changed"
  define E :: "miniverse \<Rightarrow> ('d world, miniverse) action" where
    "E = (\<lambda>mv. thenA (if routed then update_proxy_config s else ret ())
       (thenA (if changed \<noteq> [] \<or> version_changed then publish_updated i None else ret ()) (ret mv)))"
  define E' :: "miniverse \<times> miniverse list \<Rightarrow> ('d world, miniverse) action" where
    "E' = (\<lambda>(mv, ms). bindA (alone (if routed then proxy_thread s ms else retT ())) (\<lambda>_.
      alone (if changed \<noteq> [] \<or> version_changed then turn (thenA (publish_updated i None) (ret mv)) else retT mv)))"
  define R where "R = (\<lambda>mv. bindA (if should_restart then bindA (restart_miniverse s mv) (\<lambda>(_, mv). ret mv) else ret mv) E)"
  define R' where "R' = (\<lambda>(mv, ms). bindA (alone (if should_restart
      then bindT (restart_thread s mv) (\<lambda>(_, mv, ms). retT (mv, ms)) else retT (mv, ms))) E')"
  have ended: "E' (mv, ms') w' = E mv w'"
    if "loaded mv w'" "changed \<noteq> [] \<Longrightarrow> ms' = miniverses (w_db w')" for mv ms' w'
  proof (cases routed)
    case True
    then have "ms' = miniverses (w_db w')" using that(2) by (cases changed) (auto simp: routed_def)
    with True show ?thesis
      by (auto simp: E_def E'_def thread_simps thenA_def intro!: proxy_step)
  qed (simp add: E_def E'_def thread_simps)
  have restarted: "R' (mv, ms') w' = R mv w'"
    if "loaded mv w'" "changed \<noteq> [] \<Longrightarrow> ms' = miniverses (w_db w')" for mv ms' w'
  proof (cases should_restart)
    case True
    with that(1) show ?thesis
      unfolding R_def R'_def prod.case by (simp add: action_steps, intro restart_step) (simp_all add: ended)
  next
    case False
    with ended [OF that] show ?thesis by (simp add: R_def R'_def thread_simps)
  qed
  have "bindA (alone (if version_changed then version_thread s mv1 (the (up_mc_version r)) False
        else retT (mv1, ms))) R' w =
      bindA (if version_changed then update_miniverse_game_version s mv1 (the (up_mc_version r)) False else ret mv1) R w"
  proof (cases version_changed)
    case True
    then show ?thesis by (simp, intro version_step [OF assms(1)] restarted) simp_all
  next
    case False
    with restarted [OF assms(1,3)] show ?thesis by (simp add: thread_simps)
  qed
  then show ?thesis
    unfolding after_thread_def after_fields_def Let_def version_changed_def [symmetric]
      should_restart_def [symmetric] routed_def [symmetric] fst_conv thread_simps R_def R'_def E_def E'_def
    by (simp add: case_prod_beta')
qed

lemma update_fields_copied:
  "update_fields d r fs mv = Inr (mv1, changed) \<Longrightarrow>
     copy_fields mv1 mv = mv1 \<and> fixed mv1 = fixed mv \<and> (changed = [] \<longrightarrow> mv1 = mv)"
proof (induction fs arbitrary: mv mv1 changed)
  case Nil
  then show ?case by (simp add: copy_fields_def)
next
  case (Cons f fs)
  show ?case
  proof (cases "field_change r f mv")
    case None
    with Cons show ?thesis by simp
  next
    case (Some mv')
    then obtain ch where *: "update_fields d r fs mv' = Inr (mv1, ch)" "changed = f # ch"
      using Cons.prems by (cases "update_fields d r fs mv'") (auto split: if_splits)
    have "copy_fields mv1 mv = copy_fields mv1 mv' \<and> fixed mv' = fixed mv"
      using Some by (cases f) (auto simp: copy_fields_def fixed_def split: option.splits if_splits)
    with Cons.IH [OF *(1)] *(2) show ?thesis by auto
  qed
qed

lemma commit_fields:
  assumes "loaded mv w" "copy_fields mv1 mv = mv1" "fixed mv1 = fixed mv"
    and "\<And>w'. loaded mv1 w' \<Longrightarrow> F (mv1, miniverses (w_db w')) w' = G w'"
  shows "bindA (alone (commit_thread mv mv1)) F w = bindA (set_miniverse (m_id mv) (copy_fields mv1)) (\<lambda>_. G) w"
  using commit_step [where f = "copy_fields mv1" and F = F and G = G, OF assms(1)] assms(2-4)
  by (simp add: copy_fields_def fixed_def)

lemma alone_update:
  fixes w :: "'d world"
  assumes "distinct (map m_id (miniverses (w_db w)))"
  shows "alone (update_thread s i r) w = bindA (found NotFoundException i) (\<lambda>mv. update_miniverse s mv r) w"
proof (cases "get_miniverse i (w_db w)")
  case None
  then show ?thesis by (simp add: update_thread_def check_update_def found_def thread_simps act_simps)
next
  case (Some mv)
  then have i: "m_id mv = i" by (auto simp: get_miniverse_def dest: row_by_SomeD)
  with Some assms have l: "loaded mv w" by (simp add: loaded_def)
  show ?thesis
  proof (cases "update_fields (w_db w) r fields_to_update mv")
    case (Inl e)
    with Some show ?thesis
      by (simp add: update_thread_def check_update_def found_def update_miniverse_unfold thread_simps act_simps)
  next
    case (Inr p)
    obtain mv1 changed where p: "p = (mv1, changed)" by (cases p)
    note u = update_fields_copied [OF Inr [unfolded p]]
    then have i1: "m_id mv1 = i" using i by (simp add: fixed_def)
    have "bindA (alone (if changed \<noteq> [] then commit_thread mv mv1 else retT (mv1, [])))
        (\<lambda>c. alone (after_thread s i r changed mv1 c)) w =
      bindA (if changed \<noteq> [] then set_miniverse i (copy_fields mv1) else ret ()) (\<lambda>_. after_fields s i r changed mv1) w"
    proof (cases "changed = []")
      case True
      with u l i show ?thesis by (simp add: thread_simps after_step)
    next
      case False
      with u l i i1 show ?thesis by (simp, intro commit_fields [where mv = mv, simplified i] after_step) simp_all
    qed
    with Some Inr p i show ?thesis
      by (simp add: update_thread_def check_update_def found_def update_miniverse_unfold action_steps)
        (simp add: act_simps)
  qed
qed

lemma db_step:
  assumes "moves (via_db (=)) m" "\<And>x w'. w_db w' = w_db w \<Longrightarrow> f x w' = g x w'"
  shows "bindA m f w = bindA m g w"
proof (rule bind_step)
  fix x w' assume "m w = (Inr x, w')"
  with movesD [OF assms(1), of w] show "f x w' = g x w'" by (intro assms(2)) (simp add: via_db_def)
qed

lemma keep_db:
  "moves (via_db (=)) (on_docker d)" "moves (via_db (=)) (on_live l)" "moves (via_db (=)) (on_fs m)"
  "reflp (via_db (=))" "transp (via_db (=))"
  by (auto intro!: moves_zoomA simp: via_db_def reflp_def transp_def)

lemma bindA_getA: "bindA (getA f) g w = g (f w) w"
  by (simp add: bindA_apply getA_apply)

lemma bind_at: "m w = m' w \<Longrightarrow> bindA m f w = bindA m' f w"
  by (simp add: bindA_apply)

lemma commit_delete_loaded: "mods_of d i = known \<Longrightarrow> commit_delete i known d = delete_miniverse_row i d"
  by (auto simp: commit_delete_def mods_of_def)

lemma alone_delete:
  fixes w :: "'d world"
  assumes "known = mods_of (w_db w) (m_id mv)" "roles = users_roles (w_db w) (m_id mv)"
  shows "alone (delete_thread s mv roles known) w = delete_miniverse s mv w"
proof -
  let ?i = "m_id mv"
  have dir: "moves (via_db (=)) (remove_directory s ?i)" "moves (via_db (=)) (remove_controller s ?i)"
    unfolding remove_directory_def remove_controller_def Let_def by (intro moves_intros keep_db)+
  have row: "on_db (commit_delete ?i known) w' = on_db (delete_miniverse_row ?i) w'" if "w_db w' = w_db w" for w' :: "'d world"
    using that assms(1) by (simp add: commit_delete_loaded zoomA_apply)
  have container: "alone (case m_container_id mv of None \<Rightarrow> retT ()
      | Some c \<Rightarrow> if c = [] then retT () else turn (on_docker (remove_container (s_docker s) c))) =
    (case m_container_id mv of None \<Rightarrow> ret ()
      | Some c \<Rightarrow> if c = [] then ret () else on_docker (remove_container (s_docker s) c))"
    by (simp add: thread_simps split: option.split)
  have kept: "moves (via_db (=)) (case m_container_id mv of None \<Rightarrow> ret ()
      | Some c \<Rightarrow> if c = [] then ret () else on_docker (remove_container (s_docker s) c))"
    by (intro moves_intros keep_db)
  show ?thesis
    unfolding delete_thread_def delete_miniverse_def Let_def alone_bindT alone_turn container thenA_def
      remove_directory_def [unfolded Let_def, symmetric] bindA_getA assms(2) [symmetric]
    by (rule db_step [OF dir(2)], rule db_step [OF kept], rule db_step [OF dir(1)],
        rule trans [OF bind_at [OF row]], simp, rule bind_step, rule bind_step, simp add: bindA_getA,
        rule proxy_step) simp_all
qed

lemma inserted:
  assumes "distinct (map m_id (miniverses (w_db w)))" "on_db (insert_miniverse mv) w = (Inr u, w')"
  shows "loaded mv w'"
  using assms by (auto simp: insert_miniverse_def zoomA_apply loaded_def get_miniverse_def row_by_fresh split: if_splits)

lemma reload_loaded: "loaded mv w \<Longrightarrow> m_id mv = i \<Longrightarrow> bindA (reload i) F w = F (mv, miniverses (w_db w)) w"
  by (auto simp: reload_def loaded_def bindA_assoc bindA_getA)

lemma role_inserted:
  assumes "on_db (insert_user_role r) w = (Inr u, w')"
  shows "bindA (refresh_role (mur_miniverse_id r) (mur_user_id r)) F w' = F () w'"
    and "miniverses (w_db w') = miniverses (w_db w)"
proof -
  have "get_miniverse_user_role (mur_miniverse_id r) (mur_user_id r) (w_db w') \<noteq> None"
    "miniverses (w_db w') = miniverses (w_db w)"
    using assms by (auto simp: insert_user_role_def zoomA_apply get_miniverse_user_role_def find_None_iff split: if_splits)
  then show "bindA (refresh_role (mur_miniverse_id r) (mur_user_id r)) F w' = F () w'"
    "miniverses (w_db w') = miniverses (w_db w)"
    by (auto simp: refresh_role_def bindA_assoc bindA_getA split: option.split)
qed

lemma alone_create:
  fixes w :: "'d world"
  assumes "distinct (map m_id (miniverses (w_db w)))"
  shows "alone (create_thread s req c) w = create_miniverse s req c w"
proof (cases "c_subdomain req")
  case None
  then show ?thesis
    by (simp add: create_thread_def create_miniverse_def action_steps bindA_getA act_simps)
next
  case (Some sub)
  let ?i = "s_new_id s (w_db w)"
  let ?mv = "new_miniverse req ?i sub (s_secret s)"
  have id: "m_id ?mv = ?i" by (simp add: new_miniverse_def)
  have ctl: "moves (via_db (same miniverses)) (add_controller s mv)" for mv
    unfolding add_controller_def by (rule keep_rows)
  show ?thesis
    unfolding create_thread_def create_miniverse_def alone_bindT alone_turn thenA_def bindA_assoc bindA_getA
      Some option.case Let_def bindA_ret_left
  proof (rule bind_step, drule inserted [OF assms], subst reload_loaded [OF _ id], assumption, unfold prod.case alone_bindT alone_turn,
      rule bind_step, goal_cases)
    case (1 _ w1 _ w2)
    have l: "loaded ?mv w2" using role_inserted(2) [OF 1(2)] 1(1) by (auto intro: loaded_same)
    note r = role_inserted(1) [OF 1(2), simplified miniverse_user_role.simps]
    show ?case
      unfolding r
      by (intro rows_step keep_rows ctl, simp add: case_prod_beta', rule start_step,
          (use l in \<open>auto intro: loaded_same\<close>) [1], simp add: action_steps, rule proxy_step) simp_all
  qed
qed

section \<open>An endpoint alone\<close>

text \<open>The threads are the endpoints when nothing interrupts them.\<close>

theorem lifecycle_alone:
  fixes w :: "'d world"
  assumes "lifecycle_thread s cu req = Some t" "distinct (map m_id (miniverses (w_db w)))"
  shows "alone t w = endpoint s z cu req w"
proof -
  have row: "loaded mv w" if "get_miniverse i (w_db w) = Some mv" for i mv
    using that assms(2) by (auto simp: loaded_def get_miniverse_def dest: row_by_SomeD)
  have guard: "alone (allowed_thread r cu i t) w = bindA (require r cu i) (\<lambda>_. A) w" if "alone t w = A w"
    for r i and t :: "('d world, 'x) thread" and A
    using that by (auto simp: allowed_thread_def require_def thread_simps)
  have load: "alone (loaded_thread e i T) w = bindA (found e i) A w"
    if "\<And>mv. loaded mv w \<Longrightarrow> m_id mv = i \<Longrightarrow> alone (T mv) w = A mv w"
    for e i T and A :: "miniverse \<Rightarrow> ('d world, 'x) action"
  proof (cases "get_miniverse i (w_db w)")
    case (Some mv)
    then have "m_id mv = i" by (auto simp: get_miniverse_def dest: row_by_SomeD)
    with Some row [OF Some] that show ?thesis
      by (simp add: loaded_thread_def found_def action_steps bindA_getA)
  qed (simp add: loaded_thread_def found_def action_steps bindA_getA thread_simps)
  note unfolded = discard_def discardT_def action_steps case_prod_beta'
  show ?thesis
  proof (cases req)
    case (CreateMiniverse d)
    have "bindA (alone (create_thread s d c)) (\<lambda>_. ret ()) w = bindA (create_miniverse s d c) (\<lambda>_. ret ()) w" for c
      by (rule bind_at) (rule alone_create [OF assms(2)])
    with CreateMiniverse assms(1) show ?thesis by (auto simp: api_create_miniverse_def unfolded)
  next
    case (DeleteMiniverse i)
    have "alone (bindT (turn (getA (\<lambda>w. (get_miniverse i (w_db w), users_roles (w_db w) i, mods_of (w_db w) i))))
        (\<lambda>(m, roles, ms). case m of None \<Rightarrow> raiseT AttributeError | Some mv \<Rightarrow> delete_thread s mv roles ms)) w =
      bindA (found AttributeError i) (delete_miniverse s) w"
      by (cases "get_miniverse i (w_db w)")
        (use row in \<open>auto simp: found_def action_steps bindA_getA get_miniverse_def intro: alone_delete dest: row_by_SomeD\<close>)
    with DeleteMiniverse assms(1) show ?thesis by (auto simp: api_delete_miniverse_def thenA_def intro: guard)
  next
    case (StartMiniverse i)
    with assms(1) show ?thesis
      by (auto simp: api_start_miniverse_def unfolded intro!: guard load start_step)
  next
    case (StopMiniverse i)
    with assms(1) show ?thesis
      by (auto simp: api_stop_miniverse_def unfolded intro!: guard load stop_step)
  next
    case (RestartMiniverse i)
    with assms(1) show ?thesis
      by (auto simp: api_restart_miniverse_def unfolded intro!: guard load restart_step)
  next
    case (UpdateMiniverse i r)
    have "bindA (alone (update_thread s i r)) (\<lambda>_. ret ()) w =
        bindA (bindA (found NotFoundException i) (\<lambda>mv. update_miniverse s mv r)) (\<lambda>_. ret ()) w"
      by (rule bind_at) (rule alone_update [OF assms(2)])
    with UpdateMiniverse assms(1) show ?thesis by (auto simp: api_update_miniverse_def unfolded intro!: guard)
  qed (use assms(1) in simp_all)
qed

end
