(* ===== verification/UpdateRaces.thy ===== *)
theory UpdateRaces
  imports LifecycleAlone
begin

text \<open>
  Two updates of miniverses at the same time that ask for the same subdomain: the check that it is free and the
  commit are separate turns, and no constraint of the table backs it.
\<close>

section \<open>Two updates that ask for the same subdomain\<close>

definition subdomain_request :: "string \<Rightarrow> update_request" where
  "subdomain_request x = \<lparr>up_name = None, up_description = None, up_subdomain = Some x, up_java_version = None,
     up_allow_bedrock = None, up_online_mode = None, up_mc_version = None\<rparr>"

lemma check_subdomain:
  assumes "get_miniverse i d = Some mv" "x \<notin> m_subdomain ` set (miniverses d)"
  shows "check_update i (subdomain_request x) d = Inr (mv, mv\<lparr>m_subdomain := x\<rparr>, [FSubdomain])"
proof -
  have "m_subdomain mv \<noteq> x" using assms by (auto simp: get_miniverse_def dest: row_by_SomeD)
  with assms show ?thesis
    by (simp add: check_update_def fields_to_update_def subdomain_request_def)
qed

definition with_subdomains :: "string \<Rightarrow> db \<Rightarrow> string set" where
  "with_subdomains x d = m_id ` {m \<in> set (miniverses d). m_subdomain m = x}"

lemma with_subdomains_ident:
  assumes "map ident (miniverses d) = map ident (miniverses d')"
  shows "with_subdomains x d = with_subdomains x d'"
proof -
  have *: "with_subdomains x d = fst ` {t \<in> set (map ident (miniverses d)). snd (snd t) = x}" for d
    by (force simp: with_subdomains_def ident_def)
  show ?thesis unfolding * assms ..
qed

definition commit_subdomain :: "string \<Rightarrow> string \<Rightarrow> db \<Rightarrow> db" where
  "commit_subdomain x i d = d\<lparr>miniverses := update_by m_id i (\<lambda>m. m\<lparr>m_subdomain := x\<rparr>) (miniverses d)\<rparr>"

lemma ids_commit [simp]: "m_id ` set (miniverses (commit_subdomain x i d)) = m_id ` set (miniverses d)"
  by (simp add: commit_subdomain_def table_simps)

lemma with_subdomains_commit:
  assumes "i \<in> m_id ` set (miniverses d)"
  shows "with_subdomains x (commit_subdomain x i d) = insert i (with_subdomains x d)"
proof -
  let ?g = "\<lambda>m. if m_id m = i then m\<lparr>m_subdomain := x\<rparr> else m"
  have g: "m_id (?g m) = m_id m" "m_subdomain (?g m) = (if m_id m = i then x else m_subdomain m)" for m by simp_all
  have "with_subdomains x (commit_subdomain x i d) = m_id ` {m \<in> ?g ` set (miniverses d). m_subdomain m = x}"
    by (simp add: with_subdomains_def commit_subdomain_def update_by_def)
  also have "\<dots> = m_id ` ?g ` {m \<in> set (miniverses d). m_subdomain (?g m) = x}"
    by (rule arg_cong [of _ _ "(`) m_id"]) auto
  also have "\<dots> = m_id ` {m \<in> set (miniverses d). m_id m = i \<or> m_subdomain m = x}"
    unfolding image_image g by auto
  also have "\<dots> = insert i (with_subdomains x d)" using assms by (auto simp: with_subdomains_def)
  finally show ?thesis .
qed

lemma check_taken:
  assumes "with_subdomains x d \<noteq> {}" "j \<notin> with_subdomains x d" "j \<in> m_id ` set (miniverses d)"
  shows "check_update j (subdomain_request x) d = Inl ValidationException"
proof -
  obtain b where b: "get_miniverse j d = Some b"
    using assms(3) by (metis get_miniverse_def not_None_eq row_by_None_iff)
  with assms(2) have "m_subdomain b \<noteq> x"
    by (auto simp: get_miniverse_def with_subdomains_def dest: row_by_SomeD)
  moreover have "x \<in> m_subdomain ` set (miniverses d)" using assms(1) by (auto simp: with_subdomains_def)
  ultimately show ?thesis using b
    by (simp add: check_update_def fields_to_update_def subdomain_request_def)
qed

text \<open>The turns of an update: the check, the commit, and what is left after them.\<close>

definition checked_thread :: "'d services \<Rightarrow> string \<Rightarrow> update_request \<Rightarrow>
    exn + (miniverse \<times> miniverse \<times> field list) \<Rightarrow> ('d world, unit) thread" where
  "checked_thread s i r c = discardT (bindT (liftT c) (\<lambda>(mv, mv1, changed_fields).
    bindT (if changed_fields \<noteq> [] then commit_thread mv mv1 else retT (mv1, [])) (\<lambda>committed.
    after_thread s i r changed_fields mv1 committed)))"

definition rest_of_update :: "'d services \<Rightarrow> string \<Rightarrow> string \<Rightarrow> miniverse \<Rightarrow> ('d world, unit) thread" where
  "rest_of_update s i x mv = discardT (bindT (turn (reload i))
     (after_thread s i (subdomain_request x) [FSubdomain] (mv\<lparr>m_subdomain := x\<rparr>)))"

lemma check_turn:
  assumes "get_miniverse_role cu i = ADMIN"
  shows "lifecycle_thread s cu (UpdateMiniverse i r) =
    Some (Turn (\<lambda>w. w) (\<lambda>w. checked_thread s i r (check_update i r (w_db w))))"
  using assms by (simp add: allowed_thread_def update_thread_def checked_thread_def discardT_def turn_def getA_def)

lemma changes_subdomain:
  "m_subdomain mv \<noteq> x \<Longrightarrow> changes mv (mv\<lparr>m_subdomain := x\<rparr>) = (\<lambda>m. m\<lparr>m_subdomain := x\<rparr>)"
  by (rule ext) (simp add: changes_def changed_column_def)

lemma other_subdomain: "m_subdomain mv \<noteq> x \<Longrightarrow> mv\<lparr>m_subdomain := x\<rparr> \<noteq> mv"
  by (metis miniverse.select_convs(8) miniverse.surjective miniverse.update_convs(8))

lemma commit_turn:
  assumes "m_subdomain mv \<noteq> x" "m_id mv = i"
  shows "checked_thread s i (subdomain_request x) (Inr (mv, mv\<lparr>m_subdomain := x\<rparr>, [FSubdomain])) =
    Turn (\<lambda>w. snd (commit_row i (\<lambda>m. m\<lparr>m_subdomain := x\<rparr>) w))
      (\<lambda>w. case fst (commit_row i (\<lambda>m. m\<lparr>m_subdomain := x\<rparr>) w) of
         Inl e \<Rightarrow> Done (Inl e) | Inr _ \<Rightarrow> rest_of_update s i x mv)"
  using other_subdomain [OF assms(1)] assms(2)
  by (simp add: checked_thread_def rest_of_update_def commit_thread_def changes_subdomain [OF assms(1)] liftT_def
      discardT_def turn_def [of "commit_row _ _"] fun_eq_iff split: sum.split)

lemma committed:
  assumes "i \<in> m_id ` set (miniverses (w_db w))"
  shows "commit_row i (\<lambda>m. m\<lparr>m_subdomain := x\<rparr>) w = (Inr (), w\<lparr>w_db := commit_subdomain x i (w_db w)\<rparr>)"
  using assms by (simp add: commit_row_def set_miniverse_def act_simps commit_subdomain_def)

lemma rest_keeps_identity: "turns (via_db (same (\<lambda>d. map ident (miniverses d)))) (rest_of_update s i x mv)"
  unfolding rest_of_update_def discardT_def by (intro turns_intros identity.reload_turn identity.after_turns)

text \<open>
  Property C35 (concurrent_updates_share_subdomain). The check that a subdomain is free and the commit are separate turns: when
  two updates that give two miniverses the same free subdomain have both passed the check before either
  commits, both miniverses get it, whatever the order of the turns that follow. One after the other, the
  second is refused.
\<close>

theorem concurrent_updates_share_subdomain:
  assumes "get_miniverse i (w_db w) = Some a" "get_miniverse j (w_db w) = Some b" "i \<noteq> j"
    and "distinct (map m_id (miniverses (w_db w)))" "x \<notin> m_subdomain ` set (miniverses (w_db w))"
    and "get_miniverse_role cu i = ADMIN" "get_miniverse_role cv j = ADMIN"
  shows "(\<forall>sched. with_subdomains x (w_db (snd (run_pool ([0, 1, 0, 1] @ sched) (lifecycle_pool s
      [(cu, UpdateMiniverse i (subdomain_request x)), (cv, UpdateMiniverse j (subdomain_request x))] w)))) = {i, j}) \<and>
    fst (endpoint s z cv (UpdateMiniverse j (subdomain_request x))
      (snd (endpoint s z cu (UpdateMiniverse i (subdomain_request x)) w))) = Inl ValidationException"
proof -
  have id: "m_id a = i" "m_id b = j" using assms(1,2) by (auto simp: get_miniverse_def dest: row_by_SomeD)
  have ids: "i \<in> m_id ` set (miniverses (w_db w))" "j \<in> m_id ` set (miniverses (w_db w))"
    using assms(1,2) by (auto simp: get_miniverse_def dest!: row_by_SomeD)
  have sub: "m_subdomain a \<noteq> x" "m_subdomain b \<noteq> x"
    using assms(1,2,5) by (auto simp: get_miniverse_def dest!: row_by_SomeD)
  note c = check_subdomain [OF assms(1,5)] check_subdomain [OF assms(2,5)]
  have none: "with_subdomains x (w_db w) = {}" using assms(5) by (auto simp: with_subdomains_def)
  let ?r = "subdomain_request x"
  let ?w2 = "w\<lparr>w_db := commit_subdomain x j (commit_subdomain x i (w_db w))\<rparr>"
  let ?pool = "lifecycle_pool s [(cu, UpdateMiniverse i ?r), (cv, UpdateMiniverse j ?r)] w"
  have run: "run_pool [0, 1, 0, 1] ?pool = ([rest_of_update s i x a, rest_of_update s j x b], ?w2)"
    by (simp add: lifecycle_pool_def check_turn [OF assms(6)] check_turn [OF assms(7)] c
        commit_turn [OF sub(1) id(1)] commit_turn [OF sub(2) id(2)] committed ids advance_def
        del: lifecycle_thread.simps)
  have "with_subdomains x (w_db (snd (run_pool ([0, 1, 0, 1] @ sched) ?pool))) = {i, j}" for sched
  proof -
    have "via_db (same (\<lambda>d. map ident (miniverses d))) ?w2 (snd (run_pool ([0, 1, 0, 1] @ sched) ?pool))"
      unfolding run_pool_append run
      by (rule pool_respects) (auto intro: identity.via_order rest_keeps_identity)
    then have "with_subdomains x (w_db (snd (run_pool ([0, 1, 0, 1] @ sched) ?pool))) = with_subdomains x (w_db ?w2)"
      by (intro with_subdomains_ident) (simp add: via_db_def same_def)
    then show ?thesis using none ids by (auto simp: with_subdomains_commit)
  qed
  moreover have "fst (endpoint s z cv (UpdateMiniverse j ?r) (snd (endpoint s z cu (UpdateMiniverse i ?r) w))) =
      Inl ValidationException"
  proof -
    let ?w1 = "w\<lparr>w_db := commit_subdomain x i (w_db w)\<rparr>"
    let ?w' = "snd (alone (rest_of_update s i x a) ?w1)"
    have first: "snd (endpoint s z cu (UpdateMiniverse i ?r) w) = ?w'"
      by (simp add: lifecycle_alone [OF check_turn [OF assms(6)] assms(4), symmetric] c commit_turn [OF sub(1) id(1)]
          committed ids del: endpoint.simps)
    have same: "map ident (miniverses (w_db ?w1)) = map ident (miniverses (w_db ?w'))"
      using movesD [OF moves_alone [OF identity.via_order rest_keeps_identity], of ?w1 s i x a]
      by (simp add: via_db_def same_def)
    then have subs: "with_subdomains x (w_db ?w') = {i}"
      using with_subdomains_ident [OF same, of x, symmetric] none ids by (simp add: with_subdomains_commit)
    have "map m_id (miniverses (w_db ?w')) = map m_id (miniverses (w_db ?w1))"
      using arg_cong [OF same, of "map fst"] by (simp add: ident_def comp_def)
    then have d: "distinct (map m_id (miniverses (w_db ?w')))" and "m_id ` set (miniverses (w_db ?w')) = m_id ` set (miniverses (w_db w))"
      using assms(4) by (simp_all add: commit_subdomain_def table_simps flip: set_map)
    then have "check_update j ?r (w_db ?w') = Inl ValidationException"
      using subs assms(3) ids by (intro check_taken) auto
    then show ?thesis
      unfolding first
      by (simp add: lifecycle_alone [OF check_turn [OF assms(7)] d, symmetric] checked_thread_def discardT_def liftT_def
          liftA_def del: endpoint.simps)
  qed
  ultimately show ?thesis by blast
qed

definition owner_of_both :: user_obj where
  "owner_of_both = user.extend \<lparr>u_id = ''ann-1'', u_is_active = True, u_username = ''ann'', u_role = ADMIN\<rparr>
     \<lparr>miniverses_roles = [\<lparr>mur_user_id = ''ann-1'', mur_miniverse_id = ''m1'', mur_role = ADMIN\<rparr>,
        \<lparr>mur_user_id = ''ann-1'', mur_miniverse_id = ''m2'', mur_role = ADMIN\<rparr>]\<rparr>"

theorem concurrent_updates_share_subdomain_witness:
  "with_subdomains ''play'' (w_db (snd (run_pool ([0, 1, 0, 1] @ [1, 0, 1, 0]) (lifecycle_pool log_services
     [(owner_of_both, UpdateMiniverse ''m1'' (subdomain_request ''play'')),
      (owner_of_both, UpdateMiniverse ''m2'' (subdomain_request ''play''))] log_world)))) = {''m1'', ''m2''}"
proof -
  have "get_miniverse ''m1'' (w_db log_world) = Some running_mv" "get_miniverse ''m2'' (w_db log_world) = Some other_mv"
    "distinct (map m_id (miniverses (w_db log_world)))" "''play'' \<notin> m_subdomain ` set (miniverses (w_db log_world))"
    by (simp_all add: log_world_def get_miniverse_def row_by_def running_mv_def other_mv_def demo_mv_def)
  moreover have "get_miniverse_role owner_of_both ''m1'' = ADMIN" "get_miniverse_role owner_of_both ''m2'' = ADMIN"
    by (simp_all add: owner_of_both_def get_miniverse_role_def user.defs)
  ultimately show ?thesis
    using concurrent_updates_share_subdomain [of "''m1''" log_world running_mv "''m2''" other_mv "''play''" owner_of_both
        owner_of_both log_services] by blast
qed

end
