(* ===== verification/LifecycleRaces.thy ===== *)
theory LifecycleRaces
  imports UpdateRaces
begin

text \<open>
  A miniverse that is deleted while it starts. Creating a container takes as long as Docker needs to fetch the image;
  a deletion in that time finds no container to remove, and the start creates one for a row that is gone.
\<close>

section \<open>A start that is overtaken\<close>

lemma start_turns_of:
  assumes "m_started mv = False" "m_id mv = i"
  shows "discardT (start_thread s mv) =
    bindT (turn (init_data_path s mv)) (\<lambda>_.
    bindT (turn (commit_row i (\<lambda>m. m\<lparr>m_started := True\<rparr>))) (\<lambda>_.
    bindT (turn (reload i)) (\<lambda>(mv1, _). discardT (launch_thread s mv1))))"
proof -
  have "changes mv (mv\<lparr>m_started := True\<rparr>) = (\<lambda>m. m\<lparr>m_started := True\<rparr>)"
    by (rule ext) (use assms(1) in \<open>simp add: changes_def changed_column_def\<close>)
  moreover have "mv\<lparr>m_started := True\<rparr> \<noteq> mv"
    using assms(1) by (metis miniverse.select_convs(12) miniverse.surjective miniverse.update_convs(12))
  ultimately show ?thesis
    using assms(2) by (simp add: start_thread_def commit_thread_def discardT_def case_prod_beta' bindT_assoc)
qed

text \<open>A launch that finds no container creates one, then stores its id.\<close>

definition created_then :: "'d services \<Rightarrow> miniverse \<Rightarrow> string \<Rightarrow> ('d world, unit) thread" where
  "created_then s mv cid = discardT (bindT (commit_thread mv (mv\<lparr>m_container_id := Some cid\<rparr>)) (\<lambda>(mv1, snapshot).
    bindT (turn (on_docker (start_container (s_docker s) cid))) (\<lambda>_.
    turn (bindA (controllerA (m_id mv)) (\<lambda>c.
      thenA (on_live (set_controller (m_id mv) (controller_start c)))
     (thenA (publish_updated (m_id mv) None) (ret (cid, mv1, snapshot))))))))"

lemma launch_turns_of:
  "\<exists>k. discardT (launch_thread s mv) =
      bindT (turn (on_docker (get_container_by_name (s_docker s) (container_name mv)))) k \<and>
    k None = bindT (turn (on_docker (create_container (s_docker s) (miniverse_spec (s_env s) mv)))) (created_then s mv)"
  by (simp add: launch_thread_def discardT_def bindT_assoc, intro exI conjI, rule refl)
    (simp add: created_then_def [abs_def] discardT_def bindT_assoc)

lemma commit_of_deleted:
  assumes "i \<notin> m_id ` set (miniverses (w_db w))" "m_id mv = i" "m_container_id mv = None"
  shows "\<exists>k. created_then s mv cid = bindT (turn (commit_row i (changes mv (mv\<lparr>m_container_id := Some cid\<rparr>)))) k" (is ?A)
    and "commit_row i f w = (Inl StaleDataError, w)"
proof -
  have "mv\<lparr>m_container_id := Some cid\<rparr> \<noteq> mv"
    using assms(3) by (metis miniverse.select_convs(5) miniverse.surjective miniverse.update_convs(5) option.distinct(1))
  then show ?A using assms(2) by (auto simp: created_then_def commit_thread_def discardT_def bindT_assoc)
  show "commit_row i f w = (Inl StaleDataError, w)" using assms(1) by (simp add: commit_row_def act_simps)
qed

lemma deleted_row:
  assumes "delete_miniverse s mv w = (Inr (), w')"
  shows "m_id mv \<notin> m_id ` set (miniverses (w_db w'))"
proof -
  obtain w3 w4 w5 w6 where r: "on_db (delete_miniverse_row (m_id mv)) w3 = (Inr (), w4)"
    and l: "on_live (on_hub (delete_miniverse_cache (m_id mv))) w4 = (Inr (), w5)"
    and p: "update_proxy_config s w5 = (Inr (), w6)"
    and e: "on_live (on_hub (publish_miniverse_deleted_event (m_id mv)
              (user_list_from_user_role_list (users_roles (w_db w) (m_id mv))))) w6 = (Inr (), w')"
    using assms unfolding delete_miniverse_def Let_def by (auto simp: thenA_Inr bindA_Inr getA_apply)
  from r have "m_id mv \<notin> m_id ` set (miniverses (w_db w4))"
    by (auto simp: delete_miniverse_row_def act_simps table_simps)
  then show ?thesis using only_live [OF l] proxy_keeps [OF p] only_live [OF e] by simp
qed

text \<open>A start up to the point where it creates the container.\<close>

lemma start_reaches_creation:
  assumes "get_miniverse i (w_db w) = Some mv" "distinct (map m_id (miniverses (w_db w)))"
    and "m_started mv = False" "get_miniverse_role cu i \<ge> USER"
    and "init_data_path s mv w = (Inr (), w1)"
    and "get_container_by_name (s_docker s) (''miniverse-'' @ i) (w_docker w1) = (Inr None, d)"
    and "w2 = (snd (set_miniverse i (\<lambda>m. m\<lparr>m_started := True\<rparr>) w1))\<lparr>w_docker := d\<rparr>"
  shows "run_pool [0, 0, 0, 0, 0] (lifecycle_pool s [(cu, StartMiniverse i), r] w) =
      ([bindT (turn (on_docker (create_container (s_docker s) (miniverse_spec (s_env s) (mv\<lparr>m_started := True\<rparr>)))))
          (created_then s (mv\<lparr>m_started := True\<rparr>)),
        (case r of (cv, req) \<Rightarrow> case lifecycle_thread s cv req of Some t \<Rightarrow> t | None \<Rightarrow> retT ())], w2) \<and>
    distinct (map m_id (miniverses (w_db w2))) \<and> m_id mv = i"
proof -
  have id: "m_id mv = i" using assms(1) by (auto simp: get_miniverse_def dest: row_by_SomeD)
  have same: "miniverses (w_db w1) = miniverses (w_db w)"
    using movesD [OF rows.init_R, of w s mv] assms(5) by (simp add: via_db_def same_def)
  have l1: "loaded mv w1" using assms(1,2) id same by (simp add: loaded_def get_miniverse_def)
  define w1' where "w1' = snd (set_miniverse i (\<lambda>m. m\<lparr>m_started := True\<rparr>) w1)"
  let ?mv1 = "mv\<lparr>m_started := True\<rparr>"
  have l1': "loaded ?mv1 w1'" using loaded_set [OF l1, of "\<lambda>m. m\<lparr>m_started := True\<rparr>"] id by (simp add: w1'_def)
  have commit: "commit_row i (\<lambda>m. m\<lparr>m_started := True\<rparr>) w1 = (Inr (), w1')"
  proof -
    have "i \<in> m_id ` set (miniverses (w_db w1))"
      using l1 id by (auto simp: loaded_def get_miniverse_def dest!: row_by_SomeD)
    then show ?thesis by (simp add: commit_row_def act_simps w1'_def set_miniverse_apply)
  qed
  have reload: "reload i w1' = (Inr (?mv1, miniverses (w_db w1')), w1')"
    using l1' id by (simp add: reload_def loaded_def act_simps)
  have name: "container_name ?mv1 = ''miniverse-'' @ i" using id by (simp add: container_name_def)
  have w1'w: "w_docker w1' = w_docker w1" by (simp add: w1'_def set_miniverse_apply)
  have by_name: "on_docker (get_container_by_name (s_docker s) (container_name ?mv1)) w1' = (Inr None, w2)"
    using assms(6,7) w1'w by (simp add: zoomA_apply name w1'_def)
  have l2: "distinct (map m_id (miniverses (w_db w2)))"
    using l1' assms(7) by (simp add: loaded_def w1'_def)
  obtain k where k: "discardT (launch_thread s ?mv1) =
      bindT (turn (on_docker (get_container_by_name (s_docker s) (container_name ?mv1)))) k"
    "k None = bindT (turn (on_docker (create_container (s_docker s) (miniverse_spec (s_env s) ?mv1)))) (created_then s ?mv1)"
    using launch_turns_of by blast
  define T1 where "T1 = (case r of (cv, req) \<Rightarrow> case lifecycle_thread s cv req of Some t \<Rightarrow> t | None \<Rightarrow> retT ())"
  define T0 where "T0 = (case lifecycle_thread s cu (StartMiniverse i) of Some t \<Rightarrow> t | None \<Rightarrow> retT ())"
  have t0: "T0 = bindT (turn (getA (\<lambda>w. get_miniverse i (w_db w)))) (\<lambda>m. case m of
      None \<Rightarrow> raiseT NotFoundException | Some mv \<Rightarrow> discardT (start_thread s mv))"
    using leD [OF assms(4)] by (simp add: T0_def allowed_thread_def loaded_thread_def del: not_less)
  have five: "run_pool [0, 0, 0, 0, 0] ([T0, T1], w) = ([k None, T1], w2)"
    using advance_turn(1) [of 0 "[T0, T1]", simplified, OF t0, of w "Some mv" w] assms(1,5) commit reload by_name
    by (simp add: getA_apply advance_turn(1) [where m = "init_data_path s mv"] start_turns_of [OF assms(3) id]
        advance_turn(1) [where m = "commit_row _ _"] advance_turn(1) [where m = "reload _"] k(1)
        advance_turn(1) [where m = "on_docker _"])
  moreover have "lifecycle_pool s [(cu, StartMiniverse i), r] w = ([T0, T1], w)"
    by (simp add: lifecycle_pool_def T0_def T1_def)
  ultimately show ?thesis using k(2) l2 id by (simp add: T1_def)
qed

lemma deletion_of_row:
  assumes "endpoint s z cv (DeleteMiniverse i) w = (Inr (), w')"
  shows "i \<notin> m_id ` set (miniverses (w_db w'))"
proof -
  obtain mv' where "get_miniverse i (w_db w) = Some mv'" "delete_miniverse s mv' w = (Inr (), w')"
    using assms by (auto simp: api_delete_miniverse_def require_def found_def thenA_Inr bindA_Inr getA_apply act_simps
        split: if_splits option.splits)
  then show ?thesis using deleted_row [of s mv' w w'] by (auto simp: get_miniverse_def dest: row_by_SomeD)
qed

text \<open>
  Property C36 (start_leaves_a_container). A deletion that runs while a start has asked Docker for the container by its name and
  not yet created it succeeds; then the start creates a container for the deleted miniverse and fails when it
  stores the id: the container stays, neither started nor removed, and no row refers to it.
\<close>

theorem start_leaves_a_container:
  assumes "get_miniverse i (w_db w) = Some mv" "distinct (map m_id (miniverses (w_db w)))"
    and "m_started mv = False" "m_container_id mv = None"
    and "get_miniverse_role cu i \<ge> USER"
    and "init_data_path s mv w = (Inr (), w1)"
    and "get_container_by_name (s_docker s) (''miniverse-'' @ i) (w_docker w1) = (Inr None, d)"
    and "w2 = (snd (set_miniverse i (\<lambda>m. m\<lparr>m_started := True\<rparr>) w1))\<lparr>w_docker := d\<rparr>"
    and "endpoint s z cv (DeleteMiniverse i) w2 = (Inr (), w3)"
    and "create_container (s_docker s) (miniverse_spec (s_env s) (mv\<lparr>m_started := True\<rparr>)) (w_docker w3) = (Inr cid, d')"
  shows "\<exists>n. run_pool ([0, 0, 0, 0, 0] @ replicate n 1 @ [0, 0])
      (lifecycle_pool s [(cu, StartMiniverse i), (cv, DeleteMiniverse i)] w) =
      ([Done (Inl StaleDataError), Done (Inr ())], w3\<lparr>w_docker := d'\<rparr>) \<and>
    i \<notin> m_id ` set (miniverses (w_db w3))"
proof -
  let ?mv1 = "mv\<lparr>m_started := True\<rparr>"
  let ?C = "bindT (turn (on_docker (create_container (s_docker s) (miniverse_spec (s_env s) ?mv1)))) (created_then s ?mv1)"
  let ?pool = "lifecycle_pool s [(cu, StartMiniverse i), (cv, DeleteMiniverse i)] w"
  obtain T1 where t1: "lifecycle_thread s cv (DeleteMiniverse i) = Some T1" by simp
  note start = start_reaches_creation [OF assms(1-3,5-8), of "(cv, DeleteMiniverse i)"]
  then have five: "run_pool [0, 0, 0, 0, 0] ?pool = ([?C, T1], w2)" and l2: "distinct (map m_id (miniverses (w_db w2)))"
    and id: "m_id mv = i" using t1 by simp_all
  have "alone T1 w2 = (Inr (), w3)" using lifecycle_alone [OF t1 l2] assms(9) by simp
  then obtain n where n: "run_pool (replicate n 1) ([?C, T1], w2) = ([?C, Done (Inr ())], w3)"
    using alone_is_a_schedule [of 1 "[?C, T1]" w2 "Inr ()" w3] by auto
  have gone: "i \<notin> m_id ` set (miniverses (w_db w3))" by (rule deletion_of_row [OF assms(9)])
  let ?w4 = "w3\<lparr>w_docker := d'\<rparr>"
  have gone4: "i \<notin> m_id ` set (miniverses (w_db ?w4))" using gone by simp
  have create: "on_docker (create_container (s_docker s) (miniverse_spec (s_env s) ?mv1)) w3 = (Inr cid, ?w4)"
    using assms(10) by (simp add: zoomA_apply)
  obtain k' where k': "created_then s ?mv1 cid =
      bindT (turn (commit_row i (changes ?mv1 (?mv1\<lparr>m_container_id := Some cid\<rparr>)))) k'"
    using commit_of_deleted(1) [OF gone4, of ?mv1 s cid] id assms(4) by auto
  have "run_pool [0, 0] ([?C, Done (Inr ())], w3) = ([Done (Inl StaleDataError), Done (Inr ())], ?w4)"
    using create commit_of_deleted(2) [OF gone4, of ?mv1] id assms(4)
    by (simp add: advance_turn(1) [where m = "on_docker _"] k' advance_turn(2) [where m = "commit_row _ _"])
  with five n have "run_pool ([0, 0, 0, 0, 0] @ replicate n 1 @ [0, 0]) ?pool =
      ([Done (Inl StaleDataError), Done (Inr ())], ?w4)"
    by (simp only: run_pool_append)
  with gone show ?thesis by auto
qed

definition stopped_world :: "string list world" where
  "stopped_world = log_world\<lparr>w_db := (w_db log_world)\<lparr>miniverses := [demo_mv, other_mv]\<rparr>\<rparr>"

theorem start_leaves_a_container_witness:
  "\<exists>n w'. run_pool ([0, 0, 0, 0, 0] @ replicate n 1 @ [0, 0]) (lifecycle_pool log_services
      [(owner_of_both, StartMiniverse ''m1''), (owner_of_both, DeleteMiniverse ''m1'')] stopped_world) =
      ([Done (Inl StaleDataError), Done (Inr ())], w') \<and>
    w_docker w' = [''create miniverse-m1''] \<and> map m_id (miniverses (w_db w')) = [''m2'']"
proof -
  let ?w1 = "snd (init_data_path log_services demo_mv stopped_world)"
  let ?w2 = "(snd (set_miniverse ''m1'' (\<lambda>m. m\<lparr>m_started := True\<rparr>) ?w1))\<lparr>w_docker := []\<rparr>"
  let ?w3 = "snd (endpoint log_services demo_codecs owner_of_both (DeleteMiniverse ''m1'') ?w2)"
  have 1: "get_miniverse ''m1'' (w_db stopped_world) = Some demo_mv"
      "distinct (map m_id (miniverses (w_db stopped_world)))"
      "m_started demo_mv = False" "m_container_id demo_mv = None" "get_miniverse_role owner_of_both ''m1'' \<ge> USER"
    by code_simp+
  have "fst (init_data_path log_services demo_mv stopped_world) = Inr ()" by code_simp
  then have 2: "init_data_path log_services demo_mv stopped_world = (Inr (), ?w1)" by (simp add: prod_eq_iff)
  have 3: "get_container_by_name (s_docker log_services) (''miniverse-'' @ ''m1'') (w_docker ?w1) = (Inr None, [])"
    by code_simp
  have "fst (endpoint log_services demo_codecs owner_of_both (DeleteMiniverse ''m1'') ?w2) = Inr ()" by code_simp
  then have 4: "endpoint log_services demo_codecs owner_of_both (DeleteMiniverse ''m1'') ?w2 = (Inr (), ?w3)"
    by (simp add: prod_eq_iff del: endpoint.simps)
  have 5: "create_container (s_docker log_services) (miniverse_spec (s_env log_services) (demo_mv\<lparr>m_started := True\<rparr>))
      (w_docker ?w3) = (Inr ''id-miniverse-m1'', [''create miniverse-m1''])"
    by code_simp
  have 6: "map m_id (miniverses (w_db ?w3)) = [''m2'']" by code_simp
  obtain n where "run_pool ([0, 0, 0, 0, 0] @ replicate n 1 @ [0, 0]) (lifecycle_pool log_services
      [(owner_of_both, StartMiniverse ''m1''), (owner_of_both, DeleteMiniverse ''m1'')] stopped_world) =
      ([Done (Inl StaleDataError), Done (Inr ())], ?w3\<lparr>w_docker := [''create miniverse-m1'']\<rparr>)"
    using start_leaves_a_container [OF 1 2 3 refl 4 5] by blast
  moreover have "w_docker (?w3\<lparr>w_docker := [''create miniverse-m1'']\<rparr>) = [''create miniverse-m1'']"
    "map m_id (miniverses (w_db (?w3\<lparr>w_docker := [''create miniverse-m1'']\<rparr>))) = [''m2'']"
    using 6 by (simp_all del: endpoint.simps)
  ultimately show ?thesis by (intro exI conjI)
qed

end
