(* ===== verification/Concurrency.thy ===== *)
theory Concurrency
  imports Threads Users
begin

text \<open>
  The account requests as threads. The reads of one transaction see one snapshot of the database
  (REPEATABLE READ, the default of MySQL), so they are one turn; a commit is another, and an update
  of a row that is gone when it is committed is \<open>StaleDataError\<close>. The user of a request is loaded in a
  transaction of its own before the endpoint runs.
\<close>

section \<open>Requests as threads\<close>

definition commit_user :: "string \<Rightarrow> (db, unit) action \<Rightarrow> (db, unit) action" where
  "commit_user i write d = (if i \<notin> u_id ` set (users d) then (Inl StaleDataError, d) else write d)"

text \<open>\<open>create_user\<close> after its read: the insertion is committed, then the row is loaded again.\<close>

definition register_thread :: "string \<Rightarrow> string \<Rightarrow> bool \<Rightarrow> (db, user_obj) thread" where
  "register_thread userid username is_users_empty =
    bindT (turn (insert_user
      (if is_users_empty
       then \<lparr>u_id = userid, u_is_active = True, u_username = username, u_role = ADMIN\<rparr>
       else \<lparr>u_id = userid, u_is_active = False, u_username = username, u_role = USER\<rparr>))) (\<lambda>_.
    turn (bindA (get_user userid) (\<lambda>row. case row of
      None \<Rightarrow> raise InvalidRequestError
    | Some u \<Rightarrow> getA (\<lambda>d. load_user d u))))"

definition load_or_register :: "token \<Rightarrow> (db, user_obj) thread" where
  "load_or_register tok =
    bindT (turn (getA (\<lambda>d. (map_option (load_user d) (row_by u_id (tok_sub tok) (users d)), users d = []))))
      (\<lambda>(found, is_users_empty). case found of
         Some u \<Rightarrow> retT u
       | None \<Rightarrow> bindT (liftT (preferred_username tok)) (\<lambda>n. register_thread (tok_sub tok) n is_users_empty))"

definition check_user :: "token \<Rightarrow> user_obj \<Rightarrow> (db, user_obj) thread" where
  "check_user tok user =
    (if \<not> u_is_active user then raiseT PermissionDeniedException
     else
       bindT (liftT (preferred_username tok)) (\<lambda>n.
       bindT (if u_username user \<noteq> n
              then turn (commit_user (u_id user) (rename_user (u_id user) n)) else retT ()) (\<lambda>_.
       retT (user\<lparr>u_username := n\<rparr>))))"

definition login_thread :: "token \<Rightarrow> (db, user_obj) thread" where
  "login_thread tok = bindT (load_or_register tok) (check_user tok)"

text \<open>
  A check and the read of a row are one transaction; the attribute is written when its value changes.
\<close>

definition change_thread :: "(db, unit) action \<Rightarrow> string \<Rightarrow> (user \<Rightarrow> user) \<Rightarrow> (db, unit) thread" where
  "change_thread check i f =
    bindT (turn (bindA check (\<lambda>_. get_user i))) (\<lambda>user. case user of
      None \<Rightarrow> raiseT AttributeError
    | Some u \<Rightarrow>
        if f u = u then retT ()
        else turn (commit_user i (modifyA (\<lambda>d. d\<lparr>users := update_by u_id i f (users d)\<rparr>))))"

definition guarded :: "user_obj \<Rightarrow> (db, unit) thread \<Rightarrow> (db, unit) thread" where
  "guarded cu t = (if is_admin cu then t else raiseT NotAuthorizedException)"

fun request_thread :: "user_obj \<Rightarrow> user_request \<Rightarrow> (db, unit) thread" where
  "request_thread cu GetMe = retT ()"
| "request_thread cu DeleteMe =
     bindT (if u_role cu = ADMIN then turn (delete_me_check cu) else retT ()) (\<lambda>_. turn (delete_user (u_id cu)))"
| "request_thread cu ListUsers = guarded cu (turn (bindA get_users (\<lambda>_. ret ())))"
| "request_thread cu (GetUser i) = guarded cu (turn (bindA (get_user i) (\<lambda>_. ret ())))"
| "request_thread cu (DeleteUser i) =
     guarded cu (if u_id cu = i then raiseT PermissionDeniedException else turn (delete_user i))"
| "request_thread cu (SetUserRole i r) =
     guarded cu (change_thread (if u_id cu = i
       then bindA count_admins (\<lambda>n. if n \<le> 1 then raise PermissionDeniedException else ret ())
       else ret ()) i (\<lambda>u. u\<lparr>u_role := r\<rparr>))"
| "request_thread cu ListInactiveUsers = guarded cu (turn (bindA get_inactive_users (\<lambda>_. ret ())))"
| "request_thread cu (AcceptUser i) = guarded cu (change_thread (ret ()) i (\<lambda>u. u\<lparr>u_is_active := True\<rparr>))"
| "request_thread cu (RejectUser i) = guarded cu (turn (reject_user_request i))"

definition serve_thread :: "token \<times> user_request \<Rightarrow> (db, unit) thread" where
  "serve_thread = (\<lambda>(tok, req). bindT (login_thread tok) (\<lambda>cu. request_thread cu req))"

section \<open>A request alone\<close>

lemma load_user_rename: "(load_user d u)\<lparr>u_username := n\<rparr> = load_user d (u\<lparr>u_username := n\<rparr>)"
  by (simp add: load_user_def user.defs)

lemma load_user_cong: "user_roles d = user_roles d' \<Longrightarrow> load_user d u = load_user d' u"
  by (simp add: load_user_def roles_of_user_def)

lemma alone_change:
  assumes "distinct (map u_id (users d))" "check d = (r, d)"
  shows "alone (change_thread check i f) d =
    bindA check (\<lambda>_. bindA (get_user i) (\<lambda>user. case user of
      None \<Rightarrow> raise AttributeError
    | Some _ \<Rightarrow> modifyA (\<lambda>d. d\<lparr>users := update_by u_id i f (users d)\<rparr>))) d"
  using assms update_by_row(2) [OF assms(1), of i]
  by (auto simp: change_thread_def thread_simps act_simps get_user_def commit_user_def
      dest: row_by_SomeD split: option.splits sum.splits)

lemma alone_request:
  assumes "db_ok d"
  shows "alone (request_thread cu req) d = users_controller cu req d"
proof -
  have dist: "distinct (map u_id (users d))" using assms by (simp add: db_ok_def)
  show ?thesis
  proof (cases req)
    case (SetUserRole i r)
    let ?check = "if u_id cu = i
       then bindA count_admins (\<lambda>n. if n \<le> 1 then raise PermissionDeniedException else ret ()) else ret ()"
    have "\<exists>x. ?check d = (x, d)" by (simp add: count_admins_def act_simps)
    then obtain x where "?check d = (x, d)" by blast
    from alone_change [where check = ?check, OF dist this] SetUserRole show ?thesis
      by (simp add: guarded_def admin_user_guard_def api_set_user_role_def set_user_role_def thenA_def thread_simps act_simps)
  next
    case (AcceptUser i)
    with alone_change [OF dist, of "ret ()"] show ?thesis
      by (simp add: guarded_def admin_user_guard_def accept_user_request_def thread_simps act_simps)
  qed (auto simp: guarded_def admin_user_guard_def thread_simps act_simps delete_me_def delete_me_check_def
      api_delete_user_def)
qed

lemma alone_register:
  "alone (register_thread i n (users d = [])) d =
     (case create_user i n d of (Inl e, d') \<Rightarrow> (Inl e, d') | (Inr u, d') \<Rightarrow> (Inr (load_user d' u), d'))"
  using row_by_fresh [of i u_id "users d"]
  by (cases "users d = []")
    (auto simp: register_thread_def create_user_def insert_user_def thread_simps act_simps get_user_def
      row_by_def Let_def)

lemmas login_defs = login_thread_def load_or_register_def check_user_def

lemma alone_login: "alone (login_thread tok) d = retrieve_user_handler tok d"
proof (cases "row_by u_id (tok_sub tok) (users d)")
  case (Some u)
  then have "u_id u \<in> u_id ` set (users d)" by (auto dest: row_by_SomeD)
  with Some show ?thesis
    by (auto simp: login_defs retrieve_user_handler_def get_user_def commit_user_def rename_user_def
        thread_simps act_simps load_user_rename intro: load_user_cong split: sum.splits)
next
  case None
  show ?thesis
  proof (cases "preferred_username tok")
    case (Inl e)
    with None show ?thesis
      by (simp add: login_defs retrieve_user_handler_def get_user_def thread_simps act_simps)
  next
    case (Inr n)
    have "u_username u = n" if "create_user (tok_sub tok) n d = (Inr u, d')" for u d'
      using create_user_result [OF that] by simp
    with None Inr show ?thesis
      by (auto simp: login_defs retrieve_user_handler_def get_user_def thread_simps act_simps
          alone_register load_user_rename split: prod.splits sum.splits)
  qed
qed

text \<open>A request that nothing interrupts is the request of the sequential model.\<close>

theorem request_alone: "db_ok d \<Longrightarrow> alone (serve_thread (tok, req)) d = serve_user tok req d"
  using movesD [OF ok_retrieve, of d tok]
  by (auto simp: serve_thread_def serve_user_def thread_simps act_simps alone_login keeps_def
      intro: alone_request split: sum.splits prod.splits)

section \<open>Every interleaving\<close>

definition request_pool :: "(token \<times> user_request) list \<Rightarrow> db \<Rightarrow> (db, unit) pool" where
  "request_pool reqs d = (map serve_thread reqs, d)"

text \<open>The accounts that a request is from or about.\<close>

fun concerned :: "token \<times> user_request \<Rightarrow> string set" where
  "concerned (tok, DeleteUser i) = {tok_sub tok, i}"
| "concerned (tok, SetUserRole i r) = {tok_sub tok, i}"
| "concerned (tok, AcceptUser i) = {tok_sub tok, i}"
| "concerned (tok, RejectUser i) = {tok_sub tok, i}"
| "concerned (tok, _) = {tok_sub tok}"

definition holds_row :: "user \<Rightarrow> db \<Rightarrow> bool" where
  "holds_row u d \<longleftrightarrow> db_ok d \<and> u \<in> set (users d)"

lemma holds_row_writes:
  "moves (keeps (holds_row u)) (insert_user v)"
  "i \<noteq> u_id u \<Longrightarrow> moves (keeps (holds_row u)) (delete_user i)"
  "i \<noteq> u_id u \<Longrightarrow> moves (keeps (holds_row u)) (rename_user i n)"
  "i \<noteq> u_id u \<Longrightarrow> (\<And>u. u_id (f u) = u_id u) \<Longrightarrow> (\<And>u. u_username (f u) = u_username u) \<Longrightarrow>
     moves (keeps (holds_row u)) (modifyA (\<lambda>d. d\<lparr>users := update_by u_id i f (users d)\<rparr>))"
proof -
  have *: "moves (keeps (holds_row u)) m"
    if "moves (keeps db_ok) m" "moves (keeps (\<lambda>d. u \<in> set (users d))) m" for m :: "(db, unit) action"
    using that by (auto simp: moves_def keeps_def holds_row_def)
  show "moves (keeps (holds_row u)) (insert_user v)"
    by (rule * [OF ok_insert_user]) (auto intro!: movesI simp: keeps_def insert_user_def)
  show "moves (keeps (holds_row u)) (delete_user i)" if "i \<noteq> u_id u"
    using that by (intro * [OF ok_delete_user] movesI) (auto simp: keeps_def delete_user_def act_simps table_simps)
  show "moves (keeps (holds_row u)) (rename_user i n)" if "i \<noteq> u_id u"
    using that by (intro * [OF ok_rename_user] movesI) (auto simp: keeps_def rename_user_def set_update_by)
  show "moves (keeps (holds_row u)) (modifyA (\<lambda>d. d\<lparr>users := update_by u_id i f (users d)\<rparr>))"
    if "i \<noteq> u_id u" "\<And>u. u_id (f u) = u_id u" "\<And>u. u_username (f u) = u_username u"
    using that by (intro * [OF ok_update_user] movesI) (auto simp: keeps_def act_simps set_update_by)
qed

lemma commit_keeps: "moves (keeps I) m \<Longrightarrow> moves (keeps I) (commit_user i m)"
  by (auto simp: moves_def keeps_def commit_user_def)

text \<open>The results that a thread can have.\<close>

primrec results :: "('a \<Rightarrow> bool) \<Rightarrow> ('s, 'a) thread \<Rightarrow> bool" where
  "results P (Done r) = (\<forall>x. r = Inr x \<longrightarrow> P x)"
| "results P (Turn f k) = (\<forall>s. results P (k s))"

lemma results_bindT: "results Q t \<Longrightarrow> (\<And>x. Q x \<Longrightarrow> results P (g x)) \<Longrightarrow> results P (bindT t g)"
  by (induction t) (auto split: sum.splits)

lemma results_turn: "(\<And>s x. fst (m s) = Inr x \<Longrightarrow> P x) \<Longrightarrow> results P (turn m)"
  by (simp add: turn_def)

lemma results_simps [simp]:
  "results P (retT x) = P x" "results P (raiseT e)" "results P (liftT r) = (\<forall>x. r = Inr x \<longrightarrow> P x)"
  by (simp_all add: retT_def raiseT_def liftT_def)

lemma preserves_bindT_results:
  "preserves I t \<Longrightarrow> results P t \<Longrightarrow> (\<And>x. P x \<Longrightarrow> preserves I (g x)) \<Longrightarrow> preserves I (bindT t g)"
  by (induction t) (auto split: sum.splits)

lemma found_id: "map_option (load_user d) (row_by u_id i (users d)) = Some u \<Longrightarrow> u_id u = i"
  by (auto dest: row_by_SomeD)

lemma register_id: "results (\<lambda>u. u_id u = i) (register_thread i n b)"
  unfolding register_thread_def
  by (rule results_bindT [where Q = "\<lambda>_. True"])
    (auto intro!: results_turn simp: act_simps get_user_def dest!: row_by_SomeD split: option.splits)

lemma load_id: "results (\<lambda>u. u_id u = tok_sub tok) (load_or_register tok)"
  unfolding load_or_register_def
proof (rule results_bindT [where Q = "\<lambda>(found, _). \<forall>u. found = Some u \<longrightarrow> u_id u = tok_sub tok"])
  show "results (\<lambda>(found, _). \<forall>u. found = Some u \<longrightarrow> u_id u = tok_sub tok) (turn (getA (\<lambda>d.
      (map_option (load_user d) (row_by u_id (tok_sub tok) (users d)), users d = []))))"
    by (rule results_turn) (auto simp: act_simps dest!: row_by_SomeD)
qed (auto intro!: results_bindT [where Q = "\<lambda>_. True"] register_id split: option.splits)

lemma check_id: "u_id u = i \<Longrightarrow> results (\<lambda>u. u_id u = i) (check_user tok u)"
  unfolding check_user_def by (auto intro!: results_bindT [where Q = "\<lambda>_. True"] results_turn)

lemma login_id: "results (\<lambda>cu. u_id cu = tok_sub tok) (login_thread tok)"
  unfolding login_thread_def by (rule results_bindT [OF load_id check_id])

lemma reads_keep: "moves (keeps I) (getA f)" "moves (keeps I) count_admins" "moves (keeps I) get_users"
  "moves (keeps I) get_inactive_users" "moves (keeps I) (get_user i)" "moves (keeps I) (delete_me_check cu)"
  unfolding count_admins_def get_users_def get_inactive_users_def get_user_def delete_me_check_def
  by (intro moves_intros)+

lemmas request_intros = thread_intros moves_intros reads_keep commit_keeps holds_row_writes

lemma login_keeps:
  assumes "tok_sub tok \<noteq> u_id u"
  shows "preserves (holds_row u) (login_thread tok)"
  unfolding login_thread_def
proof (rule preserves_bindT_results [OF _ load_id])
  show "preserves (holds_row u) (load_or_register tok)"
    unfolding load_or_register_def register_thread_def
    by (auto intro!: request_intros split: prod.splits)
  show "preserves (holds_row u) (check_user tok v)" if "u_id v = tok_sub tok" for v
    using that assms unfolding check_user_def by (auto intro!: request_intros)
qed

lemma request_keeps:
  assumes "u_id u \<notin> concerned (tok, req)" "u_id cu = tok_sub tok"
  shows "preserves (holds_row u) (request_thread cu req)"
  using assms
  by (cases req) (auto simp: guarded_def change_thread_def reject_user_request_def intro!: request_intros)

lemma serve_keeps:
  assumes "u_id u \<notin> concerned r"
  shows "preserves (holds_row u) (serve_thread r)"
proof -
  obtain tok req where r: "r = (tok, req)" by (cases r)
  have "tok_sub tok \<noteq> u_id u" using assms r by (cases req) auto
  then show ?thesis
    unfolding r serve_thread_def prod.case
    by (rule preserves_bindT_results [OF login_keeps login_id]) (use assms r in \<open>auto intro: request_keeps\<close>)
qed

lemma login_ok: "preserves db_ok (login_thread tok)"
  unfolding login_defs register_thread_def
  by (auto intro!: thread_intros user_moves reads_keep commit_keeps split: prod.splits)

lemma serve_ok: "preserves db_ok (serve_thread r)"
proof -
  have "preserves db_ok (request_thread cu req)" for cu req
    by (cases req) (auto simp: guarded_def change_thread_def reject_user_request_def
      intro!: thread_intros user_moves reads_keep commit_keeps)
  with login_ok show ?thesis by (cases r) (simp add: serve_thread_def preserves_bindT)
qed

text \<open>
  However the turns of account requests interleave, the constraints of the
  database hold, and an account that no request is from or about stays as it is: an administrator
  among them remains one.
\<close>

theorem interleaved_requests_keep_accounts:
  assumes "db_ok d"
  shows "db_ok (snd (run_pool sched (request_pool reqs d))) \<and>
    (\<forall>u \<in> set (users d). (\<forall>r \<in> set reqs. u_id u \<notin> concerned r) \<longrightarrow>
       u \<in> set (users (snd (run_pool sched (request_pool reqs d)))))"
proof -
  have "db_ok (snd (run_pool sched (request_pool reqs d)))"
    unfolding request_pool_def using assms by (rule pool_invariant [where I = db_ok]) (auto intro: serve_ok)
  moreover have "holds_row u (snd (run_pool sched (request_pool reqs d)))"
    if "u \<in> set (users d)" "\<forall>r \<in> set reqs. u_id u \<notin> concerned r" for u
    unfolding request_pool_def
    by (rule pool_invariant [where I = "holds_row u"]) (use assms that in \<open>auto simp: holds_row_def intro: serve_keeps\<close>)
  ultimately show ?thesis by (auto simp: holds_row_def)
qed

theorem interleaved_requests_keep_accounts_witness:
  "db_ok (snd (run_pool [0, 1, 1, 0, 1, 0] (request_pool
       [(token_of bob, DeleteMe), (\<lparr>tok_sub = ''c'', tok_username = Some ''cid''\<rparr>, GetMe)] (db_of_users [ann, bob])))) \<and>
   ann \<in> set (users (snd (run_pool [0, 1, 1, 0, 1, 0] (request_pool
       [(token_of bob, DeleteMe), (\<lparr>tok_sub = ''c'', tok_username = Some ''cid''\<rparr>, GetMe)] (db_of_users [ann, bob])))))"
proof -
  have "db_ok (db_of_users [ann, bob])" by (simp add: db_of_users_def db_ok_def ann_def bob_def)
  from interleaved_requests_keep_accounts [OF this, of "[0, 1, 1, 0, 1, 0]"
      "[(token_of bob, DeleteMe), (\<lparr>tok_sub = ''c'', tok_username = Some ''cid''\<rparr>, GetMe)]"]
  show ?thesis by (simp add: db_of_users_def ann_def bob_def token_of_def)
qed

section \<open>Races\<close>

lemmas pool_eval = request_pool_def serve_thread_def login_defs register_thread_def turn_def retT_def liftT_def
  raiseT_def advance_def preferred_username_def act_simps row_by_def insert_user_def get_user_def

text \<open>
  Property C37 (concurrent_delete_me). The check of \<open>delete_me\<close> and its deletion are separate turns: the only two
  administrators that delete themselves at the same time both pass the check, and no administrator
  is left. One after the other, the second is refused.
\<close>

theorem concurrent_delete_me:
  assumes "users d = [u, v]" "u_role u = ADMIN" "u_role v = ADMIN"
    and "u_is_active u" "u_is_active v" "u_id u \<noteq> u_id v"
  shows "fst (run_pool [0, 1, 0, 1, 0, 1] (request_pool [(token_of u, DeleteMe), (token_of v, DeleteMe)] d)) =
      [Done (Inr ()), Done (Inr ())] \<and>
    admin_count (snd (run_pool [0, 1, 0, 1, 0, 1]
      (request_pool [(token_of u, DeleteMe), (token_of v, DeleteMe)] d))) = 0 \<and>
    admin_count (run_users d [(token_of u, DeleteMe), (token_of v, DeleteMe)]) = 1"
  using assms
  by (simp add: pool_eval token_of_def delete_me_check_def count_admins_def admin_count_def delete_user_def
      delete_by_def serve_user_def retrieve_user_handler_def delete_me_def)

theorem concurrent_delete_me_witness:
  "admin_count (snd (run_pool [0, 1, 0, 1, 0, 1]
     (request_pool [(token_of ann, DeleteMe), (token_of bob, DeleteMe)] (db_of_users [ann, bob])))) = 0"
  using concurrent_delete_me [of "db_of_users [ann, bob]" ann bob] by (simp add: db_of_users_def ann_def bob_def)

text \<open>
  Property C38 (concurrent_first_logins). The first user becomes an active administrator because it finds the table empty. Two
  users that log in for the first time at the same moment both find it empty and both become active
  administrators; one after the other, the second is refused and stays inactive.
\<close>

theorem concurrent_first_logins:
  assumes "users d = []" "tok_username t1 = Some n1" "tok_username t2 = Some n2"
    and "tok_sub t1 \<noteq> tok_sub t2" "n1 \<noteq> n2"
  shows "fst (run_pool [0, 1, 0, 1, 0, 1] (request_pool [(t1, GetMe), (t2, GetMe)] d)) =
      [Done (Inr ()), Done (Inr ())] \<and>
    map u_role (filter u_is_active (users (snd (run_pool [0, 1, 0, 1, 0, 1]
      (request_pool [(t1, GetMe), (t2, GetMe)] d))))) = [ADMIN, ADMIN] \<and>
    map u_role (filter u_is_active (users (run_users d [(t1, GetMe), (t2, GetMe)]))) = [ADMIN]"
  using assms
  by (simp add: pool_eval serve_user_def retrieve_user_handler_def create_user_def Let_def)

theorem concurrent_first_logins_witness:
  "map u_role (filter u_is_active (users (snd (run_pool [0, 1, 0, 1, 0, 1]
     (request_pool [(token_of ann, GetMe), (token_of bob, GetMe)] (db_of_users [])))))) = [ADMIN, ADMIN]"
  using concurrent_first_logins [of "db_of_users []" "token_of ann" "''ann''" "token_of bob" "''bob''"]
  by (simp add: db_of_users_def ann_def bob_def token_of_def)

end
