(* ===== verification/FileRequests.thy ===== *)
theory FileRequests
  imports Threads Backend
begin

text \<open>
  File requests that interleave. An endpoint awaits the row of its miniverse and then works on the files
  without another \<open>await\<close>, so it has at most two turns. (Extracting an archive runs in a worker
  thread and is not of this form.)
\<close>

section \<open>The endpoints as threads\<close>

definition read_then_work :: "(db \<Rightarrow> 'x) \<Rightarrow> ('x \<Rightarrow> (fs, unit) action) \<Rightarrow> ('d world, unit) thread" where
  "read_then_work read work = bindT (turn (getA (\<lambda>w. read (w_db w)))) (\<lambda>x. turn (on_fs (work x)))"

definition with_miniverse :: "(miniverse \<Rightarrow> (fs, unit) action) \<Rightarrow> miniverse option \<Rightarrow> (fs, unit) action" where
  "with_miniverse act m = (case m of None \<Rightarrow> raise AttributeError | Some mv \<Rightarrow> act mv)"

definition file_thread ::
  "user_obj \<Rightarrow> string \<Rightarrow> (miniverse \<Rightarrow> (fs, unit) action) \<Rightarrow> ('d world, unit) thread" where
  "file_thread cu i act =
    (if get_miniverse_role cu i < MODERATOR then raiseT NotAuthorizedException
     else read_then_work (get_miniverse i) (with_miniverse act))"

definition set_content_work :: "env \<Rightarrow> string \<Rightarrow> json \<Rightarrow> miniverse option \<Rightarrow> (fs, unit) action" where
  "set_content_work e path data m =
    bindA (liftA (py_in ''content'' data)) (\<lambda>has.
    if \<not> has then raise ValueError
    else bindA (liftA (getitem data ''content'')) (\<lambda>c. case c of
           JStr t \<Rightarrow> with_miniverse (\<lambda>mv. set_file_content e mv (Path path) t) m
         | _ \<Rightarrow> (case m of None \<Rightarrow> raise AttributeError | Some _ \<Rightarrow> raise TypeError)))"

definition upload_work :: "env \<Rightarrow> string \<Rightarrow> json \<Rightarrow> miniverse option \<Rightarrow> (fs, unit) action" where
  "upload_work e file_id meta m =
    bindA (liftA (bindE (getitem meta ''filename'') need_str)) (\<lambda>filename.
    bindA (liftA (bindE (getitem meta ''destination'') need_str)) (\<lambda>destination.
    with_miniverse (\<lambda>mv. upload_miniverse_file e mv file_id filename (Path destination)) m))"

text \<open>A finished upload of a user without the role is removed; no \<open>await\<close> comes before.\<close>

definition finish_thread :: "'d services \<Rightarrow> user_obj \<Rightarrow> string \<Rightarrow> json \<Rightarrow> json \<Rightarrow> ('d world, unit) thread" where
  "finish_thread s cu file_id meta miniverse_id =
    (let e = s_env s in
     if json_role cu miniverse_id < MODERATOR then
       turn (on_fs (thenA (unlink (work_dir e) (upload_path e file_id))
                          (unlink (work_dir e) (upload_path e (file_id @ ''.info'')))))
     else bindT (liftT (need_str miniverse_id)) (\<lambda>i. read_then_work (get_miniverse i) (upload_work e file_id meta)))"

definition hook_thread :: "'d services \<Rightarrow> user_obj \<Rightarrow> hook \<Rightarrow> ('d world, unit) thread" where
  "hook_thread s cu data = (case data of
     PreCreate ev \<Rightarrow>
       bindT (liftT (meta_of ev)) (\<lambda>meta.
       bindT (liftT (getitem meta ''miniverseId'')) (\<lambda>miniverse_id.
       if json_role cu miniverse_id < MODERATOR then retT ()
       else bindT (liftT (getitem meta ''filename'')) (\<lambda>_. retT ())))
   | PostFinish ev \<Rightarrow>
       bindT (liftT (bindE (bindE (getitem ev ''Upload'') (\<lambda>u. getitem u ''ID'')) need_str)) (\<lambda>file_id.
       bindT (liftT (meta_of ev)) (\<lambda>meta.
       bindT (liftT (getitem meta ''miniverseId'')) (\<lambda>miniverse_id.
       finish_thread s cu file_id meta miniverse_id))))"

fun files_thread :: "'d services \<Rightarrow> codecs \<Rightarrow> user_obj \<times> request \<Rightarrow> ('d world, unit) thread option" where
  "files_thread s z (cu, DeleteFiles i ps) =
     Some (file_thread cu i (\<lambda>mv. delete_miniverse_files (s_env s) mv (map Path ps)))"
| "files_thread s z (cu, CopyFiles i ps d) =
     Some (file_thread cu i (\<lambda>mv. copy_miniverse_files (copy_depth z) (s_env s) mv (map Path ps) (Path d)))"
| "files_thread s z (cu, CompressFiles i ps) =
     Some (file_thread cu i (\<lambda>mv. compress_miniverse_files (pack z) (s_env s) mv (map Path ps)))"
| "files_thread s z (cu, RenameFile i p n) =
     Some (file_thread cu i (\<lambda>mv. rename_file (s_env s) mv (Path p) n))"
| "files_thread s z (cu, SetContent i p d) =
     Some (if get_miniverse_role cu i < MODERATOR then raiseT NotAuthorizedException
           else read_then_work (get_miniverse i) (set_content_work (s_env s) p d))"
| "files_thread s z (cu, TusHook h) = Some (hook_thread s cu h)"
| "files_thread s z _ = None"

section \<open>A file request alone\<close>

lemma alone_read_then_work:
  "alone (read_then_work read work) w = (case work (read (w_db w)) (w_fs w) of (r, f) \<Rightarrow> (r, w\<lparr>w_fs := f\<rparr>))"
  by (simp add: read_then_work_def thread_simps act_simps)

lemma world_fs_id [simp]: "w\<lparr>w_fs := w_fs w\<rparr> = (w :: 'd world)"
  by simp

lemma alone_file_thread: "alone (file_thread cu i act) w = file_request cu i act w"
  by (auto simp: file_thread_def file_request_def require_def found_def with_miniverse_def
      alone_read_then_work thread_simps act_simps split: option.splits)

lemma alone_set_content:
  "alone (if get_miniverse_role cu i < MODERATOR then raiseT NotAuthorizedException
     else read_then_work (get_miniverse i) (set_content_work (s_env s) p d)) w = api_set_content s cu i p d w"
  by (auto simp: api_set_content_def require_def set_content_work_def with_miniverse_def
      alone_read_then_work thread_simps act_simps split: option.splits sum.splits json.splits prod.splits)

lemma alone_finish:
  "alone (finish_thread s cu file_id meta mid) w = discard (finish_upload s cu file_id meta mid) w"
  by (auto simp: finish_thread_def finish_upload_def upload_work_def with_miniverse_def discard_def Let_def
      alone_read_then_work thread_simps act_simps split: option.splits sum.splits prod.splits)

lemma alone_hook: "alone (hook_thread s cu h) w = discard (confirm_upload s cu h) w"
  by (cases h) (auto simp: hook_thread_def confirm_upload_def discard_def thread_simps act_simps
      alone_finish [unfolded discard_def] split: sum.splits)

theorem file_request_alone:
  "files_thread s z (cu, req) = Some t \<Longrightarrow> alone t w = endpoint s z cu req w"
  by (cases req) (auto simp: alone_file_thread alone_set_content alone_hook api_delete_files_def
      api_copy_files_def api_compress_def api_rename_def)

section \<open>Every interleaving is a serial execution\<close>

text \<open>
  A thread that is done, does its work in one last turn, or reads the database \<open>D\<close> first. No such thread
  writes to the database.
\<close>

inductive reads_then_writes :: "db \<Rightarrow> ('d world, 'a) thread \<Rightarrow> bool" for D where
  over: "reads_then_writes D (Done r)"
| work: "(\<And>w. w_db (snd (m w)) = w_db w) \<Longrightarrow> reads_then_writes D (turn m)"
| look: "reads_then_writes D (g D) \<Longrightarrow> reads_then_writes D (Turn (\<lambda>w. w) (\<lambda>w. g (w_db w)))"

inductive_cases turn_cases: "reads_then_writes D (Turn f k)"

lemma files_threads_read: "files_thread s z r = Some t \<Longrightarrow> reads_then_writes D t"
proof -
  have fs: "w_db (snd (on_fs m w)) = w_db w" for m :: "(fs, 'x) action" and w :: "'w world"
    by (simp add: act_simps split: prod.splits)
  have rw: "reads_then_writes D (read_then_work f g)" for f :: "db \<Rightarrow> 'x" and g
  proof -
    have "reads_then_writes D (turn (on_fs (g (f D))))" by (intro reads_then_writes.work fs)
    from reads_then_writes.look [of D "\<lambda>d. turn (on_fs (g (f d)))", OF this]
    show ?thesis by (simp add: read_then_work_def turn_def getA_def)
  qed
  have fin: "reads_then_writes D (finish_thread s cu f m i)" for cu f m i
    by (auto simp: finish_thread_def Let_def liftT_def intro!: rw reads_then_writes.intros fs split: sum.splits)
  show "files_thread s z r = Some t \<Longrightarrow> reads_then_writes D t"
    by (cases "(s, z, r)" rule: files_thread.cases)
      (auto simp: file_thread_def raiseT_def retT_def liftT_def hook_thread_def
        intro!: rw fin reads_then_writes.over split: hook.splits sum.splits)
qed

text \<open>The requests of a pool one after another, in a given order.\<close>

definition serially :: "('s, 'a) thread list \<Rightarrow> nat list \<Rightarrow> 's \<Rightarrow> 's" where
  "serially ts ord s = fold (\<lambda>i s. snd (alone (ts ! i) s)) ord s"

lemma serially_snoc [simp]: "serially ts (ord @ [i]) s = snd (alone (ts ! i) (serially ts ord s))"
  by (simp add: serially_def)

lemma serially_Nil [simp]: "serially ts [] s = s"
  by (simp add: serially_def)

text \<open>
  \<open>served ts ord s us u\<close>: the threads of \<open>ord\<close> are done with the results of a serial execution that
  leads to \<open>u\<close>, and each other thread of \<open>us\<close> still does what its request does.
\<close>

definition served :: "('d world, 'a) thread list \<Rightarrow> nat list \<Rightarrow> 'd world \<Rightarrow> ('d world, 'a) thread list \<Rightarrow> 'd world \<Rightarrow> bool" where
  "served ts ord w us u \<longleftrightarrow>
     distinct ord \<and> set ord \<subseteq> {..<length ts} \<and> length us = length ts \<and> u = serially ts ord w \<and> w_db u = w_db w \<and>
     (\<forall>k < length ord. us ! (ord ! k) = Done (fst (alone (ts ! (ord ! k)) (serially ts (take k ord) w)))) \<and>
     (\<forall>i < length ts. i \<notin> set ord \<longrightarrow> reads_then_writes (w_db w) (us ! i) \<and>
        (\<forall>v. w_db v = w_db w \<longrightarrow> alone (us ! i) v = alone (ts ! i) v))"

lemma servedD:
  assumes "served ts ord w us u"
  shows "length us = length ts" "u = serially ts ord w" "w_db u = w_db w"
    and "k < length ord \<Longrightarrow> us ! (ord ! k) = Done (fst (alone (ts ! (ord ! k)) (serially ts (take k ord) w)))"
    and "i < length ts \<Longrightarrow> i \<notin> set ord \<Longrightarrow> reads_then_writes (w_db w) (us ! i)"
    and "i < length ts \<Longrightarrow> i \<notin> set ord \<Longrightarrow> w_db v = w_db w \<Longrightarrow> alone (us ! i) v = alone (ts ! i) v"
  using assms unfolding served_def by blast+

lemma served_step:
  assumes "served ts ord w us u"
  shows "\<exists>ord'. served ts ord' w (fst (advance i (us, u))) (snd (advance i (us, u)))"
proof (cases i us u rule: advance_cases)
  case stuck
  with assms show ?thesis by auto
next
  case (turn f k)
  have i: "i \<notin> set ord" "i < length ts"
    using servedD(1,4) [OF assms] turn by (auto simp: in_set_conv_nth)
  have al: "alone (Turn f k) v = alone (ts ! i) v" if "w_db v = w_db w" for v
    using servedD(6) [OF assms i(2,1) that] turn(2) by simp
  note u = servedD(2,3) [OF assms]
  from servedD(5) [OF assms i(2,1)] turn(2) have "reads_then_writes (w_db w) (Turn f k)" by simp
  then show ?thesis
  proof (cases rule: turn_cases [consumes 1, case_names work look])
    case (work m)
    let ?us = "us[i := k u]"
    have m: "alone (ts ! i) u = m u" using al [OF u(2)] work(1) alone_turn [of m] by simp
    have ku: "k u = Done (fst (m u))" "f u = snd (m u)" using work(1) by (simp_all add: turn_def)
    have "served ts (ord @ [i]) w ?us (f u)"
      using assms i m ku work(2) [of u]
      unfolding served_def by (auto simp: nth_append less_Suc_eq nth_list_update u(1) dest: nth_mem)
    with turn(3) show ?thesis by auto
  next
    case (look g)
    have k: "k u = g (w_db w)" using look u(2) by simp
    have "alone (k u) v = alone (ts ! i) v" if "w_db v = w_db w" for v
      using al [OF that] look that u(2) by simp
    moreover have "us ! (ord ! n) = us[i := k u] ! (ord ! n)" if "n < length ord" for n
      using i(1) that nth_mem [OF that] by (metis nth_list_update_neq)
    ultimately have "served ts ord w (us[i := k u]) u"
      using assms i look k unfolding served_def
      by (auto simp: nth_list_update)
    with turn(3) look show ?thesis by auto
  qed
qed

lemma served_run:
  assumes "\<forall>t \<in> set ts. reads_then_writes (w_db w) t"
  shows "\<exists>ord. served ts ord w (fst (run_pool sched (ts, w))) (snd (run_pool sched (ts, w)))"
proof (induction sched rule: rev_induct)
  case Nil
  have "served ts [] w ts w" using assms by (simp add: served_def)
  then show ?case by auto
next
  case (snoc i sched)
  then obtain ord where "served ts ord w (fst (run_pool sched (ts, w))) (snd (run_pool sched (ts, w)))" by blast
  from served_step [OF this, of i] show ?case by (simp add: run_pool_snoc)
qed

text \<open>Threads that are done without a turn of their own are put at the end.\<close>

lemma served_all:
  assumes "served ts ord w us u" "\<forall>t \<in> set us. finished t"
  shows "\<exists>ord'. served ts ord' w us u \<and> set ord' = {..<length ts}"
  using assms(1)
proof (induction "card ({..<length ts} - set ord)" arbitrary: ord)
  case 0
  then have "set ord = {..<length ts}" by (auto simp: served_def)
  with 0 show ?case by blast
next
  case (Suc n)
  then obtain i where i: "i < length ts" "i \<notin> set ord" by (metis DiffE card.empty equals0I lessThan_iff nat.distinct(1))
  note len = servedD(1) [OF Suc.prems] and u = servedD(2,3) [OF Suc.prems]
  obtain r where r: "us ! i = Done r"
    using assms(2) i(1) len by (metis finished_def nth_mem thread.exhaust thread.simps(6))
  have a: "alone (ts ! i) u = (r, u)" using servedD(6) [OF Suc.prems i u(2)] r by (simp add: liftA_def)
  then have "served ts (ord @ [i]) w us u"
    using Suc.prems i r unfolding served_def
    by (auto simp: nth_append less_Suc_eq u(1) dest: nth_mem)
  moreover have "n = card ({..<length ts} - set (ord @ [i]))"
    using Suc(2) i by (simp add: Diff_insert [symmetric] card_Diff_singleton insert_Diff_if)
  ultimately show ?case using Suc.hyps(1) by blast
qed

definition file_pool :: "'d services \<Rightarrow> codecs \<Rightarrow> (user_obj \<times> request) list \<Rightarrow> 'd world \<Rightarrow> ('d world, unit) pool" where
  "file_pool s z reqs w = (map (\<lambda>r. the (files_thread s z r)) reqs, w)"

definition serve_in_order ::
  "'d services \<Rightarrow> codecs \<Rightarrow> (user_obj \<times> request) list \<Rightarrow> nat list \<Rightarrow> 'd world \<Rightarrow> 'd world" where
  "serve_in_order s z reqs ord w = fold (\<lambda>i w. snd (endpoint s z (fst (reqs ! i)) (snd (reqs ! i)) w)) ord w"

lemma alone_in_pool:
  assumes "\<forall>r \<in> set reqs. files_thread s z r \<noteq> None" "i < length reqs"
  shows "alone (fst (file_pool s z reqs w0) ! i) w = endpoint s z (fst (reqs ! i)) (snd (reqs ! i)) w"
  using assms file_request_alone [of s z "fst (reqs ! i)" "snd (reqs ! i)"] by (auto simp: file_pool_def)

lemma serially_in_order:
  assumes "\<forall>r \<in> set reqs. files_thread s z r \<noteq> None" "set ord \<subseteq> {..<length reqs}"
  shows "serially (fst (file_pool s z reqs w0)) ord w = serve_in_order s z reqs ord w"
  using assms(2)
  by (induction ord arbitrary: w) (simp_all add: serially_def serve_in_order_def alone_in_pool [OF assms(1)])


definition demo_moderator :: user_obj where
  "demo_moderator = user.extend \<lparr>u_id = ''b-1'', u_is_active = True, u_username = ''bob'', u_role = USER\<rparr>
     \<lparr>miniverses_roles = [\<lparr>mur_user_id = ''b-1'', mur_miniverse_id = ''m1'', mur_role = MODERATOR\<rparr>]\<rparr>"

definition demo_pool :: "(unit world, unit) pool" where
  "demo_pool = file_pool demo_services demo_codecs
     [(demo_moderator, RenameFile ''m1'' ''world'' ''old''), (demo_moderator, DeleteFiles ''m1'' [''world''])] demo_world"


end
