(* ===== verification/Interleavings.thy ===== *)
theory Interleavings
  imports Access Concurrency FileRequests LifecycleAlone
begin

text \<open>
  All requests of the backend in one pool: account requests, the lifecycle of miniverses and file requests with their
  turns; the other endpoints (mods, roles, players, reads) as one turn after the login.
\<close>

section \<open>Every request as a thread\<close>

abbreviation on_dbT :: "(db, 'a) thread \<Rightarrow> ('d world, 'a) thread" where
  "on_dbT t \<equiv> zoomT w_db w_db_update t"

definition service_thread :: "'d services \<Rightarrow> codecs \<Rightarrow> user_obj \<Rightarrow> request \<Rightarrow> ('d world, unit) thread" where
  "service_thread s z cu req = (case lifecycle_thread s cu req of
     Some t \<Rightarrow> t
   | None \<Rightarrow> (case files_thread s z (cu, req) of Some t \<Rightarrow> t | None \<Rightarrow> turn (endpoint s z cu req)))"

fun any_thread :: "'d services \<Rightarrow> codecs \<Rightarrow> token \<times> any_request \<Rightarrow> ('d world, unit) thread" where
  "any_thread s z (tok, Account r) = on_dbT (serve_thread (tok, r))"
| "any_thread s z (tok, Service r) = bindT (on_dbT (login_thread tok)) (\<lambda>cu. service_thread s z cu r)"

definition backend_pool ::
  "'d services \<Rightarrow> codecs \<Rightarrow> (token \<times> any_request) list \<Rightarrow> 'd world \<Rightarrow> ('d world, unit) pool" where
  "backend_pool s z reqs w = (map (any_thread s z) reqs, w)"

lemma alone_on_dbT: "alone (on_dbT t) = on_db (alone t)"
  by (rule ext, rule alone_zoomT) simp_all

theorem any_request_alone:
  assumes "db_ok (w_db w)"
  shows "alone (any_thread s z r) w = serve_any s z r w"
proof -
  have service: "alone (service_thread s z cu req) w' = endpoint s z cu req w'"
    if "db_ok (w_db w')" for cu req and w' :: "'a world"
    using that lifecycle_alone [of s cu req _ w' z] file_request_alone [of s z cu req]
    by (auto simp: service_thread_def db_ok_def thread_simps split: option.split simp del: endpoint.simps)
  show ?thesis
  proof (cases r)
    case (Pair tok req)
    show ?thesis
    proof (cases req)
      case (Account ar)
      with Pair assms show ?thesis by (simp add: alone_on_dbT zoomA_apply request_alone)
    next
      case (Service sr)
      have "db_ok (w_db (snd (on_db (retrieve_user_handler tok) w)))"
        using movesD [OF ok_retrieve, of "w_db w" tok] assms
        by (auto simp: keeps_def zoomA_apply split: prod.splits)
      with Pair Service show ?thesis
        by (auto simp: serve_def thread_simps alone_on_dbT alone_login [abs_def] bindA_apply service
            split: prod.splits sum.splits)
    qed
  qed
qed

section \<open>What every interleaving keeps\<close>

context mod_writes
begin

lemma read_then_work_turns: "turns (via_db R) (read_then_work f g)"
  unfolding read_then_work_def by (intro turns_intros steps)

lemma files_turns: "files_thread s z r = Some t \<Longrightarrow> turns (via_db R) t"
proof -
  have hook: "turns (via_db R) (hook_thread s cu h)" for s :: "'w services" and cu h
    by (cases h) (auto simp: hook_thread_def finish_thread_def Let_def intro!: turns_intros steps read_then_work_turns)
  obtain cu req where "r = (cu, req)" by (cases r)
  then show "files_thread s z r = Some t \<Longrightarrow> turns (via_db R) t"
    by (cases req) (auto simp: file_thread_def intro!: turns_intros read_then_work_turns hook)
qed

end

context request_writes
begin

lemma service_turns: "turns (via_db R) (service_thread s z cu req)"
proof (cases "lifecycle_thread s cu req")
  case (Some t)
  then show ?thesis by (simp add: service_thread_def lifecycle_turns)
next
  case None
  then show ?thesis
    by (cases "files_thread s z (cu, req)") (simp_all add: service_thread_def files_turns turns_turn endpoint_R)
qed

end

text \<open>The accounts that a request is from or about.\<close>

fun concerned_any :: "token \<times> any_request \<Rightarrow> string set" where
  "concerned_any (tok, Account r) = concerned (tok, r)"
| "concerned_any (tok, Service r) = {tok_sub tok}"

lemma any_keeps:
  assumes "u_id u \<notin> concerned_any r"
  shows "preserves (\<lambda>w. holds_row u (w_db w)) (any_thread s z r)"
proof -
  have service: "preserves (\<lambda>w. holds_row u (w_db w)) (service_thread s z cu req)" for cu req
    by (rule preserves_turns [OF constraints.service_turns accounts.service_turns])
      (auto simp: via_db_def keeps_def same_def holds_row_def)
  obtain tok req where r: "r = (tok, req)" by (cases r)
  show ?thesis
  proof (cases req)
    case (Account ar)
    with r assms show ?thesis by (auto intro!: preserves_zoomT serve_keeps)
  next
    case (Service sr)
    with r assms show ?thesis by (auto intro!: preserves_bindT preserves_zoomT login_keeps service)
  qed
qed

lemma any_ok: "preserves (\<lambda>w. db_ok (w_db w)) (any_thread s z r)"
proof -
  have service: "preserves (\<lambda>w. db_ok (w_db w)) (service_thread s z cu req)" for cu req
    by (rule preserves_turns [OF constraints.service_turns constraints.service_turns])
      (auto simp: via_db_def keeps_def)
  obtain tok req where r: "r = (tok, req)" by (cases r)
  show ?thesis
  proof (cases req)
    case (Account ar)
    with r show ?thesis by (auto intro!: preserves_zoomT serve_ok)
  next
    case (Service sr)
    with r show ?thesis by (auto intro!: preserves_bindT preserves_zoomT login_ok service)
  qed
qed

text \<open>
  Property C5 (interleaved_requests_are_isolated). However the turns of requests to all controllers interleave, whatever fails and
  whatever Docker, Modrinth and the game servers answer, the constraints of the database hold, and an
  account that no request is from or about stays as it is.
\<close>

theorem interleaved_requests_are_isolated:
  assumes "db_ok (w_db w)"
  shows "db_ok (w_db (snd (run_pool sched (backend_pool s z reqs w)))) \<and>
    (\<forall>u \<in> set (users (w_db w)). (\<forall>r \<in> set reqs. u_id u \<notin> concerned_any r) \<longrightarrow>
       u \<in> set (users (w_db (snd (run_pool sched (backend_pool s z reqs w))))))"
proof -
  have "db_ok (w_db (snd (run_pool sched (backend_pool s z reqs w))))"
    unfolding backend_pool_def using assms by (rule pool_invariant [where I = "\<lambda>w. db_ok (w_db w)"]) (auto intro: any_ok)
  moreover have "holds_row u (w_db (snd (run_pool sched (backend_pool s z reqs w))))"
    if u: "u \<in> set (users (w_db w))" "\<forall>r \<in> set reqs. u_id u \<notin> concerned_any r" for u
    unfolding backend_pool_def
  proof (rule pool_invariant [where I = "\<lambda>w. holds_row u (w_db w)"])
    show "\<forall>t \<in> set (map (any_thread s z) reqs). preserves (\<lambda>w. holds_row u (w_db w)) t"
      using u(2) by (auto intro: any_keeps)
  qed (use assms u(1) in \<open>simp add: holds_row_def\<close>)
  ultimately show ?thesis by (auto simp: holds_row_def)
qed

theorem interleaved_requests_are_isolated_witness:
  "let w' = snd (run_pool [0, 1, 0, 1, 0, 1, 0, 1, 0, 1, 0, 1, 0, 1] (backend_pool log_services demo_codecs
      [(\<lparr>tok_sub = ''ann-1'', tok_username = Some ''ann''\<rparr>, Service (StartMiniverse ''m1'')),
       (\<lparr>tok_sub = ''ann-1'', tok_username = Some ''ann''\<rparr>, Service (DeleteMiniverse ''m1''))] log_world))
   in db_ok (w_db w') \<and> bob_row \<in> set (users (w_db w'))"
proof -
  have "db_ok (w_db log_world)" "bob_row \<in> set (users (w_db log_world))" by code_simp+
  moreover have "\<forall>r \<in> set [(\<lparr>tok_sub = ''ann-1'', tok_username = Some ''ann''\<rparr>, Service (StartMiniverse ''m1'')),
      (\<lparr>tok_sub = ''ann-1'', tok_username = Some ''ann''\<rparr>, Service (DeleteMiniverse ''m1''))].
      u_id bob_row \<notin> concerned_any r" by (simp add: bob_row_def)
  ultimately show ?thesis
    unfolding Let_def by (intro conjI interleaved_requests_are_isolated [THEN conjunct1]
        interleaved_requests_are_isolated [THEN conjunct2, THEN bspec, THEN mp])
qed

end
