(* ===== verification/Refreshes.thy ===== *)
theory Refreshes
  imports Threads Connexion
begin

text \<open>
  Refreshes of the player list that interleave. Each call of Redis and of the game server is awaited, so
  a refresh is a thread whose turns read or write one entry of the status store. Notifications of the server and
  webhooks start refreshes at any time.
\<close>

section \<open>A refresh as a thread\<close>

definition set_thread :: "string \<Rightarrow> string \<Rightarrow> string \<Rightarrow> json \<Rightarrow> bool \<Rightarrow> (hub, unit) thread" where
  "set_thread ns miniverse_id method_name v pub =
    (let key = store_key ns miniverse_id method_name;
         json_value = (if v \<noteq> JNull then Some (json_dumps v) else None)
     in bindT (turn (getA (kv_get key))) (\<lambda>old_json_value.
        if bytes_neq_str old_json_value json_value then
          bindT (turn (case json_value of
                   Some t \<Rightarrow> modifyA (kv_set key t)
                 | None \<Rightarrow> modifyA (kv_delete key))) (\<lambda>_.
          if pub then bindT (liftT (event_type_of method_name)) (\<lambda>t.
                        turn (publish_miniverse_control_event miniverse_id t v))
          else retT ())
        else retT ()))"

definition cached_thread ::
  "string \<Rightarrow> string \<Rightarrow> (string \<Rightarrow> exn + json) \<Rightarrow> string \<Rightarrow> bool \<Rightarrow> (hub, json \<times> bool) thread" where
  "cached_thread ns miniverse_id source method_name refresh_cache =
    bindT (if \<not> refresh_cache then turn (status_get ns miniverse_id method_name) else retT JNull) (\<lambda>raw_data.
    if raw_data = JNull then
      bindT (liftT (source method_name)) (\<lambda>raw.
      bindT (set_thread ns miniverse_id method_name raw True) (\<lambda>_. retT (raw, True)))
    else retT (raw_data, False))"

definition merge_thread :: "string \<Rightarrow> string \<Rightarrow> json \<Rightarrow> (hub, unit) thread" where
  "merge_thread ns miniverse_id raw =
    bindT (turn (status_get ns miniverse_id ''miniverse:seen_players'')) (\<lambda>seen.
    bindT (liftT (merge_seen seen raw)) (\<lambda>seen'.
    set_thread ns miniverse_id ''miniverse:seen_players'' seen' False))"

definition players_thread ::
  "string \<Rightarrow> string \<Rightarrow> (string \<Rightarrow> exn + json) \<Rightarrow> bool \<Rightarrow> (hub, player list) thread" where
  "players_thread ns miniverse_id source refresh_cache =
    bindT (cached_thread ns miniverse_id source ''minecraft:players'' refresh_cache)
      (\<lambda>(raw_player_list, has_refreshed).
    if raw_player_list = JNull then retT []
    else
      bindT (if has_refreshed then merge_thread ns miniverse_id raw_player_list else retT ()) (\<lambda>_.
      bindT (liftT (items raw_player_list)) (\<lambda>ps. liftT (mapE player_of_json ps))))"

section \<open>A refresh alone\<close>

lemma alone_set: "alone (set_thread ns i m v p) h = status_set ns i m v p h"
  by (auto simp: set_thread_def status_set_def thread_simps act_simps Let_def split: sum.splits)

lemma alone_merge: "alone (merge_thread ns i raw) h =
    bindA (status_get ns i ''miniverse:seen_players'') (\<lambda>seen.
    bindA (liftA (merge_seen seen raw)) (\<lambda>seen'.
    status_set ns i ''miniverse:seen_players'' seen' False)) h"
  by (auto simp: merge_thread_def thread_simps act_simps alone_set split: sum.splits prod.splits)

lemma alone_cached: "alone (cached_thread ns i source m refresh) h = get_data_cached ns i source m refresh h"
  by (auto simp: cached_thread_def get_data_cached_def thread_simps act_simps alone_set
      split: sum.splits prod.splits)

theorem refresh_alone: "alone (players_thread ns i source refresh) h = get_msmp_player_list ns i source refresh h"
  by (auto simp: players_thread_def get_msmp_player_list_def thread_simps act_simps alone_cached alone_merge
      split: sum.splits prod.splits)

section \<open>Seen players\<close>

lemma seen_holds_other:
  assumes "k \<noteq> store_key ns i ''miniverse:seen_players''"
  shows "seen_holds ns i ids (kv_set k t h) = seen_holds ns i ids h"
    "seen_holds ns i ids (kv_delete k h) = seen_holds ns i ids h"
  using assms
  by (auto simp: seen_holds_def status_value_def kv_get_def kv_set_def kv_delete_def update_conv' delete_conv')

lemma seen_holds_publish [simp]:
  "seen_holds ns i ids (snd (publish_miniverse_control_event j t v h)) = seen_holds ns i ids h"
  by (simp add: publish_miniverse_control_event_def publish_def act_simps seen_holds_def status_value_def kv_get_def)

lemma publish_keeps: "moves (keeps (seen_holds ns i ids)) (publish_miniverse_control_event j t v)"
  by (rule movesI) (simp add: keeps_def)

lemma set_other_keeps:
  assumes "store_key ns j m \<noteq> store_key ns i ''miniverse:seen_players''"
  shows "preserves (seen_holds ns i ids) (set_thread ns j m v p)"
  unfolding set_thread_def Let_def
  by (intro thread_intros moves_intros publish_keeps moves_modifyA)
    (auto simp: keeps_def seen_holds_other [OF assms])

lemma set_seen_keeps:
  assumes "ids \<subseteq> fst ` set kvs"
  shows "preserves (seen_holds ns i ids) (set_thread ns i ''miniverse:seen_players'' (JObj kvs) p)"
proof -
  have "seen_holds ns i ids (kv_set (store_key ns i ''miniverse:seen_players'') (json_dumps (JObj kvs)) h)" for h
    using assms by (simp add: seen_holds_def status_value_def kv_get_def kv_set_def update_conv')
  then have w: "moves (keeps (seen_holds ns i ids))
      (modifyA (kv_set (store_key ns i ''miniverse:seen_players'') (json_dumps (JObj kvs))))"
    by (simp add: moves_modifyA keeps_def)
  show ?thesis
    unfolding set_thread_def Let_def if_P [OF json.distinct(9) [symmetric]] option.case
    by (intro thread_intros moves_intros publish_keeps w)
qed

lemma merged_keys:
  assumes "merge_seen (JObj kvs) raw = Inr seen'"
  shows "\<exists>kvs'. seen' = JObj kvs' \<and> fst ` set kvs \<subseteq> fst ` set kvs'"
  using assms by (cases "kvs = []") (auto simp: merge_seen_def bindE_eq_Inr or_empty_def dict_update_keys)

lemma merge_keeps: "preserves (seen_holds ns i ids) (merge_thread ns i raw)"
  unfolding merge_thread_def
proof (rule preserves_read)
  fix h seen
  assume h: "seen_holds ns i ids h" and "fst (status_get ns i ''miniverse:seen_players'' h) = Inr seen"
  then obtain kvs where kvs: "seen = JObj kvs" "ids \<subseteq> fst ` set kvs"
    by (auto simp: status_get_def act_simps seen_holds_def)
  show "preserves (seen_holds ns i ids) (bindT (liftT (merge_seen seen raw))
      (\<lambda>seen'. set_thread ns i ''miniverse:seen_players'' seen' False))"
  proof (cases "merge_seen seen raw")
    case (Inr seen')
    then obtain kvs' where "seen' = JObj kvs'" "fst ` set kvs \<subseteq> fst ` set kvs'"
      using merged_keys kvs(1) by blast
    with Inr kvs(2) show ?thesis by (auto simp: liftT_def intro!: set_seen_keeps)
  qed (simp add: liftT_def)
qed (simp add: status_get_def act_simps)

lemma other_keys:
  assumes "no_dot i" "no_dot j" "(j, m) \<noteq> (i, ''miniverse:seen_players'')"
  shows "store_key ns j m \<noteq> store_key ns i ''miniverse:seen_players''"
  using store_key_inject [of j i ns m] assms by auto

lemma refresh_keeps:
  assumes "no_dot i" "no_dot j"
  shows "preserves (seen_holds ns i ids) (players_thread ns j source refresh)"
proof -
  have p: "store_key ns j ''minecraft:players'' \<noteq> store_key ns i ''miniverse:seen_players''"
    by (rule other_keys [OF assms]) simp
  have m: "preserves (seen_holds ns i ids) (merge_thread ns j raw)" for raw
  proof (cases "j = i")
    case False
    then have "store_key ns j ''miniverse:seen_players'' \<noteq> store_key ns i ''miniverse:seen_players''"
      by (intro other_keys [OF assms]) simp
    then show ?thesis
      unfolding merge_thread_def status_get_def by (intro thread_intros moves_intros set_other_keeps)
  qed (simp add: merge_keeps)
  show ?thesis
    unfolding players_thread_def cached_thread_def status_get_def
    by (auto intro!: thread_intros moves_intros set_other_keeps [OF p] m)
qed

definition refresh_pool ::
  "string \<Rightarrow> (string \<times> (string \<Rightarrow> exn + json) \<times> bool) list \<Rightarrow> hub \<Rightarrow> (hub, player list) pool" where
  "refresh_pool ns rs h = (map (\<lambda>(j, source, refresh). players_thread ns j source refresh) rs, h)"

text \<open>
  Property C34 (seen_players_survive). However refreshes and reads of the player lists of any miniverses interleave, no player that
  was seen before they began is forgotten, whatever the servers answer and also when calls fail.
\<close>

theorem seen_players_survive:
  assumes "seen_holds ns i ids h" "no_dot i" "\<forall>r \<in> set rs. no_dot (fst r)"
  shows "seen_holds ns i ids (snd (run_pool sched (refresh_pool ns rs h)))"
  unfolding refresh_pool_def
  by (rule pool_invariant) (use assms in \<open>fastforce intro: refresh_keeps\<close>)+

theorem seen_players_survive_witness:
  "seen_holds ''r:'' ''m1'' {''a''} (snd (run_pool [0, 1, 0, 1, 1, 0, 1, 0, 0, 1, 1, 0] (refresh_pool ''r:''
     [(''m1'', \<lambda>_. Inr (JList [player_dump \<lparr>pl_id = ''b'', pl_name = ''Bob''\<rparr>]), True), (''m1'', \<lambda>_. Inl OSError, True)]
     \<lparr>kv = [(''r:m1.miniverse:seen_players'', JsonText (JObj [(''a'', JNull)]))], channel = []\<rparr>)))"
proof (rule seen_players_survive)
  have "status_value ''r:'' \<lparr>kv = [(''r:m1.miniverse:seen_players'', JsonText (JObj [(''a'', JNull)]))], channel = []\<rparr>
      ''m1'' ''miniverse:seen_players'' = JObj [(''a'', JNull)]" by code_simp
  then show "seen_holds ''r:'' ''m1'' {''a''}
     \<lparr>kv = [(''r:m1.miniverse:seen_players'', JsonText (JObj [(''a'', JNull)]))], channel = []\<rparr>"
    by (simp add: seen_holds_def)
qed (simp_all add: no_dot_def)

definition answers :: "player list \<Rightarrow> string \<Rightarrow> exn + json" where
  "answers ps = (\<lambda>_. Inr (JList (map player_dump ps)))"

lemmas refresh_eval = refresh_pool_def players_thread_def cached_thread_def merge_thread_def set_thread_def
  turn_def retT_def liftT_def advance_def act_simps status_get_def Let_def bytes_neq_str_def kv_get_def kv_set_def
  publish_miniverse_control_event_def publish_def status_value_def store_key_def merge_seen_def player_key_def
  player_dump_def or_empty_def dict_update_def

lemma players_event: "event_type_of ''minecraft:players'' = Inr PLAYERS"
  by (rule event_type_of_value [of PLAYERS, unfolded event_type_value.simps])

text \<open>
  A player that a refresh has stored as seen can be lost: a refresh that read the
  seen players before writes back its older copy. One refresh after the other keeps both players.
\<close>

theorem concurrent_refresh_forgets:
  assumes "pl_id p \<noteq> pl_id q"
  defines "h \<equiv> \<lparr>kv = [], channel = []\<rparr>"
  shows "list_all finished (fst (run_pool [0, 0, 0, 0, 1, 1, 1, 1, 1, 1, 0, 0]
      (refresh_pool ns [(i, answers [p], True), (i, answers [q], True)] h))) \<and>
    status_value ns (snd (run_pool [0, 0, 0, 0, 1, 1, 1, 1, 1, 1, 0, 0]
      (refresh_pool ns [(i, answers [p], True), (i, answers [q], True)] h))) i ''miniverse:seen_players''
      = JObj [(pl_id p, player_dump p)] \<and>
    status_value ns (snd (get_msmp_player_list ns i (answers [q]) True
      (snd (get_msmp_player_list ns i (answers [p]) True h)))) i ''miniverse:seen_players''
      = JObj [(pl_id p, player_dump p), (pl_id q, player_dump q)]"
  using assms
  by (simp add: refresh_eval answers_def players_event finished_def get_msmp_player_list_def
      get_data_cached_def status_set_def)

theorem concurrent_refresh_forgets_witness:
  "status_value ''r:'' (snd (run_pool [0, 0, 0, 0, 1, 1, 1, 1, 1, 1, 0, 0] (refresh_pool ''r:''
      [(''m1'', answers [\<lparr>pl_id = ''a'', pl_name = ''Ann''\<rparr>], True),
       (''m1'', answers [\<lparr>pl_id = ''b'', pl_name = ''Bob''\<rparr>], True)] \<lparr>kv = [], channel = []\<rparr>)))
     ''m1'' ''miniverse:seen_players'' = JObj [(''a'', player_dump \<lparr>pl_id = ''a'', pl_name = ''Ann''\<rparr>)]"
  using concurrent_refresh_forgets [of "\<lparr>pl_id = ''a'', pl_name = ''Ann''\<rparr>" "\<lparr>pl_id = ''b'', pl_name = ''Bob''\<rparr>"]
  by simp

end
