(* ===== verification/TextStore.thy ===== *)
theory TextStore
  imports Connexion JsonSyntax
begin

text \<open>
  The status store with its real contents. Redis holds texts: \<open>ServerStatusStore\<close> writes what \<open>json.dumps\<close>
  prints and reads with \<open>json.loads\<close>. The theories of events and services keep a text abstract as the value
  it stands for; here the operations run on the texts, and each refines its abstract version through
  the values that the texts denote.
\<close>

section \<open>The store on texts\<close>

record text_hub =
  texts :: "(string \<times> string) list"
  sent :: "miniverse_event list"

definition text_publish :: "miniverse_event \<Rightarrow> (text_hub, unit) action" where
  "text_publish ev = modifyA (\<lambda>h. h\<lparr>sent := sent h @ [ev]\<rparr>)"

definition text_set :: "string \<Rightarrow> string \<Rightarrow> string \<Rightarrow> json \<Rightarrow> bool \<Rightarrow> (text_hub, unit) action" where
  "text_set ns miniverse_id method_name v pub =
    (let key = store_key ns miniverse_id method_name;
         json_value = (if v \<noteq> JNull then Some (dumps_text v) else None)
     in bindA (getA (\<lambda>h. map_of (texts h) key)) (\<lambda>old_json_value.
        if bytes_neq_str old_json_value json_value then
          thenA (modifyA (\<lambda>h. h\<lparr>texts := (case json_value of
                   Some t \<Rightarrow> AList.update key t (texts h)
                 | None \<Rightarrow> AList.delete key (texts h))\<rparr>))
                (if pub then bindA (liftA (event_type_of method_name)) (\<lambda>t.
                   text_publish \<lparr>ev_type = t, ev_data = v, ev_miniverse_id = Some miniverse_id,
                                 ev_updated_user_ids = None\<rparr>)
                 else ret ())
        else ret ()))"

definition text_get :: "string \<Rightarrow> string \<Rightarrow> string \<Rightarrow> (text_hub, json) action" where
  "text_get ns miniverse_id method_id =
    bindA (getA (\<lambda>h. map_of (texts h) (store_key ns miniverse_id method_id))) (\<lambda>str_data.
    case str_data of None \<Rightarrow> ret JNull | Some t \<Rightarrow> liftA (loads_text t))"

section \<open>The services on the texts\<close>

definition text_data_cached ::
  "string \<Rightarrow> string \<Rightarrow> (string \<Rightarrow> exn + json) \<Rightarrow> string \<Rightarrow> bool \<Rightarrow> (text_hub, json \<times> bool) action" where
  "text_data_cached ns miniverse_id source method_name refresh_cache =
    bindA (if \<not> refresh_cache then text_get ns miniverse_id method_name else ret JNull) (\<lambda>raw_data.
    if raw_data = JNull then
      bindA (liftA (source method_name)) (\<lambda>raw.
      thenA (text_set ns miniverse_id method_name raw True) (ret (raw, True)))
    else ret (raw_data, False))"

definition text_player_list ::
  "string \<Rightarrow> string \<Rightarrow> (string \<Rightarrow> exn + json) \<Rightarrow> bool \<Rightarrow> (text_hub, player list) action" where
  "text_player_list ns miniverse_id source refresh_cache =
    bindA (text_data_cached ns miniverse_id source ''minecraft:players'' refresh_cache)
      (\<lambda>(raw_player_list, has_refreshed).
    if raw_player_list = JNull then ret []
    else
      thenA (if has_refreshed then
               bindA (text_get ns miniverse_id ''miniverse:seen_players'') (\<lambda>seen.
               bindA (liftA (merge_seen seen raw_player_list)) (\<lambda>seen'.
               text_set ns miniverse_id ''miniverse:seen_players'' seen' False))
             else ret ())
        (bindA (liftA (items raw_player_list)) (\<lambda>ps. liftA (mapE player_of_json ps))))"

definition text_seen_player_list :: "string \<Rightarrow> string \<Rightarrow> (text_hub, player list) action" where
  "text_seen_player_list ns miniverse_id =
    bindA (text_get ns miniverse_id ''miniverse:seen_players'') (\<lambda>seen.
    bindA (liftA (as_dict (or_empty seen))) (\<lambda>kvs.
    liftA (mapE player_of_json (map snd kvs))))"

section \<open>What the texts stand for\<close>

definition denoted :: "string \<Rightarrow> json" where
  "denoted t = (case loads_text t of Inl _ \<Rightarrow> JNull | Inr v \<Rightarrow> v)"

definition entries :: "(string \<times> string) list \<Rightarrow> (string \<times> jtext) list" where
  "entries ts = map (\<lambda>(k, t). (k, json_dumps (denoted t))) ts"

definition hub_of :: "text_hub \<Rightarrow> hub" where
  "hub_of h = \<lparr>kv = entries (texts h), channel = sent h\<rparr>"

definition readable :: "text_hub \<Rightarrow> bool" where
  "readable h \<longleftrightarrow> (\<forall>(k, t) \<in> set (texts h). \<exists>v. loads_text t = Inr v)"

lemma loads_dumps_text [simp]: "json_wf v \<Longrightarrow> loads_text (dumps_text v) = Inr v"
  by (simp add: dumps_text_def loads_text_written)

lemma entries_get: "map_of (entries ts) k = map_option (\<lambda>t. json_dumps (denoted t)) (map_of ts k)"
  by (simp add: entries_def map_of_map)

lemma entries_update: "json_wf v \<Longrightarrow> entries (AList.update k (dumps_text v) ts) = AList.update k (json_dumps v) (entries ts)"
  by (induction ts) (auto simp: entries_def denoted_def)

lemma entries_delete: "entries (AList.delete k ts) = AList.delete k (entries ts)"
  by (induction ts) (auto simp: entries_def AList.delete_eq)

section \<open>Refinement of actions\<close>

text \<open>
  \<open>implements Q m n\<close>: from readable texts, \<open>m\<close> returns or raises what \<open>n\<close> does on the denoted values, its
  texts stay readable and denote what \<open>n\<close> leaves, and a value that it returns satisfies \<open>Q\<close>.
\<close>

definition implements :: "('a \<Rightarrow> bool) \<Rightarrow> (text_hub, 'a) action \<Rightarrow> (hub, 'a) action \<Rightarrow> bool" where
  "implements Q m n \<longleftrightarrow> (\<forall>h. readable h \<longrightarrow>
     n (hub_of h) = (fst (m h), hub_of (snd (m h))) \<and> readable (snd (m h)) \<and> (\<forall>x. fst (m h) = Inr x \<longrightarrow> Q x))"

named_theorems implements_intros "composition rules for implements"

lemma implements_lift [implements_intros]:
  "(\<And>x. r = Inr x \<Longrightarrow> Q x) \<Longrightarrow> implements Q (liftA r) (liftA r)"
  "Q x \<Longrightarrow> implements Q (ret x) (ret x)"
  by (simp_all add: implements_def act_simps)

lemma implements_bind [implements_intros]:
  assumes "implements P m n" "\<And>x. P x \<Longrightarrow> implements Q (f x) (g x)"
  shows "implements Q (bindA m f) (bindA n g)"
  unfolding implements_def
proof (intro allI impI)
  fix h assume h: "readable h"
  obtain r h' where m: "m h = (r, h')" by (cases "m h")
  with assms(1) h have n: "n (hub_of h) = (r, hub_of h')" "readable h'" "\<And>x. r = Inr x \<Longrightarrow> P x"
    by (auto simp: implements_def)
  show "bindA n g (hub_of h) = (fst (bindA m f h), hub_of (snd (bindA m f h))) \<and> readable (snd (bindA m f h)) \<and>
      (\<forall>x. fst (bindA m f h) = Inr x \<longrightarrow> Q x)"
  proof (cases r)
    case (Inr x)
    with assms(2) n have "implements Q (f x) (g x)" by blast
    with n(2) Inr m n(1) show ?thesis by (auto simp: implements_def act_simps)
  qed (use m n in \<open>simp add: act_simps\<close>)
qed

lemma implements_then [implements_intros]:
  "implements (\<lambda>_. True) m n \<Longrightarrow> implements Q m' n' \<Longrightarrow> implements Q (thenA m m') (thenA n n')"
  unfolding thenA_def by (rule implements_bind)

lemma implements_if [implements_intros]:
  "(b \<Longrightarrow> implements Q m n) \<Longrightarrow> (\<not> b \<Longrightarrow> implements Q m' n') \<Longrightarrow>
   implements Q (if b then m else m') (if b then n else n')"
  by simp

lemma get_implements [implements_intros]: "implements json_wf (text_get ns i m) (status_get ns i m)"
proof -
  have "text_get ns i m h = (Inr (status_value ns (hub_of h) i m), h) \<and> json_wf (status_value ns (hub_of h) i m)"
    if h: "readable h" for h
  proof (cases "map_of (texts h) (store_key ns i m)")
    case (Some t)
    then obtain v where "loads_text t = Inr v" using h by (fastforce simp: readable_def dest: map_of_SomeD)
    with Some show ?thesis
      by (auto simp: text_get_def act_simps status_value_def kv_get_def hub_of_def entries_get denoted_def dest: loads_text_wf)
  qed (simp add: text_get_def act_simps status_value_def kv_get_def hub_of_def entries_get)
  then show ?thesis by (simp add: implements_def status_get_def act_simps)
qed

lemma in_update_pair: "x \<in> set (AList.update k t xs) \<Longrightarrow> x = (k, t) \<or> x \<in> set xs"
  by (induction xs) (auto split: if_splits)

lemma readable_set:
  assumes "readable h"
  shows "json_wf v \<Longrightarrow> readable \<lparr>texts = AList.update k (dumps_text v) (texts h), sent = evs\<rparr>"
    "readable \<lparr>texts = AList.delete k (texts h), sent = evs\<rparr>"
  using assms by (auto simp: readable_def AList.delete_eq dest!: in_update_pair)

lemma set_implements [implements_intros]:
  assumes "json_wf v"
  shows "implements (\<lambda>_. True) (text_set ns i m v p) (status_set ns i m v p)"
proof -
  have "status_set ns i m v p (hub_of h) = (fst (text_set ns i m v p h), hub_of (snd (text_set ns i m v p h))) \<and>
    readable (snd (text_set ns i m v p h))" if "readable h" for h
  proof -
    obtain ts evs where h: "h = \<lparr>texts = ts, sent = evs\<rparr>" by (cases h)
    note r = readable_set [OF that, unfolded h, simplified]
    show ?thesis
      using that r(1) [OF assms] r(2)
      by (cases "v = JNull") (auto simp: h text_set_def status_set_def act_simps Let_def bytes_neq_str_def hub_of_def
        kv_get_def kv_set_def kv_delete_def entries_get entries_update [OF assms] entries_delete text_publish_def
        publish_miniverse_control_event_def publish_def split: sum.splits)
  qed
  then show ?thesis by (simp add: implements_def)
qed

text \<open>The services inherit the refinement from the store.\<close>

lemma wf_items: "json_wf j \<Longrightarrow> items j = Inr js \<Longrightarrow> v \<in> set js \<Longrightarrow> json_wf v"
  by (cases j) (auto simp: list_all_iff)

lemma wf_dict_update:
  assumes "json_wf (JObj kvs)" "list_all (\<lambda>p. json_wf (snd p)) new"
  shows "json_wf (JObj (dict_update kvs new))"
  using assms
proof (induction new arbitrary: kvs)
  case (Cons p new)
  have "json_wf (JObj (AList.update (fst p) (snd p) kvs))"
    using Cons.prems by (auto simp: list_all_iff distinct_update dest!: in_update_pair)
  with Cons show ?case by (auto simp: dict_update_def case_prod_beta)
qed (simp add: dict_update_def)

lemma wf_merge:
  assumes "json_wf seen" "json_wf raw" "merge_seen seen raw = Inr seen'"
  shows "json_wf seen'"
proof -
  obtain ps keys kvs where *: "items raw = Inr ps" "or_empty seen = JObj kvs" "seen' = JObj (dict_update kvs (zip keys ps))"
    using assms(3) by (cases "or_empty seen") (auto simp: merge_seen_def bindE_eq_Inr)
  have "json_wf (JObj kvs)" using * assms(1) by (auto simp: or_empty_def split: if_splits)
  moreover have "list_all (\<lambda>p. json_wf (snd p)) (zip keys ps)"
    using wf_items [OF assms(2) *(1)] by (auto simp: list_all_iff dest: set_zip_rightD)
  ultimately show ?thesis unfolding *(3) by (rule wf_dict_update)
qed

lemma player_list_implements:
  assumes "\<And>m v. source m = Inr v \<Longrightarrow> json_wf v"
  shows "implements (\<lambda>_. True) (text_player_list ns i source r) (get_msmp_player_list ns i source r)"
proof -
  have g: "implements json_wf (if b then text_get ns i m else ret JNull) (if b then status_get ns i m else ret JNull)" for b m
    using get_implements by (auto intro: implements_intros)
  have source: "implements json_wf (liftA (source m)) (liftA (source m))" for m
    by (intro implements_intros assms)
  have cached: "implements (\<lambda>(raw, _). json_wf raw) (text_data_cached ns i source m r) (get_data_cached ns i source m r)" for m
    unfolding text_data_cached_def get_data_cached_def
    by (intro implements_bind [OF g [of "\<not> r", simplified]] implements_bind [OF source] implements_intros) auto
  have merged: "implements json_wf (liftA (merge_seen seen raw)) (liftA (merge_seen seen raw))"
    if "json_wf seen" "json_wf raw" for seen raw
    by (intro implements_lift wf_merge [OF that])
  have seen: "implements (\<lambda>_. True)
      (bindA (text_get ns i ''miniverse:seen_players'') (\<lambda>seen. bindA (liftA (merge_seen seen raw)) (\<lambda>seen'.
         text_set ns i ''miniverse:seen_players'' seen' False)))
      (bindA (status_get ns i ''miniverse:seen_players'') (\<lambda>seen. bindA (liftA (merge_seen seen raw)) (\<lambda>seen'.
         status_set ns i ''miniverse:seen_players'' seen' False)))" if "json_wf raw" for raw
    by (intro implements_bind [OF get_implements] implements_bind [OF merged] set_implements that)
  have pure: "implements (\<lambda>_. True) (liftA x) (liftA x)" "implements (\<lambda>_. True) (ret y) (ret y)"
    for x :: "exn + 'x" and y :: 'y
    by (simp_all add: implements_lift)
  show ?thesis
    unfolding text_player_list_def get_msmp_player_list_def
    by (rule implements_bind [OF cached])
      (auto intro!: implements_then implements_bind [OF pure(1)] pure seen)
qed

lemma seen_list_implements:
  "implements (\<lambda>_. True) (text_seen_player_list ns i) (get_msmp_seen_player_list ns i)"
  unfolding text_seen_player_list_def get_msmp_seen_player_list_def
  by (intro implements_bind [OF get_implements] implements_bind [where P = "\<lambda>_. True"] implements_intros) simp_all

section \<open>Histories of the store\<close>

text \<open>What the services and the handlers do with the store, one operation after another; a failed one stops nothing.\<close>

datatype status_op =
    PlayerList string "string \<Rightarrow> exn + json" bool
  | SeenPlayers string
  | SetStatus string string json bool

fun on_texts :: "string \<Rightarrow> status_op \<Rightarrow> (text_hub, player list) action" where
  "on_texts ns (PlayerList i source r) = text_player_list ns i source r"
| "on_texts ns (SeenPlayers i) = text_seen_player_list ns i"
| "on_texts ns (SetStatus i m v p) = thenA (text_set ns i m v p) (ret [])"

fun on_values :: "string \<Rightarrow> status_op \<Rightarrow> (hub, player list) action" where
  "on_values ns (PlayerList i source r) = get_msmp_player_list ns i source r"
| "on_values ns (SeenPlayers i) = get_msmp_seen_player_list ns i"
| "on_values ns (SetStatus i m v p) = thenA (status_set ns i m v p) (ret [])"

fun history :: "('o \<Rightarrow> ('s, 'a) action) \<Rightarrow> 'o list \<Rightarrow> 's \<Rightarrow> (exn + 'a) list \<times> 's" where
  "history f [] s = ([], s)"
| "history f (x # xs) s = (let (r, s1) = f x s; (rs, s2) = history f xs s1 in (r # rs, s2))"

fun answers_values :: "status_op \<Rightarrow> bool" where
  "answers_values (PlayerList i source r) \<longleftrightarrow> (\<forall>m v. source m = Inr v \<longrightarrow> json_wf v)"
| "answers_values (SeenPlayers i) \<longleftrightarrow> True"
| "answers_values (SetStatus i m v p) \<longleftrightarrow> json_wf v"

lemma op_implements: "answers_values x \<Longrightarrow> implements (\<lambda>_. True) (on_texts ns x) (on_values ns x)"
  by (cases x) (auto intro: player_list_implements seen_list_implements set_implements implements_then implements_lift)

text \<open>
  Property C21 (text_store_refines). Over every history of reads, refreshes and writes, the store of texts gives the results of the
  store of values, and its texts stay readable and denote the values that the other store holds; the same
  events are published. (The game servers answer with values of Python: the keys of a dictionary are distinct.)
\<close>

theorem text_store_refines:
  assumes "readable h" "list_all answers_values ops"
  shows "history (on_values ns) ops (hub_of h) =
      (fst (history (on_texts ns) ops h), hub_of (snd (history (on_texts ns) ops h))) \<and>
    readable (snd (history (on_texts ns) ops h))"
  using assms
proof (induction ops arbitrary: h)
  case (Cons x ops)
  obtain r h1 where x: "on_texts ns x h = (r, h1)" by (cases "on_texts ns x h")
  with op_implements [of x ns] Cons.prems have "on_values ns x (hub_of h) = (r, hub_of h1)" "readable h1"
    by (auto simp: implements_def)
  with Cons x show ?case by (simp add: case_prod_beta Let_def)
qed simp

definition demo_texts :: text_hub where
  "demo_texts = \<lparr>texts = [(''r:m1.miniverse:seen_players'', ''{\"a\": {\"id\": \"a\", \"name\": \"Ann\"}}'')], sent = []\<rparr>"

definition demo_ops :: "status_op list" where
  "demo_ops = [PlayerList ''m1'' (\<lambda>_. Inr (JList [player_dump \<lparr>pl_id = ''b'', pl_name = ''Bob''\<rparr>])) True, SeenPlayers ''m1'']"

theorem text_store_refines_witness:
  "fst (history (on_values ''r:'') demo_ops (hub_of demo_texts)) =
     [Inr [\<lparr>pl_id = ''b'', pl_name = ''Bob''\<rparr>],
      Inr [\<lparr>pl_id = ''a'', pl_name = ''Ann''\<rparr>, \<lparr>pl_id = ''b'', pl_name = ''Bob''\<rparr>]] \<and>
   map snd (texts (snd (history (on_texts ''r:'') demo_ops demo_texts))) =
     [''{\"a\": {\"id\": \"a\", \"name\": \"Ann\"}, \"b\": {\"id\": \"b\", \"name\": \"Bob\"}}'',
      ''[{\"id\": \"b\", \"name\": \"Bob\"}]'']"
proof -
  have "\<exists>v. loads_text (snd (hd (texts demo_texts))) = Inr v"
    by (rule exI [of _ "JObj [(''a'', JObj [(''id'', JStr ''a''), (''name'', JStr ''Ann'')])]"]) code_simp
  then have "readable demo_texts" by (simp add: readable_def demo_texts_def)
  moreover have "list_all answers_values demo_ops" by (simp add: demo_ops_def player_dump_def)
  ultimately have "fst (history (on_values ''r:'') demo_ops (hub_of demo_texts)) =
      fst (history (on_texts ''r:'') demo_ops demo_texts)"
    using text_store_refines by simp
  moreover have "fst (history (on_texts ''r:'') demo_ops demo_texts) =
     [Inr [\<lparr>pl_id = ''b'', pl_name = ''Bob''\<rparr>],
      Inr [\<lparr>pl_id = ''a'', pl_name = ''Ann''\<rparr>, \<lparr>pl_id = ''b'', pl_name = ''Bob''\<rparr>]]"
    by code_simp
  moreover have "map snd (texts (snd (history (on_texts ''r:'') demo_ops demo_texts))) =
     [''{\"a\": {\"id\": \"a\", \"name\": \"Ann\"}, \"b\": {\"id\": \"b\", \"name\": \"Bob\"}}'',
      ''[{\"id\": \"b\", \"name\": \"Bob\"}]'']"
    by code_simp
  ultimately show ?thesis by simp
qed

section \<open>Events on the channel\<close>

definition event_from_text :: "string \<Rightarrow> exn + miniverse_event" where
  "event_from_text data = bindE (loads_text data) event_of_json"

text \<open>
  Property C23 (event_text_round_trip). A subscriber that decodes the text of an event gets the event that was published, with its
  type, data, miniverse and updated users: for every spacing of the document, escaped or not.
\<close>

theorem event_text_round_trip:
  assumes "format_ok f" "json_wf (ev_data ev)"
  shows "event_from_text (json_text f l (event_to_json ev)) = Inr ev"
proof -
  have "json_wf (event_to_json ev)"
    using assms(2) by (auto simp: event_to_json_def list_all_iff split: option.splits)
  with assms(1) show ?thesis by (simp add: event_from_text_def loads_text_written)
qed

theorem event_text_round_trip_witness:
  "event_from_text ''{\"type\":\"minecraft:players\",\"data\":[{\"id\":\"a\"}],\"miniverse_id\":\"m1\",\"updated_user_ids\":null}'' =
     Inr \<lparr>ev_type = PLAYERS, ev_data = JList [JObj [(''id'', JStr ''a'')]], ev_miniverse_id = Some ''m1'',
          ev_updated_user_ids = None\<rparr>"
proof -
  let ?ev = "\<lparr>ev_type = PLAYERS, ev_data = JList [JObj [(''id'', JStr ''a'')]], ev_miniverse_id = Some ''m1'',
     ev_updated_user_ids = None\<rparr>"
  have "json_text compact_format 0 (event_to_json ?ev) =
     ''{\"type\":\"minecraft:players\",\"data\":[{\"id\":\"a\"}],\"miniverse_id\":\"m1\",\"updated_user_ids\":null}''"
    by code_simp
  with event_text_round_trip [of compact_format ?ev 0] show ?thesis by simp
qed

end
