(* ===== verification/Documents.thy ===== *)
theory Documents
  imports LifecycleProps JsonSyntax
begin

text \<open>
  The JSON documents that the backend writes for others: the queries to Modrinth, made from Python's
  \<open>str\<close> of a list, and the routes file of the router.
\<close>

section \<open>Queries\<close>

text \<open>The characters that \<open>str\<close> prints as they are and that need no escape in JSON.\<close>

definition plain_char :: "char \<Rightarrow> bool" where
  "plain_char c \<longleftrightarrow> (let n = of_char c :: nat in
     32 \<le> n \<and> \<not> (127 \<le> n \<and> n \<le> 160) \<and> n \<noteq> 173 \<and> c \<noteq> CHR 0x22 \<and> c \<noteq> CHR 0x27 \<and> c \<noteq> CHR 0x5C)"

definition plain :: "string \<Rightarrow> bool" where
  "plain s \<longleftrightarrow> list_all plain_char s"

text \<open>The format of these texts: spaces as \<open>json.dumps\<close> has them, characters not escaped.\<close>

definition query_format :: json_format where
  "query_format = dumps_format\<lparr>ensure_ascii := False\<rparr>"

lemma query_format_ok: "format_ok query_format"
  by (simp add: format_ok_def query_format_def dumps_format_def json_space_def)

lemma as_json_append: "as_json_text (x @ y) = as_json_text x @ as_json_text y"
  by (simp add: as_json_text_def)

lemma as_json_plain: "plain s \<Longrightarrow> as_json_text s = s"
  by (induction s) (auto simp: as_json_text_def plain_def plain_char_def Let_def)

lemma as_json_Cons: "as_json_text (c # s) =
    (if c = CHR 0x5C then [] else if c = CHR 0x27 then [CHR 0x22] else [c]) @ as_json_text s"
  by (simp add: as_json_text_def)

lemma as_json_Nil [simp]: "as_json_text [] = []"
  by (simp add: as_json_text_def)

lemma as_json_join: "as_json_text (str_join '', '' ws) = str_join '', '' (map as_json_text ws)"
  by (induction "'', ''" ws rule: str_join.induct) (simp_all add: as_json_append as_json_Cons)

lemma as_json_list: "as_json_text (repr_list ws) = ''['' @ str_join '', '' (map as_json_text ws) @ '']''"
  by (simp add: repr_list_def as_json_append as_json_join as_json_Cons)

lemma repr_plain: "plain s \<Longrightarrow> repr_str s = CHR 0x27 # s @ [CHR 0x27]"
proof -
  assume s: "plain s"
  have "concat (map (repr_char CHR 0x27) s) = s"
    using s by (induction s) (auto simp: plain_def plain_char_def repr_char_def Let_def)
  moreover have "quote_char s = CHR 0x27"
    using s by (auto simp: quote_char_def plain_def plain_char_def list_all_iff)
  ultimately show ?thesis by (simp add: repr_str_def Let_def)
qed

lemma escape_plain: "plain_char c \<Longrightarrow> escape_char False c = [c]"
proof -
  assume c: "plain_char c"
  then have "c \<notin> fst ` set short_escapes"
    by (auto simp: plain_char_def short_escapes_def dquote_def backslash_def)
  then have "map_of short_escapes c = None" by (simp add: map_of_eq_None_iff)
  with c show ?thesis by (simp add: escape_char_def plain_char_def Let_def)
qed

lemma json_plain: "plain s \<Longrightarrow> json_string False s = dquote # s @ [dquote]"
proof -
  assume s: "plain s"
  have "concat (map (escape_char False) s) = s"
    using s by (induction s) (auto simp: plain_def escape_plain)
  then show ?thesis by (simp add: json_string_def)
qed

lemma as_json_repr: "plain s \<Longrightarrow> as_json_text (repr_str s) = json_text query_format l (JStr s)"
proof -
  assume s: "plain s"
  have "as_json_text (repr_str s) = dquote # s @ [dquote]"
    unfolding repr_plain [OF s] as_json_Cons as_json_append as_json_plain [OF s] as_json_Nil by (simp add: dquote_def)
  moreover have "json_text query_format l (JStr s) = dquote # s @ [dquote]"
    using json_plain [OF s] by (simp add: query_format_def)
  ultimately show ?thesis by simp
qed

lemma query_list: "json_text query_format l (JList js) =
    ''['' @ str_join '', '' (map (json_text query_format (Suc l)) js) @ '']''"
  by (simp add: bracketed_def query_format_def dumps_format_def)

lemma dumps_values_text:
  "list_all plain xs \<Longrightarrow> dumps_values xs = json_text query_format l (JList (map JStr xs))"
  unfolding dumps_values_def as_json_list query_list
  by (simp add: list_all_iff as_json_repr [of _ "Suc l"] cong: map_cong)

definition nested_strings :: "string list list \<Rightarrow> json" where
  "nested_strings xss = JList (map (\<lambda>xs. JList (map JStr xs)) xss)"

lemma dumps_nested_text:
  assumes "\<forall>xs \<in> set xss. list_all plain xs"
  shows "dumps_nested xss = json_text query_format 0 (nested_strings xss)"
proof -
  have "as_json_text (repr_list (map repr_str xs)) = json_text query_format (Suc 0) (JList (map JStr xs))" if "xs \<in> set xss" for xs
    using dumps_values_text [of xs "Suc 0"] assms that by (simp add: dumps_values_def)
  then have "map as_json_text (map (\<lambda>xs. repr_list (map repr_str xs)) xss) =
      map (json_text query_format (Suc 0)) (map (\<lambda>xs. JList (map JStr xs)) xss)"
    unfolding map_map comp_def by (intro map_cong refl)
  then show ?thesis
    unfolding dumps_nested_def nested_strings_def as_json_list query_list [of 0] by (simp only:)
qed

lemma wf_nested: "json_wf (nested_strings xss)"
  by (simp add: nested_strings_def list_all_iff)

lemma plain_values: "plain (project_type_value t)" "plain (side_support_value d)"
  by (cases t; simp only: project_type_value.simps; code_simp) (cases d; simp only: side_support_value.simps; code_simp)

lemma plain_facet: "plain key \<Longrightarrow> plain v \<Longrightarrow> plain (key @ CHR '':'' # v)"
  by (simp add: plain_def plain_char_def)

lemma plain_group:
  "plain key \<Longrightarrow> \<forall>xs. v = Some xs \<longrightarrow> list_all plain xs \<Longrightarrow> g \<in> set (opt_facet key v) \<Longrightarrow> list_all plain g"
  by (auto simp: opt_facet_def build_or_facets_def list_all_iff split: option.splits intro!: plain_facet)

text \<open>
  Property C31 (facets_are_json). The facets of a search are valid JSON that decodes to the groups of \<open>key:value\<close> strings, as
  long as no category or version has a quote, a backslash or a control character.
\<close>

theorem facets_are_json:
  assumes "\<forall>xs. sf_categories f = Some xs \<longrightarrow> list_all plain xs"
    and "\<forall>xs. sf_versions f = Some xs \<longrightarrow> list_all plain xs"
  shows "loads_text (build_facets f) = Inr (nested_strings (facet_groups f))"
proof -
  have keys: "plain ''project_type''" "plain ''categories''" "plain ''versions''" "plain ''client_side''" "plain ''server_side''"
    by code_simp+
  note groups = plain_group [OF keys(1)] plain_group [OF keys(2)] plain_group [OF keys(3)] plain_group [OF keys(4)]
    plain_group [OF keys(5)]
  have p: "\<forall>xs. map_option (\<lambda>t. [project_type_value t]) (sf_project_type f) = Some xs \<longrightarrow> list_all plain xs"
    using plain_values(1) by auto
  have d: "\<forall>xs. map_option (\<lambda>t. [side_support_value t]) x = Some xs \<longrightarrow> list_all plain xs" for x
    using plain_values(2) by auto
  have "\<forall>xs \<in> set (facet_groups f). list_all plain xs"
    unfolding facet_groups_def set_append ball_Un
    by (intro conjI ballI groups(1) [OF p] groups(2) [OF assms(1)] groups(3) [OF assms(2)] groups(4) [OF d] groups(5) [OF d])
  then have "build_facets f = json_text query_format 0 (nested_strings (facet_groups f))"
    unfolding build_facets_def by (rule dumps_nested_text)
  then show ?thesis by (simp add: loads_text_written query_format_ok wf_nested)
qed

theorem facets_are_json_witness:
  "loads_text (build_facets \<lparr>sf_project_type = Some PT_MOD, sf_categories = Some [''fabric'', ''quilt''], sf_versions = None,
      sf_client_side = None, sf_server_side = None\<rparr>) =
   Inr (JList [JList [JStr ''project_type:mod''], JList [JStr ''categories:fabric'', JStr ''categories:quilt'']])"
proof -
  have "list_all plain [''fabric'', ''quilt'']" by code_simp
  then show ?thesis
    by (subst facets_are_json) (simp_all add: facet_groups_def opt_facet_def build_or_facets_def nested_strings_def)
qed

text \<open>A quote in a value breaks the document.\<close>

lemma quote_breaks_query: "loads_text (dumps_values [[CHR ''a'', CHR 0x27, CHR ''b'']]) = Inl ValueError"
  by code_simp

section \<open>The routes file\<close>

lemma routes_wf: "json_wf (generate_router_routes e ms)"
proof -
  have "distinct (map fst (fold (\<lambda>m acc. AList.update (route_host e m) (route_target m) acc) ms acc))"
    if "distinct (map fst acc)" for acc :: "(string \<times> string) list"
    using that by (induction ms arbitrary: acc) (simp_all add: distinct_update)
  then have "distinct (map fst (route_map e ms))" by (simp add: route_map_def)
  moreover have "map fst (map (\<lambda>(h, t). (h, JStr t)) xs) = map fst xs" for xs by (simp add: case_prod_beta comp_def)
  ultimately show ?thesis by (auto simp: generate_router_routes_def list_all_iff case_prod_beta comp_def)
qed

text \<open>
  Property C20 (routes_file_is_exact). When the subdomains differ, the routes file that is left is a JSON document that maps the
  host of every miniverse to its container and maps nothing else.
\<close>

theorem routes_file_is_exact:
  assumes "DATA_PATH (s_env s) = abs_path d" "proper d" "no_links (w_fs w)"
    and "distinct (map m_subdomain (miniverses (w_db w)))" "update_proxy_config s w = (Inr (), w')"
  shows "\<exists>t routes. node_at (w_fs w') (d @ [''proxy'', ''routes.json'']) = Some (File t) \<and>
    loads_text t = Inr (JObj [(''mappings'', JObj routes)]) \<and>
    (\<forall>h v. map_of routes h = Some v \<longleftrightarrow>
       (\<exists>m \<in> set (miniverses (w_db w)). h = route_host (s_env s) m \<and> v = JStr (route_target m)))"
proof -
  let ?wd = "work_dir (s_env s)"
  let ?t = "d @ [''proxy'', ''routes.json'']"
  let ?g = "generate_router_routes (s_env s) (miniverses (w_db w))"
  let ?text = "json_text (indent_format 4) 0 ?g"
  have t: "routes_path (s_env s) = abs_path ?t" "proper ?t" "butlast ?t = d @ [''proxy'']"
    using assms(1,2) proper_names by (simp_all add: routes_path_def child_abs butlast_append)
  obtain fs1 where m: "mkdir_parents ?wd (abs_path (d @ [''proxy''])) (w_fs w) = (Inr (), fs1)"
    and wr: "write_file ?wd (abs_path ?t) ?text fs1 = (Inr (), w_fs w')"
    using assms(5) t parent_abs [of ?t]
    by (auto simp: update_proxy_config_def Let_def act_simps split: sum.splits prod.splits option.splits)
  have "no_links fs1"
    using spares_mkdir_parents [of "\<lambda>_. True" "w_fs w" ?wd "abs_path (d @ [''proxy''])"] m assms(3)
    by (simp add: spares_def)
  then have "kernel_path fs1 ?wd (abs_path ?t) = Inr q \<Longrightarrow> q = ?t" for q
    by (intro kernel_path_physical [OF no_links_physical t(2)])
  moreover obtain q where "kernel_path fs1 ?wd (abs_path ?t) = Inr q" "w_fs w' = put fs1 q (File ?text)"
    using wr by (auto simp: write_file_def split: sum.splits option.splits node.splits)
  ultimately have "w_fs w' = put fs1 ?t (File ?text)" by blast
  then have "node_at (w_fs w') ?t = Some (File ?text)" by (simp add: fs_simps)
  moreover have "loads_text ?text = Inr (JObj [(''mappings'', JObj (map (\<lambda>(h, t). (h, JStr t)) (route_map (s_env s) (miniverses (w_db w)))))])"
    using loads_text_written [OF formats_ok(2) routes_wf] by (simp add: generate_router_routes_def)
  moreover have "map_of (map (\<lambda>(h, t). (h, JStr t)) (route_map (s_env s) (miniverses (w_db w)))) h = Some v \<longleftrightarrow>
      (\<exists>m \<in> set (miniverses (w_db w)). h = route_host (s_env s) m \<and> v = JStr (route_target m))" for h v
    using routes_are_exact [OF assms(4), of "s_env s" h] by (force simp: map_of_map)
  ultimately show ?thesis by blast
qed

theorem routes_file_is_exact_witness:
  "\<exists>t routes. node_at (w_fs (snd (update_proxy_config log_services log_world))) [''app'', ''data'', ''proxy'', ''routes.json''] =
      Some (File t) \<and>
    loads_text t = Inr (JObj [(''mappings'', JObj routes)]) \<and>
    map_of routes ''build.miniverse.fr'' = Some (JStr ''miniverse-m2:25565'')"
proof -
  obtain w' where w': "update_proxy_config log_services log_world = (Inr (), w')"
  proof -
    have "fst (update_proxy_config log_services log_world) = Inr ()" by code_simp
    then show ?thesis using that by (cases "update_proxy_config log_services log_world") auto
  qed
  have f: "DATA_PATH (s_env log_services) = abs_path [''app'', ''data'']" "proper [''app'', ''data'']"
    "no_links (w_fs log_world)" "distinct (map m_subdomain (miniverses (w_db log_world)))"
    by code_simp+
  have "''build.miniverse.fr'' = route_host (s_env log_services) other_mv" "''miniverse-m2:25565'' = route_target other_mv"
    by code_simp+
  moreover have "other_mv \<in> set (miniverses (w_db log_world))" by (simp add: log_world_def)
  ultimately show ?thesis using routes_file_is_exact [OF f w'] w' by fastforce
qed

end
