(* ===== verification/Subscriptions.thy ===== *)
theory Subscriptions
  imports Threads Websockets
begin

text \<open>
  A session of the update channel (\<open>websocket_miniverse_updates_handler\<close>) from the first read to its end, as a
  thread: it loads the user, sends the initial data, subscribes, and then wakes up whenever messages have
  arrived, until the client sends a text or leaves. Messages that are on the channel before the subscription
  never reach it.
\<close>

datatype ws_sent =
    SyncEvent "sync_event_item list"
  | ChannelEvent miniverse_event

definition hub_length :: "'d world \<Rightarrow> nat" where
  "hub_length w = length (channel (l_hub (w_live w)))"

text \<open>The messages that came after the position \<open>pos\<close> are handled; an exception ends the background task.\<close>

fun handle_all :: "db \<Rightarrow> jtext list \<Rightarrow> user_obj \<Rightarrow> miniverse_event list \<times> user_obj option" where
  "handle_all d [] cu = ([], Some cu)"
| "handle_all d (message # rest) cu =
    (case handle_miniverse_channel_message message d cu of
       Inl e \<Rightarrow> ([], None)
     | Inr (sent, cu') \<Rightarrow> (case handle_all d rest cu' of (evs, r) \<Rightarrow> (sent @ evs, r)))"

definition wake_up :: "nat \<Rightarrow> user_obj \<Rightarrow> 'd world \<Rightarrow> miniverse_event list \<times> user_obj option" where
  "wake_up pos cu w =
    handle_all (w_db w) (map (\<lambda>ev. json_dumps (event_to_json ev)) (drop pos (channel (l_hub (w_live w))))) cu"

text \<open>The number of times that the session wakes up before it ends.\<close>

fun listen_thread :: "nat \<Rightarrow> nat \<Rightarrow> user_obj option \<Rightarrow> ('d world, ws_sent list) thread" where
  "listen_thread 0 pos u = retT []"
| "listen_thread (Suc n) pos None = retT []"
| "listen_thread (Suc n) pos (Some cu) =
    bindT (turn (getA (\<lambda>w. (wake_up pos cu w, hub_length w)))) (\<lambda>((evs, u), pos').
    bindT (listen_thread n pos' u) (\<lambda>rest. retT (map ChannelEvent evs @ rest)))"

text \<open>
  A user that is gone has no roles to ask for: \<open>AttributeError\<close>, unless there is no miniverse at all.
\<close>

definition updates_thread :: "'d services \<Rightarrow> string \<Rightarrow> nat \<Rightarrow> ('d world, ws_sent list) thread" where
  "updates_thread s uid n =
    bindT (turn (getA (\<lambda>w. map_option (load_user (w_db w)) (row_by u_id uid (users (w_db w)))))) (\<lambda>user.
    bindT (turn (case user of
             Some cu \<Rightarrow> send_init_data s cu
           | None \<Rightarrow> bindA (getA (\<lambda>w. miniverses (w_db w))) (\<lambda>ms. if ms = [] then ret [] else raise AttributeError)))
      (\<lambda>items.
    bindT (turn (getA hub_length)) (\<lambda>pos.
    bindT (listen_thread n pos user) (\<lambda>rest. retT (SyncEvent items # rest)))))"

section \<open>Initial data before the subscription\<close>

lemma handle_visible:
  assumes "\<forall>ev \<in> set evs. ev_miniverse_id ev = Some i \<and> ev_updated_user_ids ev = None" "USER \<le> get_miniverse_role cu i"
  shows "handle_all d (map (\<lambda>ev. json_dumps (event_to_json ev)) evs) cu = (evs, Some cu)"
  using assms(1)
  by (induction evs) (simp_all add: handle_miniverse_channel_message_def event_round_trip concerns_def event_role_def assms(2))

text \<open>
  Property C39 (event_before_subscription_is_lost). The subscription begins after the initial data was read. The events of a request
  that falls in between reach the subscriber neither way: the initial data are those of before, and none of
  the events is heard. The same request after the subscription is heard.
\<close>

theorem event_before_subscription_is_lost:
  assumes "row_by u_id uid (users (w_db w)) = Some u" "send_init_data s (load_user (w_db w) u) w = (Inr data, w1)"
    and "m w1 = (Inr x, w2)" "channel (l_hub (w_live w2)) = channel (l_hub (w_live w1)) @ evs"
    and "\<forall>ev \<in> set evs. ev_miniverse_id ev = Some i \<and> ev_updated_user_ids ev = None"
    and "USER \<le> get_miniverse_role (load_user (w_db w) u) i"
  shows "fst (run_pool [0, 0, 1, 0, 0] ([updates_thread s uid 1, bindT (turn m) (\<lambda>_. retT [])], w)) ! 0 =
      Done (Inr [SyncEvent data]) \<and>
    fst (run_pool [0, 0, 0, 1, 0] ([updates_thread s uid 1, bindT (turn m) (\<lambda>_. retT [])], w)) ! 0 =
      Done (Inr (SyncEvent data # map ChannelEvent evs))"
  using assms(1-4) handle_visible [OF assms(5,6), of "w_db w2"]
  by (simp add: updates_thread_def turn_def retT_def advance_def act_simps wake_up_def hub_length_def)

definition bob_row :: user where
  "bob_row = \<lparr>u_id = ''bob-2'', u_is_active = True, u_username = ''bob'', u_role = USER\<rparr>"

theorem event_before_subscription_is_lost_witness:
  "\<exists>data. map (\<lambda>x. sc_started (sy_miniverse x)) data = [True] \<and>
    fst (run_pool [0, 0, 1, 0, 0] ([updates_thread log_services ''bob-2'' 1,
      bindT (turn (stop_miniverse log_services running_mv)) (\<lambda>_. retT [])], log_world)) ! 0 = Done (Inr [SyncEvent data])"
proof -
  let ?cu = "load_user (w_db log_world) bob_row"
  let ?w1 = "snd (send_init_data log_services ?cu log_world)"
  let ?w2 = "snd (stop_miniverse log_services running_mv ?w1)"
  let ?ev = "\<lparr>ev_type = UPDATED, ev_data = JObj [], ev_miniverse_id = Some ''m1'', ev_updated_user_ids = None\<rparr>"
  have "\<exists>data. fst (send_init_data log_services ?cu log_world) = Inr data \<and>
      map (\<lambda>x. sc_started (sy_miniverse x)) data = [True]"
  proof -
    have "(case fst (send_init_data log_services ?cu log_world) of
        Inr data \<Rightarrow> map (\<lambda>x. sc_started (sy_miniverse x)) data = [True] | Inl e \<Rightarrow> False)" by code_simp
    then show ?thesis by (auto split: sum.splits)
  qed
  then obtain data where data: "send_init_data log_services ?cu log_world = (Inr data, ?w1)"
    "map (\<lambda>x. sc_started (sy_miniverse x)) data = [True]"
    by (metis prod.collapse)
  have "\<not> isl (fst (stop_miniverse log_services running_mv ?w1))" by code_simp
  then obtain x where stop: "stop_miniverse log_services running_mv ?w1 = (Inr x, ?w2)"
    by (metis prod.collapse sum.collapse(2))
  have evs: "channel (l_hub (w_live ?w2)) = channel (l_hub (w_live ?w1)) @ [?ev]" by code_simp
  have bob: "row_by u_id ''bob-2'' (users (w_db log_world)) = Some bob_row" by code_simp
  have "USER \<le> get_miniverse_role ?cu ''m1''" by code_simp
  with event_before_subscription_is_lost [where m = "stop_miniverse log_services running_mv" and i = "''m1''",
    OF bob data(1) stop evs] data(2) show ?thesis by auto
qed

end
