(* ===== verification/Infrastructure.thy ===== *)
theory Infrastructure
  imports Rpc OsOps Config
begin

text \<open>
  What the backend makes of its settings when it is loaded: the addresses of Redis, MySQL, Keycloak and the game
  servers (\<open>app/core/channels.py\<close>, \<open>app/db/session.py\<close>, \<open>app/services\<close>), the data directory
  (\<open>app/core/config.py\<close>), the logger (\<open>app/core/logger.py\<close>), the YAML writer (\<open>app/core/utils.py\<close>) and the
  placeholders of \<open>app/core/docker_status.py\<close>.
\<close>

section \<open>Addresses\<close>

definition prepare_data_path :: "env \<Rightarrow> (fs, unit) action" where
  "prepare_data_path e = mkdir_parents (work_dir e) (DATA_PATH e)"

text \<open>With a SOCKS proxy the backend runs on the host of a developer and not in the network of the containers.\<close>

definition redis_address :: "env \<Rightarrow> string \<times> nat" where
  "redis_address e = (if PROXY_SOCKS e = None then REDIS_HOST_NAME e else ''localhost'', 6379)"

definition ASYNC_SQLALCHEMY_DATABASE_URL :: "env \<Rightarrow> string" where
  "ASYNC_SQLALCHEMY_DATABASE_URL e = ''mysql+aiomysql://miniverse_db_user:'' @
     SQLALCHEMY_DATABASE_PASSWORD e @ ''@'' @ SQLALCHEMY_DATABASE_PATH e"

definition SQLALCHEMY_DATABASE_URL :: "env \<Rightarrow> string" where
  "SQLALCHEMY_DATABASE_URL e = ''mysql+pymysql://miniverse_db_user:'' @
     SQLALCHEMY_DATABASE_PASSWORD e @ ''@'' @ SQLALCHEMY_DATABASE_PATH e"

text \<open>The server, the client id and the realm that the key is asked from.\<close>

definition get_keycloak_openid :: "env \<Rightarrow> string \<times> string \<times> string" where
  "get_keycloak_openid e = (KEYCLOAK_ISSUER e, KEYCLOAK_CLIENT_ID e, KEYCLOAK_REALM e)"

text \<open>\<open>s.replace(old, new)\<close> for a nonempty \<open>old\<close>.\<close>

function str_replace :: "string \<Rightarrow> string \<Rightarrow> string \<Rightarrow> string" where
  "str_replace old new s =
    (if s = [] \<or> old = [] then s
     else if starts_with old s then new @ str_replace old new (drop (length old) s)
     else hd s # str_replace old new (tl s))"
  by pat_completeness auto
termination by (relation "measure (\<lambda>(_, _, s). length s)") (auto simp: length_greater_0_conv)

declare str_replace.simps [simp del]

text \<open>The headers of a connection to a game server, and the proxy that it goes through.\<close>

definition rpc_headers :: "string \<Rightarrow> (string \<times> string) list" where
  "rpc_headers secret = [(''Authorization'', ''Bearer '' @ secret)]"

definition rpc_connector :: "env \<Rightarrow> string option" where
  "rpc_connector e = (case PROXY_SOCKS e of
     None \<Rightarrow> None
   | Some p \<Rightarrow> if p = [] then None else Some (str_replace ''socks5h://'' ''socks5://'' p))"

lemma str_replace_none: "\<not> sublist old s \<Longrightarrow> str_replace old new s = s"
proof (induction s)
  case (Cons c s)
  then have "\<not> starts_with old (c # s)" "\<not> sublist old s"
    by (auto simp: starts_with_iff sublist_Cons_right)
  with Cons.IH show ?case by (subst str_replace.simps) simp
qed (simp add: str_replace.simps)

text \<open>
  A proxy that resolves names is asked for without that feature, which the SOCKS library does not know; any other
  proxy is taken as it is.
\<close>

lemma str_replace_prefix: "old \<noteq> [] \<Longrightarrow> str_replace old new (old @ s) = new @ str_replace old new s"
  by (subst str_replace.simps) simp

theorem rpc_connector_address:
  assumes "\<not> sublist ''socks5h://'' a"
  shows "PROXY_SOCKS e = Some (''socks5h://'' @ a) \<Longrightarrow> rpc_connector e = Some (''socks5://'' @ a)"
    and "PROXY_SOCKS e = Some a \<Longrightarrow> a \<noteq> [] \<Longrightarrow> rpc_connector e = Some a"
  using str_replace_prefix [of "''socks5h://''" "''socks5://''" a] assms
  by (simp_all add: rpc_connector_def str_replace_none)

section \<open>Logging\<close>

datatype log_level = DEBUG | INFO | WARNING | ERROR | CRITICAL | OtherLevel nat

fun levelno :: "log_level \<Rightarrow> nat" where
  "levelno DEBUG = 10"
| "levelno INFO = 20"
| "levelno WARNING = 30"
| "levelno ERROR = 40"
| "levelno CRITICAL = 50"
| "levelno (OtherLevel n) = n"

record log_record =
  lr_level :: log_level
  lr_levelname :: string
  lr_asctime :: string
  lr_message :: string
  lr_filename :: string
  lr_lineno :: nat

definition ansi :: "string \<Rightarrow> string" where
  "ansi code = CHR 0x1B # ''['' @ code @ ''m''"

text \<open>The colour of each level; a level that is not in \<open>FORMATS\<close> gets the default format, the message alone.\<close>

fun level_colour :: "log_level \<Rightarrow> string option" where
  "level_colour DEBUG = Some (ansi ''38;20'')"
| "level_colour INFO = Some (ansi ''32'')"
| "level_colour WARNING = Some (ansi ''33;20'')"
| "level_colour ERROR = Some (ansi ''31;20'')"
| "level_colour CRITICAL = Some (ansi ''31;1'')"
| "level_colour (OtherLevel n) = None"

definition custom_format :: "log_record \<Rightarrow> string" where
  "custom_format r = (case level_colour (lr_level r) of
     None \<Rightarrow> lr_message r
   | Some colour \<Rightarrow> colour @ lr_levelname r @ ansi ''0'' @ '':     '' @ lr_asctime r @ '' - '' @ lr_message r @
       '' ('' @ lr_filename r @ '':'' @ str_of_nat (lr_lineno r) @ '')'' @ ansi ''0'')"

text \<open>
  The loggers by name, each with the levels of its stream handlers and whether records go on to the root
  logger. A logger without a level of its own takes the one of the root.
\<close>

record logger =
  lg_handlers :: "log_level list"
  lg_propagate :: bool

type_synonym loggers = "string \<Rightarrow> logger option"

definition get_logger :: "string \<Rightarrow> (loggers, unit) action" where
  "get_logger mod_name =
    bindA (getA (\<lambda>ls. case ls mod_name of None \<Rightarrow> \<lparr>lg_handlers = [], lg_propagate = True\<rparr> | Some l \<Rightarrow> l)) (\<lambda>l.
    modifyA (\<lambda>ls. ls(mod_name \<mapsto> l\<lparr>lg_handlers := lg_handlers l @ [INFO], lg_propagate := False\<rparr>)))"

definition logged :: "nat \<Rightarrow> loggers \<Rightarrow> string \<Rightarrow> log_record \<Rightarrow> string list" where
  "logged root_level ls mod_name r = (case ls mod_name of
     None \<Rightarrow> []
   | Some l \<Rightarrow>
       if levelno (lr_level r) < root_level then []
       else map (\<lambda>_. custom_format r) (filter (\<lambda>h. levelno h \<le> levelno (lr_level r)) (lg_handlers l)))"

text \<open>
  The logger of the application prints every record from \<open>INFO\<close> on once, when the level of the root logger lets it
  pass, and nothing below, so none of the \<open>debug\<close> calls of the services is ever seen.
\<close>

theorem logger_prints_once:
  assumes "ls n = None"
  shows "logged root (snd (get_logger n ls)) n r =
    (if 20 \<le> levelno (lr_level r) \<and> root \<le> levelno (lr_level r) then [custom_format r] else [])"
  using assms by (auto simp: logged_def get_logger_def act_simps)

section \<open>The YAML writer\<close>

text \<open>The printer of the YAML library is a parameter. The program does not call this function.\<close>

definition write_yaml_safe :: "(json \<Rightarrow> string) \<Rightarrow> env \<Rightarrow> json \<Rightarrow> ppath \<Rightarrow> (fs, unit) action" where
  "write_yaml_safe yaml_dump e data path =
    thenA (mkdir_parents (work_dir e) (path_parent path)) (write_file (work_dir e) path (yaml_dump data))"

section \<open>Placeholders\<close>

text \<open>The functions of \<open>docker_status.py\<close> raise before they do anything.\<close>

definition refresh_docker_status :: "exn + unit" where
  "refresh_docker_status = Inl NotImplementedError"

definition get_miniverse_status :: "string \<Rightarrow> exn + string" where
  "get_miniverse_status miniverse_id = Inl NotImplementedError"

definition get_proxy_status :: "string \<Rightarrow> exn + string" where
  "get_proxy_status proxy_id = Inl NotImplementedError"

end
