(* ===== verification/GameServer.thy ===== *)
theory GameServer
  imports StatusTypes
begin

text \<open>
  The WebSocket service against the game server it is connected to. The abstract state is the server itself: who
  is online, who is an operator and who is banned. The server announces each change with a notification; its
  handler asks the server again and stores the answer. The status store is a faithful copy of the server, which
  the reads serve without asking it.
\<close>

section \<open>The game server\<close>

record game_server =
  gs_players :: "player list"
  gs_operators :: "operator list"
  gs_bans :: "player_ban list"

text \<open>
  What a notification allows to have changed since the one before: the list that it is about. A history is the
  list of the notifications, each with the server as it is when the handler asks it.
\<close>

definition announces :: "notification \<Rightarrow> game_server \<Rightarrow> game_server \<Rightarrow> bool" where
  "announces n g g' \<longleftrightarrow> (case n of
     PlayersJoined \<Rightarrow> gs_operators g' = gs_operators g \<and> gs_bans g' = gs_bans g
   | PlayersLeft \<Rightarrow> gs_operators g' = gs_operators g \<and> gs_bans g' = gs_bans g
   | OperatorsAdded \<Rightarrow> gs_players g' = gs_players g \<and> gs_bans g' = gs_bans g
   | OperatorsRemoved \<Rightarrow> gs_players g' = gs_players g \<and> gs_bans g' = gs_bans g
   | BansAdded \<Rightarrow> gs_players g' = gs_players g \<and> gs_operators g' = gs_operators g
   | BansRemoved \<Rightarrow> gs_players g' = gs_players g \<and> gs_operators g' = gs_operators g
   | _ \<Rightarrow> g' = g)"

fun announced :: "game_server \<Rightarrow> (notification \<times> game_server) list \<Rightarrow> bool" where
  "announced g [] \<longleftrightarrow> True"
| "announced g ((n, g') # evs) \<longleftrightarrow> announces n g g' \<and> announced g' evs"

fun server_after :: "game_server \<Rightarrow> (notification \<times> game_server) list \<Rightarrow> game_server" where
  "server_after g [] = g"
| "server_after g ((n, g') # evs) = server_after g' evs"

text \<open>The ids of everybody who was online at some moment of a history.\<close>

definition ever_online :: "game_server \<Rightarrow> (notification \<times> game_server) list \<Rightarrow> string set" where
  "ever_online g evs = (\<Union>g' \<in> insert g (snd ` set evs). pl_id ` set (gs_players g'))"

definition ban_dump :: "player_ban \<Rightarrow> json" where
  "ban_dump b = JObj [(''reason'', JStr (ban_reason b)),
     (''expires'', case ban_expires b of None \<Rightarrow> JNull | Some e \<Rightarrow> JStr e),
     (''source'', JStr (ban_source b)), (''player'', player_dump (ban_player b))]"

text \<open>What the server answers to the three queries.\<close>

definition replies :: "game_server \<Rightarrow> string \<Rightarrow> exn + json" where
  "replies g m = Inr
    (if m = ''minecraft:players'' then JList (map player_dump (gs_players g))
     else if m = ''minecraft:operators'' then JList (map operator_dump (gs_operators g))
     else if m = ''minecraft:bans'' then JList (map ban_dump (gs_bans g))
     else JNull)"

definition handle_all_notifications ::
  "string \<Rightarrow> pydantic \<Rightarrow> string \<Rightarrow> (notification \<times> game_server) list \<Rightarrow> hub \<Rightarrow> hub" where
  "handle_all_notifications ns pyd i evs h =
    fold (\<lambda>(n, g) h. snd (handle_notification ns pyd i (replies g) n h)) evs h"

section \<open>The store is a copy of the server\<close>

definition copies :: "string \<Rightarrow> string \<Rightarrow> string set \<Rightarrow> game_server \<Rightarrow> hub \<Rightarrow> bool" where
  "copies ns i ids g h \<longleftrightarrow>
    status_value ns h i ''minecraft:players'' = JList (map player_dump (gs_players g)) \<and>
    status_value ns h i ''minecraft:operators'' = JList (map operator_dump (gs_operators g)) \<and>
    status_value ns h i ''minecraft:bans'' = JList (map ban_dump (gs_bans g)) \<and>
    seen_holds ns i (ids \<union> pl_id ` set (gs_players g)) h"

lemma method_events:
  "event_type_of ''minecraft:players'' = Inr PLAYERS" "event_type_of ''minecraft:operators'' = Inr OPERATORS"
  "event_type_of ''minecraft:bans'' = Inr PLAYER_BAN"
  using event_type_of_value [of PLAYERS] event_type_of_value [of OPERATORS] event_type_of_value [of PLAYER_BAN] by simp_all

lemma value_after_put:
  "status_value ns (put_status ns i m v p h) i n = (if n = m then v else status_value ns h i n)"
  by (auto simp: status_value_def kv_put_status store_key_def)

lemma put_seen: "status_set ns i ''miniverse:seen_players'' v False h =
    (Inr (), put_status ns i ''miniverse:seen_players'' v False h)"
  by (auto simp: put_status_def status_set_def act_simps Let_def)

lemma refresh_puts:
  assumes "source m = Inr v" "event_type_of m = Inr t"
  shows "get_data_cached ns i source m True h = (Inr (v, True), put_status ns i m v True h)"
proof -
  obtain h1 where "status_set ns i m v True h = (Inr (), h1)" using status_set_returns [OF assms(2)] by blast
  with assms(1) show ?thesis by (simp add: get_data_cached_def act_simps put_status_def)
qed

lemma operators_refreshed:
  "snd (get_msmp_operator_list ns pyd i (replies g) True h) =
    put_status ns i ''minecraft:operators'' (JList (map operator_dump (gs_operators g))) True h"
  using refresh_puts [of "replies g" "''minecraft:operators''"]
  by (simp add: get_msmp_operator_list_def act_simps replies_def method_events)

lemma bans_refreshed:
  "snd (get_msmp_banned_player_list ns i (replies g) True h) =
    put_status ns i ''minecraft:bans'' (JList (map ban_dump (gs_bans g))) True h"
  using refresh_puts [of "replies g" "''minecraft:bans''"]
  by (simp add: get_msmp_banned_player_list_def act_simps replies_def method_events)

lemma keys_of_dumps: "mapE player_key (map player_dump ps) = Inr (map pl_id ps)"
  by (induction ps) (simp_all add: player_key_def player_dump_def)

lemma players_refreshed:
  assumes "as_dict (or_empty (status_value ns h i ''miniverse:seen_players'')) = Inr kvs"
  shows "snd (get_msmp_player_list ns i (replies g) True h) =
    put_status ns i ''miniverse:seen_players''
      (JObj (dict_update kvs (zip (map pl_id (gs_players g)) (map player_dump (gs_players g))))) False
      (put_status ns i ''minecraft:players'' (JList (map player_dump (gs_players g))) True h)"
  using refresh_puts [of "replies g" "''minecraft:players''"] assms
  by (simp add: get_msmp_player_list_def act_simps replies_def method_events status_get_def value_after_put
      merge_seen_def keys_of_dumps put_seen)

lemma seen_put:
  "fst ` set kvs' \<supseteq> ids \<Longrightarrow> seen_holds ns i ids (put_status ns i ''miniverse:seen_players'' (JObj kvs') p h)"
  "m \<noteq> ''miniverse:seen_players'' \<Longrightarrow> seen_holds ns i ids (put_status ns i m v p h) = seen_holds ns i ids h"
  by (simp_all add: seen_holds_def value_after_put)

lemma seen_as_dict:
  "seen_holds ns i ids h \<Longrightarrow> \<exists>kvs. as_dict (or_empty (status_value ns h i ''miniverse:seen_players'')) = Inr kvs \<and>
     ids \<subseteq> fst ` set kvs"
  by (auto simp: seen_holds_def or_empty_def)

lemma copies_players:
  assumes "as_dict (or_empty (status_value ns h i ''miniverse:seen_players'')) = Inr kvs" "ids \<subseteq> fst ` set kvs"
    and "status_value ns h i ''minecraft:operators'' = JList (map operator_dump (gs_operators g))"
    and "status_value ns h i ''minecraft:bans'' = JList (map ban_dump (gs_bans g))"
  shows "copies ns i ids g (snd (get_msmp_player_list ns i (replies g) True h))"
proof -
  let ?new = "dict_update kvs (zip (map pl_id (gs_players g)) (map player_dump (gs_players g)))"
  have "fst ` set (zip (map pl_id ps) (map player_dump ps)) = pl_id ` set ps" for ps
    by (induction ps) auto
  then have "ids \<union> pl_id ` set (gs_players g) \<subseteq> fst ` set ?new"
    using assms(2) by (auto simp: dict_update_keys)
  then show ?thesis
    using assms(3,4) by (simp add: copies_def players_refreshed [OF assms(1)] value_after_put seen_put)
qed

lemma refreshed_copies:
  assumes "copies ns i ids g h"
  shows "gs_operators g' = gs_operators g \<Longrightarrow> gs_bans g' = gs_bans g \<Longrightarrow>
      copies ns i ids g' (snd (get_msmp_player_list ns i (replies g') True h))"
    and "gs_players g' = gs_players g \<Longrightarrow> gs_bans g' = gs_bans g \<Longrightarrow>
      copies ns i ids g' (snd (get_msmp_operator_list ns pyd i (replies g') True h))"
    and "gs_players g' = gs_players g \<Longrightarrow> gs_operators g' = gs_operators g \<Longrightarrow>
      copies ns i ids g' (snd (get_msmp_banned_player_list ns i (replies g') True h))"
proof -
  note c = assms [unfolded copies_def]
  obtain kvs where kvs: "as_dict (or_empty (status_value ns h i ''miniverse:seen_players'')) = Inr kvs"
    "ids \<union> pl_id ` set (gs_players g) \<subseteq> fst ` set kvs"
    using seen_as_dict c by blast
  show "gs_operators g' = gs_operators g \<Longrightarrow> gs_bans g' = gs_bans g \<Longrightarrow>
      copies ns i ids g' (snd (get_msmp_player_list ns i (replies g') True h))"
    using kvs c by (intro copies_players [OF kvs(1)]) auto
  show "gs_players g' = gs_players g \<Longrightarrow> gs_bans g' = gs_bans g \<Longrightarrow>
      copies ns i ids g' (snd (get_msmp_operator_list ns pyd i (replies g') True h))"
    using c by (simp add: operators_refreshed copies_def value_after_put seen_put)
  show "gs_players g' = gs_players g \<Longrightarrow> gs_operators g' = gs_operators g \<Longrightarrow>
      copies ns i ids g' (snd (get_msmp_banned_player_list ns i (replies g') True h))"
    using c by (simp add: bans_refreshed copies_def value_after_put seen_put)
qed

lemma snd_then_ret: "snd (thenA m (ret ()) h) = snd (m h)"
  by (simp add: act_simps split: prod.splits sum.splits)

lemma handled:
  assumes "copies ns i ids g h" "announces n g g'"
  shows "copies ns i ids g' (snd (handle_notification ns pyd i (replies g') n h))"
  using refreshed_copies [OF assms(1), of g'] assms
  by (cases n) (simp_all add: announces_def snd_then_ret ret_apply)

text \<open>The documented coercions of pydantic: a number is a number, a truth value is a truth value.\<close>

definition coerces :: "pydantic \<Rightarrow> bool" where
  "coerces pyd \<longleftrightarrow> (\<forall>n. coerce_int pyd (JInt n) = Some n) \<and> (\<forall>b. coerce_bool pyd (JBool b) = Some b)"

lemma decoded:
  "mapE player_of_json (map player_dump ps) = Inr ps"
  "coerces pyd \<Longrightarrow> mapE (operator_of_json pyd) (map operator_dump ops) = Inr ops"
  "mapE ban_of_json (map ban_dump bs) = Inr bs"
proof -
  show "mapE player_of_json (map player_dump ps) = Inr ps"
    by (induction ps) simp_all
  show "coerces pyd \<Longrightarrow> mapE (operator_of_json pyd) (map operator_dump ops) = Inr ops"
    by (induction ops)
      (simp_all add: coerces_def operator_dump_def coerced_def player_field_def player_dump_def str_field_def)
  show "mapE ban_of_json (map ban_dump bs) = Inr bs"
    by (induction bs)
      (auto simp: ban_dump_def player_field_def player_dump_def str_field_def opt_str_field_def split: option.splits)
qed

lemma refreshes_return:
  "as_dict (or_empty (status_value ns h i ''miniverse:seen_players'')) = Inr kvs \<Longrightarrow>
   fst (get_msmp_player_list ns i (replies g) True h) = Inr (gs_players g)"
  "coerces pyd \<Longrightarrow> fst (get_msmp_operator_list ns pyd i (replies g) True h) = Inr (gs_operators g)"
  "fst (get_msmp_banned_player_list ns i (replies g) True h) = Inr (gs_bans g)"
  using refresh_puts [of "replies g" "''minecraft:players''"] refresh_puts [of "replies g" "''minecraft:operators''"]
    refresh_puts [of "replies g" "''minecraft:bans''"]
  by (simp_all add: get_msmp_player_list_def get_msmp_operator_list_def get_msmp_banned_player_list_def act_simps
      replies_def method_events status_get_def value_after_put merge_seen_def keys_of_dumps put_seen decoded)

lemma connected_copies:
  assumes "coerces pyd" "seen_typed (status_value ns h i ''miniverse:seen_players'')"
  shows "copies ns i {} g (snd (on_connect ns pyd i (replies g) h))"
proof -
  obtain kvs where kvs: "as_dict (or_empty (status_value ns h i ''miniverse:seen_players'')) = Inr kvs"
    using seen_dict [OF assms(2)] by blast
  obtain h1 where p: "get_msmp_player_list ns i (replies g) True h = (Inr (gs_players g), h1)"
    using refreshes_return(1) [OF kvs] by (metis prod.collapse)
  obtain h2 where o: "get_msmp_operator_list ns pyd i (replies g) True h1 = (Inr (gs_operators g), h2)"
    using refreshes_return(2) [OF assms(1)] by (metis prod.collapse)
  have h1: "h1 = snd (get_msmp_player_list ns i (replies g) True h)" and
    h2: "h2 = snd (get_msmp_operator_list ns pyd i (replies g) True h1)" using p o by simp_all
  have "snd (on_connect ns pyd i (replies g) h) = snd (get_msmp_banned_player_list ns i (replies g) True h2)"
    by (simp add: on_connect_def thenA_apply ret_apply p o split: prod.splits sum.splits)
  moreover have "pl_id ` set (gs_players g) \<subseteq>
      fst ` set (dict_update kvs (zip (map pl_id (gs_players g)) (map player_dump (gs_players g))))"
  proof -
    have "fst ` set (zip (map pl_id ps) (map player_dump ps)) = pl_id ` set ps" for ps by (induction ps) auto
    then show ?thesis by (simp add: dict_update_keys)
  qed
  ultimately show ?thesis
    by (simp add: copies_def h1 h2 players_refreshed [OF kvs] operators_refreshed bans_refreshed value_after_put seen_put)
qed

lemma cached_reads:
  assumes "copies ns i ids g h" "coerces pyd"
  shows "get_msmp_player_list ns i src False h = (Inr (gs_players g), h)"
    "get_msmp_operator_list ns pyd i src False h = (Inr (gs_operators g), h)"
    "get_msmp_banned_player_list ns i src False h = (Inr (gs_bans g), h)"
  using assms
  by (simp_all add: copies_def get_msmp_player_list_def get_msmp_operator_list_def get_msmp_banned_player_list_def
      get_data_cached_def act_simps status_get_def decoded)

text \<open>
  Property C14 (websocket_tracks_server). Once the service has connected, the store is a copy of the game server over every
  history in which each change is announced: the reads return exactly who is online, who is an operator and who
  is banned, without asking the server, and everybody who was ever online is among the seen players.
\<close>

theorem websocket_tracks_server:
  assumes "coerces pyd" "seen_typed (status_value ns h i ''miniverse:seen_players'')" "announced g evs"
  shows "\<exists>h'. handle_all_notifications ns pyd i evs (snd (on_connect ns pyd i (replies g) h)) = h' \<and>
    get_msmp_player_list ns i src False h' = (Inr (gs_players (server_after g evs)), h') \<and>
    get_msmp_operator_list ns pyd i src False h' = (Inr (gs_operators (server_after g evs)), h') \<and>
    get_msmp_banned_player_list ns i src False h' = (Inr (gs_bans (server_after g evs)), h') \<and>
    seen_holds ns i (ever_online g evs) h'"
proof -
  have "copies ns i (ids \<union> ever_online g evs) (server_after g evs) (handle_all_notifications ns pyd i evs h1)"
    if "copies ns i ids g h1" "announced g evs" for g h1 ids
    using that
  proof (induction evs arbitrary: g h1 ids)
    case Nil
    then show ?case by (simp add: handle_all_notifications_def ever_online_def copies_def Un_assoc)
  next
    case (Cons ev evs)
    obtain n g1 where ev: "ev = (n, g1)" by (cases ev)
    let ?ids = "ids \<union> pl_id ` set (gs_players g)"
    have "copies ns i ?ids g h1" using Cons.prems(1) by (simp add: copies_def Un_assoc)
    with Cons.prems(2) have "copies ns i ?ids g1 (snd (handle_notification ns pyd i (replies g1) n h1))"
      by (intro handled) (auto simp: ev)
    with Cons.IH Cons.prems(2) ev have "copies ns i (?ids \<union> ever_online g1 evs) (server_after g1 evs)
        (handle_all_notifications ns pyd i evs (snd (handle_notification ns pyd i (replies g1) n h1)))" by simp
    moreover have "ids \<union> ever_online g (ev # evs) = ?ids \<union> ever_online g1 evs"
      by (auto simp: ever_online_def ev)
    ultimately show ?case by (simp add: ev handle_all_notifications_def)
  qed
  from this [OF connected_copies [OF assms(1,2)] assms(3)]
  have c: "copies ns i (ever_online g evs) (server_after g evs)
      (handle_all_notifications ns pyd i evs (snd (on_connect ns pyd i (replies g) h)))" by simp
  from cached_reads [OF this assms(1), of src] c show ?thesis by (auto simp: copies_def seen_holds_def)
qed

definition strict :: pydantic where
  "strict = \<lparr>coerce_int = (\<lambda>j. case j of JInt n \<Rightarrow> Some n | _ \<Rightarrow> None),
     coerce_bool = (\<lambda>j. case j of JBool b \<Rightarrow> Some b | _ \<Rightarrow> None)\<rparr>"

definition demo_server :: game_server where
  "demo_server = \<lparr>gs_players = [\<lparr>pl_id = ''a'', pl_name = ''Ann''\<rparr>], gs_operators = [], gs_bans = []\<rparr>"

definition demo_notifications :: "(notification \<times> game_server) list" where
  "demo_notifications =
    [(PlayersJoined, demo_server\<lparr>gs_players := [\<lparr>pl_id = ''a'', pl_name = ''Ann''\<rparr>, \<lparr>pl_id = ''b'', pl_name = ''Bob''\<rparr>]\<rparr>),
     (PlayersLeft, demo_server\<lparr>gs_players := [\<lparr>pl_id = ''b'', pl_name = ''Bob''\<rparr>]\<rparr>),
     (ServerSaved, demo_server\<lparr>gs_players := [\<lparr>pl_id = ''b'', pl_name = ''Bob''\<rparr>]\<rparr>)]"

theorem websocket_tracks_server_witness:
  "\<exists>h'. handle_all_notifications ''r:'' strict ''m1'' demo_notifications
      (snd (on_connect ''r:'' strict ''m1'' (replies demo_server) \<lparr>kv = [], channel = []\<rparr>)) = h' \<and>
    fst (get_msmp_player_list ''r:'' ''m1'' (\<lambda>_. Inl OSError) False h') = Inr [\<lparr>pl_id = ''b'', pl_name = ''Bob''\<rparr>] \<and>
    seen_holds ''r:'' ''m1'' {''a'', ''b''} h'"
proof -
  have 1: "coerces strict" by (simp add: coerces_def strict_def)
  have 2: "seen_typed (status_value ''r:'' \<lparr>kv = [], channel = []\<rparr> ''m1'' ''miniverse:seen_players'')"
    by (simp add: status_value_def kv_get_def)
  have 3: "announced demo_server demo_notifications"
    by (simp add: demo_notifications_def announces_def)
  have 4: "ever_online demo_server demo_notifications = {''a'', ''b''}"
    "gs_players (server_after demo_server demo_notifications) = [\<lparr>pl_id = ''b'', pl_name = ''Bob''\<rparr>]"
    by (auto simp: ever_online_def demo_notifications_def demo_server_def)
  show ?thesis using websocket_tracks_server [OF 1 2 3, of "\<lambda>_. Inl OSError"] unfolding 4 by auto
qed

end
