(* ===== verification/Spec2Isabelle.thy ===== *)
theory Spec2Isabelle
  imports Versions Users FileSafety Startup Rpc StatusTypes Migrations Stopping Uploads Checksum
    LifecycleRaces Interleavings Concurrency FileRequests Refreshes UpdateRaces TextStore Documents Subscriptions
    Infrastructure GameServer
begin

text \<open>
  The Miniverse backend (\<open>src/app\<close>) lets the users of a community create and run Minecraft servers,
  the miniverses. This library models the backend as Isabelle/HOL functions and proves what its services
  promise, and where they do not keep the promise.

  \<^bold>\<open>The program\<close>. A request reaches a Litestar endpoint (\<open>app/api\<close>) with a user that the token handler
  (\<open>services/auth_service.py\<close>) loaded. The endpoint checks the user's role and calls the services
  (\<open>app/services\<close>). They work on five things: the database (\<open>app/models\<close>), the data directory, the Docker
  daemon, the status store and event channel in Redis, and the control services that hold the live connection to
  each game server (\<open>managers/ServerStatusManager.py\<close>, \<open>services/connexion\<close>). Subscribers hear the events over a
  websocket. Startup hooks (\<open>main.py\<close>) write the routes file of the router, create the control services and start
  again what was started.

  \<^bold>\<open>How it is modelled\<close>. An effectful Python function is an action, a function from a state to the raised
  exception or the value, and the new state; a raise undoes nothing but an uncommitted write. Each component has
  the state it works on (\<open>db\<close>, \<open>fs\<close>, \<open>hub\<close>, \<open>cache\<close>, \<open>live\<close>), the record \<open>world\<close> of \<open>Proxy\<close> puts them together and
  \<open>zoomA\<close> lifts an action to it. Exceptions are the classes of \<open>exn\<close>. What is not under \<open>src/\<close> is a parameter: the
  record \<open>services\<close> holds the settings, the Docker client (a record of calls on a daemon state of any type), the
  answers of Modrinth and of the game servers, the TOML printer.

  A request is modelled twice. As an action of \<open>Api\<close> it runs from its start to its end. As a thread (\<open>Threads\<close>) it
  is a tree of turns, from one \<open>await\<close> to the next; a pool runs under a schedule, the list of the positions whose
  turns come one after another, and any number of requests may interleave. A transaction reads one snapshot, a
  commit writes the columns that differ from the loaded object and fails when the row is gone. A thread that runs
  alone is the action (\<open>request_alone\<close>, \<open>lifecycle_alone\<close>, \<open>file_request_alone\<close>, \<open>any_request_alone\<close>).

  \<^bold>\<open>Theories and the code they model\<close>.
  \<^item> \<open>Prelude\<close>: exceptions, actions with the collections \<open>act_simps\<close> (evaluation) and \<open>moves_intros\<close> (every step of an
    action respects a relation on the state), Python strings. \<open>Threads\<close>: turns, pools and schedules. \<open>Json\<close>,
    \<open>JsonSyntax\<close>, \<open>Regex\<close>, \<open>Paths\<close>, \<open>FileSystem\<close>, \<open>OsOps\<close>: the parts of \<open>json\<close> (values, printer and parser), \<open>re\<close>,
    \<open>pathlib\<close>, \<open>os\<close> and \<open>shutil\<close> that the backend uses.
  \<^item> \<open>Models\<close>: \<open>app/enums\<close> and \<open>app/models\<close>; a table is its list of rows, \<open>db_ok\<close> the declared constraints, \<open>role\<close> an
    instance of \<open>linorder\<close>. \<open>Migrations\<close>: \<open>alembic\<close>. \<open>Config\<close>: \<open>core/config.py\<close>. \<open>Infrastructure\<close>: the addresses,
    the logger and the helpers of \<open>core\<close>.
  \<^item> \<open>Versions\<close>: \<open>services/minecraft_service.py\<close>. \<open>Users\<close>: \<open>user_service.py\<close>, \<open>auth_service.py\<close>, \<open>api/v1/users.py\<close>.
  \<^item> \<open>Files\<close>: \<open>services/files_service.py\<close>, with \<open>SafePaths\<close> (the path check and the search for a free name),
    \<open>FileSafety\<close> and \<open>Uploads\<close> (what each operation can change) and \<open>Checksum\<close> (the CRC of a file, on 32-bit words).
  \<^item> \<open>Events\<close>: \<open>events/miniverse_event.py\<close> and the status store. \<open>Connexion\<close>: the two control services, the players,
    the manager and the router webhooks. \<open>StatusTypes\<close>: well-typed entries of the store. \<open>GameServer\<close>: the store against
    the game server it copies. \<open>TextStore\<close>: the store and the events on their JSON texts. \<open>Rpc\<close>:
    \<open>services/rpc_service.py\<close> as a step relation, and \<open>core/utils.py\<close>.
  \<^item> \<open>Docker\<close>, \<open>Proxy\<close>, \<open>ModSchemas\<close>, \<open>Mods\<close>, \<open>Lifecycle\<close>: \<open>docker_service.py\<close>, \<open>proxy_service.py\<close>, \<open>schemas/mods.py\<close>,
    \<open>mods_service.py\<close>, \<open>miniverse_service.py\<close>. \<open>Documents\<close>: the JSON texts sent to Modrinth and to the router.
    \<open>Api\<close>: the controllers under \<open>api/v1\<close> and \<open>api/internal\<close>; \<open>serve\<close> runs a value of \<open>request\<close>. \<open>Websockets\<close>:
    \<open>api/v1/websockets.py\<close>, with \<open>Subscriptions\<close> (a session as a thread). \<open>Startup\<close>: \<open>main.py\<close>.
  \<^item> \<open>Backend\<close>, \<open>Updates\<close>, \<open>ModUpdates\<close>, \<open>LifecycleProps\<close>, \<open>Stopping\<close>, \<open>Access\<close>: properties of whole requests that span
    components.
  \<^item> \<open>Concurrency\<close>, \<open>FileRequests\<close>, \<open>Refreshes\<close>, \<open>LifecycleThreads\<close>: the account requests, the file requests, the
    refreshes of the player list and the lifecycle of miniverses as threads. \<open>LifecycleAlone\<close>: these threads alone.
    \<open>Interleavings\<close>: all requests in one pool. \<open>UpdateRaces\<close>, \<open>LifecycleRaces\<close>: schedules on which requests collide.

  \<^bold>\<open>Interfaces\<close>. \<open>mod_writes\<close>, \<open>service_writes\<close> and \<open>request_writes\<close> (\<open>Backend\<close>) each extend the one before: a
  relation on databases that the single writes respect is respected by the mod service, by the lifecycle service and
  by every endpoint, and by every turn of their threads (\<open>LifecycleThreads\<close>, \<open>Interleavings\<close>). They are interpreted
  for the constraints (\<open>constraints\<close>), the accounts (\<open>accounts\<close>), the identities and the ids of the miniverses
  (\<open>identity\<close>, \<open>ids\<close>) and the rows that mod operations keep (\<open>rows\<close>). \<open>status_store\<close> (\<open>Events\<close>) is the contract of the
  status store, interpreted on its model; \<open>name_supply\<close> (\<open>SafePaths\<close>) is what the search for a free name needs of its
  candidates, interpreted on both name formats; \<open>three_way\<close> (\<open>Versions\<close>) gives the laws of a three-way comparison.

  \<^bold>\<open>What is proved\<close>. Invariants over every sequence of requests: database constraints, names and
  subdomains under updates, a remaining administrator. Over every interleaving: the constraints and the accounts of
  the users who do not take part; file requests give what they give one after another; no refresh loses a player
  that was seen. Authorization: a request without the role it needs changes nothing; a role change has exactly its
  effect; a subscriber who loses its role hears nothing more. Files: user paths are confined to the data directory
  also with symbolic links, and deleting, renaming, extracting, uploading and writing change what they should. Live
  data: events decode to what was published, the text store refines the store on values, the router service and the
  websocket service keep copies of their servers, the connection loop refines the service that the manager sees.
  Versions: the comparison is the order on releases. Lifecycle: what starting, stopping, deleting and starting up
  leave behind, and that a refused change of version changes nothing. Migrations: a deployment brings any revision
  to the tables of the models. Documents: queries and routes decode to what was meant.

  Some theorems state a defect of the code as it is. Of single requests: \<open>java_update_never_restarts\<close>,
  \<open>compress_reads_unmapped_paths\<close>, \<open>webhook_reaches_service\<close>, \<open>failed_update_loses_the_file\<close>,
  \<open>invalid_version_blocks_startup\<close>, \<open>compare_prereleases\<close>, \<open>cache_never_hit\<close>, \<open>cache_survives_deletion\<close>,
  \<open>quote_breaks_query\<close>. Of requests that interleave: \<open>concurrent_delete_me\<close>, \<open>concurrent_first_logins\<close>,
  \<open>concurrent_updates_share_subdomain\<close>, \<open>start_leaves_a_container\<close>, \<open>event_before_subscription_is_lost\<close>.

  \<^bold>\<open>Bounds\<close>. \<open>namei\<close> follows at most 40 links, as the kernel does, and fails beyond; copying a tree has
  a bound on its nesting as a parameter (without links the number of entries is enough; a link to an ancestor nests
  until the system refuses the path); the key of Keycloak is requested five times. The JSON parser has twice the
  length of the text as fuel, and more never changes its result (\<open>enough_calls\<close>). The search for a free name is a
  \<open>partial_function (option)\<close>, proved to end (\<open>fresh_name_found\<close>). A schedule is a finite list of any length.

  \<^bold>\<open>Not modelled\<close>. Libraries: routing and DTO validation of Litestar, JWT verification, Keycloak, Redis, aiohttp and
  the SOCKS connector, zip compression, and SQLAlchemy sessions beyond loaded objects, snapshots, commit and cascade.
  So the code that only builds objects of these libraries has no model: the application object in \<open>main.py\<close>,
  the engine in \<open>db/session.py\<close>, the clients in \<open>core/channels.py\<close> and \<open>core/store.py\<close>. Floats in JSON texts and
  the limits of the interpreter. Length limits of string columns (only in \<open>Migrations\<close>), message texts of exceptions
  and log lines, time. In the threads, installing mods, a call inside a control service and the comparison of
  versions are one turn each, the endpoints of mods, roles and players are one turn after the login, and an
  archive is extracted in one turn although the code does it in a worker thread. The collation of the database, which
  may take names that differ in case as equal, is not modelled: strings are compared exactly.
\<close>

end
